(* ===== verification/Prelude.thy ===== *)
theory Prelude
  imports Main "HOL-Library.Char_ord" "HOL-Library.List_Lexorder"
begin

text \<open>
  The vocabulary every component shares: Rust's \<open>Result\<close> with its combinators (the \<open>?\<close>
  operator, \<open>ok_or\<close>, \<open>ensure!\<close>, \<open>collect\<close> into a result, a loop with early return), checked
  machine integers written over \<open>nat\<close>, and the key-value storage of a contract as an ordered
  map, the shape in which the contracts iterate over it and page through it.
\<close>

section \<open>Names of facts the components collect\<close>

named_theorems res_simps \<open>unfolding of fallible computations\<close>
named_theorems storage_simps \<open>laws of the storage maps\<close>

section \<open>Fallible computations\<close>

datatype ('a, 'e) result = Ok 'a | Err 'e

fun and_then :: "('a, 'e) result \<Rightarrow> ('a \<Rightarrow> ('b, 'e) result) \<Rightarrow> ('b, 'e) result" where
  "and_then (Ok x) f = f x"
| "and_then (Err e) f = Err e"

fun map_ok :: "('a \<Rightarrow> 'b) \<Rightarrow> ('a, 'e) result \<Rightarrow> ('b, 'e) result" where
  "map_ok f (Ok x) = Ok (f x)"
| "map_ok f (Err e) = Err e"

fun map_err :: "('e \<Rightarrow> 'f) \<Rightarrow> ('a, 'e) result \<Rightarrow> ('a, 'f) result" where
  "map_err f (Ok x) = Ok x"
| "map_err f (Err e) = Err (f e)"

fun ok_or :: "'e \<Rightarrow> 'a option \<Rightarrow> ('a, 'e) result" where
  "ok_or e (Some x) = Ok x"
| "ok_or e None = Err e"

definition ensure :: "bool \<Rightarrow> 'e \<Rightarrow> (unit, 'e) result" where
  "ensure b e = (if b then Ok () else Err e)"

fun is_ok :: "('a, 'e) result \<Rightarrow> bool" where
  "is_ok (Ok x) = True"
| "is_ok (Err e) = False"

text \<open>A loop whose body may return early with an error.\<close>

fun try_fold :: "('s \<Rightarrow> 'x \<Rightarrow> ('s, 'e) result) \<Rightarrow> 's \<Rightarrow> 'x list \<Rightarrow> ('s, 'e) result" where
  "try_fold f s [] = Ok s"
| "try_fold f s (x # xs) = and_then (f s x) (\<lambda>s'. try_fold f s' xs)"

text \<open>Mapping a fallible function and collecting into a result: the first error wins.\<close>

fun try_map :: "('x \<Rightarrow> ('y, 'e) result) \<Rightarrow> 'x list \<Rightarrow> ('y list, 'e) result" where
  "try_map f [] = Ok []"
| "try_map f (x # xs) = and_then (f x) (\<lambda>y. and_then (try_map f xs) (\<lambda>ys. Ok (y # ys)))"

lemma and_then_Ok_iff [res_simps]:
  "and_then m f = Ok y \<longleftrightarrow> (\<exists>x. m = Ok x \<and> f x = Ok y)"
  by (cases m) auto

lemma and_then_Err_iff [res_simps]:
  "and_then m f = Err e \<longleftrightarrow> m = Err e \<or> (\<exists>x. m = Ok x \<and> f x = Err e)"
  by (cases m) auto

lemma and_then_cong [fundef_cong]:
  "m = m' \<Longrightarrow> (\<And>x. m' = Ok x \<Longrightarrow> f x = g x) \<Longrightarrow> and_then m f = and_then m' g"
  by (cases m') auto

lemma map_ok_Ok_iff [res_simps]: "map_ok f m = Ok y \<longleftrightarrow> (\<exists>x. m = Ok x \<and> y = f x)"
  by (cases m) auto

lemma map_ok_Err_iff [res_simps]: "map_ok f m = Err e \<longleftrightarrow> m = Err e"
  by (cases m) auto

lemma map_err_Ok_iff [res_simps]: "map_err f m = Ok y \<longleftrightarrow> m = Ok y"
  by (cases m) auto

lemma map_err_Err_iff [res_simps]: "map_err f m = Err e \<longleftrightarrow> (\<exists>d. m = Err d \<and> e = f d)"
  by (cases m) auto

lemma ok_or_Ok_iff [res_simps]: "ok_or e m = Ok y \<longleftrightarrow> m = Some y"
  by (cases m) auto

lemma ok_or_Err_iff [res_simps]: "ok_or e m = Err d \<longleftrightarrow> m = None \<and> d = e"
  by (cases m) auto

lemma ensure_Ok_iff [res_simps]: "ensure b e = Ok u \<longleftrightarrow> b"
  by (simp add: ensure_def)

lemma ensure_Err_iff [res_simps]: "ensure b e = Err d \<longleftrightarrow> \<not> b \<and> d = e"
  by (auto simp: ensure_def)

lemma is_ok_iff: "is_ok m \<longleftrightarrow> (\<exists>x. m = Ok x)"
  by (cases m) auto

lemma ensure_simps [simp]: "ensure True e = Ok ()" "ensure False e = Err e"
  by (simp_all add: ensure_def)

lemma try_fold_append:
  "try_fold f s (xs @ ys) = and_then (try_fold f s xs) (\<lambda>s'. try_fold f s' ys)"
proof (induction xs arbitrary: s)
  case (Cons x xs)
  then show ?case by (cases "f s x") auto
qed simp

lemma try_fold_invariant:
  assumes "try_fold f s xs = Ok t" and "P s"
    and "\<And>s x t. x \<in> set xs \<Longrightarrow> f s x = Ok t \<Longrightarrow> P s \<Longrightarrow> P t"
  shows "P t"
  using assms
proof (induction xs arbitrary: s)
  case (Cons x xs)
  from Cons.prems(1) obtain s' where "f s x = Ok s'" and "try_fold f s' xs = Ok t"
    by (auto simp: res_simps)
  with Cons show ?case by (metis list.set_intros)
qed simp

lemma try_map_Ok_iff [res_simps]:
  "try_map f xs = Ok ys \<longleftrightarrow> list_all2 (\<lambda>x y. f x = Ok y) xs ys"
proof (induction xs arbitrary: ys)
  case (Cons x xs)
  then show ?case by (auto simp: res_simps list_all2_Cons1)
qed auto

lemma try_map_total: "(\<And>x. x \<in> set xs \<Longrightarrow> f x = Ok (g x)) \<Longrightarrow> try_map f xs = Ok (map g xs)"
  by (induction xs) auto

lemma try_map_cong_Ok:
  assumes "\<And>x y. x \<in> set xs \<Longrightarrow> f x = Ok y \<longleftrightarrow> g x = Ok y"
  shows "try_map f xs = Ok ys \<longleftrightarrow> try_map g xs = Ok ys"
  unfolding try_map_Ok_iff using assms by (auto intro!: list.rel_cong simp: list_all2_conv_all_nth)

lemma try_fold_unit: "try_fold f () xs = Ok () \<longleftrightarrow> (\<forall>x \<in> set xs. f () x = Ok ())"
  by (induction xs) (auto simp: and_then_Ok_iff)

lemma list_all2_in_set2: "list_all2 P xs ys \<Longrightarrow> y \<in> set ys \<Longrightarrow> \<exists>x \<in> set xs. P x y"
  by (induction rule: list_all2_induct) auto

lemma in_set_map_filter_iff: "y \<in> set (List.map_filter f xs) \<longleftrightarrow> (\<exists>x \<in> set xs. f x = Some y)"
  by (induction xs) (auto simp: List.map_filter_simps split: option.splits)

lemma map_filter_distinct:
  assumes "distinct (map k xs)" and "\<And>x y. f x = Some y \<Longrightarrow> k' y = k x"
  shows "distinct (map k' (List.map_filter f xs))"
proof -
  have sub: "k' ` set (List.map_filter f xs) \<subseteq> k ` set xs" for xs
    using assms(2) by (auto simp: in_set_map_filter_iff)
  show ?thesis
    using assms(1)
  proof (induction xs)
    case (Cons x xs)
    then show ?case
      using sub [of xs] assms(2) [of x] by (auto simp: List.map_filter_simps split: option.splits)
  qed (simp add: List.map_filter_simps)
qed

section \<open>Machine integers over nat\<close>

text \<open>
  Rust's \<open>u64\<close>, \<open>u128\<close> and \<open>usize\<close> values are natural numbers here; every operation of the
  sources that can overflow is one of the following, with the bound written out. The release
  profile of the workspace sets \<open>overflow-checks = true\<close> and \<open>panic = 'abort'\<close>, so a plain \<open>+\<close> that
  overflows aborts the transaction, as \<open>checked_add(..).expect(..)\<close> does.
\<close>

type_synonym u32 = nat
type_synonym u64 = nat
type_synonym u128 = nat
type_synonym usize = nat

definition checked_add_u64 :: "u64 \<Rightarrow> u64 \<Rightarrow> u64 option" where
  "checked_add_u64 a b = (if a + b < 2 ^ 64 then Some (a + b) else None)"

definition checked_sub_u64 :: "u64 \<Rightarrow> u64 \<Rightarrow> u64 option" where
  "checked_sub_u64 a b = (if b \<le> a then Some (a - b) else None)"

text \<open>The contracts are compiled for wasm32, where \<open>usize\<close> has 32 bits.\<close>

definition checked_add_usize :: "usize \<Rightarrow> usize \<Rightarrow> usize option" where
  "checked_add_usize a b = (if a + b < 2 ^ 32 then Some (a + b) else None)"

definition wrapping_add_u64 :: "u64 \<Rightarrow> u64 \<Rightarrow> u64" where
  "wrapping_add_u64 a b = (a + b) mod 2 ^ 64"

definition saturating_sub_u64 :: "u64 \<Rightarrow> u64 \<Rightarrow> u64" where
  "saturating_sub_u64 a b = (if b \<le> a then a - b else 0)"

lemma checked_add_u64_Some_iff: "checked_add_u64 a b = Some c \<longleftrightarrow> c = a + b \<and> a + b < 2 ^ 64"
  by (auto simp: checked_add_u64_def)

lemma checked_add_u64_None_iff: "checked_add_u64 a b = None \<longleftrightarrow> 2 ^ 64 \<le> a + b"
  by (auto simp: checked_add_u64_def)

lemma checked_sub_u64_Some_iff: "checked_sub_u64 a b = Some c \<longleftrightarrow> b \<le> a \<and> c = a - b"
  by (auto simp: checked_sub_u64_def)

lemma checked_add_usize_Some_iff:
  "checked_add_usize a b = Some c \<longleftrightarrow> c = a + b \<and> a + b < 2 ^ 32"
  by (auto simp: checked_add_usize_def)

lemma saturating_sub_u64_eq [simp]: "saturating_sub_u64 a b = a - b"
  by (simp add: saturating_sub_u64_def)

lemma wrapping_add_u64_bound: "wrapping_add_u64 a b < 2 ^ 64"
  by (simp add: wrapping_add_u64_def)

text \<open>\<open>to_string()\<close> of an unsigned integer: its decimal digits.\<close>

fun string_of_nat :: "nat \<Rightarrow> string" where
  "string_of_nat n =
     (if n < 10 then [char_of (48 + n)] else string_of_nat (n div 10) @ [char_of (48 + n mod 10)])"

declare string_of_nat.simps [simp del]

lemmas u64_simps =
  checked_add_u64_Some_iff checked_add_u64_None_iff checked_sub_u64_Some_iff
  checked_add_usize_Some_iff

end
