(* ===== verification/Cosmwasm.thy ===== *)
theory Cosmwasm
  imports Prelude
begin

text \<open>
  The platform the contracts run on, as far as their code names it: addresses, bytes, coins, the
  block and the sender of a message, the errors of the standard library, and the records that
  collect what the contracts call in third-party packages (address validation, expirations,
  ownership, JSON). Those records are arguments of the definitions that use them; nothing is
  assumed about their fields except in the hypotheses of a theorem.

  A transaction whose handler fails leaves the storage as it was, so a handler returns the new
  state only with \<open>Ok\<close>. A panic aborts the transaction in the same way and is one more error.
\<close>

section \<open>Addresses, bytes, coins, blocks\<close>

type_synonym addr = string

text \<open>Binary data: a \<open>char\<close> is a byte.\<close>

type_synonym binary = "char list"

record coin =
  coin_denom :: string
  coin_amount :: u128

text \<open>The block: its height, its timestamp, and the timestamp read in seconds.\<close>

record block_info =
  block_height :: u64
  block_time :: u64
  block_seconds :: u64

record env =
  env_block :: block_info
  env_contract_address :: addr

record message_info =
  info_sender :: addr
  info_funds :: "coin list"

section \<open>Errors of the platform\<close>

datatype std_error = GenericErr string | NotFound | Panic string

text \<open>\<open>opt.expect(msg)\<close>.\<close>

definition expect :: "string \<Rightarrow> 'a option \<Rightarrow> ('a, std_error) result" where
  "expect msg = ok_or (Panic msg)"

text \<open>\<open>load\<close> of a storage item or map entry.\<close>

definition load :: "'a option \<Rightarrow> ('a, std_error) result" where
  "load = ok_or NotFound"

lemma expect_Ok_iff [res_simps]: "expect msg m = Ok y \<longleftrightarrow> m = Some y"
  by (simp add: expect_def res_simps)

lemma expect_Err_iff [res_simps]: "expect msg m = Err e \<longleftrightarrow> m = None \<and> e = Panic msg"
  by (simp add: expect_def res_simps)

lemma load_Ok_iff [res_simps]: "load m = Ok y \<longleftrightarrow> m = Some y"
  by (simp add: load_def res_simps)

lemma load_Err_iff [res_simps]: "load m = Err e \<longleftrightarrow> m = None \<and> e = NotFound"
  by (simp add: load_def res_simps)

lemma expect_simps [simp]: "expect msg (Some x) = Ok x" "expect msg None = Err (Panic msg)"
  by (simp_all add: expect_def)

lemma load_simps [simp]: "load (Some x) = Ok x" "load None = Err NotFound"
  by (simp_all add: load_def)

section \<open>Messages a contract emits\<close>

text \<open>
  \<open>CosmosMsg\<close> with the variants the contracts build. Payloads are the serialised bytes; the
  serialisers are arguments (see the record \<open>codec\<close> of the message types). \<open>Custom\<close> is a message of
  the chain the contract is compiled for, \<open>IbcTransfer\<close> has the channel, the receiver, the coin, the
  timestamp of the timeout and the memo.
\<close>

datatype cosmos_msg =
    WasmExecute addr binary "coin list"
  | WasmMigrate addr u64 binary
  | WasmInstantiate "addr option" u64 binary "coin list" string
  | BankSend addr "coin list"
  | IbcTransfer string string coin u64 "string option"
  | Stargate string binary
  | Custom binary

datatype reply_on = ReplyAlways | ReplyOnError | ReplyOnSuccess | ReplyNever

record sub_msg =
  sub_id :: u64
  sub_msg :: cosmos_msg
  sub_reply_on :: reply_on

record response =
  resp_messages :: "sub_msg list"
  resp_attributes :: "(string \<times> string) list"

definition response_new :: response where
  "response_new = \<lparr>resp_messages = [], resp_attributes = []\<rparr>"

definition add_attribute :: "string \<Rightarrow> string \<Rightarrow> response \<Rightarrow> response" where
  "add_attribute k v r = r\<lparr>resp_attributes := resp_attributes r @ [(k, v)]\<rparr>"

definition plain_msg :: "cosmos_msg \<Rightarrow> sub_msg" where
  "plain_msg m = \<lparr>sub_id = 0, sub_msg = m, sub_reply_on = ReplyNever\<rparr>"

definition reply_always :: "cosmos_msg \<Rightarrow> u64 \<Rightarrow> sub_msg" where
  "reply_always m i = \<lparr>sub_id = i, sub_msg = m, sub_reply_on = ReplyAlways\<rparr>"

definition add_messages :: "cosmos_msg list \<Rightarrow> response \<Rightarrow> response" where
  "add_messages ms r = r\<lparr>resp_messages := resp_messages r @ map plain_msg ms\<rparr>"

definition add_submessages :: "sub_msg list \<Rightarrow> response \<Rightarrow> response" where
  "add_submessages ms r = r\<lparr>resp_messages := resp_messages r @ ms\<rparr>"

text \<open>The messages a response sends, without their reply configuration.\<close>

definition sent :: "response \<Rightarrow> cosmos_msg list" where
  "sent r = map sub_msg (resp_messages r)"

lemma response_simps [simp]:
  "resp_messages response_new = []"
  "resp_messages (add_attribute k v r) = resp_messages r"
  "resp_messages (add_messages ms r) = resp_messages r @ map plain_msg ms"
  "resp_messages (add_submessages ss r) = resp_messages r @ ss"
  by (simp_all add: response_new_def add_attribute_def add_messages_def add_submessages_def)

lemma sub_msg_simps [simp]:
  "sub_msg (plain_msg m) = m" "sub_msg (reply_always m i) = m"
  "sub_reply_on (plain_msg m) = ReplyNever" "sub_reply_on (reply_always m i) = ReplyAlways"
  "sub_id (reply_always m i) = i" "plain_msg m \<noteq> reply_always m' i"
  "reply_always m' i \<noteq> plain_msg m"
  by (simp_all add: plain_msg_def reply_always_def)

lemma sent_simps [simp]:
  "sent response_new = []"
  "sent (add_attribute k v r) = sent r"
  "sent (add_messages ms r) = sent r @ ms"
  "sent (add_submessages ss r) = sent r @ map sub_msg ss"
  by (simp_all add: sent_def comp_def)

section \<open>Third-party interfaces\<close>

datatype expiration = AtHeight u64 | AtTime u64 | Never

datatype duration = Height u64 | Time u64

text \<open>
  Address validation of the chain, the functions of \<open>cw_utils\<close> and of the timestamp type that the
  contracts call, and the \<open>Debug\<close> rendering of a string.
\<close>

record cw_api =
  addr_validate :: "string \<Rightarrow> (addr, std_error) result"
  is_expired :: "expiration \<Rightarrow> block_info \<Rightarrow> bool"
  duration_after :: "duration \<Rightarrow> block_info \<Rightarrow> expiration"
  plus_seconds :: "u64 \<Rightarrow> u64 \<Rightarrow> u64"
  must_pay :: "message_info \<Rightarrow> string \<Rightarrow> (u128, string) result"
  debug_string :: "string \<Rightarrow> string"

datatype ownable_action =
    TransferOwnership string "expiration option"
  | AcceptOwnership
  | RenounceOwnership

datatype ownership_error = OwnershipError string

text \<open>The ownership package, over an ownership state of its own, with the \<open>Debug\<close> renderings of its types.\<close>

record 'o ownable =
  initialize_owner :: "string \<Rightarrow> ('o, std_error) result"
  assert_owner :: "'o \<Rightarrow> addr \<Rightarrow> (unit, ownership_error) result"
  is_owner :: "'o \<Rightarrow> addr \<Rightarrow> (bool, std_error) result"
  update_ownership :: "'o \<Rightarrow> block_info \<Rightarrow> addr \<Rightarrow> ownable_action \<Rightarrow> ('o, ownership_error) result"
  ownership_attributes :: "'o \<Rightarrow> (string \<times> string) list"
  debug_action :: "ownable_action \<Rightarrow> string"
  debug_ownership :: "'o \<Rightarrow> string"

text \<open>
  JSON values and the operations on them that the contracts call. An object keeps its members
  in iteration order; a floating-point number is kept as its bytes.
\<close>

datatype json_number = PosInt u64 | NegInt int | Float binary

datatype json =
    JNull
  | JBool bool
  | JNumber json_number
  | JString string
  | JArray "json list"
  | JObject "(string \<times> json) list"

record serde_json =
  json_from_slice :: "binary \<Rightarrow> (json, string) result"
  json_to_vec :: "json \<Rightarrow> (binary, string) result"
  json_pointer :: "json \<Rightarrow> string \<Rightarrow> json option"
  json_get :: "json \<Rightarrow> string \<Rightarrow> json option"
  json_insert :: "(string \<times> json) list \<Rightarrow> string \<Rightarrow> json \<Rightarrow> (string \<times> json) list"

end
