(* ===== verification/Messages.thy ===== *)
theory Messages
  imports Cosmwasm
begin

text \<open>
  The types the contracts exchange: \<open>packages/authorization-utils\<close>, \<open>packages/processor-utils\<close>,
  \<open>packages/gmp-utils\<close> and the encoder messages, with the methods these types carry. Field and
  constructor names follow the sources; a prefix is added where two types use the same name. The
  serialisers and the functions that use them are in the theory \<open>Deps\<close>.
\<close>

section \<open>Authorizations\<close>

subsection \<open>Domains and message restrictions\<close>

datatype domain = Main | External string

record encoder_info =
  ei_broker_address :: string
  ei_encoder_version :: string

datatype message_type =
    MtCosmwasmExecuteMsg
  | MtCosmwasmMigrateMsg
  | MtEvmCall encoder_info string
  | MtEvmRawCall

datatype param_restriction =
    MustBeIncluded "string list"
  | CannotBeIncluded "string list"
  | MustBeValue "string list" binary
  | MustBeBytes binary

record message =
  message_name :: string
  params_restrictions :: "param_restriction list option"

record message_details =
  message_type :: message_type
  message :: message

subsection \<open>Functions and subroutines\<close>

datatype library_account_type = Addr string | AccountId u64 | LibraryId u64

definition account_to_string :: "library_account_type \<Rightarrow> (string, std_error) result" where
  "account_to_string a =
     (case a of
        Addr addr \<Rightarrow> Ok addr
      | AccountId _ \<Rightarrow> Err (GenericErr ''LibraryAccountType must be an address'')
      | LibraryId _ \<Rightarrow> Err (GenericErr ''LibraryAccountType must be an address''))"

definition account_to_addr :: "cw_api \<Rightarrow> library_account_type \<Rightarrow> (addr, std_error) result" where
  "account_to_addr cw a =
     (case a of
        Addr addr \<Rightarrow> addr_validate cw addr
      | AccountId _ \<Rightarrow> Err (GenericErr ''LibraryAccountType must be an address'')
      | LibraryId _ \<Rightarrow> Err (GenericErr ''LibraryAccountType must be an address''))"

datatype retry_times = Indefinitely | Amount u64

record retry_logic =
  retry_times :: retry_times
  retry_interval :: duration

record function_callback =
  fc_contract_address :: addr
  fc_callback_message :: binary

text \<open>
  The trait \<open>Function\<close>: what atomic and non-atomic functions have in common. An atomic function has
  nothing else; a non-atomic one extends it. A definition generic in \<open>T: Function\<close> works on any
  extension of the record.
\<close>

record func =
  fn_domain :: domain
  fn_message_details :: message_details
  fn_contract_address :: library_account_type

type_synonym atomic_function = func

record non_atomic_function = func +
  fn_retry_logic :: "retry_logic option"
  fn_callback_confirmation :: "function_callback option"

text \<open>\<open>get_contract_address\<close> unwraps, so a function whose address is not resolved panics.\<close>

definition get_contract_address :: "'a func_scheme \<Rightarrow> (string, std_error) result" where
  "get_contract_address f =
     map_err (\<lambda>_. Panic ''called `Result::unwrap()` on an `Err` value'')
       (account_to_string (fn_contract_address f))"

record atomic_subroutine =
  as_functions :: "atomic_function list"
  as_retry_logic :: "retry_logic option"
  as_expiration_time :: "u64 option"

record non_atomic_subroutine =
  ns_functions :: "non_atomic_function list"
  ns_expiration_time :: "u64 option"

datatype subroutine = Atomic atomic_subroutine | NonAtomic non_atomic_subroutine

text \<open>\<open>slice.get(i)\<close>.\<close>

definition nth_opt :: "'a list \<Rightarrow> usize \<Rightarrow> 'a option" where
  "nth_opt xs i = (if i < length xs then Some (xs ! i) else None)"

definition get_function_by_index :: "subroutine \<Rightarrow> usize \<Rightarrow> func option" where
  "get_function_by_index s i =
     (case s of
        Atomic config \<Rightarrow> nth_opt (as_functions config) i
      | NonAtomic config \<Rightarrow> map_option func.truncate (nth_opt (ns_functions config) i))"

definition get_contract_address_by_function_index ::
  "subroutine \<Rightarrow> usize \<Rightarrow> (string, std_error) result"
where
  "get_contract_address_by_function_index s i =
     (case get_function_by_index s i of
        Some f \<Rightarrow> get_contract_address f
      | None \<Rightarrow> Ok [])"

definition get_expiration_time :: "subroutine \<Rightarrow> u64 option" where
  "get_expiration_time s =
     (case s of
        Atomic config \<Rightarrow> as_expiration_time config
      | NonAtomic config \<Rightarrow> ns_expiration_time config)"

datatype priority = Medium | High

subsection \<open>Messages for the processor\<close>

datatype processor_message =
    CosmwasmExecuteMsg binary
  | CosmwasmMigrateMsg u64 binary
  | EvmCall binary
  | EvmRawCall binary

definition eq_message_type :: "processor_message \<Rightarrow> message_type \<Rightarrow> bool" where
  "eq_message_type m t \<longleftrightarrow>
     (case (m, t) of
        (CosmwasmExecuteMsg _, MtCosmwasmExecuteMsg) \<Rightarrow> True
      | (CosmwasmMigrateMsg _ _, MtCosmwasmMigrateMsg) \<Rightarrow> True
      | (EvmCall _, MtEvmCall _ _) \<Rightarrow> True
      | (EvmRawCall _, MtEvmRawCall) \<Rightarrow> True
      | _ \<Rightarrow> False)"

definition get_msg :: "processor_message \<Rightarrow> binary" where
  "get_msg m =
     (case m of
        CosmwasmExecuteMsg msg \<Rightarrow> msg
      | CosmwasmMigrateMsg _ msg \<Rightarrow> msg
      | EvmCall msg \<Rightarrow> msg
      | EvmRawCall msg \<Rightarrow> msg)"

definition set_msg :: "binary \<Rightarrow> processor_message \<Rightarrow> processor_message" where
  "set_msg b m =
     (case m of
        CosmwasmExecuteMsg _ \<Rightarrow> CosmwasmExecuteMsg b
      | CosmwasmMigrateMsg code_id _ \<Rightarrow> CosmwasmMigrateMsg code_id b
      | EvmCall _ \<Rightarrow> EvmCall b
      | EvmRawCall _ \<Rightarrow> EvmRawCall b)"

definition to_wasm_message :: "processor_message \<Rightarrow> string \<Rightarrow> (cosmos_msg, std_error) result" where
  "to_wasm_message m contract_addr =
     (case m of
        CosmwasmExecuteMsg msg \<Rightarrow> Ok (WasmExecute contract_addr msg [])
      | CosmwasmMigrateMsg code_id msg \<Rightarrow> Ok (WasmMigrate contract_addr code_id msg)
      | EvmCall _ \<Rightarrow> Err (GenericErr ''Msg type not supported'')
      | EvmRawCall _ \<Rightarrow> Err (GenericErr ''Msg type not supported''))"

text \<open>The arguments are the fields in the order of the source.\<close>

datatype authorization_msg =
    EnqueueMsgs u64 "processor_message list" subroutine priority "u64 option"
  | EvictMsgs u64 priority
  | InsertMsgs u64 u64 "processor_message list" subroutine priority "u64 option"
  | Pause
  | Resume

subsection \<open>Results of executions\<close>

datatype execution_result =
    InProcess
  | Success
  | Rejected string
  | PartiallyExecuted usize string
  | RemovedByOwner
  | Timeout bool
  | Expired usize
  | UnexpectedError string

datatype operation_initiator = Owner | User addr

record processor_callback_info =
  pci_execution_id :: u64
  pci_created_at :: u64
  pci_last_updated_at :: u64
  pci_initiator :: operation_initiator
  pci_bridge_callback_address :: "addr option"
  pci_processor_callback_address :: addr
  pci_domain :: domain
  pci_label :: string
  pci_messages :: "processor_message list"
  pci_ttl :: "expiration option"
  pci_execution_result :: execution_result

datatype internal_authorization_msg = ProcessorCallback u64 execution_result

datatype auth_polytone_callback_msg = AuthExecutionID u64 | AuthCreateProxy string

section \<open>Polytone and Hyperlane\<close>

datatype polytone_proxy_state = TimedOut | PendingResponse | Created | ProxyUnexpectedError string

record callback_request =
  cr_receiver :: string
  cr_msg :: binary

datatype polytone_execute_msg = PolytoneExecute "cosmos_msg list" "callback_request option" u64

record execution_response =
  er_executed_by :: string
  er_result :: "binary list"

record error_response =
  err_message_index :: u64
  err_error :: string

datatype callback =
    CallbackQuery "(binary list, error_response) result"
  | CallbackExecute "(execution_response, string) result"
  | CallbackFatalError string

record callback_message =
  cm_initiator :: addr
  cm_initiator_msg :: binary
  cm_result :: callback

record dispatch_msg =
  dm_dest_domain :: u32
  dm_recipient_addr :: binary
  dm_msg_body :: binary
  dm_hook :: "string option"
  dm_metadata :: "binary option"

record handle_msg =
  hm_origin :: u32
  hm_sender :: binary
  hm_body :: binary

section \<open>The processor\<close>

record polytone =
  polytone_proxy_address :: addr
  polytone_note_address :: addr
  polytone_timeout_seconds :: u64
  proxy_on_main_domain_state :: polytone_proxy_state

datatype processor_domain = PMain | PExternal polytone

datatype pstate = Paused | Active

record processor_config =
  authorization_contract :: string
  processor_domain :: processor_domain
  processor_state :: pstate

record current_retry =
  retry_amounts :: u64
  retry_cooldown :: expiration

record message_batch =
  batch_id :: u64
  batch_msgs :: "processor_message list"
  batch_subroutine :: subroutine
  batch_priority :: priority
  batch_expiration_time :: "u64 option"
  batch_retry :: "current_retry option"

record pending_callback =
  pc_address :: addr
  pc_callback_msg :: binary
  pc_message_batch :: message_batch

datatype polytone_callback_state = CbUnexpectedError string | CbPending | CbTimedOut

record pending_polytone_callback_info =
  ppc_execution_result :: execution_result
  ppc_state :: polytone_callback_state

datatype proc_polytone_callback_msg = ExecutionID u64 | CreateProxy

datatype processor_permissionless_msg = Tick | RetryCallback u64 | RetryBridgeCreation

datatype internal_processor_msg = LibraryCallback u64 binary | ExecuteAtomic message_batch

datatype processor_execute_msg =
    AuthorizationModuleAction authorization_msg
  | PermissionlessAction processor_permissionless_msg
  | InternalProcessorAction internal_processor_msg
  | PolytoneCallback callback_message

section \<open>Encoders\<close>

record encoder_message =
  em_library :: string
  em_data :: binary

datatype processor_message_to_encode =
    EncSendMsgs u64 priority subroutine "u64 option" "encoder_message list"
  | EncInsertMsgs u64 u64 priority subroutine "u64 option" "encoder_message list"
  | EncEvictMsgs u64 priority
  | EncPause
  | EncResume

section \<open>ZK messages and token messages\<close>

record zk_message =
  zm_registry :: u64
  zm_block_number :: u64
  zm_domain :: domain
  zm_authorization_contract :: "string option"
  zm_message :: authorization_msg

text \<open>The protobuf messages of the token factory module; the amount is its decimal string.\<close>

record msg_create_denom =
  mcd_sender :: string
  mcd_subdenom :: string

record msg_mint =
  mm_sender :: string
  mm_denom :: string
  mm_amount :: string
  mm_mint_to_address :: string

record msg_burn =
  mb_sender :: string
  mb_denom :: string
  mb_amount :: string
  mb_burn_from_address :: string

lemma nth_opt_Some_iff [res_simps]: "nth_opt xs i = Some x \<longleftrightarrow> i < length xs \<and> xs ! i = x"
  by (auto simp: nth_opt_def)

lemma nth_opt_None_iff [res_simps]: "nth_opt xs i = None \<longleftrightarrow> length xs \<le> i"
  by (simp add: nth_opt_def)

end
