(* ===== verification/Authorization_Types.thy ===== *)
theory Authorization_Types
  imports Messages
begin

text \<open>
  The data of the authorization contract (\<open>packages/authorization-utils/src\<close>): external domains and
  their bridges, authorizations and what an owner passes to create one, the messages of the
  contract, with the conversions that validate what is passed.
\<close>

section \<open>External domains\<close>

record polytone_note =
  pn_address :: addr
  pn_timeout_seconds :: u64
  pn_state :: polytone_proxy_state

record polytone_connectors =
  polytone_note :: polytone_note
  polytone_proxy :: addr

record encoder =
  broker_address :: addr
  encoder_version :: string

record hyperlane_connector =
  mailbox :: addr
  domain_id :: u32

datatype cosmwasm_bridge = Polytone polytone_connectors

datatype evm_bridge = Hyperlane hyperlane_connector

datatype execution_environment = Cosmwasm cosmwasm_bridge | Evm encoder evm_bridge

record external_domain =
  ed_name :: string
  ed_execution_environment :: execution_environment
  ed_processor :: string

fun get_connector_address :: "execution_environment \<Rightarrow> addr" where
  "get_connector_address (Cosmwasm (Polytone polytone_info)) = pn_address (polytone_note polytone_info)"
| "get_connector_address (Evm _ (Hyperlane hyperlane_info)) = mailbox hyperlane_info"

fun get_callback_address :: "execution_environment \<Rightarrow> addr" where
  "get_callback_address (Cosmwasm (Polytone polytone_info)) = polytone_proxy polytone_info"
| "get_callback_address (Evm _ (Hyperlane hyperlane_info)) = mailbox hyperlane_info"

definition get_polytone_proxy_state :: "polytone_connectors \<Rightarrow> polytone_proxy_state" where
  "get_polytone_proxy_state c = pn_state (polytone_note c)"

definition set_polytone_proxy_state ::
  "polytone_proxy_state \<Rightarrow> polytone_connectors \<Rightarrow> polytone_connectors"
where
  "set_polytone_proxy_state st c = c\<lparr>polytone_note := (polytone_note c)\<lparr>pn_state := st\<rparr>\<rparr>"

text \<open>What an owner passes to register a domain, and its validation.\<close>

record polytone_note_info =
  pni_address :: string
  pni_timeout_seconds :: u64

record polytone_connectors_info =
  pci_polytone_note :: polytone_note_info
  pci_polytone_proxy :: string

record hyperlane_connector_info =
  hci_mailbox :: string
  hci_domain_id :: u32

datatype cosmwasm_bridge_info = PolytoneInfo polytone_connectors_info

datatype evm_bridge_info = HyperlaneInfo hyperlane_connector_info

datatype execution_environment_info =
    CosmwasmInfo cosmwasm_bridge_info
  | EvmInfo encoder_info evm_bridge_info

record external_domain_info =
  edi_name :: string
  edi_execution_environment :: execution_environment_info
  edi_processor :: string

definition to_validated_encoder :: "cw_api \<Rightarrow> encoder_info \<Rightarrow> (encoder, std_error) result" where
  "to_validated_encoder cw e =
     and_then (addr_validate cw (ei_broker_address e)) (\<lambda>a.
       Ok \<lparr>broker_address = a, encoder_version = ei_encoder_version e\<rparr>)"

definition to_validated_hyperlane_connector ::
  "cw_api \<Rightarrow> hyperlane_connector_info \<Rightarrow> (hyperlane_connector, std_error) result"
where
  "to_validated_hyperlane_connector cw h =
     and_then (addr_validate cw (hci_mailbox h)) (\<lambda>a.
       Ok \<lparr>mailbox = a, domain_id = hci_domain_id h\<rparr>)"

fun to_validated_evm_bridge :: "cw_api \<Rightarrow> evm_bridge_info \<Rightarrow> (evm_bridge, std_error) result" where
  "to_validated_evm_bridge cw (HyperlaneInfo hyperlane_info) =
     and_then (to_validated_hyperlane_connector cw hyperlane_info) (\<lambda>h. Ok (Hyperlane h))"

fun into_execution_environment ::
  "cw_api \<Rightarrow> execution_environment_info \<Rightarrow> (execution_environment, std_error) result"
where
  "into_execution_environment cw (CosmwasmInfo (PolytoneInfo polytone_info)) =
     and_then (addr_validate cw (pni_address (pci_polytone_note polytone_info))) (\<lambda>note.
     and_then (addr_validate cw (pci_polytone_proxy polytone_info)) (\<lambda>proxy.
       Ok (Cosmwasm (Polytone
         \<lparr>polytone_note =
            \<lparr>pn_address = note,
             pn_timeout_seconds = pni_timeout_seconds (pci_polytone_note polytone_info),
             pn_state = PendingResponse\<rparr>,
          polytone_proxy = proxy\<rparr>))))"
| "into_execution_environment cw (EvmInfo encoder_info bridge_info) =
     and_then (to_validated_encoder cw encoder_info) (\<lambda>e.
     and_then (to_validated_evm_bridge cw bridge_info) (\<lambda>b.
       Ok (Evm e b)))"

definition into_external_domain_validated ::
  "cw_api \<Rightarrow> external_domain_info \<Rightarrow> (external_domain, std_error) result"
where
  "into_external_domain_validated cw i =
     and_then (into_execution_environment cw (edi_execution_environment i)) (\<lambda>ee.
       Ok \<lparr>ed_name = edi_name i, ed_execution_environment = ee, ed_processor = edi_processor i\<rparr>)"

section \<open>Authorizations\<close>

datatype permission_type_info =
    WithCallLimitInfo "(string \<times> u128) list"
  | WithoutCallLimitInfo "string list"

datatype authorization_mode_info = PermissionedInfo permission_type_info | PermissionlessInfo

datatype permission_type = WithCallLimit "(addr \<times> u128) list" | WithoutCallLimit "addr list"

datatype authorization_mode = Permissioned permission_type | Permissionless

datatype authorization_duration = Forever | Seconds u64 | Blocks u64

datatype authorization_state = Enabled | Disabled

record authorization_info =
  ai_label :: string
  ai_mode :: authorization_mode_info
  ai_not_before :: expiration
  ai_duration :: authorization_duration
  ai_max_concurrent_executions :: "u64 option"
  ai_subroutine :: subroutine
  ai_priority :: "priority option"

record authorization =
  auth_label :: string
  auth_mode :: authorization_mode
  auth_not_before :: expiration
  auth_expiration :: expiration
  auth_max_concurrent_executions :: u64
  auth_subroutine :: subroutine
  auth_priority :: priority
  auth_state :: authorization_state

record zk_authorization_info =
  zai_label :: string
  zai_mode :: authorization_mode_info
  zai_registry :: u64
  zai_vk :: binary
  zai_verification_route :: string
  zai_metadata_hash :: binary
  zai_validate_last_block_execution :: bool

record zk_authorization =
  za_label :: string
  za_mode :: authorization_mode
  za_registry :: u64
  za_vk :: binary
  za_verification_route :: string
  za_metadata_hash :: binary
  za_validate_last_block_execution :: bool
  za_state :: authorization_state

text \<open>The conversions unwrap, so an address that does not validate panics.\<close>

definition addr_validate_unwrap :: "cw_api \<Rightarrow> string \<Rightarrow> (addr, std_error) result" where
  "addr_validate_unwrap cw a =
     map_err (\<lambda>_. Panic ''called `Result::unwrap()` on an `Err` value'') (addr_validate cw a)"

fun into_type_validated ::
  "cw_api \<Rightarrow> permission_type_info \<Rightarrow> (permission_type, std_error) result"
where
  "into_type_validated cw (WithCallLimitInfo permissions) =
     and_then (try_map (\<lambda>(a, amount). and_then (addr_validate_unwrap cw a) (\<lambda>v. Ok (v, amount)))
       permissions) (\<lambda>ps. Ok (WithCallLimit ps))"
| "into_type_validated cw (WithoutCallLimitInfo permissions) =
     and_then (try_map (addr_validate_unwrap cw) permissions) (\<lambda>ps. Ok (WithoutCallLimit ps))"

fun into_mode_validated ::
  "cw_api \<Rightarrow> authorization_mode_info \<Rightarrow> (authorization_mode, std_error) result"
where
  "into_mode_validated cw (PermissionedInfo permission_type) =
     and_then (into_type_validated cw permission_type) (\<lambda>p. Ok (Permissioned p))"
| "into_mode_validated cw PermissionlessInfo = Ok Permissionless"

definition into_authorization ::
  "cw_api \<Rightarrow> authorization_info \<Rightarrow> block_info \<Rightarrow> (authorization, std_error) result"
where
  "into_authorization cw i block =
     and_then (case ai_duration i of
         Forever \<Rightarrow> Ok Never
       | Seconds seconds \<Rightarrow> Ok (AtTime (plus_seconds cw (block_time block) seconds))
       | Blocks blocks \<Rightarrow>
           and_then (expect ''attempt to add with overflow''
             (checked_add_u64 (block_height block) blocks)) (\<lambda>h. Ok (AtHeight h)))
     (\<lambda>expiration.
     and_then (into_mode_validated cw (ai_mode i)) (\<lambda>mode.
       Ok \<lparr>auth_label = ai_label i, auth_mode = mode, auth_not_before = ai_not_before i,
           auth_expiration = expiration,
           auth_max_concurrent_executions =
             (case ai_max_concurrent_executions i of Some m \<Rightarrow> m | None \<Rightarrow> 1),
           auth_subroutine = ai_subroutine i,
           auth_priority = (case ai_priority i of Some p \<Rightarrow> p | None \<Rightarrow> Medium),
           auth_state = Enabled\<rparr>))"

definition into_zk_authorization ::
  "cw_api \<Rightarrow> zk_authorization_info \<Rightarrow> (zk_authorization, std_error) result"
where
  "into_zk_authorization cw i =
     and_then (into_mode_validated cw (zai_mode i)) (\<lambda>mode.
       Ok \<lparr>za_label = zai_label i, za_mode = mode, za_registry = zai_registry i, za_vk = zai_vk i,
           za_verification_route = zai_verification_route i,
           za_metadata_hash = zai_metadata_hash i,
           za_validate_last_block_execution = zai_validate_last_block_execution i,
           za_state = Enabled\<rparr>)"

section \<open>Messages of the contract\<close>

record auth_instantiate_msg =
  aim_owner :: string
  aim_sub_owners :: "string list"
  aim_processor :: string

record mint =
  mint_address :: string
  mint_amount :: u128

datatype owner_msg = AddSubOwner string | RemoveSubOwner string

text \<open>The arguments are the fields in the order of the source.\<close>

datatype permissioned_msg =
    AddExternalDomains "external_domain_info list"
  | CreateAuthorizations "authorization_info list"
  | CreateZkAuthorizations "zk_authorization_info list"
  | ModifyAuthorization string "expiration option" "expiration option" "u64 option" "priority option"
  | ModifyZkAuthorization string "bool option"
  | DisableAuthorization string
  | EnableAuthorization string
  | MintAuthorizations string "mint list"
  | PmEvictMsgs domain u64 priority
  | PmInsertMsgs string u64 priority "processor_message list"
  | PauseProcessor domain
  | ResumeProcessor domain
  | SetVerificationRouter string
  | UpdateZkAuthorizationRoute string string

datatype auth_permissionless_msg =
    SendMsgs string "processor_message list" "expiration option"
  | RetryMsgs u64
  | AuthRetryBridgeCreation string
  | ExecuteZkAuthorization string binary binary binary

datatype authorization_execute_msg =
    UpdateOwnership ownable_action
  | OwnerAction owner_msg
  | PermissionedAction permissioned_msg
  | AuthPermissionlessAction auth_permissionless_msg
  | InternalAuthorizationAction internal_authorization_msg
  | AuthPolytoneCallback callback_message
  | HyperlaneCallback handle_msg

end
