(* ===== verification/Deps.thy ===== *)
theory Deps
  imports Authorization_Types
begin

text \<open>
  What a handler receives from outside, and the message constructions that need it: the
  serialisers (record \<open>codec\<close>), the queries (record \<open>querier\<close>), both collected with the platform
  functions in the record \<open>deps\<close>; the messages through the bridges
  (\<open>packages/gmp-utils/src\<close>); the messages of a batch (\<open>packages/processor-utils/src/processor.rs\<close>);
  the messages for an encoder (\<open>packages/encoder-utils/src/msg.rs\<close>).
\<close>

section \<open>What a handler receives from outside\<close>

text \<open>Serialisers and deserialisers of the message types (JSON, protobuf, hexadecimal).\<close>

record codec =
  enc_processor_execute :: "processor_execute_msg \<Rightarrow> binary"
  dec_processor_execute :: "binary \<Rightarrow> (processor_execute_msg, std_error) result"
  enc_authorization_execute :: "authorization_execute_msg \<Rightarrow> binary"
  dec_authorization_execute :: "binary \<Rightarrow> (authorization_execute_msg, std_error) result"
  dec_internal_authorization :: "binary \<Rightarrow> (internal_authorization_msg, std_error) result"
  enc_polytone_execute :: "polytone_execute_msg \<Rightarrow> binary"
  enc_hyperlane_dispatch :: "dispatch_msg \<Rightarrow> binary"
  enc_proc_polytone_callback :: "proc_polytone_callback_msg \<Rightarrow> binary"
  dec_proc_polytone_callback :: "binary \<Rightarrow> (proc_polytone_callback_msg, std_error) result"
  enc_auth_polytone_callback :: "auth_polytone_callback_msg \<Rightarrow> binary"
  dec_auth_polytone_callback :: "binary \<Rightarrow> (auth_polytone_callback_msg, std_error) result"
  dec_zk_message :: "binary \<Rightarrow> (zk_message, std_error) result"
  enc_msg_create_denom :: "msg_create_denom \<Rightarrow> binary"
  enc_msg_mint :: "msg_mint \<Rightarrow> binary"
  enc_msg_burn :: "msg_burn \<Rightarrow> binary"
  hex_from :: "string \<Rightarrow> (binary, std_error) result"

text \<open>Queries to the bank, the encoder broker and the verification router.\<close>

record querier =
  query_balance :: "addr \<Rightarrow> string \<Rightarrow> (u128, std_error) result"
  broker_is_valid_library :: "string \<Rightarrow> string \<Rightarrow> string \<Rightarrow> (bool, std_error) result"
  broker_encode :: "addr \<Rightarrow> string \<Rightarrow> processor_message_to_encode \<Rightarrow> (binary, std_error) result"
  broker_decode :: "addr \<Rightarrow> string \<Rightarrow> binary \<Rightarrow> (binary, std_error) result"
  router_get_route :: "addr \<Rightarrow> string \<Rightarrow> (addr, std_error) result"
  router_verify ::
    "addr \<Rightarrow> string \<Rightarrow> binary \<Rightarrow> binary \<Rightarrow> binary \<Rightarrow> binary \<Rightarrow> (bool, std_error) result"

record deps =
  d_api :: cw_api
  d_json :: serde_json
  d_codec :: codec
  d_querier :: querier

section \<open>Messages through the bridges\<close>

definition create_msg_for_polytone ::
  "deps \<Rightarrow> string \<Rightarrow> u64 \<Rightarrow> string \<Rightarrow> binary \<Rightarrow> callback_request option \<Rightarrow> cosmos_msg"
where
  "create_msg_for_polytone d note timeout_seconds processor execute_msg callback_request =
     WasmExecute note
       (enc_polytone_execute (d_codec d)
         (PolytoneExecute [WasmExecute processor execute_msg []] callback_request timeout_seconds))
       []"

text \<open>\<open>trim_start_matches\<close> removes the prefix as often as it occurs.\<close>

fun trim_0x :: "string \<Rightarrow> string" where
  "trim_0x (c # d # s) = (if c = CHR ''0'' \<and> d = CHR ''x'' then trim_0x s else c # d # s)"
| "trim_0x s = s"

definition ascii_lower :: "char \<Rightarrow> char" where
  "ascii_lower c =
     (let n = of_char c :: nat in if 65 \<le> n \<and> n \<le> 90 then char_of (n + 32) else c)"

definition format_address_for_hyperlane :: "deps \<Rightarrow> string \<Rightarrow> (binary, std_error) result" where
  "format_address_for_hyperlane d address =
     (let address_hex = map ascii_lower (trim_0x address);
          padded_address = replicate (64 - length address_hex) (CHR ''0'') @ address_hex
      in hex_from (d_codec d) padded_address)"

definition create_msg_for_hyperlane ::
  "deps \<Rightarrow> addr \<Rightarrow> u32 \<Rightarrow> string \<Rightarrow> binary \<Rightarrow> (cosmos_msg, std_error) result"
where
  "create_msg_for_hyperlane d mbox dest processor execute_msg =
     and_then (format_address_for_hyperlane d processor) (\<lambda>recipient.
       Ok (WasmExecute mbox
         (enc_hyperlane_dispatch (d_codec d)
           \<lparr>dm_dest_domain = dest, dm_recipient_addr = recipient, dm_msg_body = execute_msg,
            dm_hook = None, dm_metadata = None\<rparr>)
         []))"

section \<open>Methods of a message batch\<close>

text \<open>\<open>self.msgs[index]\<close>: an index out of range panics.\<close>

definition index_vec :: "'a list \<Rightarrow> usize \<Rightarrow> ('a, std_error) result" where
  "index_vec xs i = expect ''index out of bounds'' (nth_opt xs i)"

definition create_message_by_index ::
  "message_batch \<Rightarrow> usize \<Rightarrow> (sub_msg list, std_error) result"
where
  "create_message_by_index b index =
     and_then (get_contract_address_by_function_index (batch_subroutine b) index) (\<lambda>contract_address.
     and_then (index_vec (batch_msgs b) index) (\<lambda>m.
     and_then (to_wasm_message m contract_address) (\<lambda>wasm.
       Ok [reply_always wasm (batch_id b)])))"

text \<open>The execution id goes into the object under the first top-level key.\<close>

definition append_execution_id :: "serde_json \<Rightarrow> u64 \<Rightarrow> json \<Rightarrow> json" where
  "append_execution_id sj execution_id j =
     (case j of
        JObject ((k, JObject inner) # rest) \<Rightarrow>
          JObject ((k, JObject (json_insert sj inner ''execution_id''
            (JNumber (PosInt execution_id)))) # rest)
      | _ \<Rightarrow> j)"

definition create_message_by_index_with_execution_id ::
  "deps \<Rightarrow> message_batch \<Rightarrow> usize \<Rightarrow> u64 \<Rightarrow> (sub_msg list, std_error) result"
where
  "create_message_by_index_with_execution_id d b index execution_id =
     and_then (index_vec (batch_msgs b) index) (\<lambda>m.
     and_then (map_err (\<lambda>_. GenericErr ''Invalid json'') (json_from_slice (d_json d) (get_msg m)))
     (\<lambda>j.
     and_then (map_err GenericErr
       (json_to_vec (d_json d) (append_execution_id (d_json d) execution_id j))) (\<lambda>bytes.
     and_then (get_contract_address_by_function_index (batch_subroutine b) index) (\<lambda>contract_address.
     and_then (to_wasm_message (set_msg bytes m) contract_address) (\<lambda>wasm.
       Ok [reply_always wasm execution_id])))))"

definition create_cosmos_msg :: "processor_message \<Rightarrow> string \<Rightarrow> (cosmos_msg, std_error) result" where
  "create_cosmos_msg m contract_address = to_wasm_message m contract_address"

definition process_functions ::
  "processor_message list \<Rightarrow> 'a func_scheme list \<Rightarrow> (cosmos_msg list, std_error) result"
where
  "process_functions msgs functions =
     try_map (\<lambda>(m, f). and_then (get_contract_address f) (create_cosmos_msg m)) (zip msgs functions)"

definition batch_into_msgs :: "message_batch \<Rightarrow> (cosmos_msg list, std_error) result" where
  "batch_into_msgs b =
     (case batch_subroutine b of
        Atomic config \<Rightarrow> process_functions (batch_msgs b) (as_functions config)
      | NonAtomic config \<Rightarrow> process_functions (batch_msgs b) (ns_functions config))"

lemma index_vec_Ok_iff [res_simps]: "index_vec xs i = Ok x \<longleftrightarrow> i < length xs \<and> xs ! i = x"
  by (simp add: index_vec_def res_simps)

section \<open>Messages for an encoder\<close>

definition encoder_message_of ::
  "authorization \<Rightarrow> usize \<Rightarrow> processor_message \<Rightarrow> (encoder_message, std_error) result"
where
  "encoder_message_of a index m =
     (case m of
        EvmCall msg \<Rightarrow>
          and_then (ok_or (GenericErr ''Function index not found'')
            (get_function_by_index (auth_subroutine a) index)) (\<lambda>f.
            (case message_type (fn_message_details f) of
               MtEvmCall _ lib \<Rightarrow> Ok \<lparr>em_library = lib, em_data = msg\<rparr>
             | _ \<Rightarrow> Err (GenericErr ''Invalid message type'')))
      | EvmRawCall msg \<Rightarrow> Ok \<lparr>em_library = ''no_library'', em_data = msg\<rparr>
      | _ \<Rightarrow> Err (GenericErr ''Message type not supported''))"

definition convert_into_encoder_messages ::
  "processor_message list \<Rightarrow> authorization \<Rightarrow> (encoder_message list, std_error) result"
where
  "convert_into_encoder_messages msgs a =
     try_map (\<lambda>(index, m). encoder_message_of a index m) (List.enumerate 0 msgs)"

end
