(* ===== verification/Storage_Map.thy ===== *)
theory Storage_Map
  imports Prelude
begin

text \<open>
  Contract storage. A storage map of a contract is kept as an association list in ascending key
  order, the order in which the contracts iterate over it. The laws of lookup, update and
  removal are unconditional rewrite rules (collection \<open>storage_simps\<close>); the order is an
  invariant that every write keeps, and it is what makes page-wise queries complete.
\<close>

section \<open>Ordered storage maps\<close>

type_synonym ('k, 'v) storage_map = "('k \<times> 'v) list"

definition sm_get :: "('k, 'v) storage_map \<Rightarrow> 'k \<Rightarrow> 'v option" where
  "sm_get m k = map_of m k"

fun sm_set :: "'k::linorder \<Rightarrow> 'v \<Rightarrow> ('k, 'v) storage_map \<Rightarrow> ('k, 'v) storage_map" where
  "sm_set k v [] = [(k, v)]"
| "sm_set k v ((k', v') # m) =
     (if k < k' then (k, v) # (k', v') # m
      else if k = k' then (k, v) # m
      else (k', v') # sm_set k v m)"

definition sm_remove :: "'k \<Rightarrow> ('k, 'v) storage_map \<Rightarrow> ('k, 'v) storage_map" where
  "sm_remove k m = filter (\<lambda>kv. fst kv \<noteq> k) m"

definition sm_has :: "('k, 'v) storage_map \<Rightarrow> 'k \<Rightarrow> bool" where
  "sm_has m k \<longleftrightarrow> sm_get m k \<noteq> None"

definition sm_values :: "('k, 'v) storage_map \<Rightarrow> 'v list" where
  "sm_values m = map snd m"

definition sm_sorted :: "('k::linorder, 'v) storage_map \<Rightarrow> bool" where
  "sm_sorted m \<longleftrightarrow> sorted_wrt (<) (map fst m)"

lemma sm_get_empty [simp, storage_simps]: "sm_get [] k = None"
  by (simp add: sm_get_def)

lemma sm_get_set [simp, storage_simps]:
  "sm_get (sm_set k v m) k' = (if k' = k then Some v else sm_get m k')"
  by (induction k v m rule: sm_set.induct) (auto simp: sm_get_def)

lemma sm_get_remove [simp, storage_simps]:
  "sm_get (sm_remove k m) k' = (if k' = k then None else sm_get m k')"
  by (induction m) (auto simp: sm_get_def sm_remove_def)

lemma sm_has_set [simp, storage_simps]: "sm_has (sm_set k v m) k' \<longleftrightarrow> k' = k \<or> sm_has m k'"
  by (simp add: sm_has_def)

lemma sm_has_remove [simp, storage_simps]: "sm_has (sm_remove k m) k' \<longleftrightarrow> k' \<noteq> k \<and> sm_has m k'"
  by (simp add: sm_has_def)

lemma sm_has_empty [simp, storage_simps]: "\<not> sm_has [] k"
  by (simp add: sm_has_def)

lemma sm_set_set [simp]: "sm_set k v (sm_set k v' m) = sm_set k v m"
  by (induction k v m rule: sm_set.induct) auto

lemma sm_get_Some_in: "sm_get m k = Some v \<Longrightarrow> (k, v) \<in> set m"
  by (simp add: sm_get_def map_of_SomeD)

lemma sm_sorted_empty [simp]: "sm_sorted []"
  by (simp add: sm_sorted_def)

lemma sm_set_keys: "fst ` set (sm_set k v m) = insert k (fst ` set m)"
  by (induction k v m rule: sm_set.induct) auto

lemma sm_sorted_Cons: "sm_sorted (kv # m) \<longleftrightarrow> (\<forall>k' \<in> fst ` set m. fst kv < k') \<and> sm_sorted m"
  by (auto simp: sm_sorted_def)

lemma sm_sorted_set [intro]: "sm_sorted m \<Longrightarrow> sm_sorted (sm_set k v m)"
proof (induction k v m rule: sm_set.induct)
  case (2 k v k' v' m)
  then show ?case
    by (auto simp: sm_sorted_Cons sm_set_keys)
qed (simp add: sm_sorted_def)

lemma sm_sorted_filter [intro]: "sm_sorted m \<Longrightarrow> sm_sorted (filter P m)"
  by (induction m) (auto simp: sm_sorted_Cons)

lemma sm_sorted_remove [intro]: "sm_sorted m \<Longrightarrow> sm_sorted (sm_remove k m)"
  by (simp add: sm_remove_def sm_sorted_filter)

section \<open>Page-wise queries\<close>

text \<open>
  The list queries of the contracts read a page: the entries after an exclusive start key, in
  ascending order, at most \<open>limit\<close> of them and never more than the contract's page bound.
\<close>

definition sm_after :: "'k::linorder option \<Rightarrow> ('k, 'v) storage_map \<Rightarrow> ('k, 'v) storage_map" where
  "sm_after start m = (case start of None \<Rightarrow> m | Some s \<Rightarrow> filter (\<lambda>kv. s < fst kv) m)"

definition sm_page ::
  "u32 \<Rightarrow> ('k::linorder, 'v) storage_map \<Rightarrow> 'k option \<Rightarrow> u32 option \<Rightarrow> ('k, 'v) storage_map"
where
  "sm_page max_limit m start limit =
     take (min (case limit of None \<Rightarrow> max_limit | Some l \<Rightarrow> l) max_limit) (sm_after start m)"

lemma sm_after_after:
  "kv \<in> set (sm_after start m) \<Longrightarrow>
     sm_after (Some (fst kv)) m = filter (\<lambda>kv'. fst kv < fst kv') (sm_after start m)"
  by (auto simp: sm_after_def split: option.splits intro!: filter_cong)

lemma sm_page_in_after: "kv \<in> set (sm_page n m start limit) \<Longrightarrow> kv \<in> set (sm_after start m)"
  by (auto simp: sm_page_def dest: in_set_takeD)

lemma sm_sorted_after [intro]: "sm_sorted m \<Longrightarrow> sm_sorted (sm_after start m)"
  by (auto simp: sm_after_def split: option.splits)

lemma sm_sorted_drop_after_last:
  "sm_sorted m \<Longrightarrow> 0 < n \<Longrightarrow> m \<noteq> [] \<Longrightarrow>
     filter (\<lambda>kv. fst (last (take n m)) < fst kv) m = drop n m"
proof (induction m arbitrary: n)
  case (Cons kv m)
  show ?case
  proof (cases "n = 1 \<or> m = []")
    case True
    with Cons.prems show ?thesis
      by (cases n) (auto simp: sm_sorted_Cons intro!: filter_True)
  next
    case False
    with Cons.prems obtain n' where n: "n = Suc n'" "0 < n'" by (cases n) auto
    from False have ne: "take n' m \<noteq> []" using n by auto
    then have "last (take n' m) \<in> set m" by (meson in_set_takeD last_in_set)
    with Cons.prems have "\<not> fst (last (take n' m)) < fst kv"
      by (auto simp: sm_sorted_Cons dest: less_asym)
    with Cons n False ne show ?thesis by (simp add: sm_sorted_Cons)
  qed
qed simp

text \<open>Reading page after page, each started after the last key of the one before.\<close>

function sm_read_all :: "u32 \<Rightarrow> ('k::linorder, 'v) storage_map \<Rightarrow> 'k option \<Rightarrow> ('k \<times> 'v) list" where
  "sm_read_all n m start =
     (let p = sm_page n m start (Some n)
      in if p = [] then [] else p @ sm_read_all n m (Some (fst (last p))))"
  by pat_completeness auto
termination
proof (relation "measure (\<lambda>(n, m, start). length (sm_after start m))", goal_cases)
  case (2 n m start p)
  then have mem: "last p \<in> set (sm_after start m)"
    using last_in_set sm_page_in_after by blast
  then have "length (filter (\<lambda>kv. fst (last p) < fst kv) (sm_after start m)) < length (sm_after start m)"
    by (intro length_filter_less) auto
  then show ?case by (simp add: sm_after_after [OF mem])
qed simp

declare sm_read_all.simps [simp del]

lemma sm_read_all_complete:
  assumes "sm_sorted m" and "0 < n"
  shows "sm_read_all n m start = sm_after start m"
  using assms
proof (induction n m start rule: sm_read_all.induct)
  case (1 n m start)
  let ?A = "sm_after start m" and ?p = "sm_page n m start (Some n)"
  have p: "?p = take n ?A" by (simp add: sm_page_def)
  show ?case
  proof (cases "?p = []")
    case True
    with p "1.prems" show ?thesis
      by (subst sm_read_all.simps) (auto simp: Let_def)
  next
    case False
    then have "last ?p \<in> set ?A" using last_in_set sm_page_in_after by blast
    then have "sm_after (Some (fst (last ?p))) m = drop n ?A"
      using False "1.prems" p by (simp add: sm_after_after sm_sorted_drop_after_last sm_sorted_after)
    with 1 False p show ?thesis
      by (subst sm_read_all.simps) (simp add: Let_def)
  qed
qed

end
