(* ===== verification/Authorization_Validation.thy ===== *)
theory Authorization_Validation
  imports Deps Storage_Map
begin

text \<open>
  Validation in the authorization contract (\<open>contracts/authorization/src/authorization.rs\<close>): what an
  authorization must satisfy to be stored, what a message must satisfy to be sent under one, and who
  may send it. The errors are those of \<open>error.rs\<close>.
\<close>

section \<open>Errors\<close>

datatype authorization_error_reason =
    EmptyLabel
  | LabelAlreadyExists string
  | NoFunctions
  | DifferentFunctionDomains
  | PermissionlessWithHighPriority
  | DoesNotExist string
  | CantMintForPermissionless
  | MaxConcurrentExecutionsReached
  | InvalidParamRestrictions
  | InvalidMessageType
  | InvalidLibraryName

datatype auth_unauthorized_reason =
    NotAllowed
  | NotEnabled
  | AuthorizationExpired
  | NotActiveYet
  | RequiresOneToken
  | UnauthorizedProcessorCallbackSender
  | InvalidPolytoneCallbackInitiator
  | UnauthorizedCallbackSender
  | BridgeCreationNotTimedOut

datatype message_error_reason =
    InvalidAmount
  | InvalidType
  | DoesNotMatch
  | InvalidMessageParams
  | InvalidStructure
  | InvalidPolytoneCallback
  | NotRetriable

datatype zk_error_reason =
    VerificationRouterNotSet
  | InvalidVerificationRoute
  | InvalidZKProof
  | InvalidZKRegistry
  | ProofNoLongerValid
  | InvalidDomain
  | InvalidAuthorizationContract
  | VerifierContractAlreadyExists

datatype auth_error =
    AStd std_error
  | Ownership ownership_error
  | AUnauthorized auth_unauthorized_reason
  | AuthorizationErr authorization_error_reason
  | MessageErr message_error_reason
  | ZK zk_error_reason
  | ExternalDomainAlreadyExists string
  | DomainIsNotRegistered string
  | InvalidJson string
  | ExecutionIDNotFound u64
  | CurrentExecutionsIsZero
  | BridgeCreationNotRequired

text \<open>The \<open>?\<close> operator on a \<open>StdResult\<close>.\<close>

abbreviation astd :: "('a, std_error) result \<Rightarrow> ('a, auth_error) result" where
  "astd \<equiv> map_err AStd"

section \<open>Validation of an authorization\<close>

definition validate_domain :: "'a func_scheme \<Rightarrow> domain \<Rightarrow> (unit, auth_error) result" where
  "validate_domain f required =
     ensure (fn_domain f = required) (AuthorizationErr DifferentFunctionDomains)"

fun cosmwasm_type :: "message_type \<Rightarrow> bool" where
  "cosmwasm_type MtCosmwasmExecuteMsg = True"
| "cosmwasm_type MtCosmwasmMigrateMsg = True"
| "cosmwasm_type (MtEvmCall _ _) = False"
| "cosmwasm_type MtEvmRawCall = False"

definition validate_message_type ::
  "'a func_scheme \<Rightarrow> external_domain option \<Rightarrow> (unit, auth_error) result"
where
  "validate_message_type f ed =
     (let t = message_type (fn_message_details f)
      in case ed of
           Some required \<Rightarrow>
             (case ed_execution_environment required of
                Cosmwasm _ \<Rightarrow> ensure (cosmwasm_type t) (AuthorizationErr InvalidMessageType)
              | Evm _ _ \<Rightarrow> ensure (\<not> cosmwasm_type t) (AuthorizationErr InvalidMessageType))
         | None \<Rightarrow> ensure (cosmwasm_type t) (AuthorizationErr InvalidMessageType))"

definition validate_evm_library :: "deps \<Rightarrow> 'a func_scheme \<Rightarrow> (unit, auth_error) result" where
  "validate_evm_library d f =
     (case message_type (fn_message_details f) of
        MtEvmCall encoder library_name \<Rightarrow>
          and_then (astd (broker_is_valid_library (d_querier d) (ei_broker_address encoder)
            (ei_encoder_version encoder) library_name)) (\<lambda>exists.
            ensure exists (AuthorizationErr InvalidLibraryName))
      | _ \<Rightarrow> Ok ())"

fun is_bytes_restriction :: "param_restriction \<Rightarrow> bool" where
  "is_bytes_restriction (MustBeBytes _) = True"
| "is_bytes_restriction _ = False"

definition validate_param_restrictions :: "'a func_scheme \<Rightarrow> (unit, auth_error) result" where
  "validate_param_restrictions f =
     (let details = fn_message_details f
      in case params_restrictions (message details) of
           None \<Rightarrow> Ok ()
         | Some restrictions \<Rightarrow>
             (case message_type details of
                MtEvmRawCall \<Rightarrow>
                  if length restrictions > 1 \<or>
                     (length restrictions = 1 \<and> \<not> is_bytes_restriction (restrictions ! 0))
                  then Err (AuthorizationErr InvalidParamRestrictions)
                  else Ok ()
              | _ \<Rightarrow>
                  if list_ex is_bytes_restriction restrictions
                  then Err (AuthorizationErr InvalidParamRestrictions)
                  else Ok ()))"

definition validate_function ::
  "deps \<Rightarrow> domain \<Rightarrow> external_domain option \<Rightarrow> 'a func_scheme \<Rightarrow> (unit, auth_error) result"
where
  "validate_function d required ed f =
     and_then (validate_domain f required) (\<lambda>_.
     and_then (validate_message_type f ed) (\<lambda>_.
     and_then (validate_evm_library d f) (\<lambda>_.
       validate_param_restrictions f)))"

definition validate_functions ::
  "deps \<Rightarrow> (string, external_domain) storage_map \<Rightarrow> 'a func_scheme list \<Rightarrow> (unit, auth_error) result"
where
  "validate_functions d domains functions =
     (case functions of
        [] \<Rightarrow> Err (AuthorizationErr NoFunctions)
      | first # _ \<Rightarrow>
          and_then (case fn_domain first of
              Main \<Rightarrow> Ok None
            | External name \<Rightarrow>
                map_ok Some (ok_or (DomainIsNotRegistered name) (sm_get domains name)))
          (\<lambda>ed.
            try_fold (\<lambda>_ f. validate_function d (fn_domain first) ed f) () functions))"

definition validate_subroutine ::
  "deps \<Rightarrow> (string, external_domain) storage_map \<Rightarrow> authorization \<Rightarrow> (unit, auth_error) result"
where
  "validate_subroutine d domains a =
     (case auth_subroutine a of
        Atomic config \<Rightarrow> validate_functions d domains (as_functions config)
      | NonAtomic config \<Rightarrow> validate_functions d domains (ns_functions config))"

definition validate ::
  "deps \<Rightarrow> (string, external_domain) storage_map \<Rightarrow> authorization \<Rightarrow> (unit, auth_error) result"
where
  "validate d domains a =
     (if auth_label a = [] then Err (AuthorizationErr EmptyLabel)
      else
        and_then (validate_subroutine d domains a) (\<lambda>_.
          if auth_mode a = Permissionless \<and> auth_priority a = High
          then Err (AuthorizationErr PermissionlessWithHighPriority)
          else Ok ()))"

section \<open>Validation of an execution\<close>

definition ensure_enabled :: "authorization \<Rightarrow> (unit, auth_error) result" where
  "ensure_enabled a = ensure (auth_state a = Enabled) (AUnauthorized NotEnabled)"

definition ensure_active :: "deps \<Rightarrow> authorization \<Rightarrow> block_info \<Rightarrow> (unit, auth_error) result" where
  "ensure_active d a block =
     (case auth_not_before a of
        Never \<Rightarrow> Ok ()
      | expiration \<Rightarrow>
          if \<not> is_expired (d_api d) expiration block then Err (AUnauthorized NotActiveYet)
          else Ok ())"

definition ensure_not_expired ::
  "deps \<Rightarrow> authorization \<Rightarrow> block_info \<Rightarrow> (unit, auth_error) result"
where
  "ensure_not_expired d a block =
     (if is_expired (d_api d) (auth_expiration a) block then Err (AUnauthorized AuthorizationExpired)
      else Ok ())"

text \<open>The JSON pointer of a list of keys: \<open>/\<close> followed by the keys joined with \<open>/\<close>.\<close>

fun join_keys :: "string list \<Rightarrow> string" where
  "join_keys [] = []"
| "join_keys [k] = k"
| "join_keys (k # ks) = k @ ''/'' @ join_keys ks"

definition pointer :: "string list \<Rightarrow> string" where
  "pointer keys = ''/'' @ join_keys keys"

definition check_json_restriction ::
  "deps \<Rightarrow> json \<Rightarrow> param_restriction \<Rightarrow> (unit, auth_error) result"
where
  "check_json_restriction d j restriction =
     (case restriction of
        MustBeIncluded keys \<Rightarrow>
          ensure (json_pointer (d_json d) j (pointer keys) \<noteq> None) (MessageErr InvalidMessageParams)
      | CannotBeIncluded keys \<Rightarrow>
          ensure (json_pointer (d_json d) j (pointer keys) = None) (MessageErr InvalidMessageParams)
      | MustBeValue keys value \<Rightarrow>
          and_then (ok_or (MessageErr InvalidMessageParams)
            (json_pointer (d_json d) j (pointer keys))) (\<lambda>final_value.
          and_then (map_err (\<lambda>_. MessageErr InvalidMessageParams)
            (json_from_slice (d_json d) value)) (\<lambda>expected.
            ensure (final_value = expected) (MessageErr InvalidMessageParams)))
      | MustBeBytes _ \<Rightarrow> Err (MessageErr InvalidType))"

definition check_bytes_restriction :: "binary \<Rightarrow> param_restriction \<Rightarrow> (unit, auth_error) result" where
  "check_bytes_restriction msg restriction =
     (case restriction of
        MustBeBytes expected \<Rightarrow> ensure (msg = expected) (MessageErr InvalidMessageParams)
      | _ \<Rightarrow> Err (MessageErr InvalidType))"

text \<open>\<open>json.as_object().map(|obj| obj.len()).unwrap_or(0)\<close>.\<close>

fun object_len :: "json \<Rightarrow> nat" where
  "object_len (JObject ms) = length ms"
| "object_len _ = 0"

definition validate_json_message ::
  "deps \<Rightarrow> binary \<Rightarrow> message \<Rightarrow> (unit, auth_error) result"
where
  "validate_json_message d msg m =
     and_then (map_err InvalidJson (json_from_slice (d_json d) msg)) (\<lambda>j.
       if object_len j \<noteq> 1 then Err (MessageErr InvalidStructure)
       else if json_get (d_json d) j (message_name m) = None then Err (MessageErr DoesNotMatch)
       else
         (case params_restrictions m of
            None \<Rightarrow> Ok ()
          | Some restrictions \<Rightarrow> try_fold (\<lambda>_. check_json_restriction d j) () restrictions))"

definition validate_message ::
  "deps \<Rightarrow> processor_message \<Rightarrow> 'a func_scheme \<Rightarrow> (unit, auth_error) result"
where
  "validate_message d m f =
     (let details = fn_message_details f
      in if \<not> eq_message_type m (message_type details) then Err (MessageErr InvalidType)
         else
           (case m of
              EvmRawCall msg \<Rightarrow>
                (case params_restrictions (message details) of
                   None \<Rightarrow> Ok ()
                 | Some restrictions \<Rightarrow> try_fold (\<lambda>_. check_bytes_restriction msg) () restrictions)
            | _ \<Rightarrow> validate_json_message d (get_msg m) (message details)))"

definition validate_messages_generic ::
  "deps \<Rightarrow> processor_message list \<Rightarrow> 'a func_scheme list \<Rightarrow> (unit, auth_error) result"
where
  "validate_messages_generic d messages functions =
     (if length messages \<noteq> length functions then Err (MessageErr InvalidAmount)
      else try_fold (\<lambda>_ (m, f). validate_message d m f) () (zip messages functions))"

definition validate_messages ::
  "deps \<Rightarrow> authorization \<Rightarrow> processor_message list \<Rightarrow> (unit, auth_error) result"
where
  "validate_messages d a messages =
     (case auth_subroutine a of
        Atomic config \<Rightarrow> validate_messages_generic d messages (as_functions config)
      | NonAtomic config \<Rightarrow> validate_messages_generic d messages (ns_functions config))"

section \<open>Permissions\<close>

definition build_tokenfactory_denom :: "string \<Rightarrow> string \<Rightarrow> string" where
  "build_tokenfactory_denom contract_address label = ''factory/'' @ contract_address @ ''/'' @ label"

definition validate_permission ::
  "deps \<Rightarrow> string \<Rightarrow> authorization_mode \<Rightarrow> string \<Rightarrow> message_info \<Rightarrow> (unit, auth_error) result"
where
  "validate_permission d label mode contract_address info =
     (let token_factory_denom = build_tokenfactory_denom contract_address label
      in case mode of
           Permissionless \<Rightarrow> Ok ()
         | Permissioned (WithoutCallLimit _) \<Rightarrow>
             and_then (astd (query_balance (d_querier d) (info_sender info) token_factory_denom))
             (\<lambda>balance. ensure (balance \<noteq> 0) (AUnauthorized NotAllowed))
         | Permissioned (WithCallLimit _) \<Rightarrow>
             and_then (map_err (\<lambda>_. AUnauthorized NotAllowed)
               (must_pay (d_api d) info token_factory_denom)) (\<lambda>funds.
               ensure (funds = 1) (AUnauthorized RequiresOneToken)))"

definition validate_executable ::
  "deps \<Rightarrow> authorization \<Rightarrow> block_info \<Rightarrow> string \<Rightarrow> message_info \<Rightarrow> processor_message list \<Rightarrow>
   (unit, auth_error) result"
where
  "validate_executable d a block contract_address info messages =
     and_then (ensure_enabled a) (\<lambda>_.
     and_then (ensure_active d a block) (\<lambda>_.
     and_then (ensure_not_expired d a block) (\<lambda>_.
     and_then (validate_permission d (auth_label a) (auth_mode a) contract_address info) (\<lambda>_.
       validate_messages d a messages))))"

end
