(* ===== verification/Authorization.thy ===== *)
theory Authorization
  imports Authorization_Validation
begin

text \<open>
  The authorization contract (\<open>contracts/authorization/src/contract.rs\<close> and \<open>domain.rs\<close>): its storage,
  one definition per handler, the entry points and the queries. The ownership package is the argument
  \<open>ow\<close>, over an ownership state of its own; everything else from outside is in \<open>d\<close>.
\<close>

section \<open>State\<close>

record 'o auth_contract =
  ownership :: 'o
  first_ownership :: bool
  sub_owners :: "(addr, unit) storage_map"
  authorizations :: "(string, authorization) storage_map"
  verification_router :: "addr option"
  zk_authorizations :: "(string, zk_authorization) storage_map"
  processor_on_main_domain :: addr
  external_domains :: "(string, external_domain) storage_map"
  next_execution_id :: u64
  current_executions :: "(string, u64) storage_map"
  registry_last_block_execution :: "(u64, u64) storage_map"
  processor_callbacks :: "(u64, processor_callback_info) storage_map"

type_synonym 'o auth_result = "('o auth_contract \<times> response, auth_error) result"

section \<open>Domains\<close>

definition add_external_domain ::
  "deps \<Rightarrow> 'o auth_contract \<Rightarrow> external_domain_info \<Rightarrow>
   ('o auth_contract \<times> external_domain, auth_error) result"
where
  "add_external_domain d s info =
     and_then (astd (into_external_domain_validated (d_api d) info)) (\<lambda>ed.
       if sm_has (external_domains s) (ed_name ed) then Err (ExternalDomainAlreadyExists (ed_name ed))
       else Ok (s\<lparr>external_domains := sm_set (ed_name ed) ed (external_domains s)\<rparr>, ed))"

definition get_domain :: "authorization \<Rightarrow> (domain, auth_error) result" where
  "get_domain a =
     (case auth_subroutine a of
        Atomic config \<Rightarrow>
          (case as_functions config of
             [] \<Rightarrow> Err (AuthorizationErr NoFunctions)
           | f # _ \<Rightarrow> Ok (fn_domain f))
      | NonAtomic config \<Rightarrow>
          (case ns_functions config of
             [] \<Rightarrow> Err (AuthorizationErr NoFunctions)
           | f # _ \<Rightarrow> Ok (fn_domain f)))"

definition create_msg_for_main_domain :: "'o auth_contract \<Rightarrow> binary \<Rightarrow> cosmos_msg" where
  "create_msg_for_main_domain s execute_msg = WasmExecute (processor_on_main_domain s) execute_msg []"

definition create_msg_for_processor ::
  "deps \<Rightarrow> 'o auth_contract \<Rightarrow> binary \<Rightarrow> domain \<Rightarrow> callback_request option \<Rightarrow>
   (cosmos_msg, std_error) result"
where
  "create_msg_for_processor d s execute_msg dest callback_request =
     (case dest of
        Main \<Rightarrow> Ok (create_msg_for_main_domain s execute_msg)
      | External name \<Rightarrow>
          and_then (load (sm_get (external_domains s) name)) (\<lambda>ed.
            case ed_execution_environment ed of
              Cosmwasm (Polytone c) \<Rightarrow>
                Ok (create_msg_for_polytone d (pn_address (polytone_note c))
                      (pn_timeout_seconds (polytone_note c)) (ed_processor ed) execute_msg
                      callback_request)
            | Evm _ (Hyperlane h) \<Rightarrow>
                create_msg_for_hyperlane d (mailbox h) (domain_id h) (ed_processor ed) execute_msg))"

text \<open>
  The bytes of a message for the processor of a domain: the JSON of the message where the processor
  is a CosmWasm contract, what the domain's encoder makes of it where it is not.
\<close>

definition execute_msg_binary ::
  "deps \<Rightarrow> 'o auth_contract \<Rightarrow> domain \<Rightarrow> authorization_msg \<Rightarrow>
   (processor_message_to_encode, std_error) result \<Rightarrow> (binary, std_error) result"
where
  "execute_msg_binary d s dest msg to_encode =
     (let json = enc_processor_execute (d_codec d) (AuthorizationModuleAction msg)
      in case dest of
           Main \<Rightarrow> Ok json
         | External name \<Rightarrow>
             and_then (load (sm_get (external_domains s) name)) (\<lambda>ed.
               case ed_execution_environment ed of
                 Cosmwasm _ \<Rightarrow> Ok json
               | Evm encoder _ \<Rightarrow>
                   and_then to_encode (\<lambda>m.
                     broker_encode (d_querier d) (broker_address encoder) (encoder_version encoder) m)))"

section \<open>Helpers\<close>

definition assert_owner_or_subowner ::
  "'o ownable \<Rightarrow> 'o auth_contract \<Rightarrow> addr \<Rightarrow> (unit, auth_error) result"
where
  "assert_owner_or_subowner ow s address =
     and_then (astd (is_owner ow (ownership s) address)) (\<lambda>owner.
       if \<not> owner \<and> \<not> sm_has (sub_owners s) address then Err (AUnauthorized NotAllowed) else Ok ())"

definition get_and_increase_execution_id :: "'o auth_contract \<Rightarrow> u64 \<times> 'o auth_contract" where
  "get_and_increase_execution_id s =
     (next_execution_id s, s\<lparr>next_execution_id := wrapping_add_u64 (next_execution_id s) 1\<rparr>)"

definition store_inprocess_callback ::
  "'o auth_contract \<Rightarrow> u64 \<Rightarrow> u64 \<Rightarrow> operation_initiator \<Rightarrow> domain \<Rightarrow> string \<Rightarrow> expiration option \<Rightarrow>
   processor_message list \<Rightarrow> ('o auth_contract, std_error) result"
where
  "store_inprocess_callback s current_timestamp i initiator dest label ttl messages =
     and_then (case dest of
         Main \<Rightarrow> Ok (processor_on_main_domain s, None)
       | External name \<Rightarrow>
           and_then (load (sm_get (external_domains s) name)) (\<lambda>ed.
             Ok (get_callback_address (ed_execution_environment ed),
                 Some (get_connector_address (ed_execution_environment ed)))))
     (\<lambda>(processor_callback_address, bridge_callback_address).
       Ok (s\<lparr>processor_callbacks :=
               sm_set i
                 \<lparr>pci_execution_id = i, pci_created_at = current_timestamp,
                  pci_last_updated_at = current_timestamp, pci_initiator = initiator,
                  pci_bridge_callback_address = bridge_callback_address,
                  pci_processor_callback_address = processor_callback_address,
                  pci_domain = dest, pci_label = label, pci_messages = messages, pci_ttl = ttl,
                  pci_execution_result = InProcess\<rparr>
                 (processor_callbacks s)\<rparr>))"

definition create_denom_msg :: "deps \<Rightarrow> string \<Rightarrow> string \<Rightarrow> cosmos_msg" where
  "create_denom_msg d sender subdenom =
     Stargate ''/osmosis.tokenfactory.v1beta1.MsgCreateDenom''
       (enc_msg_create_denom (d_codec d) \<lparr>mcd_sender = sender, mcd_subdenom = subdenom\<rparr>)"

definition mint_msg :: "deps \<Rightarrow> string \<Rightarrow> string \<Rightarrow> u128 \<Rightarrow> string \<Rightarrow> cosmos_msg" where
  "mint_msg d sender recipient amount denom =
     Stargate ''/osmosis.tokenfactory.v1beta1.MsgMint''
       (enc_msg_mint (d_codec d)
         \<lparr>mm_sender = sender, mm_denom = denom, mm_amount = string_of_nat amount,
          mm_mint_to_address = recipient\<rparr>)"

definition burn_msg :: "deps \<Rightarrow> string \<Rightarrow> u128 \<Rightarrow> string \<Rightarrow> cosmos_msg" where
  "burn_msg d sender amount denom =
     Stargate ''/osmosis.tokenfactory.v1beta1.MsgBurn''
       (enc_msg_burn (d_codec d)
         \<lparr>mb_sender = sender, mb_denom = denom, mb_amount = string_of_nat amount,
          mb_burn_from_address = []\<rparr>)"

definition assign_execution_id :: "authorization_msg \<Rightarrow> u64 \<Rightarrow> authorization_msg" where
  "assign_execution_id msg execution_id =
     (case msg of
        EnqueueMsgs _ msgs sub prio expiration_time \<Rightarrow>
          EnqueueMsgs execution_id msgs sub prio expiration_time
      | InsertMsgs queue_position _ msgs sub prio expiration_time \<Rightarrow>
          InsertMsgs queue_position execution_id msgs sub prio expiration_time
      | other \<Rightarrow> other)"

definition get_authorization_mode ::
  "'o auth_contract \<Rightarrow> string \<Rightarrow> (authorization_mode, auth_error) result"
where
  "get_authorization_mode s label =
     (case sm_get (authorizations s) label of
        Some a \<Rightarrow> Ok (auth_mode a)
      | None \<Rightarrow>
          and_then (ok_or (AuthorizationErr (DoesNotExist label)) (sm_get (zk_authorizations s) label))
          (\<lambda>z. Ok (za_mode z)))"

text \<open>One more execution of a label, and one less.\<close>

definition executions_of :: "'o auth_contract \<Rightarrow> string \<Rightarrow> u64" where
  "executions_of s label = (case sm_get (current_executions s) label of Some n \<Rightarrow> n | None \<Rightarrow> 0)"

definition increase_current_executions ::
  "'o auth_contract \<Rightarrow> string \<Rightarrow> ('o auth_contract, std_error) result"
where
  "increase_current_executions s label =
     and_then (expect ''Overflow'' (checked_add_u64 (executions_of s label) 1)) (\<lambda>n.
       Ok (s\<lparr>current_executions := sm_set label n (current_executions s)\<rparr>))"

definition decrease_current_executions ::
  "'o auth_contract \<Rightarrow> string \<Rightarrow> ('o auth_contract, auth_error) result"
where
  "decrease_current_executions s label =
     (if executions_of s label = 0 then Err CurrentExecutionsIsZero
      else
        Ok (s\<lparr>current_executions := sm_set label (executions_of s label - 1) (current_executions s)\<rparr>))"

section \<open>Instantiation and ownership\<close>

definition instantiate ::
  "'o ownable \<Rightarrow> deps \<Rightarrow> auth_instantiate_msg \<Rightarrow> 'o auth_result"
where
  "instantiate ow d msg =
     and_then (astd (initialize_owner ow (aim_owner msg))) (\<lambda>o'.
     and_then (astd (try_fold (\<lambda>subs sub_owner.
         and_then (addr_validate (d_api d) sub_owner) (\<lambda>a. Ok (sm_set a () subs)))
       [] (aim_sub_owners msg))) (\<lambda>subs.
     and_then (astd (addr_validate (d_api d) (aim_processor msg))) (\<lambda>processor.
       Ok (\<lparr>ownership = o', first_ownership = True, sub_owners = subs, authorizations = [],
            verification_router = None, zk_authorizations = [],
            processor_on_main_domain = processor, external_domains = [], next_execution_id = 0,
            current_executions = [], registry_last_block_execution = [], processor_callbacks = []\<rparr>,
           add_attribute ''method'' ''instantiate_authorization'' response_new))))"

definition update_ownership ::
  "'o ownable \<Rightarrow> 'o auth_contract \<Rightarrow> env \<Rightarrow> message_info \<Rightarrow> ownable_action \<Rightarrow> 'o auth_result"
where
  "update_ownership ow s env info action =
     (case (action, first_ownership s) of
        (TransferOwnership new_owner _, True) \<Rightarrow>
          and_then (map_err Ownership (assert_owner ow (ownership s) (info_sender info))) (\<lambda>_.
          and_then (astd (initialize_owner ow new_owner)) (\<lambda>o'.
            Ok (s\<lparr>first_ownership := False, ownership := o'\<rparr>,
                response_new\<lparr>resp_attributes := ownership_attributes ow o'\<rparr>)))
      | _ \<Rightarrow>
          and_then (map_err Ownership
            (ownable.update_ownership ow (ownership s) (env_block env) (info_sender info) action))
          (\<lambda>o'.
            Ok (s\<lparr>ownership := o'\<rparr>,
                response_new\<lparr>resp_attributes := ownership_attributes ow o'\<rparr>)))"

definition add_sub_owner :: "deps \<Rightarrow> 'o auth_contract \<Rightarrow> string \<Rightarrow> 'o auth_result" where
  "add_sub_owner d s sub_owner =
     and_then (astd (addr_validate (d_api d) sub_owner)) (\<lambda>a.
       Ok (s\<lparr>sub_owners := sm_set a () (sub_owners s)\<rparr>,
           add_attribute ''sub_owner'' sub_owner
             (add_attribute ''action'' ''add_sub_owner'' response_new)))"

definition remove_sub_owner :: "deps \<Rightarrow> 'o auth_contract \<Rightarrow> string \<Rightarrow> 'o auth_result" where
  "remove_sub_owner d s sub_owner =
     and_then (astd (addr_validate (d_api d) sub_owner)) (\<lambda>a.
       Ok (s\<lparr>sub_owners := sm_remove a (sub_owners s)\<rparr>,
           add_attribute ''sub_owner'' sub_owner
             (add_attribute ''action'' ''remove_sub_owner'' response_new)))"

text \<open>The message that makes a polytone note create its proxy.\<close>

definition create_proxy_msg :: "deps \<Rightarrow> polytone_note \<Rightarrow> addr \<Rightarrow> string \<Rightarrow> cosmos_msg" where
  "create_proxy_msg d note contract_address domain_name =
     WasmExecute (pn_address note)
       (enc_polytone_execute (d_codec d)
         (PolytoneExecute []
           (Some \<lparr>cr_receiver = contract_address,
                  cr_msg = enc_auth_polytone_callback (d_codec d) (AuthCreateProxy domain_name)\<rparr>)
           (pn_timeout_seconds note)))
       []"

text \<open>The body of the loop over the domains, with the messages that connect each of them.\<close>

definition connector_msgs :: "deps \<Rightarrow> env \<Rightarrow> external_domain \<Rightarrow> cosmos_msg list" where
  "connector_msgs d env ed =
     (case ed_execution_environment ed of
        Cosmwasm (Polytone c) \<Rightarrow>
          [create_proxy_msg d (polytone_note c) (env_contract_address env) (ed_name ed)]
      | Evm _ _ \<Rightarrow> [])"

definition register_domain ::
  "deps \<Rightarrow> env \<Rightarrow> 'o auth_contract \<times> cosmos_msg list \<Rightarrow> external_domain_info \<Rightarrow>
   ('o auth_contract \<times> cosmos_msg list, auth_error) result"
where
  "register_domain d env = (\<lambda>(s, messages) info.
     and_then (add_external_domain d s info) (\<lambda>(s', ed).
       Ok (s', messages @ connector_msgs d env ed)))"

definition add_external_domains ::
  "deps \<Rightarrow> 'o auth_contract \<Rightarrow> env \<Rightarrow> external_domain_info list \<Rightarrow> 'o auth_result"
where
  "add_external_domains d s env infos =
     and_then (try_fold (register_domain d env) (s, []) infos) (\<lambda>(s', messages).
       Ok (s', add_attribute ''action'' ''add_external_domains'' (add_messages messages response_new)))"

section \<open>Creating and changing authorizations\<close>

text \<open>The token of a permissioned authorization: its creation and the first mints.\<close>

definition tokenfactory_msgs ::
  "deps \<Rightarrow> env \<Rightarrow> string \<Rightarrow> authorization_mode \<Rightarrow> (cosmos_msg list, std_error) result"
where
  "tokenfactory_msgs d env label mode =
     (let self = env_contract_address env; denom = build_tokenfactory_denom self label
      in case mode of
           Permissionless \<Rightarrow> Ok []
         | Permissioned (WithCallLimit call_limits) \<Rightarrow>
             and_then (try_map (\<lambda>(a, limit).
               and_then (addr_validate (d_api d) a) (\<lambda>_. Ok (mint_msg d self a limit denom))) call_limits)
             (\<lambda>mints. Ok (create_denom_msg d self label # mints))
         | Permissioned (WithoutCallLimit addrs) \<Rightarrow>
             and_then (try_map (\<lambda>a.
               and_then (addr_validate (d_api d) a) (\<lambda>_. Ok (mint_msg d self a 1 denom))) addrs)
             (\<lambda>mints. Ok (create_denom_msg d self label # mints)))"

definition create_authorization ::
  "deps \<Rightarrow> env \<Rightarrow> 'o auth_contract \<times> cosmos_msg list \<Rightarrow> authorization_info \<Rightarrow>
   ('o auth_contract \<times> cosmos_msg list, auth_error) result"
where
  "create_authorization d env = (\<lambda>(s, msgs) info.
     and_then (astd (into_authorization (d_api d) info (env_block env))) (\<lambda>a.
       if sm_has (authorizations s) (auth_label a) \<or> sm_has (zk_authorizations s) (auth_label a)
       then Err (AuthorizationErr (LabelAlreadyExists (auth_label a)))
       else
         and_then (validate d (external_domains s) a) (\<lambda>_.
         and_then (astd (tokenfactory_msgs d env (auth_label a) (auth_mode a))) (\<lambda>ms.
           Ok (s\<lparr>authorizations := sm_set (auth_label a) a (authorizations s)\<rparr>, msgs @ ms)))))"

definition create_authorizations ::
  "deps \<Rightarrow> 'o auth_contract \<Rightarrow> env \<Rightarrow> authorization_info list \<Rightarrow> 'o auth_result"
where
  "create_authorizations d s env infos =
     and_then (try_fold (create_authorization d env) (s, []) infos) (\<lambda>(s', msgs).
       Ok (s', add_messages msgs (add_attribute ''action'' ''create_authorizations'' response_new)))"

definition create_zk_authorization ::
  "deps \<Rightarrow> env \<Rightarrow> 'o auth_contract \<times> cosmos_msg list \<Rightarrow> zk_authorization_info \<Rightarrow>
   ('o auth_contract \<times> cosmos_msg list, auth_error) result"
where
  "create_zk_authorization d env = (\<lambda>(s, msgs) info.
     and_then (astd (into_zk_authorization (d_api d) info)) (\<lambda>z.
       if sm_has (authorizations s) (za_label z) \<or> sm_has (zk_authorizations s) (za_label z)
       then Err (AuthorizationErr (LabelAlreadyExists (za_label z)))
       else if za_label z = [] then Err (AuthorizationErr EmptyLabel)
       else
         and_then (astd (tokenfactory_msgs d env (za_label z) (za_mode z))) (\<lambda>ms.
           Ok (s\<lparr>zk_authorizations := sm_set (za_label z) z (zk_authorizations s)\<rparr>, msgs @ ms))))"

definition create_zk_authorizations ::
  "deps \<Rightarrow> 'o auth_contract \<Rightarrow> env \<Rightarrow> zk_authorization_info list \<Rightarrow> 'o auth_result"
where
  "create_zk_authorizations d s env infos =
     and_then (try_fold (create_zk_authorization d env) (s, []) infos) (\<lambda>(s', msgs).
       Ok (s', add_messages msgs (add_attribute ''action'' ''create_zk_authorizations'' response_new)))"

definition modify_authorization ::
  "deps \<Rightarrow> 'o auth_contract \<Rightarrow> string \<Rightarrow> expiration option \<Rightarrow> expiration option \<Rightarrow> u64 option \<Rightarrow>
   priority option \<Rightarrow> 'o auth_result"
where
  "modify_authorization d s label not_before expiration max_concurrent prio =
     and_then (ok_or (AuthorizationErr (DoesNotExist label)) (sm_get (authorizations s) label)) (\<lambda>a.
     let a1 = (case not_before of Some t \<Rightarrow> a\<lparr>auth_not_before := t\<rparr> | None \<Rightarrow> a);
         a2 = (case expiration of Some t \<Rightarrow> a1\<lparr>auth_expiration := t\<rparr> | None \<Rightarrow> a1);
         a3 = (case max_concurrent of
                 Some n \<Rightarrow> a2\<lparr>auth_max_concurrent_executions := n\<rparr> | None \<Rightarrow> a2);
         a4 = (case prio of Some p \<Rightarrow> a3\<lparr>auth_priority := p\<rparr> | None \<Rightarrow> a3)
     in and_then (validate d (external_domains s) a4) (\<lambda>_.
          Ok (s\<lparr>authorizations := sm_set label a4 (authorizations s)\<rparr>,
              add_attribute ''action'' ''modify_authorization'' response_new)))"

definition modify_zk_authorization ::
  "'o auth_contract \<Rightarrow> string \<Rightarrow> bool option \<Rightarrow> 'o auth_result"
where
  "modify_zk_authorization s label validate_last_block =
     and_then (ok_or (AuthorizationErr (DoesNotExist label)) (sm_get (zk_authorizations s) label)) (\<lambda>z.
     let z' = (case validate_last_block of
                 Some v \<Rightarrow> z\<lparr>za_validate_last_block_execution := v\<rparr> | None \<Rightarrow> z)
     in Ok (s\<lparr>zk_authorizations := sm_set label z' (zk_authorizations s)\<rparr>,
            add_attribute ''action'' ''modify_zk_authorization'' response_new))"

definition set_authorization_state ::
  "'o auth_contract \<Rightarrow> string \<Rightarrow> authorization_state \<Rightarrow> ('o auth_contract, auth_error) result"
where
  "set_authorization_state s label st =
     (case sm_get (authorizations s) label of
        Some a \<Rightarrow>
          Ok (s\<lparr>authorizations := sm_set label (a\<lparr>auth_state := st\<rparr>) (authorizations s)\<rparr>)
      | None \<Rightarrow>
          and_then (ok_or (AuthorizationErr (DoesNotExist label)) (sm_get (zk_authorizations s) label))
          (\<lambda>z.
            Ok (s\<lparr>zk_authorizations := sm_set label (z\<lparr>za_state := st\<rparr>) (zk_authorizations s)\<rparr>)))"

definition disable_authorization :: "'o auth_contract \<Rightarrow> string \<Rightarrow> 'o auth_result" where
  "disable_authorization s label =
     and_then (set_authorization_state s label Disabled) (\<lambda>s'.
       Ok (s', add_attribute ''action'' ''disable_authorization'' response_new))"

definition enable_authorization :: "'o auth_contract \<Rightarrow> string \<Rightarrow> 'o auth_result" where
  "enable_authorization s label =
     and_then (set_authorization_state s label Enabled) (\<lambda>s'.
       Ok (s', add_attribute ''action'' ''enable_authorization'' response_new))"

definition mint_authorizations ::
  "deps \<Rightarrow> 'o auth_contract \<Rightarrow> env \<Rightarrow> string \<Rightarrow> mint list \<Rightarrow> 'o auth_result"
where
  "mint_authorizations d s env label mints =
     and_then (get_authorization_mode s label) (\<lambda>mode.
       case mode of
         Permissioned _ \<Rightarrow>
           Ok (s, add_messages
             (map (\<lambda>m. mint_msg d (env_contract_address env) (mint_address m) (mint_amount m)
                (build_tokenfactory_denom (env_contract_address env) label)) mints)
             (add_attribute ''action'' ''mint_authorizations'' response_new))
       | Permissionless \<Rightarrow> Err (AuthorizationErr CantMintForPermissionless))"

section \<open>Messages to the processors\<close>

definition pause_processor :: "deps \<Rightarrow> 'o auth_contract \<Rightarrow> domain \<Rightarrow> 'o auth_result" where
  "pause_processor d s dest =
     and_then (astd (execute_msg_binary d s dest Pause (Ok EncPause))) (\<lambda>bytes.
     and_then (astd (create_msg_for_processor d s bytes dest None)) (\<lambda>msg.
       Ok (s, add_attribute ''action'' ''pause_processor'' (add_messages [msg] response_new))))"

definition resume_processor :: "deps \<Rightarrow> 'o auth_contract \<Rightarrow> domain \<Rightarrow> 'o auth_result" where
  "resume_processor d s dest =
     and_then (astd (execute_msg_binary d s dest Resume (Ok EncResume))) (\<lambda>bytes.
     and_then (astd (create_msg_for_processor d s bytes dest None)) (\<lambda>msg.
       Ok (s, add_attribute ''action'' ''resume_processor'' (add_messages [msg] response_new))))"

text \<open>The callback request for the bridge: it returns the execution id.\<close>

definition execution_callback_request :: "deps \<Rightarrow> env \<Rightarrow> u64 \<Rightarrow> callback_request" where
  "execution_callback_request d env i =
     \<lparr>cr_receiver = env_contract_address env,
      cr_msg = enc_auth_polytone_callback (d_codec d) (AuthExecutionID i)\<rparr>"

text \<open>
  When a batch of the subroutine expires if it is sent now; an overflow of the sum means that it
  never does.
\<close>

definition batch_expiration :: "subroutine \<Rightarrow> env \<Rightarrow> u64 option" where
  "batch_expiration sub env =
     Option.bind (get_expiration_time sub) (\<lambda>t. checked_add_u64 t (block_seconds (env_block env)))"

definition insert_messages ::
  "deps \<Rightarrow> 'o auth_contract \<Rightarrow> env \<Rightarrow> string \<Rightarrow> u64 \<Rightarrow> priority \<Rightarrow> processor_message list \<Rightarrow>
   'o auth_result"
where
  "insert_messages d s env label queue_position prio messages =
     and_then (ok_or (AuthorizationErr (DoesNotExist label)) (sm_get (authorizations s) label)) (\<lambda>a.
     and_then (validate_messages d a messages) (\<lambda>_.
     and_then (astd (increase_current_executions s label)) (\<lambda>s1.
     and_then (get_domain a) (\<lambda>dest.
     let (i, s2) = get_and_increase_execution_id s1;
         sub = auth_subroutine a;
         expiration_time = batch_expiration sub env
     in and_then (astd (execute_msg_binary d s2 dest
             (InsertMsgs queue_position i messages sub prio expiration_time)
             (map_ok (EncInsertMsgs i queue_position prio sub expiration_time)
               (convert_into_encoder_messages messages a)))) (\<lambda>bytes.
        and_then (astd (create_msg_for_processor d s2 bytes dest
             (Some (execution_callback_request d env i)))) (\<lambda>msg.
        and_then (astd (store_inprocess_callback s2 (block_seconds (env_block env)) i Owner dest label
             None messages)) (\<lambda>s3.
          Ok (s3, add_attribute ''authorization_label'' (auth_label a)
                    (add_attribute ''action'' ''add_messages'' (add_messages [msg] response_new))))))))))"

definition evict_messages ::
  "deps \<Rightarrow> 'o auth_contract \<Rightarrow> domain \<Rightarrow> u64 \<Rightarrow> priority \<Rightarrow> 'o auth_result"
where
  "evict_messages d s dest queue_position prio =
     and_then (astd (execute_msg_binary d s dest (EvictMsgs queue_position prio)
       (Ok (EncEvictMsgs queue_position prio)))) (\<lambda>bytes.
     and_then (astd (create_msg_for_processor d s bytes dest None)) (\<lambda>msg.
       Ok (s, add_attribute ''action'' ''remove_messages'' (add_messages [msg] response_new))))"

definition send_msgs ::
  "deps \<Rightarrow> 'o auth_contract \<Rightarrow> env \<Rightarrow> message_info \<Rightarrow> string \<Rightarrow> expiration option \<Rightarrow>
   processor_message list \<Rightarrow> 'o auth_result"
where
  "send_msgs d s env info label ttl messages =
     and_then (ok_or (AuthorizationErr (DoesNotExist label)) (sm_get (authorizations s) label)) (\<lambda>a.
     and_then (validate_executable d a (env_block env) (env_contract_address env) info messages) (\<lambda>_.
       if executions_of s label \<ge> auth_max_concurrent_executions a
       then Err (AuthorizationErr MaxConcurrentExecutionsReached)
       else
         and_then (astd (increase_current_executions s label)) (\<lambda>s1.
         and_then (get_domain a) (\<lambda>dest.
         let (i, s2) = get_and_increase_execution_id s1;
             sub = auth_subroutine a;
             expiration_time = batch_expiration sub env
         in and_then (astd (execute_msg_binary d s2 dest
                 (EnqueueMsgs i messages sub (auth_priority a) expiration_time)
                 (map_ok (EncSendMsgs i (auth_priority a) sub expiration_time)
                   (convert_into_encoder_messages messages a)))) (\<lambda>bytes.
            and_then (astd (create_msg_for_processor d s2 bytes dest
                 (Some (execution_callback_request d env i)))) (\<lambda>msg.
            and_then (astd (store_inprocess_callback s2 (block_seconds (env_block env)) i
                 (User (info_sender info)) dest label ttl messages)) (\<lambda>s3.
              Ok (s3, add_attribute ''authorization_label'' (auth_label a)
                        (add_attribute ''action'' ''send_msgs''
                          (add_messages [msg] response_new))))))))))"

section \<open>ZK authorizations\<close>

definition set_verification_router :: "deps \<Rightarrow> 'o auth_contract \<Rightarrow> string \<Rightarrow> 'o auth_result" where
  "set_verification_router d s address =
     and_then (astd (addr_validate (d_api d) address)) (\<lambda>a.
       Ok (s\<lparr>verification_router := Some a\<rparr>,
           add_attribute ''contract'' address
             (add_attribute ''action'' ''set_verification_router'' response_new)))"

definition update_zk_authorization_route ::
  "'o auth_contract \<Rightarrow> string \<Rightarrow> string \<Rightarrow> 'o auth_result"
where
  "update_zk_authorization_route s label new_route =
     and_then (ok_or (AuthorizationErr (DoesNotExist label)) (sm_get (zk_authorizations s) label)) (\<lambda>z.
       Ok (s\<lparr>zk_authorizations :=
               sm_set label (z\<lparr>za_verification_route := new_route\<rparr>) (zk_authorizations s)\<rparr>,
           add_attribute ''new_route'' new_route
             (add_attribute ''action'' ''update_route'' response_new)))"

text \<open>The proof of a ZK message: enabled, permitted, routed, and verified by the router.\<close>

definition verify_zk_proof ::
  "deps \<Rightarrow> 'o auth_contract \<Rightarrow> env \<Rightarrow> message_info \<Rightarrow> zk_authorization \<Rightarrow> binary \<Rightarrow> binary \<Rightarrow> binary \<Rightarrow>
   (unit, auth_error) result"
where
  "verify_zk_proof d s env info z inputs proof payload =
     (if za_state z \<noteq> Enabled then Err (AUnauthorized NotEnabled)
      else
        and_then (ok_or (ZK VerificationRouterNotSet) (verification_router s)) (\<lambda>router.
        and_then (validate_permission d (za_label z) (za_mode z) (env_contract_address env) info) (\<lambda>_.
        and_then (map_err (\<lambda>_. ZK InvalidVerificationRoute)
          (router_get_route (d_querier d) router (za_verification_route z))) (\<lambda>_.
        and_then (astd (router_verify (d_querier d) router (za_verification_route z) (za_vk z) inputs
          proof payload)) (\<lambda>valid.
          ensure valid (ZK InvalidZKProof))))))"

text \<open>
  The message inside a proven input: the first 32 bytes are dropped (an input that is shorter
  panics) and the rest is decoded.
\<close>

definition zk_message_of :: "deps \<Rightarrow> binary \<Rightarrow> (zk_message, std_error) result" where
  "zk_message_of d inputs =
     (if length inputs < 32 then Err (Panic ''range start index 32 out of range for slice'')
      else dec_zk_message (d_codec d) (drop 32 inputs))"

definition check_zk_message ::
  "'o auth_contract \<Rightarrow> env \<Rightarrow> zk_authorization \<Rightarrow> zk_message \<Rightarrow> (unit, auth_error) result"
where
  "check_zk_message s env z m =
     and_then (ensure (zm_registry m = za_registry z) (ZK InvalidZKRegistry)) (\<lambda>_.
     and_then (case zm_authorization_contract m of
         Some c \<Rightarrow> ensure (c = env_contract_address env) (ZK InvalidAuthorizationContract)
       | None \<Rightarrow> Ok ()) (\<lambda>_.
       case zm_domain m of
         Main \<Rightarrow> Ok ()
       | External name \<Rightarrow>
           and_then (astd (load (sm_get (external_domains s) name))) (\<lambda>ed.
             case ed_execution_environment ed of
               Cosmwasm _ \<Rightarrow> Ok ()
             | Evm _ _ \<Rightarrow> Err (ZK InvalidDomain))))"

definition check_last_block ::
  "'o auth_contract \<Rightarrow> zk_authorization \<Rightarrow> zk_message \<Rightarrow> ('o auth_contract, auth_error) result"
where
  "check_last_block s z m =
     (if za_validate_last_block_execution z then
        (let last_block =
               (case sm_get (registry_last_block_execution s) (za_registry z) of
                  Some b \<Rightarrow> b | None \<Rightarrow> 0)
         in if last_block \<ge> zm_block_number m then Err (ZK ProofNoLongerValid)
            else Ok (s\<lparr>registry_last_block_execution :=
                         sm_set (za_registry z) (zm_block_number m)
                           (registry_last_block_execution s)\<rparr>))
      else Ok s)"

text \<open>The messages a ZK message enqueues or inserts, if it does.\<close>

fun queued_msgs :: "authorization_msg \<Rightarrow> processor_message list option" where
  "queued_msgs (EnqueueMsgs _ msgs _ _ _) = Some msgs"
| "queued_msgs (InsertMsgs _ _ msgs _ _ _) = Some msgs"
| "queued_msgs _ = None"

definition execute_zk_authorization ::
  "deps \<Rightarrow> 'o auth_contract \<Rightarrow> env \<Rightarrow> message_info \<Rightarrow> string \<Rightarrow> binary \<Rightarrow> binary \<Rightarrow> binary \<Rightarrow> 'o auth_result"
where
  "execute_zk_authorization d s env info label inputs proof payload =
     and_then (ok_or (AuthorizationErr (DoesNotExist label)) (sm_get (zk_authorizations s) label)) (\<lambda>z.
     and_then (verify_zk_proof d s env info z inputs proof payload) (\<lambda>_.
     and_then (astd (zk_message_of d inputs)) (\<lambda>m.
     and_then (check_zk_message s env z m) (\<lambda>_.
     and_then (check_last_block s z m) (\<lambda>s1.
     and_then (case queued_msgs (zm_message m) of
         Some msgs \<Rightarrow>
           and_then (astd (increase_current_executions s1 label)) (\<lambda>s2.
           let (i, s3) = get_and_increase_execution_id s2
           in and_then (astd (store_inprocess_callback s3 (block_seconds (env_block env)) i
                   (User (info_sender info)) (zm_domain m) label None msgs)) (\<lambda>s4.
                Ok (s4, assign_execution_id (zm_message m) i,
                    Some (execution_callback_request d env i))))
       | None \<Rightarrow> Ok (s1, zm_message m, None)) (\<lambda>(s5, processor_msg, callback_request).
     and_then (astd (create_msg_for_processor d s5
         (enc_processor_execute (d_codec d) (AuthorizationModuleAction processor_msg))
         (zm_domain m) callback_request)) (\<lambda>msg.
       Ok (s5, add_attribute ''zk_authorization_label'' (za_label z)
                 (add_attribute ''action'' ''execute_zk_authorization''
                   (add_messages [msg] response_new))))))))))"

section \<open>Retries\<close>

text \<open>The token that was sent for the execution goes back to its user.\<close>

definition refund_msg :: "env \<Rightarrow> string \<Rightarrow> addr \<Rightarrow> cosmos_msg" where
  "refund_msg env label initiator_addr =
     BankSend initiator_addr
       [\<lparr>coin_denom = build_tokenfactory_denom (env_contract_address env) label, coin_amount = 1\<rparr>]"

text \<open>The user who paid a token for an execution, if one was paid.\<close>

definition paying_user :: "operation_initiator \<Rightarrow> authorization_mode \<Rightarrow> addr option" where
  "paying_user initiator mode =
     (case (initiator, mode) of
        (User a, Permissioned (WithCallLimit _)) \<Rightarrow> Some a
      | _ \<Rightarrow> None)"

definition retry_msgs :: "deps \<Rightarrow> 'o auth_contract \<Rightarrow> env \<Rightarrow> u64 \<Rightarrow> 'o auth_result" where
  "retry_msgs d s env execution_id =
     and_then (ok_or (ExecutionIDNotFound execution_id) (sm_get (processor_callbacks s) execution_id))
     (\<lambda>cb.
       if pci_execution_result cb \<noteq> Timeout True then Err (MessageErr NotRetriable)
       else
         and_then
           (if (case pci_ttl cb of
                  Some ttl \<Rightarrow> \<not> is_expired (d_api d) ttl (env_block env)
                | None \<Rightarrow> False)
            then
              and_then (astd (load (sm_get (current_executions s) (pci_label cb)))) (\<lambda>current.
              and_then (astd (load (sm_get (authorizations s) (pci_label cb)))) (\<lambda>a.
                if current \<ge> auth_max_concurrent_executions a
                then Err (AuthorizationErr MaxConcurrentExecutionsReached)
                else
                  and_then (astd (increase_current_executions s (pci_label cb))) (\<lambda>s1.
                  and_then (astd (create_msg_for_processor d s1
                    (enc_processor_execute (d_codec d) (AuthorizationModuleAction
                      (EnqueueMsgs execution_id (pci_messages cb) (auth_subroutine a)
                        (auth_priority a) (batch_expiration (auth_subroutine a) env))))
                    (pci_domain cb) (Some (execution_callback_request d env execution_id)))) (\<lambda>msg.
                    Ok (s1, cb\<lparr>pci_execution_result := InProcess,
                               pci_last_updated_at := block_seconds (env_block env)\<rparr>, [msg])))))
            else
              and_then (astd (load (sm_get (authorizations s) (pci_label cb)))) (\<lambda>a.
                case paying_user (pci_initiator cb) (auth_mode a) of
                  Some initiator_addr \<Rightarrow>
                    Ok (s, cb\<lparr>pci_execution_result := Timeout False,
                              pci_last_updated_at := block_seconds (env_block env)\<rparr>,
                        [refund_msg env (pci_label cb) initiator_addr])
                | None \<Rightarrow> Ok (s, cb, [])))
         (\<lambda>(s', cb', messages).
           Ok (s'\<lparr>processor_callbacks := sm_set execution_id cb' (processor_callbacks s')\<rparr>,
               add_attribute ''action'' ''retry_msgs'' (add_messages messages response_new))))"

definition retry_bridge_creation ::
  "deps \<Rightarrow> 'o auth_contract \<Rightarrow> env \<Rightarrow> string \<Rightarrow> 'o auth_result"
where
  "retry_bridge_creation d s env domain_name =
     and_then (astd (load (sm_get (external_domains s) domain_name))) (\<lambda>ed.
       case ed_execution_environment ed of
         Cosmwasm (Polytone c) \<Rightarrow>
           if pn_state (polytone_note c) \<noteq> TimedOut
           then Err (AUnauthorized BridgeCreationNotTimedOut)
           else
             Ok (s\<lparr>external_domains :=
                     sm_set domain_name
                       (ed\<lparr>ed_execution_environment :=
                             Cosmwasm (Polytone (set_polytone_proxy_state PendingResponse c))\<rparr>)
                       (external_domains s)\<rparr>,
                 add_attribute ''action'' ''retry_bridge_creation''
                   (add_messages
                     [create_proxy_msg d (polytone_note c) (env_contract_address env) domain_name]
                     response_new))
       | Evm _ _ \<Rightarrow> Err BridgeCreationNotRequired)"

section \<open>Callbacks\<close>

text \<open>
  What happens to the token of a finished execution: burned when something was executed or the owner
  removed it, sent back otherwise.
\<close>

definition settle_msg :: "deps \<Rightarrow> env \<Rightarrow> string \<Rightarrow> addr \<Rightarrow> execution_result \<Rightarrow> cosmos_msg" where
  "settle_msg d env label initiator_addr result =
     (let burn = burn_msg d (env_contract_address env) 1
            (build_tokenfactory_denom (env_contract_address env) label)
      in case result of
           Success \<Rightarrow> burn
         | PartiallyExecuted _ _ \<Rightarrow> burn
         | RemovedByOwner \<Rightarrow> burn
         | _ \<Rightarrow> refund_msg env label initiator_addr)"

definition process_processor_callback ::
  "deps \<Rightarrow> 'o auth_contract \<Rightarrow> env \<Rightarrow> message_info \<Rightarrow> u64 \<Rightarrow> execution_result \<Rightarrow> 'o auth_result"
where
  "process_processor_callback d s env info execution_id result =
     and_then (astd (load (sm_get (processor_callbacks s) execution_id))) (\<lambda>cb.
       if info_sender info \<noteq> pci_processor_callback_address cb
       then Err (AUnauthorized UnauthorizedProcessorCallbackSender)
       else
         (let cb' = cb\<lparr>pci_execution_result := result,
                       pci_last_updated_at := block_seconds (env_block env)\<rparr>;
              s1 = s\<lparr>processor_callbacks := sm_set execution_id cb' (processor_callbacks s)\<rparr>
          in and_then (decrease_current_executions s1 (pci_label cb')) (\<lambda>s2.
             and_then (get_authorization_mode s2 (pci_label cb')) (\<lambda>mode.
             let messages =
                   (case paying_user (pci_initiator cb') mode of
                      Some initiator_addr \<Rightarrow>
                        [settle_msg d env (pci_label cb') initiator_addr result]
                    | None \<Rightarrow> [])
             in Ok (s2, add_attribute ''execution_id'' (string_of_nat execution_id)
                          (add_attribute ''action'' ''process_processor_callback''
                            (add_messages messages response_new)))))))"

text \<open>A callback of the bridge for an execution.\<close>

definition process_bridge_result ::
  "deps \<Rightarrow> 'o auth_contract \<Rightarrow> env \<Rightarrow> message_info \<Rightarrow> u64 \<Rightarrow> callback \<Rightarrow>
   ('o auth_contract \<times> cosmos_msg list, auth_error) result"
where
  "process_bridge_result d s env info execution_id result =
     and_then (astd (load (sm_get (processor_callbacks s) execution_id))) (\<lambda>cb.
       if pci_bridge_callback_address cb \<noteq> Some (info_sender info)
       then Err (AUnauthorized UnauthorizedCallbackSender)
       else
         (case result of
            CallbackExecute (Ok _) \<Rightarrow> Ok (s, [])
          | CallbackExecute (Err error) \<Rightarrow>
              if pci_execution_result cb \<noteq> InProcess then Ok (s, [])
              else
                (let expired =
                       (case pci_ttl cb of
                          Some ttl \<Rightarrow> is_expired (d_api d) ttl (env_block env)
                        | None \<Rightarrow> True)
                 in and_then
                      (if error = ''timeout'' then
                         (if expired then
                            and_then (get_authorization_mode s (pci_label cb)) (\<lambda>mode.
                              Ok (Timeout False,
                                  case paying_user (pci_initiator cb) mode of
                                    Some initiator_addr \<Rightarrow> [refund_msg env (pci_label cb) initiator_addr]
                                  | None \<Rightarrow> []))
                          else Ok (Timeout True, []))
                       else Ok (UnexpectedError error, []))
                    (\<lambda>(new_result, messages).
                    let cb' = cb\<lparr>pci_execution_result := new_result,
                                 pci_last_updated_at := block_seconds (env_block env)\<rparr>;
                        s1 = s\<lparr>processor_callbacks := sm_set execution_id cb' (processor_callbacks s)\<rparr>
                    in and_then (decrease_current_executions s1 (pci_label cb')) (\<lambda>s2.
                         Ok (s2, messages))))
          | CallbackFatalError error \<Rightarrow>
              (let cb' = cb\<lparr>pci_execution_result := UnexpectedError error,
                            pci_last_updated_at := block_seconds (env_block env)\<rparr>;
                   s1 = s\<lparr>processor_callbacks := sm_set execution_id cb' (processor_callbacks s)\<rparr>
               in and_then (decrease_current_executions s1 (pci_label cb')) (\<lambda>s2. Ok (s2, [])))
          | CallbackQuery _ \<Rightarrow> Err (MessageErr InvalidPolytoneCallback)))"

text \<open>A callback of the bridge for the creation of its proxy.\<close>

definition process_proxy_result ::
  "'o auth_contract \<Rightarrow> message_info \<Rightarrow> string \<Rightarrow> callback \<Rightarrow> ('o auth_contract, auth_error) result"
where
  "process_proxy_result s info domain_name result =
     and_then (astd (load (sm_get (external_domains s) domain_name))) (\<lambda>ed.
       if info_sender info \<noteq> get_connector_address (ed_execution_environment ed)
       then Err (AUnauthorized UnauthorizedCallbackSender)
       else
         (case ed_execution_environment ed of
            Cosmwasm (Polytone c) \<Rightarrow>
              and_then
                (case result of
                   CallbackExecute r \<Rightarrow>
                     Ok (set_polytone_proxy_state
                           (if r = Err ''timeout'' \<and> get_polytone_proxy_state c = PendingResponse
                            then TimedOut else Created) c)
                 | CallbackFatalError error \<Rightarrow>
                     Ok (set_polytone_proxy_state (ProxyUnexpectedError error) c)
                 | CallbackQuery _ \<Rightarrow> Err (MessageErr InvalidPolytoneCallback))
              (\<lambda>c'.
                Ok (s\<lparr>external_domains :=
                        sm_set domain_name
                          (ed\<lparr>ed_execution_environment := Cosmwasm (Polytone c')\<rparr>)
                          (external_domains s)\<rparr>))
          | Evm _ _ \<Rightarrow> Err (MessageErr InvalidPolytoneCallback)))"

definition process_polytone_callback ::
  "deps \<Rightarrow> 'o auth_contract \<Rightarrow> env \<Rightarrow> message_info \<Rightarrow> callback_message \<Rightarrow> 'o auth_result"
where
  "process_polytone_callback d s env info callback_msg =
     (if cm_initiator callback_msg \<noteq> env_contract_address env
      then Err (AUnauthorized InvalidPolytoneCallbackInitiator)
      else
        and_then (map_err (\<lambda>_. MessageErr InvalidPolytoneCallback)
          (dec_auth_polytone_callback (d_codec d) (cm_initiator_msg callback_msg))) (\<lambda>m.
        and_then
          (case m of
             AuthExecutionID execution_id \<Rightarrow>
               process_bridge_result d s env info execution_id (cm_result callback_msg)
           | AuthCreateProxy domain_name \<Rightarrow>
               and_then (process_proxy_result s info domain_name (cm_result callback_msg)) (\<lambda>s'.
                 Ok (s', [])))
        (\<lambda>(s', messages).
          Ok (s', add_attribute ''action'' ''process_polytone_callback''
                    (add_messages messages response_new)))))"

text \<open>
  The encoder of the first registered domain, in the order of names, whose mailbox, domain id and
  processor match the sender of a Hyperlane message.
\<close>

definition hyperlane_encoder ::
  "deps \<Rightarrow> message_info \<Rightarrow> handle_msg \<Rightarrow> external_domain \<Rightarrow> encoder option"
where
  "hyperlane_encoder d info handle ed =
     (case ed_execution_environment ed of
        Evm encoder (Hyperlane connector) \<Rightarrow>
          if mailbox connector \<noteq> info_sender info then None
          else if domain_id connector \<noteq> hm_origin handle then None
          else
            (case format_address_for_hyperlane d (ed_processor ed) of
               Ok formatted_address \<Rightarrow>
                 if formatted_address = hm_sender handle then Some encoder else None
             | Err _ \<Rightarrow> None)
      | Cosmwasm _ \<Rightarrow> None)"

fun find_map :: "('a \<Rightarrow> 'b option) \<Rightarrow> 'a list \<Rightarrow> 'b option" where
  "find_map f [] = None"
| "find_map f (x # xs) = (case f x of Some y \<Rightarrow> Some y | None \<Rightarrow> find_map f xs)"

definition process_hyperlane_callback ::
  "deps \<Rightarrow> 'o auth_contract \<Rightarrow> env \<Rightarrow> message_info \<Rightarrow> handle_msg \<Rightarrow> 'o auth_result"
where
  "process_hyperlane_callback d s env info handle =
     and_then (ok_or (AUnauthorized UnauthorizedCallbackSender)
       (find_map (hyperlane_encoder d info handle) (sm_values (external_domains s)))) (\<lambda>encoder.
     and_then (astd (broker_decode (d_querier d) (broker_address encoder) (encoder_version encoder)
       (hm_body handle))) (\<lambda>wrapped_callback.
     and_then (astd (dec_internal_authorization (d_codec d) wrapped_callback)) (\<lambda>m.
       case m of
         ProcessorCallback execution_id result \<Rightarrow>
           and_then (astd (load (sm_get (processor_callbacks s) execution_id))) (\<lambda>cb.
           let cb' = cb\<lparr>pci_execution_result := result,
                        pci_last_updated_at := block_seconds (env_block env)\<rparr>;
               s1 = s\<lparr>processor_callbacks := sm_set execution_id cb' (processor_callbacks s)\<rparr>
           in and_then (decrease_current_executions s1 (pci_label cb')) (\<lambda>s2.
                Ok (s2, add_attribute ''execution_id'' (string_of_nat execution_id)
                          (add_attribute ''action'' ''process_hyperlane_callback'' response_new)))))))"

section \<open>Entry point\<close>

definition permissioned_action ::
  "deps \<Rightarrow> 'o auth_contract \<Rightarrow> env \<Rightarrow> permissioned_msg \<Rightarrow> 'o auth_result"
where
  "permissioned_action d s env msg =
     (case msg of
        AddExternalDomains infos \<Rightarrow> add_external_domains d s env infos
      | CreateAuthorizations infos \<Rightarrow> create_authorizations d s env infos
      | CreateZkAuthorizations infos \<Rightarrow> create_zk_authorizations d s env infos
      | ModifyAuthorization label not_before expiration max_concurrent prio \<Rightarrow>
          modify_authorization d s label not_before expiration max_concurrent prio
      | ModifyZkAuthorization label validate_last_block \<Rightarrow>
          modify_zk_authorization s label validate_last_block
      | DisableAuthorization label \<Rightarrow> disable_authorization s label
      | EnableAuthorization label \<Rightarrow> enable_authorization s label
      | MintAuthorizations label mints \<Rightarrow> mint_authorizations d s env label mints
      | PmEvictMsgs dest queue_position prio \<Rightarrow> evict_messages d s dest queue_position prio
      | PmInsertMsgs label queue_position prio messages \<Rightarrow>
          insert_messages d s env label queue_position prio messages
      | PauseProcessor dest \<Rightarrow> pause_processor d s dest
      | ResumeProcessor dest \<Rightarrow> resume_processor d s dest
      | SetVerificationRouter address \<Rightarrow> set_verification_router d s address
      | UpdateZkAuthorizationRoute label new_route \<Rightarrow> update_zk_authorization_route s label new_route)"

definition permissionless_action ::
  "deps \<Rightarrow> 'o auth_contract \<Rightarrow> env \<Rightarrow> message_info \<Rightarrow> auth_permissionless_msg \<Rightarrow> 'o auth_result"
where
  "permissionless_action d s env info msg =
     (case msg of
        SendMsgs label messages ttl \<Rightarrow> send_msgs d s env info label ttl messages
      | RetryMsgs execution_id \<Rightarrow> retry_msgs d s env execution_id
      | AuthRetryBridgeCreation domain_name \<Rightarrow> retry_bridge_creation d s env domain_name
      | ExecuteZkAuthorization label inputs proof payload \<Rightarrow>
          execute_zk_authorization d s env info label inputs proof payload)"

definition execute ::
  "'o ownable \<Rightarrow> deps \<Rightarrow> 'o auth_contract \<Rightarrow> env \<Rightarrow> message_info \<Rightarrow> authorization_execute_msg \<Rightarrow>
   'o auth_result"
where
  "execute ow d s env info msg =
     (case msg of
        UpdateOwnership action \<Rightarrow> update_ownership ow s env info action
      | OwnerAction owner_msg \<Rightarrow>
          and_then (map_err Ownership (assert_owner ow (ownership s) (info_sender info))) (\<lambda>_.
            case owner_msg of
              AddSubOwner sub_owner \<Rightarrow> add_sub_owner d s sub_owner
            | RemoveSubOwner sub_owner \<Rightarrow> remove_sub_owner d s sub_owner)
      | PermissionedAction m \<Rightarrow>
          and_then (assert_owner_or_subowner ow s (info_sender info)) (\<lambda>_.
            permissioned_action d s env m)
      | AuthPermissionlessAction m \<Rightarrow> permissionless_action d s env info m
      | InternalAuthorizationAction m \<Rightarrow>
          (case m of
             ProcessorCallback execution_id result \<Rightarrow>
               process_processor_callback d s env info execution_id result)
      | AuthPolytoneCallback callback_msg \<Rightarrow> process_polytone_callback d s env info callback_msg
      | HyperlaneCallback handle \<Rightarrow> process_hyperlane_callback d s env info handle)"

section \<open>Queries\<close>

definition max_page_limit :: u32 where
  "max_page_limit = 250"

definition get_sub_owners :: "'o auth_contract \<Rightarrow> addr list" where
  "get_sub_owners s = map fst (sub_owners s)"

definition get_external_domains ::
  "'o auth_contract \<Rightarrow> string option \<Rightarrow> u32 option \<Rightarrow> external_domain list"
where
  "get_external_domains s start_after limit =
     sm_values (sm_page max_page_limit (external_domains s) start_after limit)"

definition get_external_domain :: "'o auth_contract \<Rightarrow> string \<Rightarrow> (external_domain, std_error) result" where
  "get_external_domain s name = load (sm_get (external_domains s) name)"

definition get_authorizations ::
  "'o auth_contract \<Rightarrow> string option \<Rightarrow> u32 option \<Rightarrow> authorization list"
where
  "get_authorizations s start_after limit =
     sm_values (sm_page max_page_limit (authorizations s) start_after limit)"

definition get_zk_authorizations ::
  "'o auth_contract \<Rightarrow> string option \<Rightarrow> u32 option \<Rightarrow> zk_authorization list"
where
  "get_zk_authorizations s start_after limit =
     sm_values (sm_page max_page_limit (zk_authorizations s) start_after limit)"

definition get_verification_router :: "'o auth_contract \<Rightarrow> (addr, std_error) result" where
  "get_verification_router s = load (verification_router s)"

definition get_processor_callbacks ::
  "'o auth_contract \<Rightarrow> u64 option \<Rightarrow> u32 option \<Rightarrow> processor_callback_info list"
where
  "get_processor_callbacks s start_after limit =
     sm_values (sm_page max_page_limit (processor_callbacks s) start_after limit)"

definition get_processor_callback ::
  "'o auth_contract \<Rightarrow> u64 \<Rightarrow> (processor_callback_info, std_error) result"
where
  "get_processor_callback s execution_id = load (sm_get (processor_callbacks s) execution_id)"

end
