(* ===== verification/Authorization_Invariants.thy ===== *)
theory Authorization_Invariants
  imports Authorization
begin

text \<open>
  What every handler of the authorization contract keeps. First what validation guarantees of a
  stored authorization, then the effect of the helpers, then the invariant of reachable states:
  labels are unique across both kinds of authorizations, every entry is stored under its own name,
  every authorization is well-formed with respect to the registered domains, and the maps are
  sorted, so that reading them page by page is complete.
\<close>

section \<open>What validation guarantees\<close>

definition functions_of :: "subroutine \<Rightarrow> func list" where
  "functions_of sub =
     (case sub of
        Atomic config \<Rightarrow> as_functions config
      | NonAtomic config \<Rightarrow> map func.truncate (ns_functions config))"

definition is_cosmwasm :: "external_domain \<Rightarrow> bool" where
  "is_cosmwasm ed = (case ed_execution_environment ed of Cosmwasm _ \<Rightarrow> True | Evm _ _ \<Rightarrow> False)"

text \<open>The kind of messages a domain takes; a domain that is not registered takes none.\<close>

definition takes_cosmwasm :: "(string, external_domain) storage_map \<Rightarrow> domain \<Rightarrow> bool option" where
  "takes_cosmwasm domains dest =
     (case dest of
        Main \<Rightarrow> Some True
      | External name \<Rightarrow> map_option is_cosmwasm (sm_get domains name))"

definition restrictions_wf :: "message_details \<Rightarrow> bool" where
  "restrictions_wf details =
     (case params_restrictions (message details) of
        None \<Rightarrow> True
      | Some rs \<Rightarrow>
          if message_type details = MtEvmRawCall then length rs \<le> 1 \<and> list_all is_bytes_restriction rs
          else \<not> list_ex is_bytes_restriction rs)"

text \<open>
  A well-formed authorization: a label, at least one function, all functions on one domain that is
  registered, messages of the kind that domain takes, restrictions that can be checked, and no high
  priority for everyone.
\<close>

definition authorization_wf :: "(string, external_domain) storage_map \<Rightarrow> authorization \<Rightarrow> bool" where
  "authorization_wf domains a \<longleftrightarrow>
     auth_label a \<noteq> [] \<and>
     (case functions_of (auth_subroutine a) of
        [] \<Rightarrow> False
      | first # _ \<Rightarrow>
          list_all (\<lambda>f. fn_domain f = fn_domain first \<and>
             takes_cosmwasm domains (fn_domain first) =
               Some (cosmwasm_type (message_type (fn_message_details f))) \<and>
             restrictions_wf (fn_message_details f))
            (functions_of (auth_subroutine a))) \<and>
     \<not> (auth_mode a = Permissionless \<and> auth_priority a = High)"

lemma at_most_one_iff:
  "(Suc 0 < length rs \<or> (length rs = Suc 0 \<and> \<not> P (rs ! 0))) \<longleftrightarrow> \<not> (length rs \<le> Suc 0 \<and> list_all P rs)"
  by (cases rs; cases "tl rs") auto

lemma validate_param_restrictions_iff:
  "validate_param_restrictions f = Ok () \<longleftrightarrow> restrictions_wf (fn_message_details f)"
  by (auto simp: validate_param_restrictions_def restrictions_wf_def at_most_one_iff Let_def
      split: option.splits message_type.splits if_splits)

lemma validate_message_type_iff:
  "validate_message_type f ed = Ok () \<longleftrightarrow>
     cosmwasm_type (message_type (fn_message_details f)) =
       (case ed of None \<Rightarrow> True | Some e \<Rightarrow> is_cosmwasm e)"
  by (auto simp: validate_message_type_def is_cosmwasm_def Let_def res_simps
      split: option.splits execution_environment.splits)

lemma validate_function_Ok:
  assumes "validate_function d dest ed f = Ok ()"
  shows "fn_domain f = dest" and "restrictions_wf (fn_message_details f)"
    and "cosmwasm_type (message_type (fn_message_details f)) =
      (case ed of None \<Rightarrow> True | Some e \<Rightarrow> is_cosmwasm e)"
  using assms
  by (simp_all add: validate_function_def and_then_Ok_iff validate_domain_def ensure_Ok_iff
      validate_param_restrictions_iff validate_message_type_iff)

lemma validate_functions_Ok:
  assumes "validate_functions d domains fs = Ok ()"
  shows "\<exists>first rest. fs = first # rest \<and>
    (\<forall>f \<in> set fs. fn_domain f = fn_domain first \<and> restrictions_wf (fn_message_details f) \<and>
       takes_cosmwasm domains (fn_domain first) =
         Some (cosmwasm_type (message_type (fn_message_details f))))"
proof (cases fs)
  case (Cons first rest)
  with assms obtain ed where ed: "(case fn_domain first of
        Main \<Rightarrow> Ok None
      | External name \<Rightarrow> map_ok Some (ok_or (DomainIsNotRegistered name) (sm_get domains name))) = Ok ed"
    and fs: "\<forall>f \<in> set fs. validate_function d (fn_domain first) ed f = Ok ()"
    by (auto simp: validate_functions_def and_then_Ok_iff try_fold_unit simp del: try_fold.simps)
  have "takes_cosmwasm domains (fn_domain first) =
      Some (case ed of None \<Rightarrow> True | Some e \<Rightarrow> is_cosmwasm e)"
    using ed by (auto simp: takes_cosmwasm_def res_simps split: domain.splits)
  with fs Cons show ?thesis by (auto dest: validate_function_Ok)
qed (use assms in \<open>simp add: validate_functions_def\<close>)

lemma truncate_simps [simp]:
  "fn_domain (func.truncate f) = fn_domain f"
  "fn_message_details (func.truncate f) = fn_message_details f"
  "fn_contract_address (func.truncate f) = fn_contract_address f"
  by (simp_all add: func.truncate_def)

lemma validate_wf:
  assumes "validate d domains a = Ok ()"
  shows "authorization_wf domains a"
proof (cases "auth_subroutine a")
  case (Atomic config)
  with assms have "validate_functions d domains (as_functions config) = Ok ()"
    by (auto simp: validate_def validate_subroutine_def res_simps split: if_splits)
  from validate_functions_Ok [OF this] assms Atomic show ?thesis
    by (auto simp: authorization_wf_def functions_of_def validate_def res_simps list_all_iff
        split: if_splits)
next
  case (NonAtomic config)
  with assms have "validate_functions d domains (ns_functions config) = Ok ()"
    by (auto simp: validate_def validate_subroutine_def res_simps split: if_splits)
  from validate_functions_Ok [OF this] assms NonAtomic show ?thesis
    by (auto simp: authorization_wf_def functions_of_def validate_def res_simps list_all_iff
        split: if_splits)
qed

section \<open>The invariant\<close>

definition auth_inv :: "'o auth_contract \<Rightarrow> bool" where
  "auth_inv s \<longleftrightarrow>
     sm_sorted (authorizations s) \<and> sm_sorted (zk_authorizations s) \<and>
     sm_sorted (external_domains s) \<and> sm_sorted (processor_callbacks s) \<and>
     (\<forall>l a. sm_get (authorizations s) l = Some a \<longrightarrow>
        auth_label a = l \<and> authorization_wf (external_domains s) a \<and>
        sm_get (zk_authorizations s) l = None) \<and>
     (\<forall>l z. sm_get (zk_authorizations s) l = Some z \<longrightarrow> za_label z = l \<and> l \<noteq> []) \<and>
     (\<forall>n ed. sm_get (external_domains s) n = Some ed \<longrightarrow> ed_name ed = n) \<and>
     (\<forall>i cb. sm_get (processor_callbacks s) i = Some cb \<longrightarrow> pci_execution_id cb = i)"

lemma auth_invD:
  assumes "auth_inv s"
  shows "sm_get (authorizations s) l = Some a \<Longrightarrow> auth_label a = l"
    and "sm_get (authorizations s) l = Some a \<Longrightarrow> authorization_wf (external_domains s) a"
    and "sm_get (authorizations s) l = Some a \<Longrightarrow> sm_get (zk_authorizations s) l = None"
    and "sm_get (zk_authorizations s) l = Some z \<Longrightarrow> za_label z = l \<and> l \<noteq> []"
    and "sm_get (external_domains s) n = Some ed \<Longrightarrow> ed_name ed = n"
    and "sm_get (processor_callbacks s) i = Some cb \<Longrightarrow> pci_execution_id cb = i"
  using assms by (auto simp: auth_inv_def)

lemma auth_inv_zk:
  "auth_inv s \<Longrightarrow> sm_get (zk_authorizations s) l = Some z \<Longrightarrow> sm_get (authorizations s) l = None"
  by (metis auth_invD(3) not_None_eq)

lemma auth_inv_frame [simp]:
  "auth_inv (s\<lparr>ownership := a\<rparr>) = auth_inv s"
  "auth_inv (s\<lparr>first_ownership := b\<rparr>) = auth_inv s"
  "auth_inv (s\<lparr>first_ownership := b, ownership := a\<rparr>) = auth_inv s"
  "auth_inv (s\<lparr>sub_owners := c\<rparr>) = auth_inv s"
  "auth_inv (s\<lparr>verification_router := r\<rparr>) = auth_inv s"
  "auth_inv (s\<lparr>next_execution_id := n\<rparr>) = auth_inv s"
  "auth_inv (s\<lparr>current_executions := e\<rparr>) = auth_inv s"
  "auth_inv (s\<lparr>registry_last_block_execution := l\<rparr>) = auth_inv s"
  by (simp_all add: auth_inv_def)

lemma authorization_wf_mono:
  assumes "authorization_wf m a"
    and "\<And>n k. takes_cosmwasm m n = Some k \<Longrightarrow> takes_cosmwasm m' n = Some k"
  shows "authorization_wf m' a"
  using assms
  by (auto simp: authorization_wf_def list_all_iff split: list.splits)

lemma auth_inv_set_callback:
  assumes "auth_inv s" and "pci_execution_id cb = i"
  shows "auth_inv (s\<lparr>processor_callbacks := sm_set i cb (processor_callbacks s)\<rparr>)"
  using assms by (auto simp: auth_inv_def)

lemma auth_inv_set_authorization:
  assumes "auth_inv s" and "auth_label a = l" and "authorization_wf (external_domains s) a"
    and "sm_get (zk_authorizations s) l = None"
  shows "auth_inv (s\<lparr>authorizations := sm_set l a (authorizations s)\<rparr>)"
  using assms by (auto simp: auth_inv_def)

lemma auth_inv_set_zk:
  assumes "auth_inv s" and "za_label z = l" and "l \<noteq> []" and "sm_get (authorizations s) l = None"
  shows "auth_inv (s\<lparr>zk_authorizations := sm_set l z (zk_authorizations s)\<rparr>)"
  using assms by (auto simp: auth_inv_def)

lemma auth_inv_set_domain:
  assumes "auth_inv s" and "ed_name ed = n"
    and "\<And>old. sm_get (external_domains s) n = Some old \<Longrightarrow> is_cosmwasm ed = is_cosmwasm old"
  shows "auth_inv (s\<lparr>external_domains := sm_set n ed (external_domains s)\<rparr>)"
proof -
  have "takes_cosmwasm (sm_set n ed (external_domains s)) dest = Some k"
    if "takes_cosmwasm (external_domains s) dest = Some k" for dest k
    using that assms(3) by (auto simp: takes_cosmwasm_def split: domain.splits)
  then have "authorization_wf (sm_set n ed (external_domains s)) a"
    if "authorization_wf (external_domains s) a" for a
    using that authorization_wf_mono by blast
  then show ?thesis using assms(1,2) by (auto simp: auth_inv_def)
qed

section \<open>The effect of the helpers\<close>

lemma increase_cases:
  assumes "increase_current_executions s label = Ok s'"
  shows "s' = s\<lparr>current_executions := sm_set label (Suc (executions_of s label)) (current_executions s)\<rparr>"
    and "Suc (executions_of s label) < 2 ^ 64"
  using assms by (auto simp: increase_current_executions_def res_simps u64_simps)

lemma decrease_cases:
  assumes "decrease_current_executions s label = Ok s'"
  shows "s' = s\<lparr>current_executions := sm_set label (executions_of s label - 1) (current_executions s)\<rparr>"
    and "0 < executions_of s label"
  using assms by (auto simp: decrease_current_executions_def split: if_splits)

text \<open>The entry that tracks a new execution.\<close>

definition new_callback ::
  "u64 \<Rightarrow> u64 \<Rightarrow> operation_initiator \<Rightarrow> domain \<Rightarrow> string \<Rightarrow> expiration option \<Rightarrow>
   processor_message list \<Rightarrow> addr \<Rightarrow> addr option \<Rightarrow> processor_callback_info"
where
  "new_callback t i initiator dest label ttl messages pa ba =
     \<lparr>pci_execution_id = i, pci_created_at = t, pci_last_updated_at = t, pci_initiator = initiator,
      pci_bridge_callback_address = ba, pci_processor_callback_address = pa,
      pci_domain = dest, pci_label = label, pci_messages = messages, pci_ttl = ttl,
      pci_execution_result = InProcess\<rparr>"

lemma new_callback_simps [simp]:
  "pci_execution_id (new_callback t i initiator dest label ttl messages pa ba) = i"
  "pci_initiator (new_callback t i initiator dest label ttl messages pa ba) = initiator"
  "pci_domain (new_callback t i initiator dest label ttl messages pa ba) = dest"
  "pci_label (new_callback t i initiator dest label ttl messages pa ba) = label"
  "pci_messages (new_callback t i initiator dest label ttl messages pa ba) = messages"
  "pci_ttl (new_callback t i initiator dest label ttl messages pa ba) = ttl"
  "pci_processor_callback_address (new_callback t i initiator dest label ttl messages pa ba) = pa"
  "pci_bridge_callback_address (new_callback t i initiator dest label ttl messages pa ba) = ba"
  "pci_execution_result (new_callback t i initiator dest label ttl messages pa ba) = InProcess"
  by (simp_all add: new_callback_def)

lemma store_callback_cases:
  assumes "store_inprocess_callback s t i initiator dest label ttl messages = Ok s'"
  obtains pa ba where "s' = s\<lparr>processor_callbacks :=
      sm_set i (new_callback t i initiator dest label ttl messages pa ba) (processor_callbacks s)\<rparr>"
    and "dest = Main \<Longrightarrow> pa = processor_on_main_domain s \<and> ba = None"
  using assms
  by (cases dest) (auto simp: store_inprocess_callback_def new_callback_def res_simps)

lemma get_and_increase_simps [simp]:
  "fst (get_and_increase_execution_id s) = next_execution_id s"
  "snd (get_and_increase_execution_id s) =
     s\<lparr>next_execution_id := wrapping_add_u64 (next_execution_id s) 1\<rparr>"
  by (simp_all add: get_and_increase_execution_id_def)

text \<open>
  Every handler that starts an execution leaves the same trace: the counter of its label goes up, the
  execution id is taken, and an entry in process is stored under it.
\<close>

definition started ::
  "'o auth_contract \<Rightarrow> string \<Rightarrow> processor_callback_info \<Rightarrow> 'o auth_contract"
where
  "started s label cb =
     s\<lparr>current_executions := sm_set label (Suc (executions_of s label)) (current_executions s),
       next_execution_id := wrapping_add_u64 (next_execution_id s) 1,
       processor_callbacks := sm_set (next_execution_id s) cb (processor_callbacks s)\<rparr>"

lemma processor_message_frame [simp]:
  "execute_msg_binary d (s\<lparr>current_executions := e\<rparr>) = execute_msg_binary d s"
  "execute_msg_binary d (s\<lparr>next_execution_id := n\<rparr>) = execute_msg_binary d s"
  "execute_msg_binary d (s\<lparr>processor_callbacks := c\<rparr>) = execute_msg_binary d s"
  "execute_msg_binary d (s\<lparr>registry_last_block_execution := b\<rparr>) = execute_msg_binary d s"
  "create_msg_for_processor d (s\<lparr>current_executions := e\<rparr>) = create_msg_for_processor d s"
  "create_msg_for_processor d (s\<lparr>next_execution_id := n\<rparr>) = create_msg_for_processor d s"
  "create_msg_for_processor d (s\<lparr>processor_callbacks := c\<rparr>) = create_msg_for_processor d s"
  "create_msg_for_processor d (s\<lparr>registry_last_block_execution := b\<rparr>) = create_msg_for_processor d s"
  by (auto simp: fun_eq_iff execute_msg_binary_def create_msg_for_processor_def
      create_msg_for_main_domain_def Let_def split: domain.splits)

lemma executions_of_frame [simp]:
  "executions_of (s\<lparr>processor_callbacks := c\<rparr>) label = executions_of s label"
  "executions_of (s\<lparr>next_execution_id := n\<rparr>) label = executions_of s label"
  "executions_of (s\<lparr>registry_last_block_execution := b\<rparr>) label = executions_of s label"
  by (simp_all add: executions_of_def)

lemma executions_of_set [simp]:
  "executions_of (s\<lparr>current_executions := sm_set l n m\<rparr>) label =
     (if label = l then n else executions_of (s\<lparr>current_executions := m\<rparr>) label)"
  by (simp add: executions_of_def)

lemma send_msgs_cases:
  assumes "send_msgs d s env info label ttl messages = Ok (s', r)"
  obtains a dest bytes msg pa ba where
    "sm_get (authorizations s) label = Some a"
    "validate_executable d a (env_block env) (env_contract_address env) info messages = Ok ()"
    "executions_of s label < auth_max_concurrent_executions a"
    "get_domain a = Ok dest"
    "s' = started s label (new_callback (block_seconds (env_block env)) (next_execution_id s)
       (User (info_sender info)) dest label ttl messages pa ba)"
    "execute_msg_binary d s dest
       (EnqueueMsgs (next_execution_id s) messages (auth_subroutine a) (auth_priority a)
         (batch_expiration (auth_subroutine a) env))
       (map_ok (EncSendMsgs (next_execution_id s) (auth_priority a) (auth_subroutine a)
         (batch_expiration (auth_subroutine a) env)) (convert_into_encoder_messages messages a)) = Ok bytes"
    "create_msg_for_processor d s bytes dest
       (Some (execution_callback_request d env (next_execution_id s))) = Ok msg"
    "resp_messages r = [plain_msg msg]"
    "dest = Main \<Longrightarrow> pa = processor_on_main_domain s \<and> ba = None"
proof -
  let ?t = "block_seconds (env_block env)" and ?i = "next_execution_id s"
  from assms obtain a s1 dest bytes msg where
    a: "sm_get (authorizations s) label = Some a"
      "validate_executable d a (env_block env) (env_contract_address env) info messages = Ok ()"
      "executions_of s label < auth_max_concurrent_executions a" "get_domain a = Ok dest"
    and s1: "increase_current_executions s label = Ok s1"
    and st: "store_inprocess_callback (snd (get_and_increase_execution_id s1)) ?t (next_execution_id s1)
        (User (info_sender info)) dest label ttl messages = Ok s'"
    and msg: "execute_msg_binary d s1 dest
        (EnqueueMsgs (next_execution_id s1) messages (auth_subroutine a) (auth_priority a)
          (batch_expiration (auth_subroutine a) env))
        (map_ok (EncSendMsgs (next_execution_id s1) (auth_priority a) (auth_subroutine a)
          (batch_expiration (auth_subroutine a) env)) (convert_into_encoder_messages messages a)) = Ok bytes"
      "create_msg_for_processor d s1 bytes dest
        (Some (execution_callback_request d env (next_execution_id s1))) = Ok msg"
      "resp_messages r = [plain_msg msg]"
    by (auto simp: send_msgs_def Let_def case_prod_beta and_then_Ok_iff ok_or_Ok_iff map_err_Ok_iff
        split: if_splits)
  note s1 = increase_cases(1) [OF s1]
  from st show ?thesis
  proof (rule store_callback_cases)
    fix pa ba
    assume "s' = (snd (get_and_increase_execution_id s1))\<lparr>processor_callbacks :=
        sm_set (next_execution_id s1) (new_callback ?t (next_execution_id s1) (User (info_sender info))
          dest label ttl messages pa ba)
        (processor_callbacks (snd (get_and_increase_execution_id s1)))\<rparr>"
      and "dest = Main \<Longrightarrow> pa = processor_on_main_domain (snd (get_and_increase_execution_id s1)) \<and> ba = None"
    then show ?thesis
      using a msg by (intro that [of a dest pa ba bytes msg]) (simp_all add: s1 started_def)
  qed
qed

text \<open>A new entry for an execution of a label.\<close>

definition starts :: "'o auth_contract \<Rightarrow> string \<Rightarrow> processor_callback_info \<Rightarrow> bool" where
  "starts s label cb \<longleftrightarrow>
     pci_execution_id cb = next_execution_id s \<and> pci_label cb = label \<and>
     pci_execution_result cb = InProcess"

lemma start_trace:
  assumes "increase_current_executions s label = Ok s1"
    and "store_inprocess_callback (snd (get_and_increase_execution_id s1)) t (next_execution_id s1)
      initiator dest label ttl messages = Ok s'"
  shows "\<exists>cb. s' = started s label cb \<and> starts s label cb \<and> pci_initiator cb = initiator"
proof -
  note s1 = increase_cases(1) [OF assms(1)]
  from assms(2) show ?thesis
    by (rule store_callback_cases) (auto simp: s1 started_def starts_def)
qed

text \<open>Everything the contract sends to a processor is a call of a contract.\<close>

definition wasm_only :: "response \<Rightarrow> bool" where
  "wasm_only r \<longleftrightarrow> (\<forall>m \<in> set (sent r). \<exists>a b. m = WasmExecute a b [])"

lemma processor_msg_wasm:
  "create_msg_for_processor d s bytes dest req = Ok m \<Longrightarrow> \<exists>a b. m = WasmExecute a b []"
proof (cases dest)
  case (External n)
  assume m: "create_msg_for_processor d s bytes dest req = Ok m"
  with External obtain ed where ed: "sm_get (external_domains s) n = Some ed"
    by (auto simp: create_msg_for_processor_def and_then_Ok_iff load_Ok_iff)
  with m External show ?thesis
    by (cases "ed_execution_environment ed" rule: get_connector_address.cases)
      (auto simp: create_msg_for_processor_def create_msg_for_polytone_def create_msg_for_hyperlane_def
        and_then_Ok_iff)
qed (auto simp: create_msg_for_processor_def create_msg_for_main_domain_def)

lemma send_msgs_started:
  assumes "send_msgs d s env info label ttl messages = Ok (s', r)"
  shows "\<exists>cb. s' = started s label cb \<and> starts s label cb"
  using assms by (rule send_msgs_cases) (auto simp: starts_def)

lemma insert_messages_started:
  assumes "insert_messages d s env label pos prio messages = Ok (s', r)"
  shows "\<exists>cb. s' = started s label cb \<and> starts s label cb \<and> pci_initiator cb = Owner"
    and "wasm_only r" and "sm_has (authorizations s) label"
proof -
  from assms obtain a s1 dest bytes msg where
    "sm_get (authorizations s) label = Some a"
    and s1: "increase_current_executions s label = Ok s1"
    and st: "store_inprocess_callback (snd (get_and_increase_execution_id s1))
        (block_seconds (env_block env)) (next_execution_id s1) Owner dest label None messages = Ok s'"
    and "create_msg_for_processor d s1 bytes dest
        (Some (execution_callback_request d env (next_execution_id s1))) = Ok msg"
    and "sent r = [msg]"
    by (auto simp: insert_messages_def Let_def case_prod_beta and_then_Ok_iff ok_or_Ok_iff map_err_Ok_iff)
  then show "wasm_only r" and "sm_has (authorizations s) label"
    by (auto simp: wasm_only_def sm_has_def dest: processor_msg_wasm)
  show "\<exists>cb. s' = started s label cb \<and> starts s label cb \<and> pci_initiator cb = Owner"
    using s1 st by (rule start_trace)
qed

lemma check_last_block_cases:
  assumes "check_last_block s z m = Ok s'"
  shows "s' = s \<or> s' = s\<lparr>registry_last_block_execution :=
    sm_set (za_registry z) (zm_block_number m) (registry_last_block_execution s)\<rparr>"
  using assms by (auto simp: check_last_block_def Let_def split: if_splits)

lemma execute_zk_started:
  assumes "execute_zk_authorization d s env info label inputs proof payload = Ok (s', r)"
  obtains z m s1 where "sm_get (zk_authorizations s) label = Some z"
    "zk_message_of d inputs = Ok m" "zm_registry m = za_registry z"
    "verify_zk_proof d s env info z inputs proof payload = Ok ()"
    "check_last_block s z m = Ok s1" "wasm_only r"
    "s' = s1 \<or> (\<exists>cb. s' = started s1 label cb \<and> starts s1 label cb \<and>
      pci_initiator cb = User (info_sender info))"
proof -
  from assms obtain z m s1 processor_msg callback_request msg where
    z: "sm_get (zk_authorizations s) label = Some z" "zk_message_of d inputs = Ok m"
      "verify_zk_proof d s env info z inputs proof payload = Ok ()"
      "check_zk_message s env z m = Ok ()" "check_last_block s z m = Ok s1"
    and st: "(case queued_msgs (zm_message m) of
         Some msgs \<Rightarrow>
           and_then (astd (increase_current_executions s1 label)) (\<lambda>s2.
           let (i, s3) = get_and_increase_execution_id s2
           in and_then (astd (store_inprocess_callback s3 (block_seconds (env_block env)) i
                   (User (info_sender info)) (zm_domain m) label None msgs)) (\<lambda>s4.
                Ok (s4, assign_execution_id (zm_message m) i,
                    Some (execution_callback_request d env i))))
       | None \<Rightarrow> Ok (s1, zm_message m, None)) = Ok (s', processor_msg, callback_request)"
    and msg: "create_msg_for_processor d s'
         (enc_processor_execute (d_codec d) (AuthorizationModuleAction processor_msg))
         (zm_domain m) callback_request = Ok msg" "sent r = [msg]"
    by (auto simp: execute_zk_authorization_def and_then_Ok_iff map_err_Ok_iff ok_or_Ok_iff)
  from st have st: "s' = s1 \<or>
      (\<exists>msgs s2. increase_current_executions s1 label = Ok s2 \<and>
        store_inprocess_callback (snd (get_and_increase_execution_id s2)) (block_seconds (env_block env))
          (next_execution_id s2) (User (info_sender info)) (zm_domain m) label None msgs = Ok s')"
    by (auto simp: and_then_Ok_iff map_err_Ok_iff Let_def case_prod_beta split: option.splits)
  from z(4) have "zm_registry m = za_registry z"
    by (auto simp: check_zk_message_def res_simps)
  moreover from st have "s' = s1 \<or> (\<exists>cb. s' = started s1 label cb \<and> starts s1 label cb \<and>
      pci_initiator cb = User (info_sender info))"
    using start_trace by blast
  moreover from msg have "wasm_only r" by (auto simp: wasm_only_def dest: processor_msg_wasm)
  ultimately show ?thesis using z by (intro that)
qed

lemma auth_inv_started: "auth_inv s \<Longrightarrow> starts s label cb \<Longrightarrow> auth_inv (started s label cb)"
  by (auto simp: auth_inv_def started_def starts_def)

text \<open>The trace of a result that ends an execution.\<close>

definition ended ::
  "'o auth_contract \<Rightarrow> u64 \<Rightarrow> processor_callback_info \<Rightarrow> execution_result \<Rightarrow> u64 \<Rightarrow> 'o auth_contract"
where
  "ended s i cb res t =
     s\<lparr>processor_callbacks :=
         sm_set i (cb\<lparr>pci_execution_result := res, pci_last_updated_at := t\<rparr>) (processor_callbacks s),
       current_executions :=
         sm_set (pci_label cb) (executions_of s (pci_label cb) - 1) (current_executions s)\<rparr>"

lemma end_trace:
  assumes "decrease_current_executions (s\<lparr>processor_callbacks :=
      sm_set i (cb\<lparr>pci_execution_result := res, pci_last_updated_at := t\<rparr>) (processor_callbacks s)\<rparr>)
      (pci_label cb) = Ok s'"
  shows "s' = ended s i cb res t" and "0 < executions_of s (pci_label cb)"
  using decrease_cases [OF assms] by (simp_all add: ended_def)

lemma get_authorization_mode_frame [simp]:
  "get_authorization_mode (s\<lparr>processor_callbacks := c\<rparr>) l = get_authorization_mode s l"
  "get_authorization_mode (s\<lparr>current_executions := e\<rparr>) l = get_authorization_mode s l"
  "get_authorization_mode (ended s i cb res t) l = get_authorization_mode s l"
  by (simp_all add: get_authorization_mode_def ended_def split: option.split)

lemma processor_callback_cases:
  assumes "process_processor_callback d s env info i res = Ok (s', r)"
  obtains cb mode where "sm_get (processor_callbacks s) i = Some cb"
    "info_sender info = pci_processor_callback_address cb"
    "0 < executions_of s (pci_label cb)"
    "s' = ended s i cb res (block_seconds (env_block env))"
    "get_authorization_mode s (pci_label cb) = Ok mode"
    "sent r = (case paying_user (pci_initiator cb) mode of
       Some a \<Rightarrow> [settle_msg d env (pci_label cb) a res] | None \<Rightarrow> [])"
proof -
  from assms obtain cb s1 mode where
    "sm_get (processor_callbacks s) i = Some cb" "info_sender info = pci_processor_callback_address cb"
    and dec: "decrease_current_executions (s\<lparr>processor_callbacks := sm_set i
      (cb\<lparr>pci_execution_result := res, pci_last_updated_at := block_seconds (env_block env)\<rparr>)
      (processor_callbacks s)\<rparr>) (pci_label cb) = Ok s'"
    and "get_authorization_mode s' (pci_label cb) = Ok mode"
    "sent r = (case paying_user (pci_initiator cb) mode of
       Some a \<Rightarrow> [settle_msg d env (pci_label cb) a res] | None \<Rightarrow> [])"
    by (auto simp: process_processor_callback_def Let_def and_then_Ok_iff map_err_Ok_iff load_Ok_iff
        split: if_splits cong: option.case_cong)
  with end_trace [OF dec] show ?thesis by (intro that [of cb mode]) simp_all
qed

lemma bridge_result_cases:
  assumes "process_bridge_result d s env info i result = Ok (s', ms)"
  obtains (ignored) "s' = s" and "ms = []"
    | (ended) cb res where "sm_get (processor_callbacks s) i = Some cb"
      and "pci_bridge_callback_address cb = Some (info_sender info)"
      and "0 < executions_of s (pci_label cb)"
      and "s' = ended s i cb res (block_seconds (env_block env))"
      and "(\<exists>e. result = CallbackFatalError e \<and> res = UnexpectedError e \<and> ms = []) \<or>
        (pci_execution_result cb = InProcess \<and> (\<exists>e. result = CallbackExecute (Err e)) \<and>
          ((res = Timeout True \<or> (\<exists>e. res = UnexpectedError e)) \<and> ms = [] \<or>
           res = Timeout False \<and> (\<exists>mode. get_authorization_mode s (pci_label cb) = Ok mode \<and>
             ms = (case paying_user (pci_initiator cb) mode of
                Some u \<Rightarrow> [refund_msg env (pci_label cb) u] | None \<Rightarrow> []))))"
proof -
  from assms obtain cb where cb: "sm_get (processor_callbacks s) i = Some cb"
      "pci_bridge_callback_address cb = Some (info_sender info)"
    by (auto simp: process_bridge_result_def and_then_Ok_iff map_err_Ok_iff load_Ok_iff
        split: if_splits)
  show ?thesis
  proof (cases result)
    case (CallbackExecute x)
    show ?thesis
    proof (cases "\<exists>e. x = Err e \<and> pci_execution_result cb = InProcess")
      case True
      then obtain e where e: "x = Err e" "pci_execution_result cb = InProcess" by blast
      with assms cb CallbackExecute obtain res where res:
          "(res = Timeout True \<or> (\<exists>e. res = UnexpectedError e)) \<and> ms = [] \<or>
           res = Timeout False \<and> (\<exists>mode. get_authorization_mode s (pci_label cb) = Ok mode \<and>
             ms = (case paying_user (pci_initiator cb) mode of
                Some u \<Rightarrow> [refund_msg env (pci_label cb) u] | None \<Rightarrow> []))"
        and dec: "decrease_current_executions (s\<lparr>processor_callbacks := sm_set i
          (cb\<lparr>pci_execution_result := res, pci_last_updated_at := block_seconds (env_block env)\<rparr>)
          (processor_callbacks s)\<rparr>) (pci_label cb) = Ok s'"
        by (cases "e = ''timeout''";
            cases "case pci_ttl cb of Some ttl \<Rightarrow> is_expired (d_api d) ttl (env_block env) | None \<Rightarrow> True")
          (auto simp: process_bridge_result_def Let_def and_then_Ok_iff)
      with end_trace [OF dec] cb e CallbackExecute show ?thesis by (intro that(2)) blast+
    next
      case False
      with assms cb CallbackExecute show ?thesis
        by (intro that(1); cases x) (auto simp: process_bridge_result_def)
    qed
  next
    case (CallbackFatalError e)
    with assms cb have dec: "decrease_current_executions (s\<lparr>processor_callbacks := sm_set i
        (cb\<lparr>pci_execution_result := UnexpectedError e, pci_last_updated_at := block_seconds (env_block env)\<rparr>)
        (processor_callbacks s)\<rparr>) (pci_label cb) = Ok s'" and "ms = []"
      by (auto simp: process_bridge_result_def Let_def and_then_Ok_iff)
    with end_trace [OF dec] cb CallbackFatalError show ?thesis by (intro that(2)) auto
  qed (use assms cb in \<open>simp add: process_bridge_result_def\<close>)
qed

lemma ex_internal: "(\<exists>m. P m) \<longleftrightarrow> (\<exists>i res. P (ProcessorCallback i res))"
  by (metis internal_authorization_msg.exhaust)

lemma hyperlane_callback_cases:
  assumes "process_hyperlane_callback d s env info handle = Ok (s', r)"
  obtains enc bytes i res cb where
    "find_map (hyperlane_encoder d info handle) (sm_values (external_domains s)) = Some enc"
    "broker_decode (d_querier d) (broker_address enc) (encoder_version enc) (hm_body handle) = Ok bytes"
    "dec_internal_authorization (d_codec d) bytes = Ok (ProcessorCallback i res)"
    "sm_get (processor_callbacks s) i = Some cb" "0 < executions_of s (pci_label cb)"
    "s' = ended s i cb res (block_seconds (env_block env))" "sent r = []"
proof -
  from assms obtain enc bytes i res cb where
    "find_map (hyperlane_encoder d info handle) (sm_values (external_domains s)) = Some enc"
    "broker_decode (d_querier d) (broker_address enc) (encoder_version enc) (hm_body handle) = Ok bytes"
    "dec_internal_authorization (d_codec d) bytes = Ok (ProcessorCallback i res)"
    "sm_get (processor_callbacks s) i = Some cb" "sent r = []"
    and dec: "decrease_current_executions (s\<lparr>processor_callbacks := sm_set i
      (cb\<lparr>pci_execution_result := res, pci_last_updated_at := block_seconds (env_block env)\<rparr>)
      (processor_callbacks s)\<rparr>) (pci_label cb) = Ok s'"
    by (auto simp: process_hyperlane_callback_def Let_def and_then_Ok_iff map_err_Ok_iff load_Ok_iff
        ok_or_Ok_iff ex_internal split: internal_authorization_msg.splits)
  with end_trace [OF dec] show ?thesis by (intro that)
qed

lemma auth_inv_ended:
  "auth_inv s \<Longrightarrow> sm_get (processor_callbacks s) i = Some cb \<Longrightarrow> auth_inv (ended s i cb res t)"
  by (auto simp: auth_inv_def ended_def)

lemma retry_msgs_cases:
  assumes "retry_msgs d s env i = Ok (s', r)"
  obtains (resent) cb a msg where "sm_get (processor_callbacks s) i = Some cb"
      and "pci_execution_result cb = Timeout True"
      and "sm_get (authorizations s) (pci_label cb) = Some a"
      and "executions_of s (pci_label cb) < auth_max_concurrent_executions a"
      and "s' = s\<lparr>current_executions := sm_set (pci_label cb) (Suc (executions_of s (pci_label cb)))
          (current_executions s),
        processor_callbacks := sm_set i (cb\<lparr>pci_execution_result := InProcess,
          pci_last_updated_at := block_seconds (env_block env)\<rparr>) (processor_callbacks s)\<rparr>"
      and "sent r = [msg]" and "wasm_only r"
    | (over) cb a where "sm_get (processor_callbacks s) i = Some cb"
      and "pci_execution_result cb = Timeout True"
      and "sm_get (authorizations s) (pci_label cb) = Some a"
      and "s' = s\<lparr>processor_callbacks := sm_set i
        (case paying_user (pci_initiator cb) (auth_mode a) of
           Some _ \<Rightarrow> cb\<lparr>pci_execution_result := Timeout False,
                       pci_last_updated_at := block_seconds (env_block env)\<rparr>
         | None \<Rightarrow> cb) (processor_callbacks s)\<rparr>"
      and "sent r = (case paying_user (pci_initiator cb) (auth_mode a) of
        Some u \<Rightarrow> [refund_msg env (pci_label cb) u] | None \<Rightarrow> [])"
proof -
  from assms obtain cb where cb: "sm_get (processor_callbacks s) i = Some cb"
      "pci_execution_result cb = Timeout True"
    by (auto simp: retry_msgs_def and_then_Ok_iff ok_or_Ok_iff split: if_splits)
  define live where "live = (case pci_ttl cb of
      Some ttl \<Rightarrow> \<not> is_expired (d_api d) ttl (env_block env) | None \<Rightarrow> False)"
  show ?thesis
  proof (cases live)
    case True
    with assms cb obtain n a s1 msg where
      "sm_get (current_executions s) (pci_label cb) = Some n"
      "sm_get (authorizations s) (pci_label cb) = Some a" "n < auth_max_concurrent_executions a"
      and inc: "increase_current_executions s (pci_label cb) = Ok s1"
      and "s' = s1\<lparr>processor_callbacks := sm_set i (cb\<lparr>pci_execution_result := InProcess,
        pci_last_updated_at := block_seconds (env_block env)\<rparr>) (processor_callbacks s1)\<rparr>"
      "sent r = [msg]" "\<exists>a b. msg = WasmExecute a b []"
      by (auto dest!: processor_msg_wasm simp: retry_msgs_def live_def [symmetric] and_then_Ok_iff map_err_Ok_iff load_Ok_iff
          split: if_splits)
    with increase_cases(1) [OF inc] cb show ?thesis
      by (intro that(1) [of cb a msg]) (simp_all add: executions_of_def wasm_only_def)
  next
    case False
    with assms cb show ?thesis
      by (auto simp: retry_msgs_def live_def [symmetric] and_then_Ok_iff map_err_Ok_iff load_Ok_iff
          split: option.splits intro!: that(2) [of cb])
  qed
qed

section \<open>The handlers keep the invariant\<close>

lemma connector_msgs_wasm: "m \<in> set (connector_msgs d env ed) \<Longrightarrow> \<exists>a b. m = WasmExecute a b []"
  by (cases "ed_execution_environment ed" rule: get_connector_address.cases)
    (auto simp: connector_msgs_def create_proxy_msg_def)

lemma register_domain_cases:
  assumes "register_domain d env p info = Ok p'"
  obtains ed where "\<not> sm_has (external_domains (fst p)) (ed_name ed)"
    "fst p' = (fst p)\<lparr>external_domains := sm_set (ed_name ed) ed (external_domains (fst p))\<rparr>"
    "snd p' = snd p @ connector_msgs d env ed"
  using assms
  by (auto simp: register_domain_def add_external_domain_def case_prod_beta and_then_Ok_iff
      split: if_splits)

lemma register_domain_inv:
  "register_domain d env p info = Ok p' \<Longrightarrow> auth_inv (fst p) \<Longrightarrow> auth_inv (fst p')"
  by (erule register_domain_cases) (auto simp: sm_has_def intro!: auth_inv_set_domain)

lemma add_external_domains_inv:
  assumes "add_external_domains d s env infos = Ok (s', r)" and "auth_inv s"
  shows "auth_inv s'"
proof -
  from assms(1) obtain ms where f: "try_fold (register_domain d env) (s, []) infos = Ok (s', ms)"
    by (auto simp: add_external_domains_def and_then_Ok_iff)
  from try_fold_invariant [OF f, where P = "\<lambda>p. auth_inv (fst p)"] assms(2) show ?thesis
    by (auto dest: register_domain_inv)
qed

lemma create_authorization_inv:
  "create_authorization d env p info = Ok p' \<Longrightarrow> auth_inv (fst p) \<Longrightarrow> auth_inv (fst p')"
  by (auto simp: create_authorization_def case_prod_beta and_then_Ok_iff map_err_Ok_iff sm_has_def
      split: if_splits intro!: auth_inv_set_authorization validate_wf)

lemma create_authorizations_inv:
  assumes "create_authorizations d s env infos = Ok (s', r)" and "auth_inv s"
  shows "auth_inv s'"
proof -
  from assms(1) obtain ms where f: "try_fold (create_authorization d env) (s, []) infos = Ok (s', ms)"
    by (auto simp: create_authorizations_def and_then_Ok_iff)
  from try_fold_invariant [OF f, where P = "\<lambda>p. auth_inv (fst p)"] assms(2) show ?thesis
    by (auto dest: create_authorization_inv)
qed

lemma create_zk_authorization_inv:
  "create_zk_authorization d env p info = Ok p' \<Longrightarrow> auth_inv (fst p) \<Longrightarrow> auth_inv (fst p')"
  by (auto simp: create_zk_authorization_def case_prod_beta and_then_Ok_iff map_err_Ok_iff sm_has_def
      split: if_splits intro!: auth_inv_set_zk)

lemma create_zk_authorizations_inv:
  assumes "create_zk_authorizations d s env infos = Ok (s', r)" and "auth_inv s"
  shows "auth_inv s'"
proof -
  from assms(1) obtain ms where f: "try_fold (create_zk_authorization d env) (s, []) infos = Ok (s', ms)"
    by (auto simp: create_zk_authorizations_def and_then_Ok_iff)
  from try_fold_invariant [OF f, where P = "\<lambda>p. auth_inv (fst p)"] assms(2) show ?thesis
    by (auto dest: create_zk_authorization_inv)
qed

lemma modify_authorization_inv:
  assumes "modify_authorization d s label nb ex mc p = Ok (s', r)" and inv: "auth_inv s"
  shows "auth_inv s'"
proof -
  from assms(1) obtain a where a: "sm_get (authorizations s) label = Some a"
    by (auto simp: modify_authorization_def and_then_Ok_iff ok_or_Ok_iff)
  let ?a1 = "case nb of Some t \<Rightarrow> a\<lparr>auth_not_before := t\<rparr> | None \<Rightarrow> a"
  let ?a2 = "case ex of Some t \<Rightarrow> ?a1\<lparr>auth_expiration := t\<rparr> | None \<Rightarrow> ?a1"
  let ?a3 = "case mc of Some n \<Rightarrow> ?a2\<lparr>auth_max_concurrent_executions := n\<rparr> | None \<Rightarrow> ?a2"
  let ?a4 = "case p of Some q \<Rightarrow> ?a3\<lparr>auth_priority := q\<rparr> | None \<Rightarrow> ?a3"
  have "auth_label ?a4 = label" using auth_invD(1) [OF inv a] by (simp split: option.split)
  moreover have "validate d (external_domains s) ?a4 = Ok ()"
    and s': "s' = s\<lparr>authorizations := sm_set label ?a4 (authorizations s)\<rparr>"
    using assms(1) a by (simp_all add: modify_authorization_def Let_def and_then_Ok_iff)
  ultimately show ?thesis unfolding s'
    using a auth_invD(3) [OF inv a] by (intro auth_inv_set_authorization inv validate_wf)
qed

text \<open>Changing an entry of a map in place.\<close>

lemma auth_inv_change_authorization:
  assumes "auth_inv s" and "sm_get (authorizations s) l = Some a" and "auth_label a' = auth_label a"
    and "authorization_wf (external_domains s) a'"
  shows "auth_inv (s\<lparr>authorizations := sm_set l a' (authorizations s)\<rparr>)"
  using assms auth_invD(1,3) [OF assms(1,2)] by (intro auth_inv_set_authorization) simp_all

lemma auth_inv_change_zk:
  assumes "auth_inv s" and "sm_get (zk_authorizations s) l = Some z" and "za_label z' = za_label z"
  shows "auth_inv (s\<lparr>zk_authorizations := sm_set l z' (zk_authorizations s)\<rparr>)"
  using assms auth_inv_zk [OF assms(1,2)] auth_invD(4) [OF assms(1,2)]
  by (intro auth_inv_set_zk) simp_all

lemma modify_zk_authorization_inv:
  "modify_zk_authorization s label v = Ok (s', r) \<Longrightarrow> auth_inv s \<Longrightarrow> auth_inv s'"
  by (auto simp: modify_zk_authorization_def Let_def and_then_Ok_iff ok_or_Ok_iff
      intro!: auth_inv_change_zk split: option.split)

lemma authorization_wf_state [simp]:
  "authorization_wf m (a\<lparr>auth_state := st\<rparr>) = authorization_wf m a"
  by (simp add: authorization_wf_def split: list.split)

lemma set_authorization_state_inv:
  "set_authorization_state s label st = Ok s' \<Longrightarrow> auth_inv s \<Longrightarrow> auth_inv s'"
  by (auto simp: set_authorization_state_def and_then_Ok_iff ok_or_Ok_iff split: option.splits
      intro!: auth_inv_change_zk auth_inv_change_authorization intro: auth_invD(2))

lemma update_zk_authorization_route_inv:
  "update_zk_authorization_route s label route = Ok (s', r) \<Longrightarrow> auth_inv s \<Longrightarrow> auth_inv s'"
  by (auto simp: update_zk_authorization_route_def and_then_Ok_iff ok_or_Ok_iff
      intro!: auth_inv_change_zk)

lemma mint_authorizations_same: "mint_authorizations d s env label mints = Ok (s', r) \<Longrightarrow> s' = s"
  by (cases "get_authorization_mode s label")
    (auto simp: mint_authorizations_def split: authorization_mode.splits)

lemma permissioned_action_inv:
  assumes "permissioned_action d s env msg = Ok (s', r)" and "auth_inv s"
  shows "auth_inv s'"
  using assms
  by (cases msg)
    (auto simp: permissioned_action_def disable_authorization_def enable_authorization_def
      evict_messages_def pause_processor_def resume_processor_def
      set_verification_router_def and_then_Ok_iff
      dest: mint_authorizations_same add_external_domains_inv create_authorizations_inv create_zk_authorizations_inv
        modify_authorization_inv modify_zk_authorization_inv set_authorization_state_inv
        update_zk_authorization_route_inv insert_messages_started auth_inv_started)

lemma retry_msgs_inv: "retry_msgs d s env i = Ok (s', r) \<Longrightarrow> auth_inv s \<Longrightarrow> auth_inv s'"
  by (erule retry_msgs_cases) (auto simp: auth_inv_def split: option.splits)

text \<open>Both messages about the proxy of a bridge change only the state of that proxy.\<close>

lemma retry_bridge_creation_cases:
  assumes "retry_bridge_creation d s env n = Ok (s', r)"
  obtains ed c st where "wasm_only r" "sm_get (external_domains s) n = Some ed"
    "ed_execution_environment ed = Cosmwasm (Polytone c)"
    "s' = s\<lparr>external_domains := sm_set n (ed\<lparr>ed_execution_environment :=
      Cosmwasm (Polytone (set_polytone_proxy_state st c))\<rparr>) (external_domains s)\<rparr>"
proof -
  from assms obtain ed where ed: "sm_get (external_domains s) n = Some ed"
    by (auto simp: retry_bridge_creation_def and_then_Ok_iff map_err_Ok_iff load_Ok_iff)
  with assms that show ?thesis
    by (cases "ed_execution_environment ed" rule: get_connector_address.cases)
      (auto simp: retry_bridge_creation_def wasm_only_def create_proxy_msg_def split: if_splits)
qed

lemma process_proxy_result_cases:
  assumes "process_proxy_result s info n res = Ok s'"
  obtains ed c st where "sm_get (external_domains s) n = Some ed"
    "ed_execution_environment ed = Cosmwasm (Polytone c)"
    "s' = s\<lparr>external_domains := sm_set n (ed\<lparr>ed_execution_environment :=
      Cosmwasm (Polytone (set_polytone_proxy_state st c))\<rparr>) (external_domains s)\<rparr>"
proof -
  from assms obtain ed where ed: "sm_get (external_domains s) n = Some ed"
    by (auto simp: process_proxy_result_def and_then_Ok_iff map_err_Ok_iff load_Ok_iff)
  with assms that show ?thesis
    by (cases "ed_execution_environment ed" rule: get_connector_address.cases; cases res)
      (auto simp: process_proxy_result_def and_then_Ok_iff split: if_splits)
qed

lemma auth_inv_proxy_state:
  assumes "auth_inv s" and "sm_get (external_domains s) n = Some ed"
    and "ed_execution_environment ed = Cosmwasm (Polytone c)"
  shows "auth_inv (s\<lparr>external_domains := sm_set n (ed\<lparr>ed_execution_environment :=
    Cosmwasm (Polytone c')\<rparr>) (external_domains s)\<rparr>)"
  using assms auth_invD(5) [OF assms(1,2)]
  by (intro auth_inv_set_domain) (auto simp: is_cosmwasm_def)

lemma retry_bridge_creation_inv:
  "retry_bridge_creation d s env n = Ok (s', r) \<Longrightarrow> auth_inv s \<Longrightarrow> auth_inv s'"
  by (erule retry_bridge_creation_cases) (simp add: auth_inv_proxy_state)

lemma process_proxy_result_inv:
  "process_proxy_result s info n res = Ok s' \<Longrightarrow> auth_inv s \<Longrightarrow> auth_inv s'"
  by (erule process_proxy_result_cases) (simp add: auth_inv_proxy_state)

lemma permissionless_action_inv:
  assumes "permissionless_action d s env info msg = Ok (s', r)" and "auth_inv s"
  shows "auth_inv s'"
proof (cases msg)
  case (ExecuteZkAuthorization label inputs zkp payload)
  with assms(1) have "execute_zk_authorization d s env info label inputs zkp payload = Ok (s', r)"
    by (simp add: permissionless_action_def)
  then show ?thesis
  proof (rule execute_zk_started)
    fix z m s1
    assume "check_last_block s z m = Ok s1"
      and "s' = s1 \<or> (\<exists>cb. s' = started s1 label cb \<and> starts s1 label cb \<and>
        pci_initiator cb = User (info_sender info))"
    then show ?thesis using assms(2) by (auto dest!: check_last_block_cases simp: auth_inv_started)
  qed
qed (use assms in \<open>auto simp: permissionless_action_def auth_inv_started
      dest: send_msgs_started retry_msgs_inv retry_bridge_creation_inv\<close>)

lemma polytone_callback_auth_cases:
  assumes "process_polytone_callback d s env info m = Ok (s', r)"
  obtains (execution) i where "dec_auth_polytone_callback (d_codec d) (cm_initiator_msg m) = Ok (AuthExecutionID i)"
      and "cm_initiator m = env_contract_address env"
      and "process_bridge_result d s env info i (cm_result m) = Ok (s', sent r)"
    | (creation) n where "dec_auth_polytone_callback (d_codec d) (cm_initiator_msg m) = Ok (AuthCreateProxy n)"
      and "process_proxy_result s info n (cm_result m) = Ok s'" and "sent r = []"
proof (cases "dec_auth_polytone_callback (d_codec d) (cm_initiator_msg m)")
  case (Ok c)
  with assms that show ?thesis
    by (cases c) (auto simp: process_polytone_callback_def and_then_Ok_iff split: if_splits)
qed (use assms in \<open>simp add: process_polytone_callback_def split: if_splits\<close>)

lemma process_polytone_callback_inv:
  assumes "process_polytone_callback d s env info m = Ok (s', r)" and "auth_inv s"
  shows "auth_inv s'"
  using assms(1)
proof (cases rule: polytone_callback_auth_cases)
  case (execution i)
  from execution(3) show ?thesis
    by (cases rule: bridge_result_cases) (use assms(2) auth_inv_ended in auto)
qed (use assms(2) process_proxy_result_inv in blast)

lemma update_ownership_same:
  assumes "update_ownership ow s env info action = Ok (s', r)"
  shows "\<exists>o'. s' = s\<lparr>ownership := o'\<rparr> \<or> s' = s\<lparr>first_ownership := False, ownership := o'\<rparr>"
  using assms
  by (cases action; cases "first_ownership s") (auto simp: update_ownership_def and_then_Ok_iff)

theorem execute_inv:
  assumes "execute ow d s env info msg = Ok (s', r)" and inv: "auth_inv s"
  shows "auth_inv s'"
proof (cases msg)
  case (UpdateOwnership action)
  with assms(1) have "update_ownership ow s env info action = Ok (s', r)" by (simp add: execute_def)
  then show ?thesis using inv by (auto dest!: update_ownership_same)
next
  case (OwnerAction m)
  with assms show ?thesis
    by (cases m) (auto simp: execute_def add_sub_owner_def remove_sub_owner_def and_then_Ok_iff)
next
  case (InternalAuthorizationAction m)
  with assms show ?thesis
    by (cases m) (auto simp: execute_def auth_inv_ended elim!: processor_callback_cases)
next
  case (HyperlaneCallback m)
  with assms(1) have "process_hyperlane_callback d s env info m = Ok (s', r)" by (simp add: execute_def)
  then show ?thesis by (rule hyperlane_callback_cases) (use inv auth_inv_ended in blast)
next
  case (PermissionedAction m)
  with assms(1) have "permissioned_action d s env m = Ok (s', r)"
    by (auto simp: execute_def and_then_Ok_iff)
  then show ?thesis using inv by (rule permissioned_action_inv)
next
  case (AuthPermissionlessAction m)
  with assms(1) have "permissionless_action d s env info m = Ok (s', r)" by (simp add: execute_def)
  then show ?thesis using inv by (rule permissionless_action_inv)
next
  case (AuthPolytoneCallback m)
  with assms(1) have "process_polytone_callback d s env info m = Ok (s', r)" by (simp add: execute_def)
  then show ?thesis using inv by (rule process_polytone_callback_inv)
qed

section \<open>Reachable states\<close>

text \<open>
  Every state of the contract: after its instantiation or a successful message from anyone. (A failed
  one leaves the storage as it was.)
\<close>

inductive auth_reach :: "'o ownable \<Rightarrow> deps \<Rightarrow> 'o auth_contract \<Rightarrow> bool" for ow d where
  init: "instantiate ow d msg = Ok (s, r) \<Longrightarrow> auth_reach ow d s"
| exec: "auth_reach ow d s \<Longrightarrow> execute ow d s env info msg = Ok (s', r) \<Longrightarrow> auth_reach ow d s'"

lemma instantiate_inv: "instantiate ow d msg = Ok (s, r) \<Longrightarrow> auth_inv s"
  by (auto simp: instantiate_def and_then_Ok_iff auth_inv_def)

lemma auth_reach_inv: "auth_reach ow d s \<Longrightarrow> auth_inv s"
  by (induction rule: auth_reach.induct) (auto intro: instantiate_inv execute_inv)

end
