(* ===== verification/Authorization_Tracking.thy ===== *)
theory Authorization_Tracking
  imports Authorization_Invariants
begin

text \<open>
  How the authorization contract tracks executions. Every message of the entry point has one of a
  few effects on the tracked executions: none, a new one, the end of one, a retry of one that timed
  out. From this follow the accounting of the concurrent executions of a label, the freshness of
  execution ids, and the frame of the configuration.
\<close>

section \<open>Frames\<close>

text \<open>A permissioned action changes at most what is configured.\<close>

definition reconfigured :: "'o auth_contract \<Rightarrow> 'o auth_contract \<Rightarrow> bool" where
  "reconfigured s s' \<longleftrightarrow>
     ownership s' = ownership s \<and> first_ownership s' = first_ownership s \<and>
     sub_owners s' = sub_owners s \<and> processor_on_main_domain s' = processor_on_main_domain s \<and>
     next_execution_id s' = next_execution_id s \<and> current_executions s' = current_executions s \<and>
     registry_last_block_execution s' = registry_last_block_execution s \<and>
     processor_callbacks s' = processor_callbacks s"

lemma reconfigured_refl [simp]: "reconfigured s s"
  by (simp add: reconfigured_def)

lemma reconfigured_trans: "reconfigured s s1 \<Longrightarrow> reconfigured s1 s2 \<Longrightarrow> reconfigured s s2"
  by (simp add: reconfigured_def)

lemma reconfigured_update [simp]:
  "reconfigured s (s\<lparr>authorizations := a\<rparr>)" "reconfigured s (s\<lparr>verification_router := v\<rparr>)"
  "reconfigured s (s\<lparr>zk_authorizations := z\<rparr>)" "reconfigured s (s\<lparr>external_domains := e\<rparr>)"
  by (simp_all add: reconfigured_def)

lemma register_frame: "register_domain d env p info = Ok p' \<Longrightarrow> reconfigured (fst p) (fst p')"
  by (erule register_domain_cases) simp

lemma add_external_domains_frame:
  assumes "add_external_domains d s env infos = Ok (s', r)"
  shows "reconfigured s s'"
proof -
  from assms obtain ms where f: "try_fold (register_domain d env) (s, []) infos = Ok (s', ms)"
    by (auto simp: add_external_domains_def and_then_Ok_iff)
  show ?thesis
    by (intro try_fold_invariant [OF f, where P = "\<lambda>p. reconfigured s (fst p)", simplified])
      (auto dest!: register_frame intro: reconfigured_trans)
qed

lemma create_frame:
  "create_authorization d env p info = Ok p' \<Longrightarrow> reconfigured (fst p) (fst p')"
  "create_zk_authorization d env p zinfo = Ok p' \<Longrightarrow> reconfigured (fst p) (fst p')"
  by (auto simp: create_authorization_def create_zk_authorization_def case_prod_beta and_then_Ok_iff
      split: if_splits)

lemma create_authorizations_frame:
  assumes "create_authorizations d s env infos = Ok (s', r)"
  shows "reconfigured s s'"
proof -
  from assms obtain ms where f: "try_fold (create_authorization d env) (s, []) infos = Ok (s', ms)"
    by (auto simp: create_authorizations_def and_then_Ok_iff)
  show ?thesis
    by (intro try_fold_invariant [OF f, where P = "\<lambda>p. reconfigured s (fst p)", simplified])
      (auto dest!: create_frame(1) intro: reconfigured_trans)
qed

lemma create_zk_authorizations_frame:
  assumes "create_zk_authorizations d s env infos = Ok (s', r)"
  shows "reconfigured s s'"
proof -
  from assms obtain ms where f: "try_fold (create_zk_authorization d env) (s, []) infos = Ok (s', ms)"
    by (auto simp: create_zk_authorizations_def and_then_Ok_iff)
  show ?thesis
    by (intro try_fold_invariant [OF f, where P = "\<lambda>p. reconfigured s (fst p)", simplified])
      (auto dest!: create_frame(2) intro: reconfigured_trans)
qed

lemma modify_frame:
  "modify_authorization d s label nb ex mc p = Ok (s', r) \<Longrightarrow> reconfigured s s'"
  "modify_zk_authorization s label v = Ok (s', r) \<Longrightarrow> reconfigured s s'"
  "update_zk_authorization_route s label route = Ok (s', r) \<Longrightarrow> reconfigured s s'"
  by (auto simp: modify_authorization_def modify_zk_authorization_def
      update_zk_authorization_route_def Let_def and_then_Ok_iff)

lemma set_authorization_state_frame:
  "set_authorization_state s label st = Ok s' \<Longrightarrow> reconfigured s s'"
  by (auto simp: set_authorization_state_def and_then_Ok_iff split: option.splits)

lemma permissioned_action_frame:
  assumes "permissioned_action d s env msg = Ok (s', r)"
    and "\<forall>label pos prio messages. msg \<noteq> PmInsertMsgs label pos prio messages"
  shows "reconfigured s s'"
  using assms
  by (cases msg)
    (auto simp: permissioned_action_def disable_authorization_def enable_authorization_def
      evict_messages_def pause_processor_def resume_processor_def
      set_verification_router_def and_then_Ok_iff
      dest: mint_authorizations_same add_external_domains_frame create_authorizations_frame
        create_zk_authorizations_frame modify_frame set_authorization_state_frame)

lemma permissioned_action_cases:
  assumes "permissioned_action d s env msg = Ok (s', r)"
  shows "reconfigured s s' \<or> (\<exists>label cb. s' = started s label cb \<and> starts s label cb)"
proof (cases "\<exists>label pos prio messages. msg = PmInsertMsgs label pos prio messages")
  case True
  with assms show ?thesis by (auto simp: permissioned_action_def dest!: insert_messages_started(1))
next
  case False
  with permissioned_action_frame [OF assms] show ?thesis by blast
qed

section \<open>The effects on tracked executions\<close>

definition same_tracking :: "'o auth_contract \<Rightarrow> 'o auth_contract \<Rightarrow> bool" where
  "same_tracking s s' \<longleftrightarrow>
     processor_callbacks s' = processor_callbacks s \<and> current_executions s' = current_executions s \<and>
     next_execution_id s' = next_execution_id s"

text \<open>
  The execution and the result that a message reports to the contract: a callback of a processor, on
  the same chain or over Hyperlane, or a failure of the bridge itself.
\<close>

definition reported ::
  "deps \<Rightarrow> 'o auth_contract \<Rightarrow> message_info \<Rightarrow> authorization_execute_msg \<Rightarrow>
   (u64 \<times> execution_result) option"
where
  "reported d s info msg =
     (case msg of
        InternalAuthorizationAction (ProcessorCallback i res) \<Rightarrow> Some (i, res)
      | AuthPolytoneCallback m \<Rightarrow>
          (case (dec_auth_polytone_callback (d_codec d) (cm_initiator_msg m), cm_result m) of
             (Ok (AuthExecutionID i), CallbackFatalError e) \<Rightarrow> Some (i, UnexpectedError e)
           | _ \<Rightarrow> None)
      | HyperlaneCallback handle \<Rightarrow>
          (case find_map (hyperlane_encoder d info handle) (sm_values (external_domains s)) of
             None \<Rightarrow> None
           | Some enc \<Rightarrow>
               (case broker_decode (d_querier d) (broker_address enc) (encoder_version enc)
                       (hm_body handle) of
                  Err _ \<Rightarrow> None
                | Ok bytes \<Rightarrow>
                    (case dec_internal_authorization (d_codec d) bytes of
                       Ok (ProcessorCallback i res) \<Rightarrow> Some (i, res)
                     | Err _ \<Rightarrow> None)))
      | _ \<Rightarrow> None)"

inductive effect ::
  "(u64 \<times> execution_result) option \<Rightarrow> 'o auth_contract \<Rightarrow> 'o auth_contract \<Rightarrow> bool"
  for rep s where
  quiet: "same_tracking s s' \<Longrightarrow> effect rep s s'"
| start: "same_tracking s s1 \<Longrightarrow> starts s1 label cb \<Longrightarrow> effect rep s (started s1 label cb)"
| finish: "sm_get (processor_callbacks s) i = Some cb \<Longrightarrow> 0 < executions_of s (pci_label cb) \<Longrightarrow>
    rep = Some (i, res) \<or> (pci_execution_result cb = InProcess \<and> res \<noteq> InProcess) \<Longrightarrow>
    effect rep s (ended s i cb res t)"
| resend: "sm_get (processor_callbacks s) i = Some cb \<Longrightarrow> pci_execution_result cb = Timeout True \<Longrightarrow>
    effect rep s
      (s\<lparr>current_executions := sm_set (pci_label cb) (Suc (executions_of s (pci_label cb)))
           (current_executions s),
         processor_callbacks := sm_set i (cb\<lparr>pci_execution_result := InProcess,
           pci_last_updated_at := t\<rparr>) (processor_callbacks s)\<rparr>)"
| give_up: "sm_get (processor_callbacks s) i = Some cb \<Longrightarrow> pci_execution_result cb = Timeout True \<Longrightarrow>
    cb' = cb \<or> cb' = cb\<lparr>pci_execution_result := Timeout False, pci_last_updated_at := t\<rparr> \<Longrightarrow>
    effect rep s (s\<lparr>processor_callbacks := sm_set i cb' (processor_callbacks s)\<rparr>)"

lemma same_tracking_refl [simp]: "same_tracking s s"
  by (simp add: same_tracking_def)

lemma reconfigured_same: "reconfigured s s' \<Longrightarrow> same_tracking s s'"
  by (simp add: reconfigured_def same_tracking_def)

lemma check_last_block_same: "check_last_block s z m = Ok s' \<Longrightarrow> same_tracking s s'"
  by (auto dest!: check_last_block_cases simp: same_tracking_def)

lemma retry_bridge_creation_same:
  "retry_bridge_creation d s env n = Ok (s', r) \<Longrightarrow> same_tracking s s'"
  by (erule retry_bridge_creation_cases) (simp add: same_tracking_def)

lemma process_proxy_result_same: "process_proxy_result s info n res = Ok s' \<Longrightarrow> same_tracking s s'"
  by (erule process_proxy_result_cases) (simp add: same_tracking_def)

lemma permissionless_action_effect:
  assumes "permissionless_action d s env info msg = Ok (s', r)"
  shows "effect rep s s'"
proof (cases msg)
  case (SendMsgs label messages ttl)
  with assms have "send_msgs d s env info label ttl messages = Ok (s', r)"
    by (simp add: permissionless_action_def)
  then show ?thesis by (auto dest!: send_msgs_started intro: effect.start)
next
  case (RetryMsgs i)
  with assms have "retry_msgs d s env i = Ok (s', r)" by (simp add: permissionless_action_def)
  then show ?thesis
  proof (cases rule: retry_msgs_cases)
    case (over cb a)
    show ?thesis unfolding over(4)
      by (rule effect.give_up [OF over(1,2), where t = "block_seconds (env_block env)"])
        (simp split: option.split)
  qed (auto intro: effect.resend)
next
  case (AuthRetryBridgeCreation n)
  with assms show ?thesis
    by (auto simp: permissionless_action_def intro: effect.quiet retry_bridge_creation_same)
next
  case (ExecuteZkAuthorization label inputs zkp payload)
  with assms have "execute_zk_authorization d s env info label inputs zkp payload = Ok (s', r)"
    by (simp add: permissionless_action_def)
  then show ?thesis
    by (rule execute_zk_started) (auto dest!: check_last_block_same intro: effect.quiet effect.start)
qed

lemma polytone_callback_effect:
  assumes "process_polytone_callback d s env info m = Ok (s', r)"
  shows "effect (reported d s info (AuthPolytoneCallback m)) s s'"
  using assms
proof (cases rule: polytone_callback_auth_cases)
  case (execution i)
  from execution(3) show ?thesis
  proof (cases rule: bridge_result_cases)
    case (ended cb res)
    then show ?thesis
      using execution(1) by (auto intro!: effect.finish simp: reported_def)
  qed (simp add: effect.quiet)
qed (auto intro: effect.quiet process_proxy_result_same)

lemma execute_effect:
  assumes "execute ow d s env info msg = Ok (s', r)"
  shows "effect (reported d s info msg) s s'"
proof (cases msg)
  case (UpdateOwnership action)
  with assms have "update_ownership ow s env info action = Ok (s', r)" by (simp add: execute_def)
  then show ?thesis by (auto dest!: update_ownership_same intro!: effect.quiet simp: same_tracking_def)
next
  case (OwnerAction m)
  with assms show ?thesis
    by (cases m) (auto simp: execute_def add_sub_owner_def remove_sub_owner_def and_then_Ok_iff
        same_tracking_def intro!: effect.quiet)
next
  case (PermissionedAction m)
  with assms have "permissioned_action d s env m = Ok (s', r)" by (auto simp: execute_def and_then_Ok_iff)
  then show ?thesis
    by (auto dest!: permissioned_action_cases intro: effect.quiet effect.start reconfigured_same)
next
  case (AuthPermissionlessAction m)
  with assms show ?thesis by (auto simp: execute_def intro: permissionless_action_effect)
next
  case (InternalAuthorizationAction m)
  with assms show ?thesis
    by (cases m) (auto simp: execute_def reported_def elim!: processor_callback_cases
        intro!: effect.finish)
next
  case (AuthPolytoneCallback m)
  with assms show ?thesis by (auto simp: execute_def intro: polytone_callback_effect)
next
  case (HyperlaneCallback m)
  with assms have "process_hyperlane_callback d s env info m = Ok (s', r)" by (simp add: execute_def)
  then show ?thesis
    by (rule hyperlane_callback_cases)
      (use HyperlaneCallback in \<open>auto simp: reported_def intro!: effect.finish\<close>)
qed

section \<open>Accounting\<close>

text \<open>The executions of a label that have been started and not ended.\<close>

definition in_flight :: "'o auth_contract \<Rightarrow> string \<Rightarrow> nat" where
  "in_flight s label =
     length (filter (\<lambda>cb. pci_label cb = label \<and> pci_execution_result cb = InProcess)
       (sm_values (processor_callbacks s)))"

definition in_process :: "'o auth_contract \<Rightarrow> u64 \<Rightarrow> bool" where
  "in_process s i =
     (case sm_get (processor_callbacks s) i of
        Some cb \<Rightarrow> pci_execution_result cb = InProcess
      | None \<Rightarrow> False)"

text \<open>The results that end an execution for good.\<close>

fun final_result :: "execution_result \<Rightarrow> bool" where
  "final_result InProcess = False"
| "final_result (Timeout retriable) = (\<not> retriable)"
| "final_result _ = True"

text \<open>
  What the contract relies on: an execution is reported once, with its end, and the execution ids
  have not gone once around.
\<close>

definition orderly ::
  "deps \<Rightarrow> 'o auth_contract \<Rightarrow> message_info \<Rightarrow> authorization_execute_msg \<Rightarrow> bool"
where
  "orderly d s info msg \<longleftrightarrow>
     next_execution_id s < 2 ^ 64 - 1 \<and>
     (case reported d s info msg of
        Some (i, res) \<Rightarrow> in_process s i \<and> final_result res
      | None \<Rightarrow> True)"

inductive orderly_reach :: "'o ownable \<Rightarrow> deps \<Rightarrow> 'o auth_contract \<Rightarrow> bool" for ow d where
  init: "instantiate ow d msg = Ok (s, r) \<Longrightarrow> orderly_reach ow d s"
| exec: "orderly_reach ow d s \<Longrightarrow> orderly d s info msg \<Longrightarrow>
    execute ow d s env info msg = Ok (s', r) \<Longrightarrow> orderly_reach ow d s'"

definition accounted :: "'o auth_contract \<Rightarrow> bool" where
  "accounted s \<longleftrightarrow>
     sm_sorted (processor_callbacks s) \<and>
     (\<forall>i. sm_has (processor_callbacks s) i \<longrightarrow> i < next_execution_id s) \<and>
     (\<forall>label. executions_of s label = in_flight s label)"

lemma filter_values_set:
  assumes "sm_sorted m"
  shows "length (filter P (sm_values (sm_set k v m))) +
      (case sm_get m k of Some w \<Rightarrow> of_bool (P w) | None \<Rightarrow> 0) =
    length (filter P (sm_values m)) + of_bool (P v)"
  using assms
proof (induction k v m rule: sm_set.induct)
  case (2 k v k' v' m)
  have "sm_get m k = None" if "k < k'"
    using that "2.prems" by (force simp: sm_sorted_Cons sm_get_def map_of_eq_None_iff)
  with 2 show ?case by (auto simp: sm_sorted_Cons sm_values_def sm_get_def split: option.splits)
qed (simp add: sm_values_def)

lemma in_flight_set:
  assumes "sm_sorted (processor_callbacks s)"
  shows "in_flight (s\<lparr>processor_callbacks := sm_set i cb (processor_callbacks s)\<rparr>) label +
      (case sm_get (processor_callbacks s) i of
         Some old \<Rightarrow> of_bool (pci_label old = label \<and> pci_execution_result old = InProcess)
       | None \<Rightarrow> 0) =
    in_flight s label + of_bool (pci_label cb = label \<and> pci_execution_result cb = InProcess)"
  using filter_values_set [OF assms] by (simp add: in_flight_def)

lemma in_flight_frame [simp]:
  "in_flight (s\<lparr>current_executions := e\<rparr>) label = in_flight s label"
  "in_flight (s\<lparr>next_execution_id := n\<rparr>) label = in_flight s label"
  by (simp_all add: in_flight_def)

lemma accounted_same: "same_tracking s s' \<Longrightarrow> accounted s \<Longrightarrow> accounted s'"
  by (simp add: same_tracking_def accounted_def executions_of_def in_flight_def)

lemma accounted_fresh: "accounted s \<Longrightarrow> sm_get (processor_callbacks s) (next_execution_id s) = None"
  by (auto simp: accounted_def sm_has_def)

lemma accounted_started:
  assumes "accounted s" and "starts s label cb" and "next_execution_id s < 2 ^ 64 - 1"
  shows "accounted (started s label cb)"
proof -
  have "in_flight (started s label cb) l = in_flight s l + of_bool (label = l)" for l
    using in_flight_set [of s "next_execution_id s" cb l] accounted_fresh [OF assms(1)] assms(1,2)
    by (simp add: started_def in_flight_def accounted_def starts_def)
  moreover have "wrapping_add_u64 (next_execution_id s) 1 = Suc (next_execution_id s)"
    using assms(3) by (simp add: wrapping_add_u64_def)
  ultimately show ?thesis
    using assms(1) by (auto simp: accounted_def started_def executions_of_def less_Suc_eq)
qed

text \<open>An entry that is replaced, with the counter adjusted to whether it was and is in process.\<close>

lemma accounted_replace:
  assumes "accounted s" and "sm_get (processor_callbacks s) i = Some old"
    and "pci_label cb = pci_label old"
    and "n + of_bool (pci_execution_result old = InProcess) =
      executions_of s (pci_label old) + of_bool (pci_execution_result cb = InProcess)"
  shows "accounted (s\<lparr>current_executions := sm_set (pci_label old) n (current_executions s),
    processor_callbacks := sm_set i cb (processor_callbacks s)\<rparr>)"
proof -
  let ?s = "s\<lparr>current_executions := sm_set (pci_label old) n (current_executions s),
    processor_callbacks := sm_set i cb (processor_callbacks s)\<rparr>"
  have "executions_of ?s l = in_flight ?s l" for l
  proof -
    have "in_flight ?s l + of_bool (pci_label old = l \<and> pci_execution_result old = InProcess) =
      in_flight s l + of_bool (pci_label old = l \<and> pci_execution_result cb = InProcess)"
      using in_flight_set [of s i cb l] assms(1-3) by (simp add: accounted_def in_flight_def)
    moreover have "executions_of s l = in_flight s l" using assms(1) by (simp add: accounted_def)
    ultimately show ?thesis
      using assms(4) by (cases "pci_label old = l") (auto simp: executions_of_def)
  qed
  then show ?thesis using assms(1,2) by (auto simp: accounted_def sm_has_def)
qed

lemma ended_alt:
  "ended s i cb res t =
     s\<lparr>current_executions :=
         sm_set (pci_label cb) (executions_of s (pci_label cb) - 1) (current_executions s),
       processor_callbacks :=
         sm_set i (cb\<lparr>pci_execution_result := res, pci_last_updated_at := t\<rparr>) (processor_callbacks s)\<rparr>"
  by (simp add: ended_def)

lemma accounted_effect:
  assumes "effect rep s s'" and "accounted s" and "next_execution_id s < 2 ^ 64 - 1"
    and "\<And>i res. rep = Some (i, res) \<Longrightarrow> in_process s i \<and> res \<noteq> InProcess"
  shows "accounted s'"
  using assms(1)
proof (cases rule: effect.cases)
  case quiet
  then show ?thesis using assms(2) by (rule accounted_same)
next
  case (start s1 label cb)
  then show ?thesis
    using assms(2,3) accounted_same [OF start(2)]
    by (auto intro!: accounted_started simp: same_tracking_def)
next
  case (finish i cb res t)
  then have "pci_execution_result cb = InProcess \<and> res \<noteq> InProcess"
    using assms(4) by (auto simp: in_process_def)
  then show ?thesis
    using accounted_replace [OF assms(2) finish(2), of
        "cb\<lparr>pci_execution_result := res, pci_last_updated_at := t\<rparr>" "executions_of s (pci_label cb) - 1"]
      finish(1,3)
    by (simp add: ended_alt)
next
  case (resend i cb t)
  then show ?thesis
    using accounted_replace [OF assms(2) resend(2), of
        "cb\<lparr>pci_execution_result := InProcess, pci_last_updated_at := t\<rparr>"
        "Suc (executions_of s (pci_label cb))"]
    by simp
next
  case (give_up i cb cb' t)
  then have cb': "pci_label cb' = pci_label cb" "pci_execution_result cb' \<noteq> InProcess" by auto
  then have "in_flight s' l = in_flight s l" for l
    using in_flight_set [of s i cb' l] assms(2) give_up(1-3) by (simp add: accounted_def)
  then show ?thesis using assms(2) give_up(1,2) by (auto simp: accounted_def sm_has_def)
qed

lemma accounted_orderly: "orderly_reach ow d s \<Longrightarrow> accounted s"
proof (induction rule: orderly_reach.induct)
  case (init msg s r)
  then show ?case
    by (auto simp: instantiate_def and_then_Ok_iff accounted_def executions_of_def in_flight_def
        sm_values_def)
next
  case (exec s info msg env s' r)
  show ?case
    by (rule accounted_effect [OF execute_effect [OF exec(3)] exec(4)])
      (use exec(2) in \<open>auto simp: orderly_def\<close>)
qed

lemma orderly_reach_reach: "orderly_reach ow d s \<Longrightarrow> auth_reach ow d s"
  by (induction rule: orderly_reach.induct) (auto intro: auth_reach.intros)

end
