(* ===== verification/Authorization_Custody.thy ===== *)
theory Authorization_Custody
  imports Authorization_Tracking
begin

text \<open>
  The tokens that users send with their messages. A permission with a call limit costs one token of
  the authorization per execution; the contract holds it until the execution ends and then burns it
  or sends it back. This theory follows the messages of every handler and shows that the contract
  never spends a token that it still owes to a user.
\<close>

section \<open>What the contract receives, spends and owes\<close>

definition funds_of :: "addr \<Rightarrow> string \<Rightarrow> message_info \<Rightarrow> nat" where
  "funds_of self label info =
     sum_list (map coin_amount
       (filter (\<lambda>c. coin_denom c = build_tokenfactory_denom self label) (info_funds info)))"

definition spends :: "deps \<Rightarrow> addr \<Rightarrow> string \<Rightarrow> cosmos_msg \<Rightarrow> bool" where
  "spends d self label m =
     (case m of
        BankSend _ coins \<Rightarrow>
          coins = [\<lparr>coin_denom = build_tokenfactory_denom self label, coin_amount = 1\<rparr>]
      | Stargate _ _ \<Rightarrow> m = burn_msg d self 1 (build_tokenfactory_denom self label)
      | _ \<Rightarrow> False)"

definition spent :: "deps \<Rightarrow> addr \<Rightarrow> string \<Rightarrow> response \<Rightarrow> nat" where
  "spent d self label r = length (filter (spends d self label) (sent r))"

definition owes :: "'o auth_contract \<Rightarrow> processor_callback_info \<Rightarrow> bool" where
  "owes s cb \<longleftrightarrow>
     (pci_execution_result cb = InProcess \<or> pci_execution_result cb = Timeout True) \<and>
     (case get_authorization_mode s (pci_label cb) of
        Ok mode \<Rightarrow> paying_user (pci_initiator cb) mode \<noteq> None
      | Err _ \<Rightarrow> False)"

definition owed :: "'o auth_contract \<Rightarrow> string \<Rightarrow> nat" where
  "owed s label =
     length (filter (\<lambda>cb. pci_label cb = label \<and> owes s cb) (sm_values (processor_callbacks s)))"

text \<open>
  What is relied upon: \<open>must_pay\<close> returns the amount of the denomination that was sent, and the
  encodings of two burn messages for different denominations differ.
\<close>

definition token_laws :: "deps \<Rightarrow> bool" where
  "token_laws d \<longleftrightarrow>
     (\<forall>info denom n. must_pay (d_api d) info denom = Ok n \<longrightarrow>
        n = sum_list (map coin_amount (filter (\<lambda>c. coin_denom c = denom) (info_funds info)))) \<and>
     (\<forall>m m'. enc_msg_burn (d_codec d) m = enc_msg_burn (d_codec d) m' \<longrightarrow> mb_denom m = mb_denom m')"

lemma token_lawsD:
  assumes "token_laws d"
  shows "must_pay (d_api d) info (build_tokenfactory_denom self label) = Ok n \<Longrightarrow>
      n = funds_of self label info"
    and "enc_msg_burn (d_codec d) m = enc_msg_burn (d_codec d) m' \<Longrightarrow> mb_denom m = mb_denom m'"
  using assms unfolding token_laws_def funds_of_def by blast+

lemma denom_inject [simp]:
  "build_tokenfactory_denom self l = build_tokenfactory_denom self l' \<longleftrightarrow> l = l'"
  by (simp add: build_tokenfactory_denom_def)

lemma spends_refund [simp]:
  "spends d self label (refund_msg env l u) \<longleftrightarrow>
     build_tokenfactory_denom (env_contract_address env) l = build_tokenfactory_denom self label"
  by (simp add: spends_def refund_msg_def)

lemma spends_wasm [simp]: "\<not> spends d self label (WasmExecute a b c)"
  by (simp add: spends_def)

lemma spends_settle:
  assumes "token_laws d" and "env_contract_address env = self"
  shows "spends d self label (settle_msg d env l u res) \<longleftrightarrow> l = label"
proof -
  let ?m = "\<lambda>l. \<lparr>mb_sender = self, mb_denom = build_tokenfactory_denom self l,
    mb_amount = string_of_nat 1, mb_burn_from_address = []\<rparr>"
  have "enc_msg_burn (d_codec d) (?m l) = enc_msg_burn (d_codec d) (?m label) \<longleftrightarrow> l = label"
    using token_lawsD(2) [OF assms(1), of "?m l" "?m label"] by auto
  then have "spends d self label (burn_msg d self 1 (build_tokenfactory_denom self l)) \<longleftrightarrow> l = label"
    by (simp add: spends_def burn_msg_def)
  then show ?thesis
    using assms(2) by (simp add: settle_msg_def Let_def split: execution_result.split)
qed

lemma spends_mint [simp]:
  "\<not> spends d self label (mint_msg d a b n c)" "\<not> spends d self label (create_denom_msg d a b)"
  by (simp_all add: spends_def mint_msg_def create_denom_msg_def burn_msg_def)

lemma spent_wasm [simp]: "wasm_only r \<Longrightarrow> spent d self label r = 0"
  by (auto simp: wasm_only_def spent_def filter_empty_conv)

section \<open>Modes do not change\<close>

definition keeps_modes :: "'o auth_contract \<Rightarrow> 'o auth_contract \<Rightarrow> bool" where
  "keeps_modes s s' \<longleftrightarrow>
     (\<forall>l mode. get_authorization_mode s l = Ok mode \<longrightarrow> get_authorization_mode s' l = Ok mode)"

lemma get_authorization_mode_Ok:
  "get_authorization_mode s l = Ok mode \<longleftrightarrow>
     (case sm_get (authorizations s) l of
        Some a \<Rightarrow> auth_mode a = mode
      | None \<Rightarrow> (\<exists>z. sm_get (zk_authorizations s) l = Some z \<and> za_mode z = mode))"
  by (auto simp: get_authorization_mode_def res_simps split: option.splits)

lemma keeps_modes_refl [simp]: "keeps_modes s s"
  by (simp add: keeps_modes_def)

lemma keeps_modes_trans: "keeps_modes s s1 \<Longrightarrow> keeps_modes s1 s2 \<Longrightarrow> keeps_modes s s2"
  by (simp add: keeps_modes_def)

lemma keeps_modes_same:
  "authorizations s' = authorizations s \<Longrightarrow> zk_authorizations s' = zk_authorizations s \<Longrightarrow> keeps_modes s s'"
  by (simp add: keeps_modes_def get_authorization_mode_Ok split: option.split)

lemma keeps_modes_set:
  "\<lbrakk>\<And>old. sm_get (authorizations s) l = Some old \<Longrightarrow> auth_mode a = auth_mode old;
    sm_get (authorizations s) l = None \<Longrightarrow> sm_get (zk_authorizations s) l = None\<rbrakk>
   \<Longrightarrow> keeps_modes s (s\<lparr>authorizations := sm_set l a (authorizations s)\<rparr>)"
  "\<lbrakk>\<And>old. sm_get (zk_authorizations s) l = Some old \<Longrightarrow> za_mode z = za_mode old\<rbrakk>
   \<Longrightarrow> keeps_modes s (s\<lparr>zk_authorizations := sm_set l z (zk_authorizations s)\<rparr>)"
  by (auto simp: keeps_modes_def get_authorization_mode_Ok split: option.splits if_splits)

lemma create_keeps_modes:
  "create_authorization d env p info = Ok p' \<Longrightarrow> keeps_modes (fst p) (fst p')"
  "create_zk_authorization d env p zinfo = Ok p' \<Longrightarrow> keeps_modes (fst p) (fst p')"
  by (auto simp: create_authorization_def create_zk_authorization_def case_prod_beta and_then_Ok_iff
      sm_has_def split: if_splits intro!: keeps_modes_set)

lemma register_keeps_modes: "register_domain d env p info = Ok p' \<Longrightarrow> keeps_modes (fst p) (fst p')"
  by (erule register_domain_cases) (simp add: keeps_modes_same)

lemma try_fold_keeps_modes:
  assumes "try_fold f (s, ms) xs = Ok (s', ms')"
    and "\<And>p x p'. f p x = Ok p' \<Longrightarrow> keeps_modes (fst p) (fst p')"
  shows "keeps_modes s s'"
proof -
  have "keeps_modes s (fst (s', ms'))"
    by (rule try_fold_invariant [OF assms(1), where P = "\<lambda>p. keeps_modes s (fst p)"])
      (auto dest: assms(2) intro: keeps_modes_trans)
  then show ?thesis by simp
qed

lemma modify_keeps_modes:
  assumes "modify_authorization d s label nb ex mc p = Ok (s', r)"
  shows "keeps_modes s s'"
proof -
  from assms obtain a where a: "sm_get (authorizations s) label = Some a"
    by (auto simp: modify_authorization_def and_then_Ok_iff ok_or_Ok_iff)
  let ?a1 = "case nb of Some t \<Rightarrow> a\<lparr>auth_not_before := t\<rparr> | None \<Rightarrow> a"
  let ?a2 = "case ex of Some t \<Rightarrow> ?a1\<lparr>auth_expiration := t\<rparr> | None \<Rightarrow> ?a1"
  let ?a3 = "case mc of Some n \<Rightarrow> ?a2\<lparr>auth_max_concurrent_executions := n\<rparr> | None \<Rightarrow> ?a2"
  let ?a4 = "case p of Some q \<Rightarrow> ?a3\<lparr>auth_priority := q\<rparr> | None \<Rightarrow> ?a3"
  have "auth_mode ?a4 = auth_mode a" by (simp split: option.split)
  moreover have s': "s' = s\<lparr>authorizations := sm_set label ?a4 (authorizations s)\<rparr>"
    using assms a by (simp add: modify_authorization_def Let_def and_then_Ok_iff)
  ultimately show ?thesis unfolding s' using a by (intro keeps_modes_set) auto
qed

lemma modify_zk_keeps_modes:
  "modify_zk_authorization s label v = Ok (s', r) \<Longrightarrow> keeps_modes s s'"
  "update_zk_authorization_route s label route = Ok (s', r) \<Longrightarrow> keeps_modes s s'"
  by (auto simp: modify_zk_authorization_def update_zk_authorization_route_def Let_def and_then_Ok_iff
      ok_or_Ok_iff intro!: keeps_modes_set split: option.split)

lemma set_state_keeps_modes: "set_authorization_state s label st = Ok s' \<Longrightarrow> keeps_modes s s'"
  by (auto simp: set_authorization_state_def and_then_Ok_iff ok_or_Ok_iff
      intro!: keeps_modes_set split: option.split_asm)

section \<open>The messages of the permissioned actions spend nothing\<close>

definition no_spending :: "deps \<Rightarrow> cosmos_msg list \<Rightarrow> bool" where
  "no_spending d ms \<longleftrightarrow> (\<forall>m \<in> set ms. \<forall>self label. \<not> spends d self label m)"

lemma no_spending_simps [simp]:
  "no_spending d []" "no_spending d (ms @ ms') \<longleftrightarrow> no_spending d ms \<and> no_spending d ms'"
  "no_spending d (m # ms) \<longleftrightarrow> (\<forall>self label. \<not> spends d self label m) \<and> no_spending d ms"
  by (auto simp: no_spending_def)

lemma no_spending_spent: "no_spending d (sent r) \<Longrightarrow> spent d self label r = 0"
  by (auto simp: no_spending_def spent_def filter_empty_conv)

lemma wasm_no_spending: "wasm_only r \<Longrightarrow> no_spending d (sent r)"
  by (auto simp: wasm_only_def no_spending_def)

lemma no_spending_all2:
  "list_all2 R xs ms \<Longrightarrow> (\<And>x m. R x m \<Longrightarrow> \<forall>self label. \<not> spends d self label m) \<Longrightarrow>
     no_spending d ms"
  by (induction rule: list_all2_induct) auto

lemma tokenfactory_no_spending:
  "tokenfactory_msgs d env label mode = Ok ms \<Longrightarrow> no_spending d ms"
  by (auto simp: tokenfactory_msgs_def Let_def and_then_Ok_iff try_map_Ok_iff elim!: no_spending_all2
      split: authorization_mode.split_asm permission_type.split_asm)

lemma fold_no_spending:
  assumes "try_fold f (s, []) xs = Ok (s', ms)"
    and "\<And>p x p'. f p x = Ok p' \<Longrightarrow> no_spending d (snd p) \<Longrightarrow> no_spending d (snd p')"
  shows "no_spending d ms"
proof -
  have "no_spending d (snd (s', ms))"
    by (rule try_fold_invariant [OF assms(1), where P = "\<lambda>p. no_spending d (snd p)"])
      (auto dest: assms(2))
  then show ?thesis by simp
qed

lemma step_no_spending:
  "create_authorization d env p info = Ok p' \<Longrightarrow> no_spending d (snd p) \<Longrightarrow> no_spending d (snd p')"
  "create_zk_authorization d env p zinfo = Ok p' \<Longrightarrow> no_spending d (snd p) \<Longrightarrow> no_spending d (snd p')"
  "register_domain d env p dinfo = Ok p' \<Longrightarrow> no_spending d (snd p) \<Longrightarrow> no_spending d (snd p')"
  by (auto simp: create_authorization_def create_zk_authorization_def case_prod_beta and_then_Ok_iff
      map_err_Ok_iff no_spending_def dest!: tokenfactory_no_spending connector_msgs_wasm
      elim!: register_domain_cases split: if_splits)

lemma mint_no_spending:
  "mint_authorizations d s env label mints = Ok (s', r) \<Longrightarrow> no_spending d (sent r)"
  by (cases "get_authorization_mode s label")
    (auto simp: mint_authorizations_def no_spending_def split: authorization_mode.splits)

lemma modify_silent:
  "modify_authorization d s label nb ex mc p = Ok (s', r) \<Longrightarrow> sent r = []"
  "modify_zk_authorization s label v = Ok (s', r) \<Longrightarrow> sent r = []"
  "update_zk_authorization_route s label route = Ok (s', r) \<Longrightarrow> sent r = []"
  by (auto simp: modify_authorization_def modify_zk_authorization_def
      update_zk_authorization_route_def Let_def and_then_Ok_iff)

lemma processor_msg_no_spending:
  "create_msg_for_processor d s bytes dest req = Ok m \<Longrightarrow> \<not> spends d self label m"
  by (auto dest: processor_msg_wasm)

lemma permissioned_custody_quiet:
  assumes "permissioned_action d s env msg = Ok (s', r)"
    and "\<forall>label pos prio messages. msg \<noteq> PmInsertMsgs label pos prio messages"
  shows "no_spending d (sent r) \<and> keeps_modes s s'"
  using assms
  by (cases msg) (auto simp: permissioned_action_def add_external_domains_def create_authorizations_def
      create_zk_authorizations_def disable_authorization_def enable_authorization_def
      modify_silent evict_messages_def pause_processor_def resume_processor_def
      set_verification_router_def and_then_Ok_iff map_err_Ok_iff processor_msg_no_spending keeps_modes_same
      intro: fold_no_spending step_no_spending try_fold_keeps_modes create_keeps_modes
        register_keeps_modes mint_no_spending dest: mint_authorizations_same set_state_keeps_modes
        modify_keeps_modes modify_zk_keeps_modes)

lemma permissioned_custody:
  assumes "permissioned_action d s env msg = Ok (s', r)"
  shows "no_spending d (sent r)"
    and "keeps_modes s s' \<and> reconfigured s s' \<or>
      (\<exists>label cb. s' = started s label cb \<and> starts s label cb \<and>
        pci_initiator cb = Owner \<and> sm_has (authorizations s) label)" (is ?keeps)
proof -
  have "no_spending d (sent r) \<and> ?keeps"
  proof (cases "\<exists>label pos prio messages. msg = PmInsertMsgs label pos prio messages")
    case True
    then obtain label pos prio messages where
      "insert_messages d s env label pos prio messages = Ok (s', r)"
      using assms by (auto simp: permissioned_action_def)
    from insert_messages_started [OF this] show ?thesis by (auto intro: wasm_no_spending)
  next
    case False
    then have "no_spending d (sent r) \<and> keeps_modes s s'"
      using permissioned_custody_quiet [OF assms] by blast
    moreover have "reconfigured s s'" using permissioned_action_frame [OF assms] False by blast
    ultimately show ?thesis by blast
  qed
  then show "no_spending d (sent r)" and ?keeps by auto
qed

section \<open>What is owed\<close>

definition labelled :: "'o auth_contract \<Rightarrow> bool" where
  "labelled s \<longleftrightarrow>
     (\<forall>i cb. sm_get (processor_callbacks s) i = Some cb \<longrightarrow>
        (\<exists>mode. get_authorization_mode s (pci_label cb) = Ok mode))"

lemma sm_values_get: "sm_sorted m \<Longrightarrow> v \<in> set (sm_values m) \<Longrightarrow> \<exists>k. sm_get m k = Some v"
  by (auto simp: sm_values_def sm_get_def sm_sorted_def strict_sorted_iff intro: map_of_is_SomeI)

lemma owes_keeps:
  "keeps_modes s s' \<Longrightarrow> get_authorization_mode s (pci_label cb) = Ok mode \<Longrightarrow> owes s' cb = owes s cb"
  by (simp add: keeps_modes_def owes_def)

lemma owed_keeps:
  assumes "keeps_modes s s'" and "labelled s" and "sm_sorted (processor_callbacks s)"
    and "processor_callbacks s' = processor_callbacks s"
  shows "owed s' label = owed s label" and "labelled s'"
proof -
  have "owes s' cb = owes s cb" if "cb \<in> set (sm_values (processor_callbacks s))" for cb
    using sm_values_get [OF assms(3) that] owes_keeps [OF assms(1)] assms(2)
    unfolding labelled_def by blast
  then show "owed s' label = owed s label"
    using assms(4) by (simp add: owed_def cong: filter_cong)
  show "labelled s'" using assms(1,2,4) unfolding labelled_def keeps_modes_def by metis
qed

lemma owes_frame [simp]:
  "owes (s\<lparr>processor_callbacks := c\<rparr>) = owes s"
  "owes (s\<lparr>current_executions := e\<rparr>) = owes s"
  "owes (s\<lparr>next_execution_id := n\<rparr>) = owes s"
  "get_authorization_mode (s\<lparr>next_execution_id := n\<rparr>) l = get_authorization_mode s l"
  by (auto simp: fun_eq_iff owes_def get_authorization_mode_def split: option.splits)

text \<open>An entry that is stored, whether or not it replaces another.\<close>

lemma owed_set:
  assumes "sm_sorted (processor_callbacks s)"
    and "processor_callbacks s' = sm_set i cb (processor_callbacks s)" and "owes s' = owes s"
  shows "owed s' label +
      (case sm_get (processor_callbacks s) i of
         Some old \<Rightarrow> of_bool (pci_label old = label \<and> owes s old) | None \<Rightarrow> 0) =
    owed s label + of_bool (pci_label cb = label \<and> owes s cb)"
  using filter_values_set [OF assms(1)] by (simp add: owed_def assms(2,3))

lemma owed_started:
  assumes "accounted s" and "starts s label cb"
  shows "owed (started s label cb) l = owed s l + of_bool (label = l \<and> owes s cb)"
proof -
  have "sm_sorted (processor_callbacks s)" using assms(1) by (simp add: accounted_def)
  moreover have "processor_callbacks (started s label cb) =
      sm_set (next_execution_id s) cb (processor_callbacks s)" "owes (started s label cb) = owes s"
    by (simp_all add: started_def)
  ultimately have "owed (started s label cb) l = owed s l + of_bool (pci_label cb = l \<and> owes s cb)"
    using owed_set [of s "started s label cb" "next_execution_id s" cb l] accounted_fresh [OF assms(1)]
    by simp
  then show ?thesis using assms(2) by (simp add: starts_def)
qed

lemma labelled_started:
  assumes "labelled s" and "starts s label cb" and "get_authorization_mode s label = Ok mode"
  shows "labelled (started s label cb)"
  unfolding labelled_def
proof (intro allI impI)
  fix i cb'
  assume "sm_get (processor_callbacks (started s label cb)) i = Some cb'"
  then have "cb' = cb \<or> sm_get (processor_callbacks s) i = Some cb'"
    by (simp add: started_def split: if_splits)
  then have "\<exists>mode. get_authorization_mode s (pci_label cb') = Ok mode"
    using assms unfolding labelled_def starts_def by blast
  then show "\<exists>mode. get_authorization_mode (started s label cb) (pci_label cb') = Ok mode"
    by (simp add: started_def)
qed

lemma owed_ended:
  assumes "accounted s" and "sm_get (processor_callbacks s) i = Some cb"
  shows "owed (ended s i cb res t) l + of_bool (pci_label cb = l \<and> owes s cb) =
    owed s l + of_bool (pci_label cb = l \<and>
      owes s (cb\<lparr>pci_execution_result := res, pci_last_updated_at := t\<rparr>))"
proof -
  let ?cb = "cb\<lparr>pci_execution_result := res, pci_last_updated_at := t\<rparr>"
  have "sm_sorted (processor_callbacks s)" using assms(1) by (simp add: accounted_def)
  moreover have "processor_callbacks (ended s i cb res t) = sm_set i ?cb (processor_callbacks s)"
    "owes (ended s i cb res t) = owes s"
    by (simp_all add: ended_def)
  ultimately show ?thesis using owed_set [of s "ended s i cb res t" i ?cb l] assms(2) by simp
qed

lemma labelled_ended:
  assumes "labelled s" and "sm_get (processor_callbacks s) i = Some cb"
  shows "labelled (ended s i cb res t)"
  unfolding labelled_def
proof (intro allI impI)
  fix j cb'
  assume "sm_get (processor_callbacks (ended s i cb res t)) j = Some cb'"
  then have "\<exists>old. sm_get (processor_callbacks s) (if j = i then i else j) = Some old \<and>
      pci_label cb' = pci_label old"
    using assms(2) by (auto simp: ended_def split: if_splits)
  then have "\<exists>mode. get_authorization_mode s (pci_label cb') = Ok mode"
    using assms(1) unfolding labelled_def by metis
  then show "\<exists>mode. get_authorization_mode (ended s i cb res t) (pci_label cb') = Ok mode" by simp
qed

section \<open>Every step stays solvent\<close>

definition solvent_step ::
  "deps \<Rightarrow> addr \<Rightarrow> 'o auth_contract \<Rightarrow> message_info \<Rightarrow> 'o auth_contract \<Rightarrow> response \<Rightarrow> bool"
where
  "solvent_step d self s info s' r \<longleftrightarrow>
     labelled s' \<and> (\<forall>l. owed s' l + spent d self l r \<le> owed s l + funds_of self l info)"

lemma solvent_quiet:
  assumes "labelled s" and "accounted s" and "keeps_modes s s'" and "no_spending d (sent r)"
    and "processor_callbacks s' = processor_callbacks s"
  shows "solvent_step d self s info s' r"
  using assms owed_keeps [OF assms(3,1) _ assms(5)] no_spending_spent [OF assms(4)]
  by (simp add: solvent_step_def accounted_def)

lemma paid_one:
  assumes "token_laws d" and "validate_permission d label mode self info = Ok ()"
    and "paying_user initiator mode \<noteq> None"
  shows "funds_of self label info = 1"
proof -
  from assms(3) obtain ls where "mode = Permissioned (WithCallLimit ls)"
    by (auto simp: paying_user_def split: operation_initiator.splits authorization_mode.splits
        permission_type.splits)
  with assms(2) have "must_pay (d_api d) info (build_tokenfactory_denom self label) = Ok 1"
    by (auto simp: validate_permission_def Let_def res_simps)
  from token_lawsD(1) [OF assms(1) this] show ?thesis by simp
qed

lemma solvent_started:
  assumes "labelled s" and "accounted s" and "starts s label cb" and "wasm_only r"
    and "get_authorization_mode s label = Ok mode"
    and "paying_user (pci_initiator cb) mode \<noteq> None \<Longrightarrow> funds_of self label info = 1"
  shows "solvent_step d self s info (started s label cb) r"
proof -
  have "owes s cb \<Longrightarrow> paying_user (pci_initiator cb) mode \<noteq> None"
    using assms(3,5) by (simp add: owes_def starts_def)
  then have "of_bool (label = l \<and> owes s cb) \<le> funds_of self l info" for l
    using assms(6) by (cases "label = l \<and> owes s cb") auto
  then show ?thesis
    using owed_started [OF assms(2,3)] labelled_started [OF assms(1,3,5)] assms(4)
    by (simp add: solvent_step_def)
qed

lemma solvent_send:
  assumes "send_msgs d s env info label ttl messages = Ok (s', r)" and "token_laws d" and "auth_inv s"
    and "labelled s" and "accounted s" and "env_contract_address env = self"
  shows "solvent_step d self s info s' r"
  using assms(1)
proof (rule send_msgs_cases)
  fix a dest bytes msg pa ba
  let ?cb = "new_callback (block_seconds (env_block env)) (next_execution_id s)
    (User (info_sender info)) dest label ttl messages pa ba"
  assume a: "sm_get (authorizations s) label = Some a"
    and v: "validate_executable d a (env_block env) (env_contract_address env) info messages = Ok ()"
    and s': "s' = started s label ?cb"
    and m: "create_msg_for_processor d s bytes dest
      (Some (execution_callback_request d env (next_execution_id s))) = Ok msg"
      "resp_messages r = [plain_msg msg]"
  have "wasm_only r" using m by (auto simp: wasm_only_def sent_def dest: processor_msg_wasm)
  moreover have "get_authorization_mode s label = Ok (auth_mode a)"
    using a by (simp add: get_authorization_mode_def)
  moreover have "validate_permission d label (auth_mode a) self info = Ok ()"
    using v auth_invD(1) [OF assms(3) a] assms(6) by (auto simp: validate_executable_def and_then_Ok_iff)
  ultimately show ?thesis unfolding s'
    using assms(2,4,5) by (intro solvent_started [where mode = "auth_mode a"])
      (auto simp: starts_def intro: paid_one [simplified])
qed

lemma solvent_zk:
  assumes "execute_zk_authorization d s env info label inputs zkp payload = Ok (s', r)"
    and "token_laws d" and "auth_inv s" and "labelled s" and "accounted s"
    and "env_contract_address env = self"
  shows "solvent_step d self s info s' r"
  using assms(1)
proof (rule execute_zk_started)
  fix z m s1
  assume z: "sm_get (zk_authorizations s) label = Some z"
    and v: "verify_zk_proof d s env info z inputs zkp payload = Ok ()"
    and s1: "check_last_block s z m = Ok s1" and w: "wasm_only r"
    and s': "s' = s1 \<or> (\<exists>cb. s' = started s1 label cb \<and> starts s1 label cb \<and>
      pci_initiator cb = User (info_sender info))"
  have mode: "get_authorization_mode s label = Ok (za_mode z)"
    using z auth_inv_zk [OF assms(3) z] by (simp add: get_authorization_mode_def)
  have same: "authorizations s1 = authorizations s" "zk_authorizations s1 = zk_authorizations s"
    "processor_callbacks s1 = processor_callbacks s"
    using check_last_block_cases [OF s1] by auto
  then have keeps: "keeps_modes s s1" by (simp add: keeps_modes_same)
  have quiet: "solvent_step d self s info s1 r"
    by (rule solvent_quiet [OF assms(4,5) keeps wasm_no_spending [OF w] same(3)])
  show ?thesis
  proof (cases "s' = s1")
    case False
    then obtain cb where cb: "s' = started s1 label cb" "starts s1 label cb" using s' by blast
    have "accounted s1" using check_last_block_same [OF s1] assms(5) by (rule accounted_same)
    moreover have "labelled s1" using quiet by (simp add: solvent_step_def)
    moreover have "get_authorization_mode s1 label = Ok (za_mode z)"
      using keeps mode by (simp add: keeps_modes_def)
    moreover have "validate_permission d label (za_mode z) self info = Ok ()"
      using v auth_invD(4) [OF assms(3) z] assms(6)
      by (auto simp: verify_zk_proof_def and_then_Ok_iff split: if_splits)
    ultimately have "solvent_step d self s1 info s' r" unfolding cb
      using assms(2) w cb(2) by (intro solvent_started [where mode = "za_mode z"]) (auto intro: paid_one [simplified])
    moreover have "owed s1 l = owed s l" for l
      using owed_keeps(1) [OF keeps assms(4) _ same(3)] assms(5) by (simp add: accounted_def)
    ultimately show ?thesis by (simp add: solvent_step_def)
  qed (use quiet in simp)
qed

text \<open>
  An execution that ends: what was owed for it is spent, at most once, and nothing is owed for it
  any more.
\<close>

definition pays :: "'o auth_contract \<Rightarrow> processor_callback_info \<Rightarrow> bool" where
  "pays s cb =
     (case get_authorization_mode s (pci_label cb) of
        Ok mode \<Rightarrow> paying_user (pci_initiator cb) mode \<noteq> None
      | Err _ \<Rightarrow> False)"

lemma owes_pays:
  "owes s cb \<longleftrightarrow>
     (pci_execution_result cb = InProcess \<or> pci_execution_result cb = Timeout True) \<and> pays s cb"
  by (simp add: owes_def pays_def)

lemma pays_result [simp]:
  "pays s (cb\<lparr>pci_execution_result := res, pci_last_updated_at := t\<rparr>) = pays s cb"
  "pays s (cb\<lparr>pci_last_updated_at := t, pci_execution_result := res\<rparr>) = pays s cb"
  by (simp_all add: pays_def split: result.split)

lemma solvent_ended:
  assumes "labelled s" and "accounted s" and "sm_get (processor_callbacks s) i = Some cb"
    and "pci_execution_result cb = InProcess" and "res \<noteq> InProcess"
    and "\<And>l. spent d self l r + of_bool (res = Timeout True \<and> pays s cb \<and> pci_label cb = l)
      \<le> of_bool (pays s cb \<and> pci_label cb = l)"
  shows "solvent_step d self s info (ended s i cb res t) r"
proof -
  have "owed (ended s i cb res t) l + spent d self l r \<le> owed s l" for l
    using owed_ended [OF assms(2,3), of res t l] assms(4-5) assms(6) [of l]
    by (cases "pays s cb"; cases "pci_label cb = l"; cases "res = Timeout True") (auto simp: owes_pays)
  then show ?thesis
    using labelled_ended [OF assms(1,3)] by (simp add: solvent_step_def add_increasing2)
qed

lemma spent_silent: "sent r = [] \<Longrightarrow> spent d self l r = 0"
  by (simp add: spent_def)

lemma pays_mode:
  "get_authorization_mode s (pci_label cb) = Ok mode \<Longrightarrow>
     pays s cb \<longleftrightarrow> paying_user (pci_initiator cb) mode \<noteq> None"
  by (simp add: pays_def)

lemma solvent_processor_callback:
  assumes "process_processor_callback d s env info i res = Ok (s', r)" and "token_laws d"
    and "labelled s" and "accounted s" and "env_contract_address env = self"
    and "in_process s i" and "final_result res"
  shows "solvent_step d self s info s' r"
  using assms(1)
proof (rule processor_callback_cases)
  fix cb mode
  assume cb: "sm_get (processor_callbacks s) i = Some cb"
    and s': "s' = ended s i cb res (block_seconds (env_block env))"
    and mode: "get_authorization_mode s (pci_label cb) = Ok mode"
    and r: "sent r = (case paying_user (pci_initiator cb) mode of
       Some a \<Rightarrow> [settle_msg d env (pci_label cb) a res] | None \<Rightarrow> [])"
  have "spent d self l r = of_bool (pays s cb \<and> pci_label cb = l)" for l
    using r spends_settle [OF assms(2,5)] by (simp add: spent_def pays_mode [OF mode] split: option.split)
  then show ?thesis unfolding s'
    using assms(3,4,6,7) cb by (intro solvent_ended) (auto simp: in_process_def)
qed

lemma solvent_bridge_result:
  assumes "process_bridge_result d s env info i result = Ok (s', sent r)"
    and "labelled s" and "accounted s" and "env_contract_address env = self"
    and "\<And>e. result = CallbackFatalError e \<Longrightarrow> in_process s i"
  shows "solvent_step d self s info s' r"
  using assms(1)
proof (cases rule: bridge_result_cases)
  case ignored
  then show ?thesis using assms(2,3) by (intro solvent_quiet) simp_all
next
  case (ended cb res)
  have "pci_execution_result cb = InProcess \<and> res \<noteq> InProcess"
    using ended(1,5) assms(5) by (auto simp: in_process_def)
  moreover have "spent d self l r + of_bool (res = Timeout True \<and> pays s cb \<and> pci_label cb = l)
      \<le> of_bool (pays s cb \<and> pci_label cb = l)" for l
  proof (cases "sent r = []")
    case False
    then obtain mode where "res = Timeout False" "get_authorization_mode s (pci_label cb) = Ok mode"
      "sent r = (case paying_user (pci_initiator cb) mode of
         Some u \<Rightarrow> [refund_msg env (pci_label cb) u] | None \<Rightarrow> [])"
      using ended(5) by auto
    then show ?thesis using assms(4) by (simp add: spent_def pays_mode split: option.split)
  qed (simp add: spent_silent)
  ultimately show ?thesis unfolding ended(4)
    using assms(2,3) ended(1) by (intro solvent_ended) auto
qed

lemma labelled_set:
  assumes "labelled s" and "sm_get (processor_callbacks s) i = Some cb" and "pci_label cb' = pci_label cb"
    and "processor_callbacks s' = sm_set i cb' (processor_callbacks s)"
    and "\<And>l. get_authorization_mode s' l = get_authorization_mode s l"
  shows "labelled s'"
  unfolding labelled_def
proof (intro allI impI)
  fix j x
  assume "sm_get (processor_callbacks s') j = Some x"
  then have "\<exists>old. sm_get (processor_callbacks s) j = Some old \<and> pci_label x = pci_label old"
    using assms(2-4) by (auto split: if_splits)
  then show "\<exists>mode. get_authorization_mode s' (pci_label x) = Ok mode"
    using assms(1,5) unfolding labelled_def by metis
qed

lemma solvent_retry:
  assumes "retry_msgs d s env i = Ok (s', r)" and "labelled s" and "accounted s"
    and "env_contract_address env = self"
  shows "solvent_step d self s info s' r"
proof -
  have sorted: "sm_sorted (processor_callbacks s)" using assms(3) by (simp add: accounted_def)
  from assms(1) show ?thesis
  proof (cases rule: retry_msgs_cases)
    case (resent cb a msg)
    have "owed s' l = owed s l" for l
      using owed_set [OF sorted, of s' i "cb\<lparr>pci_execution_result := InProcess,
          pci_last_updated_at := block_seconds (env_block env)\<rparr>" l] resent(1,2,5)
      by (simp add: owes_pays)
    moreover have "labelled s'" using resent(5) by (intro labelled_set [OF assms(2) resent(1)]) auto
    ultimately show ?thesis using resent(7) by (simp add: solvent_step_def)
  next
    case (over cb a)
    have mode: "get_authorization_mode s (pci_label cb) = Ok (auth_mode a)"
      using over(3) by (simp add: get_authorization_mode_def)
    have "labelled s'"
      using over(4) by (intro labelled_set [OF assms(2) over(1)]) (auto split: option.split)
    moreover have "owed s' l + spent d self l r \<le> owed s l" for l
    proof (cases "paying_user (pci_initiator cb) (auth_mode a)")
      case None
      then have "spent d self l r = 0" "processor_callbacks s' = sm_set i cb (processor_callbacks s)"
        using over(4,5) by (simp_all add: spent_silent)
      moreover have "owes s' = owes s" using over(4) by simp
      ultimately show ?thesis using owed_set [OF sorted, of s' i cb l] over(1) by simp
    next
      case (Some u)
      then have "spent d self l r = of_bool (pci_label cb = l)"
        using over(5) assms(4) by (simp add: spent_def)
      moreover have "owed s' l + of_bool (pci_label cb = l) = owed s l"
        using owed_set [OF sorted, of s' i "cb\<lparr>pci_execution_result := Timeout False,
            pci_last_updated_at := block_seconds (env_block env)\<rparr>" l] over(1,2,4) Some
        by (simp add: owes_pays pays_mode [OF mode])
      ultimately show ?thesis by simp
    qed
    ultimately show ?thesis by (simp add: solvent_step_def add_increasing2)
  qed
qed

lemma solvent_permissionless:
  assumes "permissionless_action d s env info msg = Ok (s', r)" and "token_laws d" and "auth_inv s"
    and "labelled s" and "accounted s" and "env_contract_address env = self"
  shows "solvent_step d self s info s' r"
proof (cases msg)
  case (AuthRetryBridgeCreation n)
  with assms(1) have "retry_bridge_creation d s env n = Ok (s', r)"
    by (simp add: permissionless_action_def)
  then show ?thesis
    by (rule retry_bridge_creation_cases)
      (use assms(4,5) in \<open>auto intro!: solvent_quiet keeps_modes_same wasm_no_spending\<close>)
qed (use assms in \<open>auto simp: permissionless_action_def intro: solvent_send solvent_retry solvent_zk\<close>)

lemma solvent_permissioned:
  assumes "permissioned_action d s env msg = Ok (s', r)" and "labelled s" and "accounted s"
  shows "solvent_step d self s info s' r"
  using permissioned_custody(2) [OF assms(1)]
proof (elim disjE exE conjE)
  assume "keeps_modes s s'" and "reconfigured s s'"
  then show ?thesis
    using assms(2,3) permissioned_custody(1) [OF assms(1)]
    by (intro solvent_quiet) (simp_all add: reconfigured_def)
next
  fix label cb
  assume s': "s' = started s label cb" and cb: "starts s label cb" "pci_initiator cb = Owner"
    and l: "sm_has (authorizations s) label"
  then obtain mode where mode: "get_authorization_mode s label = Ok mode"
    by (auto simp: sm_has_def get_authorization_mode_def)
  have "\<not> owes s cb" using cb(2) by (auto simp: owes_pays pays_def paying_user_def split: result.splits)
  then have "owed s' l = owed s l" for l using owed_started [OF assms(3) cb(1)] s' by simp
  then show ?thesis
    using labelled_started [OF assms(2) cb(1) mode] s'
      no_spending_spent [OF permissioned_custody(1) [OF assms(1)]]
    by (simp add: solvent_step_def)
qed

theorem execute_solvent:
  assumes "execute ow d s env info msg = Ok (s', r)" and "orderly d s info msg" and "token_laws d"
    and "auth_inv s" and "labelled s" and "accounted s" and "env_contract_address env = self"
  shows "solvent_step d self s info s' r"
proof (cases msg)
  case (UpdateOwnership action)
  with assms(1) have u: "update_ownership ow s env info action = Ok (s', r)" by (simp add: execute_def)
  then have "sent r = []"
    by (cases action; cases "first_ownership s") (auto simp: update_ownership_def and_then_Ok_iff sent_def)
  with update_ownership_same [OF u] assms(5,6) show ?thesis
    by (auto intro!: solvent_quiet keeps_modes_same)
next
  case (OwnerAction m)
  with assms(1,5,6) show ?thesis
    by (cases m) (auto simp: execute_def add_sub_owner_def remove_sub_owner_def and_then_Ok_iff
        intro!: solvent_quiet keeps_modes_same)
next
  case (PermissionedAction m)
  with assms(1) have "permissioned_action d s env m = Ok (s', r)" by (auto simp: execute_def and_then_Ok_iff)
  then show ?thesis using assms(5,6) by (rule solvent_permissioned)
next
  case (AuthPermissionlessAction m)
  with assms(1) have "permissionless_action d s env info m = Ok (s', r)" by (simp add: execute_def)
  then show ?thesis using assms(3-7) by (rule solvent_permissionless)
next
  case (InternalAuthorizationAction m)
  obtain i res where m: "m = ProcessorCallback i res" by (cases m)
  with InternalAuthorizationAction assms(1,2) have "process_processor_callback d s env info i res = Ok (s', r)"
    "in_process s i" "final_result res"
    by (simp_all add: execute_def orderly_def reported_def)
  then show ?thesis using assms(3,5-7) solvent_processor_callback by blast
next
  case (AuthPolytoneCallback m)
  with assms(1) have "process_polytone_callback d s env info m = Ok (s', r)" by (simp add: execute_def)
  then show ?thesis
  proof (cases rule: polytone_callback_auth_cases)
    case (execution i)
    then have "in_process s i" if "cm_result m = CallbackFatalError e" for e
      using that assms(2) AuthPolytoneCallback by (simp add: orderly_def reported_def)
    then show ?thesis using execution(3) assms(5-7) by (intro solvent_bridge_result) auto
  next
    case (creation n)
    from creation(2) show ?thesis
      by (rule process_proxy_result_cases)
        (use creation(3) assms(5,6) in \<open>auto intro!: solvent_quiet keeps_modes_same\<close>)
  qed
next
  case (HyperlaneCallback m)
  with assms(1) have "process_hyperlane_callback d s env info m = Ok (s', r)" by (simp add: execute_def)
  then show ?thesis
  proof (rule hyperlane_callback_cases)
    fix enc bytes i res cb
    assume "find_map (hyperlane_encoder d info m) (sm_values (external_domains s)) = Some enc"
      "broker_decode (d_querier d) (broker_address enc) (encoder_version enc) (hm_body m) = Ok bytes"
      "dec_internal_authorization (d_codec d) bytes = Ok (ProcessorCallback i res)"
    then have "in_process s i" "final_result res"
      using assms(2) HyperlaneCallback by (simp_all add: orderly_def reported_def)
    moreover assume "sm_get (processor_callbacks s) i = Some cb"
      and s': "s' = ended s i cb res (block_seconds (env_block env))" and "sent r = []"
    ultimately show ?thesis unfolding s'
      using assms(5,6) by (intro solvent_ended) (auto simp: in_process_def spent_silent)
  qed
qed

section \<open>Custody\<close>

text \<open>
  The histories of the contract with the tokens it holds: what came in with its messages, less what
  its responses spend.
\<close>

inductive custody ::
  "'o ownable \<Rightarrow> deps \<Rightarrow> addr \<Rightarrow> 'o auth_contract \<Rightarrow> (string \<Rightarrow> int) \<Rightarrow> bool"
  for ow d self where
  init: "instantiate ow d msg = Ok (s, r) \<Longrightarrow> custody ow d self s (\<lambda>_. 0)"
| exec: "custody ow d self s held \<Longrightarrow> orderly d s info msg \<Longrightarrow> env_contract_address env = self \<Longrightarrow>
    execute ow d s env info msg = Ok (s', r) \<Longrightarrow>
    custody ow d self s' (\<lambda>l. held l + int (funds_of self l info) - int (spent d self l r))"

lemma custody_orderly: "custody ow d self s held \<Longrightarrow> orderly_reach ow d s"
  by (induction rule: custody.induct) (auto intro: orderly_reach.intros)

lemma custody_solvent:
  assumes "token_laws d" and "custody ow d self s held"
  shows "labelled s \<and> (\<forall>l. int (owed s l) \<le> held l)"
  using assms(2)
proof (induction rule: custody.induct)
  case (init msg s r)
  then show ?case
    by (auto simp: instantiate_def and_then_Ok_iff labelled_def owed_def sm_values_def)
next
  case (exec s held info msg env s' r)
  have "orderly_reach ow d s" using exec(1) by (rule custody_orderly)
  then have "auth_inv s" "accounted s"
    by (auto intro: auth_reach_inv orderly_reach_reach accounted_orderly)
  with exec assms(1) have "solvent_step d self s info s' r" by (intro execute_solvent) auto
  then have "labelled s'"
    and step: "owed s' l + spent d self l r \<le> owed s l + funds_of self l info" for l
    by (simp_all add: solvent_step_def)
  moreover have "int (owed s' l) \<le> held l + int (funds_of self l info) - int (spent d self l r)" for l
    using step [of l] spec [OF conjunct2 [OF exec.IH], of l] by linarith
  ultimately show ?case by blast
qed

end
