(* ===== verification/Examples.thy ===== *)
theory Examples
  imports Deps
begin

text \<open>
  Concrete instances of what the contracts receive from outside, used to evaluate the properties on
  concrete inputs: expirations as \<open>cw_utils\<close> documents them, an address check that refuses the empty
  string, a JSON reader for messages that consist of one key, constant serialisers.
\<close>

definition ex_api :: cw_api where
  "ex_api =
     \<lparr>addr_validate = (\<lambda>a. if a = [] then Err (GenericErr ''Empty address'') else Ok a),
      is_expired = (\<lambda>e b. case e of
          AtHeight h \<Rightarrow> h \<le> block_height b
        | AtTime t \<Rightarrow> t \<le> block_time b
        | Never \<Rightarrow> False),
      duration_after = (\<lambda>t b. case t of
          Height h \<Rightarrow> AtHeight (block_height b + h)
        | Time t \<Rightarrow> AtTime (block_time b + t * 1000000000)),
      plus_seconds = (\<lambda>t n. t + n * 1000000000),
      must_pay = (\<lambda>info denom. case info_funds info of
          [c] \<Rightarrow> if coin_denom c = denom \<and> 0 < coin_amount c then Ok (coin_amount c)
                 else Err ''Must send reserve token''
        | _ \<Rightarrow> Err ''Sent more than one denomination''),
      debug_string = (\<lambda>s. CHR 0x22 # s @ [CHR 0x22])\<rparr>"

definition ex_json :: serde_json where
  "ex_json =
     \<lparr>json_from_slice = (\<lambda>b. if b = [] then Err ''EOF'' else Ok (JObject [(b, JObject [])])),
      json_to_vec = (\<lambda>j. case j of JObject ((k, _) # _) \<Rightarrow> Ok k | _ \<Rightarrow> Err ''unsupported''),
      json_pointer = (\<lambda>j p. case j of JObject ms \<Rightarrow> map_of ms (tl p) | _ \<Rightarrow> None),
      json_get = (\<lambda>j k. case j of JObject ms \<Rightarrow> map_of ms k | _ \<Rightarrow> None),
      json_insert = (\<lambda>ms k v. ms @ [(k, v)])\<rparr>"

definition ex_codec :: codec where
  "ex_codec =
     \<lparr>enc_processor_execute = (\<lambda>_. ''processor''),
      dec_processor_execute = (\<lambda>_. Err (GenericErr ''parse'')),
      enc_authorization_execute = (\<lambda>m. case m of
          InternalAuthorizationAction (ProcessorCallback _ Success) \<Rightarrow> ''success''
        | InternalAuthorizationAction (ProcessorCallback _ (Rejected e)) \<Rightarrow> ''rejected: '' @ e
        | InternalAuthorizationAction (ProcessorCallback _ (PartiallyExecuted _ e)) \<Rightarrow> ''partial: '' @ e
        | InternalAuthorizationAction (ProcessorCallback _ RemovedByOwner) \<Rightarrow> ''removed''
        | _ \<Rightarrow> ''other''),
      dec_authorization_execute = (\<lambda>_. Err (GenericErr ''parse'')),
      dec_internal_authorization = (\<lambda>_. Ok (ProcessorCallback 0 Success)),
      enc_polytone_execute = (\<lambda>_. ''polytone''),
      enc_hyperlane_dispatch = (\<lambda>_. ''dispatch''),
      enc_proc_polytone_callback = (\<lambda>_. ''callback''),
      dec_proc_polytone_callback = (\<lambda>_. Ok (ExecutionID 7)),
      enc_auth_polytone_callback = (\<lambda>_. ''callback''),
      dec_auth_polytone_callback = (\<lambda>_. Ok (AuthExecutionID 0)),
      dec_zk_message = (\<lambda>_. Ok \<lparr>zm_registry = 1, zm_block_number = 5, zm_domain = Main,
        zm_authorization_contract = None, zm_message = Pause\<rparr>),
      enc_msg_create_denom = (\<lambda>_. ''create''),
      enc_msg_mint = (\<lambda>_. ''mint''),
      enc_msg_burn = mb_denom,
      hex_from = Ok\<rparr>"

definition ex_querier :: querier where
  "ex_querier =
     \<lparr>query_balance = (\<lambda>_ _. Ok 1),
      broker_is_valid_library = (\<lambda>_ _ _. Ok True),
      broker_encode = (\<lambda>_ _ _. Ok ''encoded''),
      broker_decode = (\<lambda>_ _ b. Ok b),
      router_get_route = (\<lambda>_ r. Ok r),
      router_verify = (\<lambda>_ _ _ _ _ _. Ok True)\<rparr>"

definition ex_deps :: deps where
  "ex_deps = \<lparr>d_api = ex_api, d_json = ex_json, d_codec = ex_codec, d_querier = ex_querier\<rparr>"

text \<open>An ownership package whose state is the address of the owner.\<close>

definition ex_ow :: "addr ownable" where
  "ex_ow =
     \<lparr>initialize_owner = Ok,
      assert_owner = (\<lambda>o' a. if a = o' then Ok () else Err (OwnershipError ''not owner'')),
      is_owner = (\<lambda>o' a. Ok (a = o')),
      update_ownership = (\<lambda>o' _ a action. case action of
          TransferOwnership new _ \<Rightarrow>
            if a = o' then Ok new else Err (OwnershipError ''not owner'')
        | _ \<Rightarrow> Err (OwnershipError ''no transfer'')),
      ownership_attributes = (\<lambda>o'. [(''owner'', o')]), debug_action = (\<lambda>_. ''action''), debug_ownership = id\<rparr>"

definition ex_env :: env where
  "ex_env =
     \<lparr>env_block = \<lparr>block_height = 100, block_time = 1000000000000, block_seconds = 1000\<rparr>,
      env_contract_address = ''self''\<rparr>"

definition ex_info :: "addr \<Rightarrow> message_info" where
  "ex_info a = \<lparr>info_sender = a, info_funds = []\<rparr>"

text \<open>Functions of a subroutine that call a method of a contract on the main domain.\<close>

definition ex_details :: "string \<Rightarrow> message_details" where
  "ex_details name =
     \<lparr>message_type = MtCosmwasmExecuteMsg,
      message = \<lparr>message_name = name, params_restrictions = None\<rparr>\<rparr>"

definition ex_function :: "string \<Rightarrow> string \<Rightarrow> atomic_function" where
  "ex_function contract name =
     \<lparr>fn_domain = Main, fn_message_details = ex_details name, fn_contract_address = Addr contract\<rparr>"

definition ex_step :: "string \<Rightarrow> string \<Rightarrow> retry_logic option \<Rightarrow> non_atomic_function" where
  "ex_step contract name logic =
     \<lparr>fn_domain = Main, fn_message_details = ex_details name, fn_contract_address = Addr contract,
      fn_retry_logic = logic, fn_callback_confirmation = None\<rparr>"

lemmas ex_defs =
  ex_deps_def ex_api_def ex_json_def ex_codec_def ex_querier_def ex_env_def ex_info_def
  ex_details_def ex_function_def ex_step_def

end
