(* ===== verification/Authorization_Props.thy ===== *)
theory Authorization_Props
  imports Authorization_Custody Examples
begin

text \<open>
  The properties of the authorization contract: what is stored, who may change it, when messages
  are sent to a processor, how executions are counted and their tokens settled, and why a ZK proof
  is executed once.
\<close>

section \<open>A concrete contract\<close>

text \<open>
  One authorization of the user with five tokens, which calls one contract of the main domain.
\<close>

definition ex_auth0 :: "addr auth_contract" where
  "ex_auth0 =
     \<lparr>ownership = ''owner'', first_ownership = True, sub_owners = [(''sub'', ())], authorizations = [],
      verification_router = None, zk_authorizations = [], processor_on_main_domain = ''processor'',
      external_domains = [], next_execution_id = 0, current_executions = [],
      registry_last_block_execution = [], processor_callbacks = []\<rparr>"

definition ex_authorization :: authorization where
  "ex_authorization =
     \<lparr>auth_label = ''swap'', auth_mode = Permissioned (WithCallLimit [(''user'', 5)]),
      auth_not_before = Never, auth_expiration = Never, auth_max_concurrent_executions = 2,
      auth_subroutine = Atomic \<lparr>as_functions = [ex_function ''c1'' ''m1''], as_retry_logic = None,
        as_expiration_time = None\<rparr>,
      auth_priority = Medium, auth_state = Enabled\<rparr>"

definition ex_auth1 :: "addr auth_contract" where
  "ex_auth1 = ex_auth0\<lparr>authorizations := [(''swap'', ex_authorization)]\<rparr>"

text \<open>The user sends one message and one token.\<close>

abbreviation ex_messages :: "processor_message list" where
  "ex_messages \<equiv> [CosmwasmExecuteMsg ''m1'']"

definition ex_paid :: message_info where
  "ex_paid =
     \<lparr>info_sender = ''user'',
      info_funds = [\<lparr>coin_denom = ''factory/self/swap'', coin_amount = 1\<rparr>]\<rparr>"

definition ex_entry :: processor_callback_info where
  "ex_entry = new_callback 1000 0 (User ''user'') Main ''swap'' None ex_messages ''processor'' None"

definition ex_auth2 :: "addr auth_contract" where
  "ex_auth2 = started ex_auth1 ''swap'' ex_entry"

lemma ex_init:
  "instantiate ex_ow ex_deps \<lparr>aim_owner = ''owner'', aim_sub_owners = [''sub''], aim_processor = ''processor''\<rparr> =
     Ok (ex_auth0, add_attribute ''method'' ''instantiate_authorization'' response_new)"
  by (simp add: instantiate_def ex_ow_def ex_defs ex_auth0_def)

lemma ex_create:
  "\<exists>r. execute ex_ow ex_deps ex_auth0 ex_env (ex_info ''owner'')
     (PermissionedAction (CreateAuthorizations
       [\<lparr>ai_label = ''swap'', ai_mode = PermissionedInfo (WithCallLimitInfo [(''user'', 5)]),
         ai_not_before = Never, ai_duration = Forever, ai_max_concurrent_executions = Some 2,
         ai_subroutine = auth_subroutine ex_authorization, ai_priority = None\<rparr>])) = Ok (ex_auth1, r)"
  by (simp add: execute_def assert_owner_or_subowner_def permissioned_action_def
      create_authorizations_def create_authorization_def into_authorization_def addr_validate_unwrap_def
      validate_def validate_subroutine_def validate_functions_def validate_function_def
      validate_domain_def validate_message_type_def validate_evm_library_def
      validate_param_restrictions_def tokenfactory_msgs_def Let_def ex_ow_def ex_defs ex_auth0_def ex_auth1_def
      ex_authorization_def)

lemma ex_sent:
  "\<exists>r. execute ex_ow ex_deps ex_auth1 ex_env ex_paid
     (AuthPermissionlessAction (SendMsgs ''swap'' ex_messages None)) = Ok (ex_auth2, r) \<and>
     sent r = [WasmExecute ''processor'' ''processor'' []]"
  by (simp add: execute_def permissionless_action_def send_msgs_def validate_executable_def
      ensure_enabled_def ensure_active_def ensure_not_expired_def validate_permission_def
      build_tokenfactory_denom_def validate_messages_def validate_messages_generic_def
      validate_message_def validate_json_message_def eq_message_type_def get_msg_def
      executions_of_def increase_current_executions_def checked_add_u64_def get_domain_def
      get_and_increase_execution_id_def execute_msg_binary_def create_msg_for_processor_def
      create_msg_for_main_domain_def store_inprocess_callback_def ex_ow_def ex_defs ex_auth0_def
      ex_auth1_def ex_auth2_def ex_authorization_def ex_paid_def ex_entry_def started_def
      new_callback_def sm_get_def Let_def)

lemma ex_reported [simp]:
  "reported d s info (PermissionedAction m) = None"
  "reported d s info (AuthPermissionlessAction p) = None"
  by (simp_all add: reported_def)

lemma ex_orderly: "orderly_reach ex_ow ex_deps ex_auth1" "orderly_reach ex_ow ex_deps ex_auth2"
proof -
  have o: "orderly ex_deps s info (PermissionedAction m)"
    "orderly ex_deps s info (AuthPermissionlessAction p)"
    if "s = ex_auth0 \<or> s = ex_auth1" for s info m p
    using that by (auto simp: orderly_def ex_auth0_def ex_auth1_def)
  have 0: "orderly_reach ex_ow ex_deps ex_auth0" by (rule orderly_reach.init [OF ex_init])
  from ex_create show 1: "orderly_reach ex_ow ex_deps ex_auth1"
    by (auto intro: orderly_reach.exec [OF 0 o(1)])
  from ex_sent show "orderly_reach ex_ow ex_deps ex_auth2"
    by (auto intro: orderly_reach.exec [OF 1 o(2)])
qed

lemmas ex_reach = ex_orderly [THEN orderly_reach_reach]

section \<open>What is stored\<close>

text \<open>
  (C23) In every reachable state of the authorization contract an authorization is stored under its
  own label, no ZK authorization has the same label, and it is well-formed: it has functions, all of
  them on one registered domain whose environment takes their messages, their parameter
  restrictions can be checked, and it is not both permissionless and of high priority.
\<close>

theorem authorizations_well_formed:
  assumes "auth_reach ow d s" and "sm_get (authorizations s) label = Some a"
  shows "auth_label a = label \<and> sm_get (zk_authorizations s) label = None \<and>
    authorization_wf (external_domains s) a"
  using auth_invD(1-3) [OF auth_reach_inv [OF assms(1)] assms(2)] by blast

lemma ex_get [simp]:
  "sm_get (authorizations ex_auth1) ''swap'' = Some ex_authorization"
  "sm_get (authorizations ex_auth2) ''swap'' = Some ex_authorization"
  by (simp_all add: ex_auth1_def ex_auth2_def started_def sm_get_def)

theorem authorizations_well_formed_witness:
  "auth_reach ex_ow ex_deps ex_auth1 \<and>
   authorization_wf (external_domains ex_auth1) ex_authorization"
  using authorizations_well_formed [OF ex_reach(1), of "''swap''" ex_authorization] ex_reach(1) by simp

section \<open>When messages are sent\<close>

text \<open>
  What an authorization asks of a message: its kind and, for JSON, an object with the one member that
  is named, and every restriction on the parameters.
\<close>

definition satisfies_restriction :: "deps \<Rightarrow> json \<Rightarrow> param_restriction \<Rightarrow> bool" where
  "satisfies_restriction d j restriction =
     (case restriction of
        MustBeIncluded keys \<Rightarrow> json_pointer (d_json d) j (pointer keys) \<noteq> None
      | CannotBeIncluded keys \<Rightarrow> json_pointer (d_json d) j (pointer keys) = None
      | MustBeValue keys v \<Rightarrow>
          (case json_from_slice (d_json d) v of
             Ok expected \<Rightarrow> json_pointer (d_json d) j (pointer keys) = Some expected
           | Err _ \<Rightarrow> False)
      | MustBeBytes _ \<Rightarrow> False)"

definition conforms :: "deps \<Rightarrow> processor_message \<Rightarrow> func \<Rightarrow> bool" where
  "conforms d m f =
     (let details = fn_message_details f;
          restrictions = (case params_restrictions (message details) of Some rs \<Rightarrow> rs | None \<Rightarrow> [])
      in eq_message_type m (message_type details) \<and>
         (case m of
            EvmRawCall msg \<Rightarrow> list_all (\<lambda>restriction. restriction = MustBeBytes msg) restrictions
          | _ \<Rightarrow>
              (case json_from_slice (d_json d) (get_msg m) of
                 Ok j \<Rightarrow>
                   object_len j = 1 \<and>
                   json_get (d_json d) j (message_name (message details)) \<noteq> None \<and>
                   list_all (satisfies_restriction d j) restrictions
               | Err _ \<Rightarrow> False)))"

lemma check_json_restriction_iff:
  "check_json_restriction d j restriction = Ok () \<longleftrightarrow> satisfies_restriction d j restriction"
  by (cases restriction)
    (auto simp: check_json_restriction_def satisfies_restriction_def res_simps split: result.splits)

lemma check_bytes_restriction_iff:
  "check_bytes_restriction msg restriction = Ok () \<longleftrightarrow> restriction = MustBeBytes msg"
  by (cases restriction) (auto simp: check_bytes_restriction_def ensure_Ok_iff)

lemma validate_json_message_iff:
  "validate_json_message d msg m = Ok () \<longleftrightarrow>
     (case json_from_slice (d_json d) msg of
        Ok j \<Rightarrow>
          object_len j = 1 \<and> json_get (d_json d) j (message_name m) \<noteq> None \<and>
          list_all (satisfies_restriction d j)
            (case params_restrictions m of Some rs \<Rightarrow> rs | None \<Rightarrow> [])
      | Err _ \<Rightarrow> False)"
  by (cases "json_from_slice (d_json d) msg")
    (auto simp: validate_json_message_def try_fold_unit check_json_restriction_iff list_all_iff
      split: option.splits)

lemma validate_message_iff: "validate_message d m f = Ok () \<longleftrightarrow> conforms d m (func.truncate f)"
  by (cases m)
    (auto simp: validate_message_def conforms_def Let_def validate_json_message_iff try_fold_unit
      check_bytes_restriction_iff list_all_iff get_msg_def split: option.splits)

lemma validate_messages_generic_iff:
  "validate_messages_generic d ms fs = Ok () \<longleftrightarrow> list_all2 (conforms d) ms (map func.truncate fs)"
  by (auto simp: validate_messages_generic_def try_fold_unit validate_message_iff list_all2_conv_all_nth
      in_set_zip set_zip list_all2_iff)

lemma validate_messages_iff:
  "validate_messages d a ms = Ok () \<longleftrightarrow> list_all2 (conforms d) ms (functions_of (auth_subroutine a))"
  by (cases "auth_subroutine a")
    (auto simp: validate_messages_def functions_of_def validate_messages_generic_iff map_idI
      func.truncate_def)

definition permitted :: "deps \<Rightarrow> addr \<Rightarrow> message_info \<Rightarrow> authorization \<Rightarrow> bool" where
  "permitted d self info a =
     (case auth_mode a of
        Permissionless \<Rightarrow> True
      | Permissioned (WithCallLimit _) \<Rightarrow>
          must_pay (d_api d) info (build_tokenfactory_denom self (auth_label a)) = Ok 1
      | Permissioned (WithoutCallLimit _) \<Rightarrow>
          (case query_balance (d_querier d) (info_sender info)
                  (build_tokenfactory_denom self (auth_label a)) of
             Ok balance \<Rightarrow> balance \<noteq> 0
           | Err _ \<Rightarrow> False))"

definition may_send ::
  "deps \<Rightarrow> env \<Rightarrow> message_info \<Rightarrow> authorization \<Rightarrow> processor_message list \<Rightarrow> bool"
where
  "may_send d env info a messages \<longleftrightarrow>
     auth_state a = Enabled \<and>
     (auth_not_before a = Never \<or> is_expired (d_api d) (auth_not_before a) (env_block env)) \<and>
     \<not> is_expired (d_api d) (auth_expiration a) (env_block env) \<and>
     permitted d (env_contract_address env) info a \<and>
     list_all2 (conforms d) messages (functions_of (auth_subroutine a))"

lemma validate_permission_iff:
  "validate_permission d (auth_label a) (auth_mode a) self info = Ok () \<longleftrightarrow> permitted d self info a"
  by (auto simp: validate_permission_def permitted_def Let_def res_simps
      split: authorization_mode.split permission_type.split result.splits)

lemma ensure_active_iff:
  "ensure_active d a block = Ok () \<longleftrightarrow>
     auth_not_before a = Never \<or> is_expired (d_api d) (auth_not_before a) block"
  by (cases "auth_not_before a") (auto simp: ensure_active_def)

lemma validate_executable_iff:
  "validate_executable d a (env_block env) (env_contract_address env) info messages = Ok () \<longleftrightarrow>
     may_send d env info a messages"
  by (auto simp: validate_executable_def may_send_def and_then_Ok_iff ensure_enabled_def ensure_Ok_iff
      ensure_active_iff ensure_not_expired_def validate_permission_iff validate_messages_iff)

text \<open>
  (C9) A user's messages for an authorization on the main domain are sent, as one batch with a new
  execution id for the processor, exactly when the authorization is enabled, active and not expired,
  the user is permitted, every message conforms to its function, and fewer executions of the label
  are running than it allows.
\<close>

theorem send_msgs_iff:
  assumes "sm_get (authorizations s) label = Some a" and "get_domain a = Ok Main"
    and "auth_max_concurrent_executions a < 2 ^ 64"
  shows "(\<exists>s' r. send_msgs d s env info label ttl messages = Ok (s', r) \<and>
      sent r = [WasmExecute (processor_on_main_domain s) (enc_processor_execute (d_codec d)
        (AuthorizationModuleAction (EnqueueMsgs (next_execution_id s) messages (auth_subroutine a)
          (auth_priority a) (batch_expiration (auth_subroutine a) env)))) []]) \<longleftrightarrow>
    may_send d env info a messages \<and> executions_of s label < auth_max_concurrent_executions a"
    (is "?sent \<longleftrightarrow> ?may")
proof
  assume ?sent
  then obtain s' r where "send_msgs d s env info label ttl messages = Ok (s', r)" by blast
  then show ?may
    by (rule send_msgs_cases) (use assms(1) in \<open>auto simp: validate_executable_iff\<close>)
next
  assume may: ?may
  then have "Suc (executions_of s label) < 2 ^ 64" using assms(3) by linarith
  then have "increase_current_executions s label =
      Ok (s\<lparr>current_executions := sm_set label (Suc (executions_of s label)) (current_executions s)\<rparr>)"
    by (simp add: increase_current_executions_def checked_add_u64_def)
  with may assms show ?sent
    by (simp add: send_msgs_def validate_executable_iff [symmetric] get_and_increase_execution_id_def
        execute_msg_binary_def create_msg_for_processor_def create_msg_for_main_domain_def
        store_inprocess_callback_def Let_def)
qed

lemma ex_max: "auth_max_concurrent_executions ex_authorization = 2"
  "get_domain ex_authorization = Ok Main"
  by (simp_all add: ex_authorization_def get_domain_def ex_function_def)

theorem send_msgs_iff_witness:
  "may_send ex_deps ex_env ex_paid ex_authorization ex_messages \<and> executions_of ex_auth1 ''swap'' < 2"
proof -
  obtain s' r where "send_msgs ex_deps ex_auth1 ex_env ex_paid ''swap'' None ex_messages = Ok (s', r)"
    "sent r = [WasmExecute ''processor'' ''processor'' []]"
    using ex_sent by (auto simp: execute_def permissionless_action_def)
  moreover have "processor_on_main_domain ex_auth1 = ''processor''"
    "enc_processor_execute (d_codec ex_deps) m = ''processor''" for m
    by (simp_all add: ex_auth1_def ex_auth0_def ex_defs)
  ultimately show ?thesis
    using send_msgs_iff [of ex_auth1 "''swap''" ex_authorization ex_deps ex_env ex_paid None ex_messages]
    by (simp add: ex_max)
qed

section \<open>Executions are counted\<close>

text \<open>
  (C15) As long as every execution is reported once and ids have not gone around, the counter of a
  label is the number of its executions that are in process, and no execution is stored under an
  id that is still to be given out.
\<close>

theorem executions_accounted:
  assumes "orderly_reach ow d s"
  shows "executions_of s label = in_flight s label \<and>
    (sm_has (processor_callbacks s) i \<longrightarrow> i < next_execution_id s)"
  using accounted_orderly [OF assms] by (simp add: accounted_def)

theorem executions_accounted_witness:
  "orderly_reach ex_ow ex_deps ex_auth2 \<and> executions_of ex_auth2 ''swap'' = 1 \<and>
   in_flight ex_auth2 ''swap'' = 1"
proof -
  have "executions_of ex_auth2 ''swap'' = 1"
    by (simp add: ex_auth2_def ex_auth1_def ex_auth0_def started_def executions_of_def sm_get_def)
  then show ?thesis using executions_accounted [OF ex_orderly(2), of "''swap''"] ex_orderly(2) by simp
qed

text \<open>
  (C20) Under the same assumptions a user's messages never take a label over its limit: sending them
  adds one execution in process to fewer than the limit, under an id that no execution had before.
\<close>

theorem concurrency_limit:
  assumes "orderly_reach ow d s" and "next_execution_id s < 2 ^ 64 - 1"
    and "sm_get (authorizations s) label = Some a"
    and "send_msgs d s env info label ttl messages = Ok (s', r)"
  shows "in_flight s' label = Suc (in_flight s label) \<and>
    in_flight s' label \<le> auth_max_concurrent_executions a \<and>
    sm_get (processor_callbacks s) (next_execution_id s) = None \<and>
    in_process s' (next_execution_id s)"
proof -
  have acc: "accounted s" using assms(1) by (rule accounted_orderly)
  from assms(4) obtain cb where s': "s' = started s label cb" "starts s label cb"
    by (blast dest: send_msgs_started)
  have "accounted s'" unfolding s' by (rule accounted_started [OF acc s'(2) assms(2)])
  moreover have "executions_of s' label = Suc (executions_of s label)"
    by (simp add: s'(1) started_def executions_of_def)
  moreover have "executions_of s label < auth_max_concurrent_executions a"
    using assms(4) by (rule send_msgs_cases) (use assms(3) in simp)
  moreover have "in_process s' (next_execution_id s)"
    using s' by (simp add: in_process_def started_def starts_def)
  ultimately show ?thesis using acc accounted_fresh [OF acc] by (simp add: accounted_def)
qed

theorem concurrency_limit_witness:
  "in_flight ex_auth2 ''swap'' = Suc (in_flight ex_auth1 ''swap'') \<and> in_flight ex_auth2 ''swap'' \<le> 2"
proof -
  obtain r where "send_msgs ex_deps ex_auth1 ex_env ex_paid ''swap'' None ex_messages = Ok (ex_auth2, r)"
    using ex_sent by (auto simp: execute_def permissionless_action_def)
  from concurrency_limit [OF ex_orderly(1) _ _ this, of ex_authorization] show ?thesis
    by (simp add: ex_max ex_auth1_def ex_auth0_def sm_get_def)
qed

section \<open>Tokens\<close>

text \<open>
  (C16) The contract always holds the tokens it may have to return: over every orderly history, the
  tokens of a label that came in less the ones that were burned or sent back are at least as many as
  its executions that were paid for and are in process or waiting for a retry.
\<close>

theorem tokens_covered:
  assumes "token_laws d" and "custody ow d self s held"
  shows "int (owed s label) \<le> held label"
  using custody_solvent [OF assms] by blast

lemma ex_token_laws: "token_laws ex_deps"
  by (auto simp: token_laws_def ex_defs split: list.splits if_splits)

lemma ex_custody: "\<exists>held. custody ex_ow ex_deps ''self'' ex_auth2 held \<and> held ''swap'' = 1"
proof -
  obtain r1 r2 m where
    c: "execute ex_ow ex_deps ex_auth0 ex_env (ex_info ''owner'') (PermissionedAction m) = Ok (ex_auth1, r1)"
    and t: "execute ex_ow ex_deps ex_auth1 ex_env ex_paid
      (AuthPermissionlessAction (SendMsgs ''swap'' ex_messages None)) = Ok (ex_auth2, r2)"
    and r2: "sent r2 = [WasmExecute ''processor'' ''processor'' []]"
    using ex_create ex_sent by blast
  have r1: "spent ex_deps ''self'' l r1 = 0" for l
    using c by (auto simp: execute_def and_then_Ok_iff intro!: no_spending_spent permissioned_custody(1))
  have o: "orderly ex_deps ex_auth0 i (PermissionedAction m)"
    "orderly ex_deps ex_auth1 i (AuthPermissionlessAction p)" for i p
    by (simp_all add: orderly_def ex_auth0_def ex_auth1_def)
  have e: "env_contract_address ex_env = ''self''" by (simp add: ex_env_def)
  note 0 = custody.init [OF ex_init, of "''self''"]
  note 1 = custody.exec [OF 0 o(1) e c]
  note 2 = custody.exec [OF 1 o(2) e t]
  have "funds_of ''self'' ''swap'' (ex_info ''owner'') = 0" "funds_of ''self'' ''swap'' ex_paid = 1"
    by (simp_all add: funds_of_def ex_info_def ex_paid_def build_tokenfactory_denom_def)
  with 2 r1 r2 show ?thesis by (intro exI [where x = "\<lambda>l. 0 + int (funds_of ''self'' l (ex_info ''owner'')) -
      int (spent ex_deps ''self'' l r1) + int (funds_of ''self'' l ex_paid) -
      int (spent ex_deps ''self'' l r2)"] conjI) (simp_all add: spent_def)
qed

theorem tokens_covered_witness: "\<exists>held. custody ex_ow ex_deps ''self'' ex_auth2 held \<and>
    held ''swap'' = 1 \<and> owed ex_auth2 ''swap'' = 1 \<and> int (owed ex_auth2 ''swap'') \<le> held ''swap''"
proof -
  have "owed ex_auth2 ''swap'' = 1"
    by (simp add: owed_def owes_def ex_auth2_def ex_auth1_def ex_auth0_def started_def sm_values_def
        ex_entry_def get_authorization_mode_def sm_get_def ex_authorization_def paying_user_def)
  then show ?thesis using ex_custody tokens_covered [OF ex_token_laws, of ex_ow "''self''" ex_auth2] by blast
qed

text \<open>
  (C33) A result that arrives over Hyperlane ends the execution but leaves the token where it is: for
  an execution that was paid for, one token less is owed and no message burns it or sends it back,
  whatever the result. A processor on a chain with CosmWasm reports the same result to a handler
  that does settle it.
\<close>

theorem hyperlane_result_keeps_token:
  assumes "process_hyperlane_callback d s env info handle = Ok (s', r)"
    and "reported d s info (HyperlaneCallback handle) = Some (i, res)"
    and "sm_get (processor_callbacks s) i = Some cb" and "pci_execution_result cb = InProcess"
    and "pays s cb" and "final_result res" and "accounted s"
  shows "sent r = [] \<and> Suc (owed s' (pci_label cb)) = owed s (pci_label cb)"
  using assms(1)
proof (rule hyperlane_callback_cases)
  fix enc bytes i' res' cb'
  assume "find_map (hyperlane_encoder d info handle) (sm_values (external_domains s)) = Some enc"
    "broker_decode (d_querier d) (broker_address enc) (encoder_version enc) (hm_body handle) = Ok bytes"
    "dec_internal_authorization (d_codec d) bytes = Ok (ProcessorCallback i' res')"
  then have "i' = i" "res' = res" using assms(2) by (simp_all add: reported_def)
  moreover assume "sm_get (processor_callbacks s) i' = Some cb'"
    and "s' = ended s i' cb' res' (block_seconds (env_block env))" and "sent r = []"
  moreover have "\<not> owes s (cb\<lparr>pci_execution_result := res, pci_last_updated_at := t\<rparr>)" for t
    using assms(6) by (cases res) (auto simp: owes_pays)
  ultimately show ?thesis
    using owed_ended [OF assms(7,3), of res "block_seconds (env_block env)" "pci_label cb"] assms(3-5)
    by (simp add: owes_pays)
qed

definition ex_auth_evm :: "addr auth_contract" where
  "ex_auth_evm = ex_auth2\<lparr>external_domains := [(''eth'',
     \<lparr>ed_name = ''eth'',
      ed_execution_environment = Evm \<lparr>broker_address = ''broker'', encoder_version = ''1''\<rparr>
        (Hyperlane \<lparr>mailbox = ''mailbox'', domain_id = 1\<rparr>),
      ed_processor = replicate 64 (CHR ''a'')\<rparr>)]\<rparr>"

definition ex_handle :: handle_msg where
  "ex_handle = \<lparr>hm_origin = 1, hm_sender = replicate 64 (CHR ''a''), hm_body = ''success''\<rparr>"

lemma ex_accounted: "accounted ex_auth_evm"
  using accounted_orderly [OF ex_orderly(2)] by (rule accounted_same [rotated])
    (simp add: ex_auth_evm_def same_tracking_def)

theorem hyperlane_result_keeps_token_witness:
  "\<exists>s' r. process_hyperlane_callback ex_deps ex_auth_evm ex_env (ex_info ''mailbox'') ex_handle = Ok (s', r) \<and>
     sent r = [] \<and> owed ex_auth_evm ''swap'' = 1 \<and> owed s' ''swap'' = 0"
proof -
  have f: "format_address_for_hyperlane ex_deps (replicate 64 (CHR ''a'')) = Ok (replicate 64 (CHR ''a''))"
    by (simp add: format_address_for_hyperlane_def numeral_eq_Suc ascii_lower_def ex_deps_def ex_codec_def)
  have cb: "sm_get (processor_callbacks ex_auth_evm) 0 = Some ex_entry"
    by (simp add: ex_auth_evm_def ex_auth2_def ex_auth1_def ex_auth0_def started_def sm_get_def)
  have e: "find_map (hyperlane_encoder ex_deps (ex_info ''mailbox'') ex_handle)
      (sm_values (external_domains ex_auth_evm)) = Some \<lparr>broker_address = ''broker'', encoder_version = ''1''\<rparr>"
    by (simp add: ex_auth_evm_def ex_handle_def sm_values_def hyperlane_encoder_def f ex_info_def)
  have p: "pays ex_auth_evm ex_entry"
    by (simp add: pays_def ex_auth_evm_def ex_auth2_def ex_auth1_def ex_auth0_def started_def
        get_authorization_mode_def sm_get_def ex_entry_def ex_authorization_def paying_user_def)
  have n: "executions_of ex_auth_evm ''swap'' = 1"
    by (simp add: ex_auth_evm_def ex_auth2_def ex_auth1_def ex_auth0_def started_def executions_of_def sm_get_def)
  have o: "owed ex_auth_evm ''swap'' = 1"
    using p by (simp add: owed_def owes_pays, simp add: ex_auth_evm_def ex_auth2_def ex_auth1_def
        ex_auth0_def started_def sm_values_def ex_entry_def)
  have q: "broker_decode (d_querier ex_deps) x y b = Ok b"
    "dec_internal_authorization (d_codec ex_deps) b = Ok (ProcessorCallback 0 Success)" for x y b
    by (simp_all add: ex_deps_def ex_querier_def ex_codec_def)
  have "\<exists>s' r. process_hyperlane_callback ex_deps ex_auth_evm ex_env (ex_info ''mailbox'') ex_handle = Ok (s', r)"
    using n cb by (simp add: process_hyperlane_callback_def e q decrease_current_executions_def
        ex_entry_def Let_def)
  moreover have "reported ex_deps ex_auth_evm (ex_info ''mailbox'') (HyperlaneCallback ex_handle) =
      Some (0, Success)"
    by (simp add: reported_def e q)
  ultimately show ?thesis
    using hyperlane_result_keeps_token [OF _ _ cb _ p _ ex_accounted] o by (fastforce simp: ex_entry_def)
qed

text \<open>
  (C27) A timed-out execution is given back at most once: after a retry that sent its token back to
  the user, retrying it again is refused.
\<close>

theorem refund_is_final:
  assumes "retry_msgs d s env i = Ok (s', r)" and "sent r = [refund_msg env label u]"
  shows "retry_msgs d s' env' i = Err (MessageErr NotRetriable)"
  using assms(1)
proof (cases rule: retry_msgs_cases)
  case (resent cb a msg)
  then show ?thesis using assms(2) by (auto simp: wasm_only_def refund_msg_def)
next
  case (over cb a)
  then show ?thesis using assms(2) by (auto simp: retry_msgs_def split: option.splits)
qed

definition ex_auth_timeout :: "addr auth_contract" where
  "ex_auth_timeout = ex_auth1\<lparr>processor_callbacks := [(0, ex_entry\<lparr>pci_execution_result := Timeout True\<rparr>)]\<rparr>"

theorem refund_is_final_witness:
  "\<exists>s' r. retry_msgs ex_deps ex_auth_timeout ex_env 0 = Ok (s', r) \<and>
     sent r = [refund_msg ex_env ''swap'' ''user''] \<and>
     retry_msgs ex_deps s' ex_env 0 = Err (MessageErr NotRetriable)"
proof -
  have "\<exists>s' r. retry_msgs ex_deps ex_auth_timeout ex_env 0 = Ok (s', r) \<and>
     sent r = [refund_msg ex_env ''swap'' ''user'']"
    by (simp add: retry_msgs_def ex_auth_timeout_def ex_auth1_def ex_entry_def new_callback_def
        sm_get_def ex_authorization_def paying_user_def)
  then show ?thesis using refund_is_final by blast
qed

end
