(* ===== verification/Authorization_Access.thy ===== *)
theory Authorization_Access
  imports Authorization_Props
begin

text \<open>
  Access to the authorization contract: what outsiders cannot change, why a ZK proof is executed
  once, what the encoder for an EVM domain receives, and that reading the contract page by page is
  complete.
\<close>

section \<open>Who may change what\<close>

text \<open>A domain without the state of its bridge.\<close>

definition erase_bridge_state :: "external_domain \<Rightarrow> external_domain" where
  "erase_bridge_state ed =
     (case ed_execution_environment ed of
        Cosmwasm (Polytone c) \<Rightarrow>
          ed\<lparr>ed_execution_environment := Cosmwasm (Polytone (set_polytone_proxy_state Created c))\<rparr>
      | Evm _ _ \<Rightarrow> ed)"

definition same_config :: "'o auth_contract \<Rightarrow> 'o auth_contract \<Rightarrow> bool" where
  "same_config s s' \<longleftrightarrow>
     sub_owners s' = sub_owners s \<and> authorizations s' = authorizations s \<and>
     zk_authorizations s' = zk_authorizations s \<and> verification_router s' = verification_router s \<and>
     processor_on_main_domain s' = processor_on_main_domain s \<and>
     (\<forall>n. map_option erase_bridge_state (sm_get (external_domains s') n) =
          map_option erase_bridge_state (sm_get (external_domains s) n))"

lemma same_config_refl [simp]: "same_config s s"
  by (simp add: same_config_def)

lemma same_config_started [simp]: "same_config s (started s1 label cb) \<longleftrightarrow> same_config s s1"
  by (simp add: same_config_def started_def)

lemma same_config_ended [simp]: "same_config s (ended s i cb res t)"
  by (simp add: same_config_def ended_def)

lemma same_config_proxy:
  assumes "sm_get (external_domains s) n = Some ed" and "ed_execution_environment ed = Cosmwasm (Polytone c)"
  shows "same_config s (s\<lparr>external_domains := sm_set n (ed\<lparr>ed_execution_environment :=
    Cosmwasm (Polytone (set_polytone_proxy_state st c))\<rparr>) (external_domains s)\<rparr>)"
  using assms by (simp add: same_config_def erase_bridge_state_def set_polytone_proxy_state_def)

lemma permissionless_same_config:
  assumes "permissionless_action d s env info msg = Ok (s', r)"
  shows "same_config s s' \<and> ownership s' = ownership s \<and> first_ownership s' = first_ownership s"
proof (cases msg)
  case (SendMsgs label messages ttl)
  with assms show ?thesis
    by (auto simp: permissionless_action_def started_def dest!: send_msgs_started)
      (simp add: same_config_def)
next
  case (RetryMsgs i)
  with assms have "retry_msgs d s env i = Ok (s', r)" by (simp add: permissionless_action_def)
  then show ?thesis by (cases rule: retry_msgs_cases) (simp_all add: same_config_def)
next
  case (AuthRetryBridgeCreation n)
  with assms have "retry_bridge_creation d s env n = Ok (s', r)" by (simp add: permissionless_action_def)
  then show ?thesis by (rule retry_bridge_creation_cases) (simp add: same_config_proxy)
next
  case (ExecuteZkAuthorization label inputs zkp payload)
  with assms have "execute_zk_authorization d s env info label inputs zkp payload = Ok (s', r)"
    by (simp add: permissionless_action_def)
  then show ?thesis
    by (rule execute_zk_started)
      (auto dest!: check_last_block_cases simp: same_config_def started_def)
qed

text \<open>
  (C10) Whoever is neither the owner nor a sub-owner changes nothing that is configured: no message of
  theirs changes an authorization, a ZK authorization, the sub-owners, the verification router, the
  processor or a registered domain (except for the state of its bridge), and none but an ownership
  action changes the ownership.
\<close>

theorem outsiders_cannot_reconfigure:
  assumes "execute ow d s env info msg = Ok (s', r)"
    and "assert_owner ow (ownership s) (info_sender info) \<noteq> Ok ()"
    and "is_owner ow (ownership s) (info_sender info) \<noteq> Ok True"
    and "\<not> sm_has (sub_owners s) (info_sender info)"
  shows "same_config s s' \<and>
    ((\<forall>action. msg \<noteq> UpdateOwnership action) \<longrightarrow>
      ownership s' = ownership s \<and> first_ownership s' = first_ownership s)"
proof (cases msg)
  case (UpdateOwnership action)
  with assms(1) have "update_ownership ow s env info action = Ok (s', r)" by (simp add: execute_def)
  then show ?thesis
    using UpdateOwnership by (auto dest!: update_ownership_same simp: same_config_def)
next
  case (OwnerAction m)
  with assms(1,2) show ?thesis by (auto simp: execute_def and_then_Ok_iff map_err_Ok_iff)
next
  case (PermissionedAction m)
  with assms(1,3,4) show ?thesis
    by (auto simp: execute_def and_then_Ok_iff map_err_Ok_iff assert_owner_or_subowner_def split: if_splits)
next
  case (AuthPermissionlessAction m)
  with assms(1) show ?thesis by (auto simp: execute_def dest: permissionless_same_config)
next
  case (InternalAuthorizationAction m)
  with assms(1) show ?thesis
    by (cases m) (auto simp: execute_def elim!: processor_callback_cases simp: ended_def same_config_def)
next
  case (AuthPolytoneCallback m)
  with assms(1) have "process_polytone_callback d s env info m = Ok (s', r)" by (simp add: execute_def)
  then show ?thesis
  proof (cases rule: polytone_callback_auth_cases)
    case (execution i)
    from execution(3) show ?thesis by (cases rule: bridge_result_cases) (simp_all add: ended_def same_config_def)
  next
    case (creation n)
    from creation(2) show ?thesis by (rule process_proxy_result_cases) (simp add: same_config_proxy)
  qed
next
  case (HyperlaneCallback m)
  with assms(1) have "process_hyperlane_callback d s env info m = Ok (s', r)" by (simp add: execute_def)
  then show ?thesis by (rule hyperlane_callback_cases) (simp add: ended_def same_config_def)
qed

theorem outsiders_cannot_reconfigure_witness:
  "same_config ex_auth1 ex_auth2 \<and> ownership ex_auth2 = ''owner''"
proof -
  obtain r where "execute ex_ow ex_deps ex_auth1 ex_env ex_paid
      (AuthPermissionlessAction (SendMsgs ''swap'' ex_messages None)) = Ok (ex_auth2, r)"
    using ex_sent by blast
  from outsiders_cannot_reconfigure [OF this] show ?thesis
    by (simp add: ex_ow_def ex_paid_def ex_auth1_def ex_auth0_def sm_has_def sm_get_def)
qed

section \<open>ZK proofs are executed once\<close>

definition last_block :: "'o auth_contract \<Rightarrow> u64 \<Rightarrow> u64" where
  "last_block s registry =
     (case sm_get (registry_last_block_execution s) registry of Some b \<Rightarrow> b | None \<Rightarrow> 0)"

inductive later :: "'o ownable \<Rightarrow> deps \<Rightarrow> 'o auth_contract \<Rightarrow> 'o auth_contract \<Rightarrow> bool"
  for ow d s where
  now: "later ow d s s"
| next_msg: "later ow d s s1 \<Longrightarrow> execute ow d s1 env info msg = Ok (s2, r) \<Longrightarrow> later ow d s s2"

lemma check_last_block_Ok:
  assumes "check_last_block s z m = Ok s1" and "za_validate_last_block_execution z"
  shows "last_block s (za_registry z) < zm_block_number m" and "last_block s1 (za_registry z) = zm_block_number m"
  using assms by (auto simp: check_last_block_def last_block_def Let_def split: if_splits)

lemma check_last_block_mono:
  "check_last_block s z m = Ok s1 \<Longrightarrow> last_block s registry \<le> last_block s1 registry"
  by (auto simp: check_last_block_def last_block_def Let_def split: if_splits option.splits)

lemma last_block_frame [simp]:
  "last_block (started s label cb) registry = last_block s registry"
  "last_block (ended s i cb res t) registry = last_block s registry"
  "last_block (s\<lparr>processor_callbacks := c\<rparr>) registry = last_block s registry"
  "last_block (s\<lparr>current_executions := e\<rparr>) registry = last_block s registry"
  "last_block (s\<lparr>external_domains := ed\<rparr>) registry = last_block s registry"
  "last_block (s\<lparr>sub_owners := so\<rparr>) registry = last_block s registry"
  "last_block (s\<lparr>ownership := o'\<rparr>) registry = last_block s registry"
  "last_block (s\<lparr>first_ownership := f\<rparr>) registry = last_block s registry"
  by (simp_all add: last_block_def started_def ended_def)

lemma permissionless_last_block:
  assumes "permissionless_action d s env info msg = Ok (s', r)"
  shows "last_block s registry \<le> last_block s' registry"
proof (cases msg)
  case (SendMsgs label messages ttl)
  with assms show ?thesis by (auto simp: permissionless_action_def dest!: send_msgs_started)
next
  case (RetryMsgs i)
  with assms have "retry_msgs d s env i = Ok (s', r)" by (simp add: permissionless_action_def)
  then show ?thesis by (cases rule: retry_msgs_cases) simp_all
next
  case (AuthRetryBridgeCreation n)
  with assms have "retry_bridge_creation d s env n = Ok (s', r)" by (simp add: permissionless_action_def)
  then show ?thesis by (rule retry_bridge_creation_cases) simp
next
  case (ExecuteZkAuthorization label inputs zkp payload)
  with assms have "execute_zk_authorization d s env info label inputs zkp payload = Ok (s', r)"
    by (simp add: permissionless_action_def)
  then show ?thesis by (rule execute_zk_started) (auto dest: check_last_block_mono)
qed

lemma execute_last_block:
  assumes "execute ow d s env info msg = Ok (s', r)"
  shows "last_block s registry \<le> last_block s' registry"
proof (cases msg)
  case (UpdateOwnership action)
  with assms have "update_ownership ow s env info action = Ok (s', r)" by (simp add: execute_def)
  then show ?thesis by (auto dest!: update_ownership_same)
next
  case (OwnerAction m)
  with assms show ?thesis
    by (cases m) (auto simp: execute_def add_sub_owner_def remove_sub_owner_def and_then_Ok_iff)
next
  case (PermissionedAction m)
  with assms have "permissioned_action d s env m = Ok (s', r)" by (auto simp: execute_def and_then_Ok_iff)
  then show ?thesis
    by (auto dest!: permissioned_action_cases simp: reconfigured_def last_block_def started_def)
next
  case (AuthPermissionlessAction m)
  with assms show ?thesis by (auto simp: execute_def dest: permissionless_last_block)
next
  case (InternalAuthorizationAction m)
  with assms show ?thesis by (cases m) (auto simp: execute_def elim!: processor_callback_cases)
next
  case (AuthPolytoneCallback m)
  with assms have "process_polytone_callback d s env info m = Ok (s', r)" by (simp add: execute_def)
  then show ?thesis
  proof (cases rule: polytone_callback_auth_cases)
    case (execution i)
    from execution(3) show ?thesis by (cases rule: bridge_result_cases) simp_all
  next
    case (creation n)
    from creation(2) show ?thesis by (rule process_proxy_result_cases) simp
  qed
next
  case (HyperlaneCallback m)
  with assms have "process_hyperlane_callback d s env info m = Ok (s', r)" by (simp add: execute_def)
  then show ?thesis by (rule hyperlane_callback_cases) simp
qed

lemma later_last_block: "later ow d s s' \<Longrightarrow> last_block s registry \<le> last_block s' registry"
proof (induction rule: later.induct)
  case (next_msg s1 env info msg s2 r)
  from next_msg(3) execute_last_block [OF next_msg(2)] show ?case by (rule order_trans)
qed simp

text \<open>
  (C21) The public inputs of a ZK proof are executed at most once by authorizations that validate the
  last block: once they were accepted, they are refused in every later state, whatever happened in
  between, with whatever proof and under whatever label.
\<close>

theorem zk_inputs_execute_once:
  assumes "execute_zk_authorization d s env info label inputs zkp payload = Ok (s1, r)"
    and "sm_get (zk_authorizations s) label = Some z" and "za_validate_last_block_execution z"
    and "later ow d s1 s2"
    and "sm_get (zk_authorizations s2) label2 = Some z2" and "za_validate_last_block_execution z2"
  shows "execute_zk_authorization d s2 env2 info2 label2 inputs zkp2 payload2 \<noteq> Ok (s3, r3)"
proof
  assume again: "execute_zk_authorization d s2 env2 info2 label2 inputs zkp2 payload2 = Ok (s3, r3)"
  from assms(1) obtain m where m: "zk_message_of d inputs = Ok m" "zm_registry m = za_registry z"
    and b: "last_block s1 (za_registry z) = zm_block_number m"
    by (rule execute_zk_started) (use assms(2,3) in \<open>auto dest: check_last_block_Ok(2)\<close>)
  from again show False
  proof (rule execute_zk_started)
    fix z' m' s'
    assume "sm_get (zk_authorizations s2) label2 = Some z'" "zk_message_of d inputs = Ok m'"
      "zm_registry m' = za_registry z'" and c: "check_last_block s2 z' m' = Ok s'"
    then have "z' = z2" "m' = m" "za_registry z2 = za_registry z" using assms(5) m by simp_all
    then have "last_block s2 (za_registry z) < zm_block_number m"
      using check_last_block_Ok(1) [OF c] assms(6) by simp
    with later_last_block [OF assms(4), of "za_registry z"] b show False by simp
  qed
qed

definition ex_zk :: zk_authorization where
  "ex_zk = \<lparr>za_label = ''zk'', za_mode = Permissionless, za_registry = 1, za_vk = ''vk'',
     za_verification_route = ''r'', za_metadata_hash = [], za_validate_last_block_execution = True,
     za_state = Enabled\<rparr>"

definition ex_auth_zk :: "addr auth_contract" where
  "ex_auth_zk = ex_auth0\<lparr>zk_authorizations := [(''zk'', ex_zk)], verification_router := Some ''router''\<rparr>"

abbreviation ex_inputs :: binary where
  "ex_inputs \<equiv> ''00000000000000000000000000000000m''"

theorem zk_inputs_execute_once_witness:
  "\<exists>s1 r. execute_zk_authorization ex_deps ex_auth_zk ex_env (ex_info ''user'') ''zk'' ex_inputs [] [] = Ok (s1, r) \<and>
     (\<forall>s3 r3. execute_zk_authorization ex_deps s1 ex_env (ex_info ''user'') ''zk'' ex_inputs [] [] \<noteq> Ok (s3, r3))"
proof -
  have z: "sm_get (zk_authorizations ex_auth_zk) ''zk'' = Some ex_zk"
    by (simp add: ex_auth_zk_def sm_get_def)
  have "\<exists>s1 r. execute_zk_authorization ex_deps ex_auth_zk ex_env (ex_info ''user'') ''zk'' ex_inputs [] [] =
      Ok (s1, r) \<and> zk_authorizations s1 = [(''zk'', ex_zk)]"
    by (simp add: execute_zk_authorization_def z verify_zk_proof_def zk_message_of_def check_zk_message_def
        check_last_block_def create_msg_for_processor_def validate_permission_def Let_def sm_get_def
        ex_zk_def ex_auth_zk_def ex_auth0_def ex_defs)
  then obtain s1 r where ok: "execute_zk_authorization ex_deps ex_auth_zk ex_env (ex_info ''user'') ''zk''
      ex_inputs [] [] = Ok (s1, r)" and s1: "zk_authorizations s1 = [(''zk'', ex_zk)]"
    by blast
  have "sm_get (zk_authorizations s1) ''zk'' = Some ex_zk" by (simp add: s1 sm_get_def)
  moreover have "za_validate_last_block_execution ex_zk" by (simp add: ex_zk_def)
  ultimately have "execute_zk_authorization ex_deps s1 ex_env (ex_info ''user'') ''zk'' ex_inputs [] [] \<noteq> Ok (s3, r3)"
    for s3 r3
    using zk_inputs_execute_once [OF ok z _ later.now [of ex_ow]] by blast
  with ok show ?thesis by blast
qed

section \<open>Messages for an EVM domain\<close>

text \<open>
  (C24) Messages that a stored authorization accepts can always be encoded for an EVM domain: in every
  reachable state, for an authorization whose functions are on a registered EVM domain, the
  conversion for the encoder succeeds on every list of messages that conforms to it, one encoder
  message per message, with the library its function names.
\<close>

theorem evm_messages_encode:
  assumes "auth_reach ow d s" and "sm_get (authorizations s) label = Some a"
    and "get_domain a = Ok (External name)" and "sm_get (external_domains s) name = Some ed"
    and "\<not> is_cosmwasm ed"
    and "validate_messages d a messages = Ok ()"
  shows "\<exists>ems. convert_into_encoder_messages messages a = Ok ems \<and> map em_data ems = map get_msg messages \<and>
    list_all2 (\<lambda>f em. case message_type (fn_message_details f) of
        MtEvmCall _ lib \<Rightarrow> em_library em = lib | _ \<Rightarrow> em_library em = ''no_library'')
      (functions_of (auth_subroutine a)) ems"
proof -
  let ?fs = "functions_of (auth_subroutine a)"
  define lib where "lib f = (case message_type (fn_message_details f) of
    MtEvmCall _ l \<Rightarrow> l | _ \<Rightarrow> ''no_library'')" for f :: func
  have wf: "authorization_wf (external_domains s) a"
    using auth_invD(2) [OF auth_reach_inv [OF assms(1)] assms(2)] .
  have conf: "list_all2 (conforms d) messages ?fs" using assms(6) by (simp add: validate_messages_iff)
  have dom: "\<forall>f \<in> set ?fs. \<not> cosmwasm_type (message_type (fn_message_details f))"
    using wf assms(3-5)
    by (auto simp: authorization_wf_def functions_of_def get_domain_def takes_cosmwasm_def list_all_iff
        split: subroutine.splits list.splits)
  have "encoder_message_of a k (messages ! k) =
      Ok \<lparr>em_library = lib (?fs ! k), em_data = get_msg (messages ! k)\<rparr>" if k: "k < length messages" for k
  proof -
    have kf: "k < length ?fs" and c: "conforms d (messages ! k) (?fs ! k)"
      using conf k by (auto simp: list_all2_conv_all_nth)
    have "get_function_by_index (auth_subroutine a) k = Some (?fs ! k)"
      using kf by (auto simp: get_function_by_index_def functions_of_def nth_opt_def split: subroutine.splits)
    moreover have "\<not> cosmwasm_type (message_type (fn_message_details (?fs ! k)))"
      using dom kf nth_mem by blast
    ultimately show ?thesis
      using c by (cases "messages ! k"; cases "message_type (fn_message_details (?fs ! k))")
        (auto simp: encoder_message_of_def conforms_def eq_message_type_def get_msg_def lib_def)
  qed
  then have "convert_into_encoder_messages messages a =
      Ok (map (\<lambda>(k, m). \<lparr>em_library = lib (?fs ! k), em_data = get_msg m\<rparr>) (List.enumerate 0 messages))"
    unfolding convert_into_encoder_messages_def
    by (intro try_map_total) (auto simp: in_set_enumerate_eq)
  moreover have "map em_data (map (\<lambda>(k, m). \<lparr>em_library = lib (?fs ! k), em_data = get_msg m\<rparr>)
      (List.enumerate 0 messages)) = map get_msg messages"
    by (intro nth_equalityI) (auto simp: nth_enumerate_eq)
  moreover have "list_all2 (\<lambda>f em. case message_type (fn_message_details f) of
        MtEvmCall _ lib \<Rightarrow> em_library em = lib | _ \<Rightarrow> em_library em = ''no_library'') ?fs
      (map (\<lambda>(k, m). \<lparr>em_library = lib (?fs ! k), em_data = get_msg m\<rparr>) (List.enumerate 0 messages))"
    using conf by (auto simp: list_all2_conv_all_nth nth_enumerate_eq lib_def split: message_type.splits)
  ultimately show ?thesis by blast
qed

definition ex_evm1 :: "addr auth_contract" where
  "ex_evm1 = ex_auth0\<lparr>external_domains := [(''eth'',
     \<lparr>ed_name = ''eth'',
      ed_execution_environment = Evm \<lparr>broker_address = ''broker'', encoder_version = ''1''\<rparr>
        (Hyperlane \<lparr>mailbox = ''mailbox'', domain_id = 1\<rparr>),
      ed_processor = ''0xab''\<rparr>)]\<rparr>"

definition ex_evm_function :: atomic_function where
  "ex_evm_function =
     \<lparr>fn_domain = External ''eth'',
      fn_message_details =
        \<lparr>message_type = MtEvmCall \<lparr>ei_broker_address = ''broker'', ei_encoder_version = ''1''\<rparr> ''forwarder'',
         message = \<lparr>message_name = ''m1'', params_restrictions = None\<rparr>\<rparr>,
      fn_contract_address = Addr ''0x01''\<rparr>"

definition ex_evm_authorization :: authorization where
  "ex_evm_authorization = ex_authorization\<lparr>auth_subroutine :=
     Atomic \<lparr>as_functions = [ex_evm_function], as_retry_logic = None, as_expiration_time = None\<rparr>\<rparr>"

definition ex_evm2 :: "addr auth_contract" where
  "ex_evm2 = ex_evm1\<lparr>authorizations := [(''swap'', ex_evm_authorization)]\<rparr>"

lemma ex_evm_reach: "auth_reach ex_ow ex_deps ex_evm2"
proof -
  let ?domain = "\<lparr>edi_name = ''eth'', edi_execution_environment =
    EvmInfo \<lparr>ei_broker_address = ''broker'', ei_encoder_version = ''1''\<rparr>
      (HyperlaneInfo \<lparr>hci_mailbox = ''mailbox'', hci_domain_id = 1\<rparr>), edi_processor = ''0xab''\<rparr>"
  let ?info = "\<lparr>ai_label = ''swap'', ai_mode = PermissionedInfo (WithCallLimitInfo [(''user'', 5)]),
     ai_not_before = Never, ai_duration = Forever, ai_max_concurrent_executions = Some 2,
     ai_subroutine = auth_subroutine ex_evm_authorization, ai_priority = None\<rparr>"
  have "\<exists>r. execute ex_ow ex_deps ex_auth0 ex_env (ex_info ''owner'')
      (PermissionedAction (AddExternalDomains [?domain])) = Ok (ex_evm1, r)"
    by (simp add: execute_def assert_owner_or_subowner_def permissioned_action_def add_external_domains_def
        register_domain_def add_external_domain_def into_external_domain_validated_def
        to_validated_encoder_def to_validated_hyperlane_connector_def connector_msgs_def ex_ow_def ex_defs
        ex_auth0_def ex_evm1_def)
  moreover have "\<exists>r. execute ex_ow ex_deps ex_evm1 ex_env (ex_info ''owner'')
      (PermissionedAction (CreateAuthorizations [?info])) = Ok (ex_evm2, r)"
    by (simp add: execute_def assert_owner_or_subowner_def permissioned_action_def
        create_authorizations_def create_authorization_def into_authorization_def addr_validate_unwrap_def
        validate_def validate_subroutine_def validate_functions_def validate_function_def
        validate_domain_def validate_message_type_def validate_evm_library_def
        validate_param_restrictions_def tokenfactory_msgs_def Let_def ex_ow_def ex_defs ex_auth0_def
        ex_evm1_def ex_evm2_def ex_authorization_def ex_evm_authorization_def ex_evm_function_def sm_get_def)
  moreover have "auth_reach ex_ow ex_deps ex_auth0" by (rule auth_reach.init [OF ex_init])
  ultimately show ?thesis by (blast intro: auth_reach.exec)
qed

theorem evm_messages_encode_witness:
  "\<exists>ems. convert_into_encoder_messages [EvmCall ''m1''] ex_evm_authorization = Ok ems \<and>
     map em_data ems = [''m1''] \<and> map em_library ems = [''forwarder'']"
proof -
  obtain ed where "sm_get (authorizations ex_evm2) ''swap'' = Some ex_evm_authorization"
    "get_domain ex_evm_authorization = Ok (External ''eth'')"
    "sm_get (external_domains ex_evm2) ''eth'' = Some ed" "\<not> is_cosmwasm ed"
    "validate_messages ex_deps ex_evm_authorization [EvmCall ''m1''] = Ok ()"
    by (simp add: ex_evm2_def ex_evm1_def sm_get_def ex_evm_authorization_def get_domain_def
        ex_evm_function_def is_cosmwasm_def validate_messages_def validate_messages_generic_def
        validate_message_def eq_message_type_def validate_json_message_def get_msg_def ex_defs Let_def)
  from evm_messages_encode [OF ex_evm_reach this] show ?thesis
    by (auto simp: ex_evm_authorization_def ex_evm_function_def functions_of_def get_msg_def
        list_all2_Cons1)
qed

section \<open>Reading the contract page by page\<close>

text \<open>
  How a client reads a list: it asks for a page, continues after the last entry of the page it got,
  and stops at the first empty page, after at most \<open>n\<close> pages.
\<close>

fun read_pages :: "nat \<Rightarrow> ('k option \<Rightarrow> 'v list) \<Rightarrow> ('v \<Rightarrow> 'k) \<Rightarrow> 'k option \<Rightarrow> 'v list" where
  "read_pages 0 query key start = []"
| "read_pages (Suc n) query key start =
     (let page = query start
      in if page = [] then [] else page @ read_pages n query key (Some (key (last page))))"

lemma read_pages_after:
  fixes m :: "('k::linorder, 'v) storage_map"
  assumes "sm_sorted m" and "\<And>k v. (k, v) \<in> set m \<Longrightarrow> key v = k"
    and "0 < page_max" and "limit \<noteq> Some 0" and "length (sm_after start m) < n"
  shows "read_pages n (\<lambda>start. sm_values (sm_page page_max m start limit)) key start =
    sm_values (sm_after start m)"
  using assms(5)
proof (induction n arbitrary: start)
  case (Suc n)
  define k where "k = min (case limit of None \<Rightarrow> page_max | Some l \<Rightarrow> l) page_max"
  have k: "0 < k" using assms(3,4) by (auto simp: k_def split: option.splits)
  let ?A = "sm_after start m" and ?p = "sm_page page_max m start limit"
  have p: "?p = take k ?A" by (simp add: sm_page_def k_def)
  show ?case
  proof (cases "?A = []")
    case False
    then have ne: "?p \<noteq> []" using p k by simp
    then have mem: "last ?p \<in> set ?A" using last_in_set sm_page_in_after by blast
    then have "(fst (last ?p), snd (last ?p)) \<in> set m" by (auto simp: sm_after_def split: option.splits)
    from assms(2) [OF this] have "key (last (sm_values ?p)) = fst (last ?p)"
      using ne by (simp add: sm_values_def last_map)
    moreover have rest: "sm_after (Some (fst (last ?p))) m = drop k ?A"
      using p k False assms(1) mem by (simp add: sm_after_after sm_sorted_drop_after_last sm_sorted_after)
    moreover have "length (sm_after (Some (fst (last ?p))) m) < n"
      using Suc.prems False k by (auto simp: rest neq_Nil_conv)
    ultimately have "read_pages (Suc n) (\<lambda>start. sm_values (sm_page page_max m start limit)) key start =
        sm_values ?p @ sm_values (drop k ?A)"
      using Suc.IH ne by (simp add: Let_def) (simp add: sm_values_def)
    also have "\<dots> = sm_values ?A" by (simp add: p sm_values_def flip: map_append)
    finally show ?thesis .
  qed (simp add: Let_def p sm_values_def)
qed simp

lemma read_pages_all:
  fixes m :: "('k::linorder, 'v) storage_map"
  assumes "sm_sorted m" and "\<And>k v. sm_get m k = Some v \<Longrightarrow> key v = k"
    and "0 < page_max" and "limit \<noteq> Some 0"
  shows "read_pages (Suc (length m)) (\<lambda>start. sm_values (sm_page page_max m start limit)) key None =
    sm_values m"
proof -
  have "key v = k" if "(k, v) \<in> set m" for k v
    using that assms(1,2)
    by (auto simp: sm_sorted_def strict_sorted_iff sm_get_def intro: map_of_is_SomeI)
  then have "read_pages (Suc (length m)) (\<lambda>start. sm_values (sm_page page_max m start limit)) key None =
      sm_values (sm_after None m)"
    using assms by (intro read_pages_after) (auto simp: sm_after_def)
  then show ?thesis by (simp add: sm_after_def del: read_pages.simps)
qed

text \<open>
  (C29) A client that reads the authorizations page by page, continuing after the label of the last
  one it got, gets all of them once and in the order of their labels, whatever page size it asks
  for; so it does for the registered domains and the tracked executions.
\<close>

theorem pages_are_complete:
  assumes "auth_reach ow d s" and "limit \<noteq> Some 0"
  shows "read_pages (Suc (length (authorizations s))) (\<lambda>start. get_authorizations s start limit)
      auth_label None = sm_values (authorizations s) \<and>
    read_pages (Suc (length (external_domains s))) (\<lambda>start. get_external_domains s start limit)
      ed_name None = sm_values (external_domains s) \<and>
    read_pages (Suc (length (processor_callbacks s))) (\<lambda>start. get_processor_callbacks s start limit)
      pci_execution_id None = sm_values (processor_callbacks s)"
proof -
  have "auth_inv s" using assms(1) by (rule auth_reach_inv)
  then show ?thesis
    unfolding get_authorizations_def get_external_domains_def get_processor_callbacks_def auth_inv_def
    by (intro conjI read_pages_all assms(2)) (auto simp: max_page_limit_def)
qed

theorem pages_are_complete_witness:
  "read_pages 2 (\<lambda>start. get_authorizations ex_auth1 start (Some 1)) auth_label None = [ex_authorization]"
  using pages_are_complete [OF ex_reach(1), of "Some 1"]
  by (simp add: ex_auth1_def sm_values_def numeral_2_eq_2 del: read_pages.simps)

end
