(* ===== verification/Queue_Map.thy ===== *)
theory Queue_Map
  imports Cosmwasm
begin

text \<open>
  The double-ended queue of \<open>packages/processor-utils/src/queue.rs\<close>: a map from positions to
  elements and two indexes. The definitions follow the source operation by operation, its shift
  loops included. The interface a client sees is the locale \<open>fifo_queue\<close> (and its extension
  \<open>positional_queue\<close> with insertion and removal at a position); the interpretation discharges it
  for the code's model, so the processor and the clearing queue reason about lists.
\<close>

section \<open>State and operations\<close>

record 'a queue_map =
  elements :: "u64 \<Rightarrow> 'a option"
  start_index_item :: "u64 option"
  end_index_item :: "u64 option"

definition queue_new :: "'a queue_map" where
  "queue_new = \<lparr>elements = Map.empty, start_index_item = None, end_index_item = None\<rparr>"

definition start_index :: "'a queue_map \<Rightarrow> u64" where
  "start_index q = (case start_index_item q of Some i \<Rightarrow> i | None \<Rightarrow> 0)"

definition end_index :: "'a queue_map \<Rightarrow> u64" where
  "end_index q = (case end_index_item q of Some i \<Rightarrow> i | None \<Rightarrow> 0)"

definition push_back :: "'a queue_map \<Rightarrow> 'a \<Rightarrow> ('a queue_map, std_error) result" where
  "push_back q value =
     and_then (expect ''Overflow'' (checked_add_u64 (end_index q) 1)) (\<lambda>e.
       Ok (q\<lparr>elements := (elements q)(e \<mapsto> value), end_index_item := Some e\<rparr>))"

definition pop_front :: "'a queue_map \<Rightarrow> ('a option \<times> 'a queue_map, std_error) result" where
  "pop_front q =
     (if start_index q = end_index q then Ok (None, q)
      else
        and_then (expect ''Overflow'' (checked_add_u64 (start_index q) 1)) (\<lambda>s.
        and_then (load (elements q s)) (\<lambda>value.
          Ok (Some value,
              q\<lparr>elements := (elements q)(s := None), start_index_item := Some s\<rparr>))))"

definition queue_len :: "'a queue_map \<Rightarrow> u64" where
  "queue_len q = saturating_sub_u64 (end_index q) (start_index q)"

definition queue_is_empty :: "'a queue_map \<Rightarrow> bool" where
  "queue_is_empty q \<longleftrightarrow> queue_len q = 0"

text \<open>The body of the loop of \<open>insert_at\<close>: move the element at \<open>i\<close>, if any, one position up.\<close>

definition shift_up_step ::
  "(u64 \<Rightarrow> 'a option) \<Rightarrow> u64 \<Rightarrow> (u64 \<Rightarrow> 'a option, std_error) result"
where
  "shift_up_step m i =
     (case m i of
        Some elem \<Rightarrow>
          and_then (expect ''Overflow'' (checked_add_u64 i 1)) (\<lambda>j. Ok (m(j \<mapsto> elem)))
      | None \<Rightarrow> Ok m)"

definition insert_at :: "'a queue_map \<Rightarrow> u64 \<Rightarrow> 'a \<Rightarrow> ('a queue_map, std_error) result" where
  "insert_at q index value =
     (if index > queue_len q then Err (GenericErr ''Index out of bounds'')
      else
        and_then (expect ''Overflow''
          (Option.bind (checked_add_u64 (start_index q) index) (\<lambda>sum. checked_add_u64 sum 1)))
        (\<lambda>actual_index.
        and_then (expect ''Overflow'' (checked_add_u64 (end_index q) 2)) (\<lambda>upper.
        and_then (try_fold shift_up_step (elements q) (rev [actual_index ..< upper])) (\<lambda>m.
        and_then (expect ''Overflow'' (checked_add_u64 (end_index q) 1)) (\<lambda>e.
          Ok (q\<lparr>elements := m(actual_index \<mapsto> value), end_index_item := Some e\<rparr>))))))"

text \<open>The body of the loop of \<open>remove_at\<close>: move the element at \<open>i\<close>, if any, one position down.\<close>

definition shift_down_step ::
  "(u64 \<Rightarrow> 'a option) \<Rightarrow> u64 \<Rightarrow> (u64 \<Rightarrow> 'a option, std_error) result"
where
  "shift_down_step m i =
     (case m i of Some elem \<Rightarrow> Ok (m(i - 1 \<mapsto> elem)) | None \<Rightarrow> Ok m)"

definition remove_at ::
  "'a queue_map \<Rightarrow> u64 \<Rightarrow> ('a option \<times> 'a queue_map, std_error) result"
where
  "remove_at q index =
     (if index \<ge> queue_len q then Err (GenericErr ''Index out of bounds'')
      else if index = 0 then pop_front q
      else
        and_then (expect ''Overflow''
          (Option.bind (checked_add_u64 (start_index q) index) (\<lambda>sum. checked_add_u64 sum 1)))
        (\<lambda>actual_index.
        and_then (load (elements q actual_index)) (\<lambda>value.
        and_then (expect ''Overflow'' (checked_add_u64 actual_index 1)) (\<lambda>lower.
        and_then (expect ''Overflow'' (checked_add_u64 (end_index q) 1)) (\<lambda>upper.
        and_then (try_fold shift_down_step ((elements q)(actual_index := None)) [lower ..< upper])
        (\<lambda>m.
        and_then (expect ''Overflow'' (checked_sub_u64 (end_index q) 1)) (\<lambda>e.
          Ok (Some value, q\<lparr>elements := m, end_index_item := Some e\<rparr>))))))))"

datatype order = Ascending | Descending

text \<open>Iteration over the stored elements at positions from \<open>lo\<close> to \<open>hi\<close>, both included.\<close>

definition elements_range :: "(u64 \<Rightarrow> 'a option) \<Rightarrow> u64 \<Rightarrow> u64 \<Rightarrow> order \<Rightarrow> 'a list" where
  "elements_range m lo hi ord =
     (let xs = List.map_filter m [lo ..< Suc hi]
      in case ord of Ascending \<Rightarrow> xs | Descending \<Rightarrow> rev xs)"

definition queue_query ::
  "'a queue_map \<Rightarrow> u64 option \<Rightarrow> u64 option \<Rightarrow> order \<Rightarrow> ('a list, std_error) result"
where
  "queue_query q from_pos to_pos ord =
     (let len = saturating_sub_u64 (end_index q) (start_index q);
          start = (case from_pos of Some i \<Rightarrow> i | None \<Rightarrow> 0);
          stop = (case to_pos of Some i \<Rightarrow> i | None \<Rightarrow> len)
      in if start > stop \<or> stop > len then Err (GenericErr ''Invalid range'')
         else
           and_then (expect ''attempt to add with overflow''
             (Option.bind (checked_add_u64 (start_index q) start) (\<lambda>n. checked_add_u64 n 1)))
           (\<lambda>actual_start.
           and_then (expect ''attempt to add with overflow''
             (Option.bind (checked_add_u64 (start_index q) stop) (\<lambda>n. checked_add_u64 n 1)))
           (\<lambda>actual_end.
             Ok (elements_range (elements q) actual_start (saturating_sub_u64 actual_end 1) ord))))"

section \<open>The abstract queue\<close>

text \<open>
  The list a queue stands for, and the representation invariant: the indexes are in order and
  every position between them holds an element; the end index is a \<open>u64\<close> value. Positions outside may hold anything: the code
  leaves elements behind there (see \<open>remove_at\<close>), and the invariant allows it.
\<close>

definition queue_list :: "'a queue_map \<Rightarrow> 'a list" where
  "queue_list q = map (\<lambda>i. the (elements q i)) [Suc (start_index q) ..< Suc (end_index q)]"

definition queue_inv :: "'a queue_map \<Rightarrow> bool" where
  "queue_inv q \<longleftrightarrow> start_index q \<le> end_index q \<and> end_index q < 2 ^ 64 \<and>
     (\<forall>i \<in> {Suc (start_index q) ..< Suc (end_index q)}. elements q i \<noteq> None)"

text \<open>Room for \<open>n\<close> more elements: no index computation of the operations can overflow.\<close>

definition queue_room :: "'a queue_map \<Rightarrow> nat \<Rightarrow> bool" where
  "queue_room q n \<longleftrightarrow> end_index q + n + 1 < 2 ^ 64"

subsection \<open>Interfaces\<close>

text \<open>
  What a client observes of a sequence of pushes (\<open>Some x\<close>) and pops (\<open>None\<close>): the elements
  popped, in order.
\<close>

fun run_ops ::
  "('q \<Rightarrow> 'a \<Rightarrow> ('q, 'e) result) \<Rightarrow> ('q \<Rightarrow> ('a option \<times> 'q, 'e) result) \<Rightarrow>
   'q \<Rightarrow> 'a option list \<Rightarrow> ('a list \<times> 'q, 'e) result"
where
  "run_ops push pop q [] = Ok ([], q)"
| "run_ops push pop q (Some x # es) = and_then (push q x) (\<lambda>q'. run_ops push pop q' es)"
| "run_ops push pop q (None # es) =
     and_then (pop q) (\<lambda>(y, q').
     and_then (run_ops push pop q' es) (\<lambda>(ys, q'').
       Ok ((case y of None \<Rightarrow> [] | Some y \<Rightarrow> [y]) @ ys, q'')))"

locale fifo_queue =
  fixes empty :: 'q
    and push :: "'q \<Rightarrow> 'a \<Rightarrow> ('q, std_error) result"
    and pop :: "'q \<Rightarrow> ('a option \<times> 'q, std_error) result"
    and contents :: "'q \<Rightarrow> 'a list"
    and inv :: "'q \<Rightarrow> bool"
    and room :: "'q \<Rightarrow> nat \<Rightarrow> bool"
  assumes contents_empty: "contents empty = []"
    and inv_empty: "inv empty"
    and room_mono: "room q n \<Longrightarrow> m \<le> n \<Longrightarrow> room q m"
    and push_sound: "inv q \<Longrightarrow> push q x = Ok q' \<Longrightarrow> inv q' \<and> contents q' = contents q @ [x]"
    and push_ok: "inv q \<Longrightarrow> room q (Suc n) \<Longrightarrow>
      \<exists>q'. push q x = Ok q' \<and> inv q' \<and> room q' n \<and> contents q' = contents q @ [x]"
    and pop_empty: "inv q \<Longrightarrow> contents q = [] \<Longrightarrow> pop q = Ok (None, q)"
    and pop_ok: "inv q \<Longrightarrow> contents q = x # xs \<Longrightarrow>
      \<exists>q'. pop q = Ok (Some x, q') \<and> inv q' \<and> contents q' = xs \<and> (\<forall>n. room q n \<longrightarrow> room q' n)"
begin

lemma pop_sound:
  assumes "inv q" and "pop q = Ok (y, q')"
  shows "inv q' \<and> contents q = (case y of None \<Rightarrow> [] | Some x \<Rightarrow> [x]) @ contents q' \<and>
    (\<forall>n. room q n \<longrightarrow> room q' n) \<and> (y = None \<longleftrightarrow> contents q = [])"
proof (cases "contents q")
  case Nil
  with pop_empty [OF assms(1)] assms show ?thesis by auto
next
  case (Cons x xs)
  from pop_ok [OF assms(1) Cons] assms(2) Cons show ?thesis by auto
qed

lemma pop_total: "inv q \<Longrightarrow> \<exists>y q'. pop q = Ok (y, q')"
  using pop_empty pop_ok by (cases "contents q") fastforce+

text \<open>First in, first out, over any sequence of operations: it runs to the end, and what was
  pushed is what was popped followed by what is still there.\<close>

lemma run_fifo:
  "inv q \<Longrightarrow> room q (length es) \<Longrightarrow>
     \<exists>ys q'. run_ops push pop q es = Ok (ys, q') \<and> inv q' \<and>
       contents q @ List.map_filter id es = ys @ contents q'"
proof (induction es arbitrary: q)
  case (Cons e es)
  show ?case
  proof (cases e)
    case None
    have rm: "room q (length es)" using Cons.prems(2) by (auto intro: room_mono)
    obtain y q' where q': "pop q = Ok (y, q')" using pop_total [OF Cons.prems(1)] by blast
    from pop_sound [OF Cons.prems(1) q'] rm have st: "inv q'" "room q' (length es)"
        "contents q = (case y of None \<Rightarrow> [] | Some x \<Rightarrow> [x]) @ contents q'" by auto
    from Cons.IH [OF st(1,2)] st(3) q' None show ?thesis
      by (auto simp: List.map_filter_simps)
  next
    case (Some x)
    from Cons.prems(2) have "room q (Suc (length es))" by simp
    from push_ok [OF Cons.prems(1) this, of x] obtain q' where
      st: "push q x = Ok q'" "inv q'" "room q' (length es)" "contents q' = contents q @ [x]"
      by blast
    from Cons.IH [OF st(2,3)] st(1,4) Some show ?thesis
      by (auto simp: List.map_filter_simps)
  qed
qed (simp add: List.map_filter_simps)

end

locale positional_queue = fifo_queue +
  fixes insert_pos :: "'a \<Rightarrow> nat \<Rightarrow> 'b \<Rightarrow> ('a, std_error) result"
    and remove_pos :: "'a \<Rightarrow> nat \<Rightarrow> ('b option \<times> 'a, std_error) result"
  assumes insert_ok: "inv q \<Longrightarrow> room q (Suc n) \<Longrightarrow> i \<le> length (contents q) \<Longrightarrow>
      \<exists>q'. insert_pos q i x = Ok q' \<and> inv q' \<and> room q' n \<and>
           contents q' = take i (contents q) @ x # drop i (contents q)"
    and insert_sound: "inv q \<Longrightarrow> insert_pos q i x = Ok q' \<Longrightarrow>
      i \<le> length (contents q) \<and> inv q' \<and> contents q' = take i (contents q) @ x # drop i (contents q)"
    and insert_out: "inv q \<Longrightarrow> length (contents q) < i \<Longrightarrow>
      insert_pos q i x = Err (GenericErr ''Index out of bounds'')"
    and remove_ok: "inv q \<Longrightarrow> room q n \<Longrightarrow> i < length (contents q) \<Longrightarrow>
      \<exists>q'. remove_pos q i = Ok (Some (contents q ! i), q') \<and> inv q' \<and> room q' n \<and>
           contents q' = take i (contents q) @ drop (Suc i) (contents q)"
    and remove_sound: "inv q \<Longrightarrow> remove_pos q i = Ok (y, q') \<Longrightarrow>
      i < length (contents q) \<and> y = Some (contents q ! i) \<and> inv q' \<and>
      contents q' = take i (contents q) @ drop (Suc i) (contents q)"
    and remove_out: "inv q \<Longrightarrow> length (contents q) \<le> i \<Longrightarrow>
      remove_pos q i = Err (GenericErr ''Index out of bounds'')"
begin

lemma insert_then_remove:
  assumes "inv q" and "room q (Suc n)" and "i \<le> length (contents q)"
  shows "\<exists>q' q''. insert_pos q i x = Ok q' \<and> remove_pos q' i = Ok (Some x, q'') \<and>
    inv q'' \<and> contents q'' = contents q"
proof -
  obtain q' where q': "insert_pos q i x = Ok q'" "inv q'" "room q' n"
      "contents q' = take i (contents q) @ x # drop i (contents q)"
    using insert_ok [OF assms] by blast
  have "contents q' ! i = x" and "i < length (contents q')"
    and "take i (contents q') @ drop (Suc i) (contents q') = contents q"
    using assms(3) q'(4) by (simp_all add: nth_append)
  with remove_ok [OF q'(2,3), of i] q'(1) show ?thesis by metis
qed

end

section \<open>The shift loops\<close>

lemma shift_up_fold:
  "b < 2 ^ 64 \<Longrightarrow> try_fold shift_up_step m (rev [a ..< b]) =
     Ok (\<lambda>j. if a < j \<and> j \<le> b \<and> m (j - 1) \<noteq> None then m (j - 1) else m j)"
proof (induction b arbitrary: m)
  case (Suc b)
  show ?case
  proof (cases "a \<le> b")
    case True
    have "shift_up_step m b = Ok (case m b of Some x \<Rightarrow> m(Suc b \<mapsto> x) | None \<Rightarrow> m)"
      using Suc.prems by (auto simp: shift_up_step_def checked_add_u64_def split: option.splits)
    with True Suc show ?thesis
      by (cases "m b") (auto simp: fun_eq_iff le_Suc_eq)
  qed (auto simp: fun_eq_iff)
qed (auto simp: fun_eq_iff)

lemma shift_down_fold:
  "0 < a \<Longrightarrow> try_fold shift_down_step m [a ..< b] =
     Ok (\<lambda>j. if a \<le> Suc j \<and> Suc j < b \<and> m (Suc j) \<noteq> None then m (Suc j) else m j)"
proof (induction b)
  case (Suc b)
  show ?case
  proof (cases "a \<le> b")
    case True
    with Suc show ?thesis
      by (auto simp: try_fold_append shift_down_step_def fun_eq_iff less_Suc_eq split: option.splits)
  qed (auto simp: fun_eq_iff)
qed (auto simp: fun_eq_iff)

section \<open>The operations implement the interface\<close>

lemma length_queue_list [simp]: "length (queue_list q) = end_index q - start_index q"
  by (simp add: queue_list_def del: upt_Suc)

lemma nth_queue_list:
  "i < end_index q - start_index q \<Longrightarrow> queue_list q ! i = the (elements q (Suc (start_index q + i)))"
  by (simp add: queue_list_def del: upt_Suc)

lemma queue_inv_elements:
  "queue_inv q \<Longrightarrow> start_index q < i \<Longrightarrow> i \<le> end_index q \<Longrightarrow>
     elements q i = Some (queue_list q ! (i - Suc (start_index q)))"
  by (auto simp: queue_inv_def nth_queue_list less_Suc_eq_le)

lemma queue_eqI:
  assumes "queue_inv q" and "length xs = end_index q - start_index q"
    and "\<And>i. i < length xs \<Longrightarrow> elements q (Suc (start_index q + i)) = Some (xs ! i)"
  shows "queue_list q = xs"
  using assms by (intro nth_equalityI) (auto simp: nth_queue_list)

lemma index_update_simps [simp]:
  "start_index (q\<lparr>elements := m\<rparr>) = start_index q"
  "end_index (q\<lparr>elements := m\<rparr>) = end_index q"
  "start_index (q\<lparr>end_index_item := e\<rparr>) = start_index q"
  "end_index (q\<lparr>start_index_item := e\<rparr>) = end_index q"
  "start_index (q\<lparr>start_index_item := Some s\<rparr>) = s"
  "end_index (q\<lparr>end_index_item := Some s\<rparr>) = s"
  "start_index (q\<lparr>elements := m, start_index_item := Some s\<rparr>) = s"
  "end_index (q\<lparr>elements := m, start_index_item := Some s\<rparr>) = end_index q"
  "start_index (q\<lparr>elements := m, end_index_item := Some s\<rparr>) = start_index q"
  "end_index (q\<lparr>elements := m, end_index_item := Some s\<rparr>) = s"
  by (simp_all add: start_index_def end_index_def)

lemma queue_new_indexes [simp]: "start_index queue_new = 0" "end_index queue_new = 0"
  by (simp_all add: queue_new_def start_index_def end_index_def)

lemma queue_list_new [simp]: "queue_list queue_new = []"
  by (simp add: queue_list_def)

lemma queue_inv_new [simp]: "queue_inv queue_new"
  by (simp add: queue_inv_def)

lemma push_back_ok:
  assumes "queue_inv q" and "queue_room q (Suc n)"
  shows "\<exists>q'. push_back q x = Ok q' \<and> queue_inv q' \<and> queue_room q' n \<and>
    queue_list q' = queue_list q @ [x]"
proof -
  let ?e = "Suc (end_index q)"
  let ?q = "q\<lparr>elements := (elements q)(?e \<mapsto> x), end_index_item := Some ?e\<rparr>"
  have "push_back q x = Ok ?q"
    using assms(2) by (simp add: push_back_def queue_room_def checked_add_u64_def)
  moreover have inv: "queue_inv ?q" using assms by (auto simp: queue_inv_def queue_room_def)
  moreover have "queue_room ?q n" using assms(2) by (simp add: queue_room_def)
  moreover have "queue_list ?q = queue_list q @ [x]"
    using assms(1) inv by (intro queue_eqI) (auto simp: queue_inv_def nth_append nth_queue_list)
  ultimately show ?thesis by blast
qed

lemma push_back_sound:
  assumes "queue_inv q" and "push_back q x = Ok q'"
  shows "queue_inv q' \<and> queue_list q' = queue_list q @ [x]"
proof -
  from assms have inv: "queue_inv q'" and len: "end_index q' = Suc (end_index q)"
      "start_index q' = start_index q" "elements q' = (elements q)(Suc (end_index q) \<mapsto> x)"
    by (auto simp: push_back_def queue_inv_def res_simps u64_simps)
  then show ?thesis
    using assms(1) by (auto intro!: queue_eqI simp: queue_inv_def nth_append nth_queue_list)
qed

lemma pop_front_empty:
  "queue_inv q \<Longrightarrow> queue_list q = [] \<Longrightarrow> pop_front q = Ok (None, q)"
  by (auto simp: pop_front_def queue_inv_def queue_list_def)

lemma pop_front_ok:
  assumes "queue_inv q" and "queue_list q = x # xs"
  shows "\<exists>q'. pop_front q = Ok (Some x, q') \<and> queue_inv q' \<and> queue_list q' = xs \<and>
    (\<forall>n. queue_room q n \<longrightarrow> queue_room q' n)"
proof -
  let ?s = "Suc (start_index q)"
  let ?q = "q\<lparr>elements := (elements q)(?s := None), start_index_item := Some ?s\<rparr>"
  have len: "end_index q - start_index q = Suc (length xs)"
    using assms(2) length_queue_list [of q] by simp
  have "elements q ?s = Some x"
    using queue_inv_elements [OF assms(1), of ?s] len assms(2) by simp
  then have "pop_front q = Ok (Some x, ?q)"
    using len assms(1) by (auto simp: pop_front_def queue_inv_def checked_add_u64_def)
  moreover have inv: "queue_inv ?q" using assms(1) len by (auto simp: queue_inv_def)
  moreover have "\<forall>n. queue_room q n \<longrightarrow> queue_room ?q n" by (simp add: queue_room_def)
  moreover have "queue_list ?q = xs"
  proof (rule queue_eqI [OF inv])
    fix i assume "i < length xs"
    then show "elements ?q (Suc (start_index ?q + i)) = Some (xs ! i)"
      using queue_inv_elements [OF assms(1), of "Suc (?s + i)"] len assms(2) by simp
  qed (use len in simp)
  ultimately show ?thesis by blast
qed

lemma insert_at_ok:
  assumes "queue_inv q" and "queue_room q (Suc n)" and "i \<le> length (queue_list q)"
  shows "\<exists>q'. insert_at q i x = Ok q' \<and> queue_inv q' \<and> queue_room q' n \<and>
    queue_list q' = take i (queue_list q) @ x # drop i (queue_list q)"
proof -
  let ?s = "start_index q" and ?e = "end_index q"
  let ?a = "Suc (?s + i)"
  let ?m = "\<lambda>j. if ?a < j \<and> j \<le> ?e + 2 \<and> elements q (j - 1) \<noteq> None
                then elements q (j - 1) else elements q j"
  let ?q = "q\<lparr>elements := ?m(?a \<mapsto> x), end_index_item := Some (Suc ?e)\<rparr>"
  have le: "?s \<le> ?e" "i \<le> ?e - ?s" using assms(1,3) by (auto simp: queue_inv_def)
  have rm: "?e + 2 < 2 ^ 64" using assms(2) by (simp add: queue_room_def)
  have "insert_at q i x = Ok ?q"
    using le rm shift_up_fold [of "?e + 2" "elements q" ?a]
    by (simp add: insert_at_def queue_len_def checked_add_u64_def)
  moreover have inv: "queue_inv ?q"
  proof -
    have "?m j \<noteq> None" if "j \<noteq> ?a" "?s < j" "j \<le> Suc ?e" for j
      using that le queue_inv_elements [OF assms(1), of j]
        queue_inv_elements [OF assms(1), of "j - 1"]
      by (cases "j \<le> ?e") auto
    then show ?thesis using le rm by (auto simp: queue_inv_def)
  qed
  moreover have "queue_room ?q n" using assms(2) by (simp add: queue_room_def)
  moreover have "queue_list ?q = take i (queue_list q) @ x # drop i (queue_list q)"
  proof (rule queue_eqI [OF inv])
    fix j assume "j < length (take i (queue_list q) @ x # drop i (queue_list q))"
    then have j: "j \<le> ?e - ?s" using le by simp
    show "elements ?q (Suc (start_index ?q + j)) =
        Some ((take i (queue_list q) @ x # drop i (queue_list q)) ! j)"
      using j le queue_inv_elements [OF assms(1), of "Suc (?s + j)"]
        queue_inv_elements [OF assms(1), of "?s + j"]
      by (cases j i rule: linorder_cases) (auto simp: nth_append nth_Cons' min_def)
  qed (use le in simp)
  ultimately show ?thesis by blast
qed

lemma insert_at_out:
  "queue_inv q \<Longrightarrow> length (queue_list q) < i \<Longrightarrow>
     insert_at q i x = Err (GenericErr ''Index out of bounds'')"
  by (simp add: insert_at_def queue_len_def)

lemma remove_at_ok:
  assumes "queue_inv q" and "queue_room q n" and "i < length (queue_list q)"
  shows "\<exists>q'. remove_at q i = Ok (Some (queue_list q ! i), q') \<and> queue_inv q' \<and> queue_room q' n \<and>
    queue_list q' = take i (queue_list q) @ drop (Suc i) (queue_list q)"
proof (cases "i = 0")
  case True
  with assms(3) obtain x xs where xs: "queue_list q = x # xs" by (cases "queue_list q") auto
  from pop_front_ok [OF assms(1) xs] xs True assms(2,3) show ?thesis
    by (auto simp: remove_at_def queue_len_def simp flip: length_queue_list)
next
  case False
  let ?s = "start_index q" and ?e = "end_index q"
  let ?a = "Suc (?s + i)"
  define m where "m = (\<lambda>j. if ?a \<le> j \<and> j < ?e \<and> ((elements q)(?a := None)) (Suc j) \<noteq> None
    then ((elements q)(?a := None)) (Suc j) else ((elements q)(?a := None)) j)"
  let ?q = "q\<lparr>elements := m, end_index_item := Some (?e - 1)\<rparr>"
  have le: "?s \<le> ?e" "i < ?e - ?s" using assms(1,3) by (auto simp: queue_inv_def)
  have rm: "Suc ?e < 2 ^ 64" using assms(2) by (simp add: queue_room_def)
  have val: "elements q ?a = Some (queue_list q ! i)"
    using queue_inv_elements [OF assms(1), of ?a] le by simp
  have fold: "try_fold shift_down_step ((elements q)(?a := None)) [Suc ?a ..< Suc ?e] = Ok m"
    unfolding m_def by (subst shift_down_fold) simp_all
  have "checked_add_u64 ?s i = Some (?s + i)" "checked_add_u64 (?s + i) 1 = Some ?a"
      "checked_add_u64 ?a 1 = Some (Suc ?a)" "checked_add_u64 ?e 1 = Some (Suc ?e)"
      "checked_sub_u64 ?e 1 = Some (?e - 1)"
    using le rm by (simp_all add: checked_add_u64_def checked_sub_u64_def)
  then have "remove_at q i = Ok (Some (queue_list q ! i), ?q)"
    using le False val fold by (simp add: remove_at_def queue_len_def del: upt_Suc)
  moreover have at: "elements ?q (Suc (?s + j)) = Some (queue_list q ! (if j < i then j else Suc j))"
    if "Suc j < ?e - ?s" for j
    using that le queue_inv_elements [OF assms(1), of "Suc (?s + j)"]
      queue_inv_elements [OF assms(1), of "Suc (Suc (?s + j))"]
    by (auto simp: m_def)
  moreover have inv: "queue_inv ?q"
  proof -
    have "m j \<noteq> None" if "?s < j" "j < ?e" for j
      using at [of "j - Suc ?s"] that by auto
    then show ?thesis using le rm by (auto simp: queue_inv_def)
  qed
  moreover have "queue_room ?q n" using assms(2) le by (simp add: queue_room_def)
  moreover have "queue_list ?q = take i (queue_list q) @ drop (Suc i) (queue_list q)"
    using le at by (intro queue_eqI [OF inv]) (auto simp: nth_append min_def)
  ultimately show ?thesis by blast
qed

lemma remove_at_out:
  "queue_inv q \<Longrightarrow> length (queue_list q) \<le> i \<Longrightarrow>
     remove_at q i = Err (GenericErr ''Index out of bounds'')"
  by (simp add: remove_at_def queue_len_def)

lemma insert_at_sound:
  assumes "queue_inv q" and "insert_at q i x = Ok q'"
  shows "i \<le> length (queue_list q) \<and> queue_inv q' \<and>
    queue_list q' = take i (queue_list q) @ x # drop i (queue_list q)"
proof -
  from assms(2) have "i \<le> length (queue_list q)" "queue_room q (Suc 0)"
    by (auto simp: insert_at_def queue_len_def queue_room_def res_simps u64_simps split: if_splits)
  with insert_at_ok [OF assms(1), of 0 i x] assms(2) show ?thesis by auto
qed

lemma remove_at_sound:
  assumes "queue_inv q" and "remove_at q i = Ok (y, q')"
  shows "i < length (queue_list q) \<and> y = Some (queue_list q ! i) \<and> queue_inv q' \<and>
    queue_list q' = take i (queue_list q) @ drop (Suc i) (queue_list q)"
proof -
  from assms(2) have i: "i < length (queue_list q)"
    by (auto simp: remove_at_def queue_len_def split: if_splits)
  show ?thesis
  proof (cases "i = 0")
    case True
    with i obtain x xs where xs: "queue_list q = x # xs" by (cases "queue_list q") auto
    from True i assms(2) have "pop_front q = Ok (y, q')" by (simp add: remove_at_def queue_len_def)
    with pop_front_ok [OF assms(1) xs] xs True i show ?thesis by auto
  next
    case False
    with assms(2) i have "queue_room q 0"
      by (auto simp: remove_at_def queue_len_def queue_room_def res_simps u64_simps)
    with remove_at_ok [OF assms(1), of 0 i] i assms(2) show ?thesis by auto
  qed
qed

interpretation qm: positional_queue queue_new push_back pop_front queue_list queue_inv queue_room
    insert_at remove_at
proof (unfold_locales, goal_cases)
  case (3 q n m) then show ?case by (simp add: queue_room_def)
next
  case (4 q x q') then show ?case by (rule push_back_sound)
next
  case (5 q n x) then show ?case by (rule push_back_ok)
next
  case (7 q x xs) then show ?case by (rule pop_front_ok)
next
  case (8 q n i x) then show ?case by (rule insert_at_ok)
next
  case (9 q i x q') then show ?case by (rule insert_at_sound)
next
  case (11 q n i) then show ?case by (rule remove_at_ok)
next
  case (12 q i y q') then show ?case by (rule remove_at_sound)
qed (auto simp: pop_front_empty insert_at_out remove_at_out)

section \<open>Queries\<close>

lemma map_filter_upt_queue:
  assumes "queue_inv q" and "a \<le> b" and "b \<le> length (queue_list q)"
  shows "List.map_filter (elements q) [Suc (start_index q + a) ..< Suc (start_index q + b)] =
    take (b - a) (drop a (queue_list q))"
  using assms(2,3)
proof (induction b rule: dec_induct)
  case (step b)
  then have "elements q (Suc (start_index q + b)) = Some (queue_list q ! b)"
    using queue_inv_elements [OF assms(1), of "Suc (start_index q + b)"] by simp
  with step show ?case
    by (simp add: List.map_filter_def take_Suc_conv_app_nth Suc_diff_le)
qed (simp add: List.map_filter_def)

lemma queue_len_list: "queue_len q = length (queue_list q)"
  by (simp add: queue_len_def)

lemma queue_is_empty_list: "queue_is_empty q \<longleftrightarrow> queue_list q = []"
  by (simp add: queue_is_empty_def queue_len_list flip: length_0_conv del: length_queue_list)

section \<open>Properties\<close>



text \<open>
  (C19) Insertion and removal by position are those of lists: insertion at a position up to the length
  puts the element there and shifts the rest, removal returns the element at the position and closes
  the gap, the shift loops included; any other position is an error; and removing what was just
  inserted gives the element back and leaves the queue as it was.
\<close>

theorem queue_positions:
  assumes "queue_inv q" and "queue_room q 1"
  shows "(if i \<le> length (queue_list q) then
       \<exists>q' q''. insert_at q i x = Ok q' \<and> queue_inv q' \<and>
         queue_list q' = take i (queue_list q) @ x # drop i (queue_list q) \<and>
         remove_at q' i = Ok (Some x, q'') \<and> queue_inv q'' \<and> queue_list q'' = queue_list q
     else insert_at q i x = Err (GenericErr ''Index out of bounds'')) \<and>
    (if i < length (queue_list q) then
       \<exists>q'. remove_at q i = Ok (Some (queue_list q ! i), q') \<and> queue_inv q' \<and>
         queue_list q' = take i (queue_list q) @ drop (Suc i) (queue_list q)
     else remove_at q i = Err (GenericErr ''Index out of bounds''))"
proof -
  have "\<exists>q' q''. insert_at q i x = Ok q' \<and> queue_inv q' \<and>
      queue_list q' = take i (queue_list q) @ x # drop i (queue_list q) \<and>
      remove_at q' i = Ok (Some x, q'') \<and> queue_inv q'' \<and> queue_list q'' = queue_list q"
    if "i \<le> length (queue_list q)"
    using qm.insert_then_remove [OF assms(1), of 0 i x] qm.insert_sound [OF assms(1), of i x] assms(2) that
    by auto
  moreover have "queue_room q 0" using assms(2) by (simp add: queue_room_def)
  ultimately show ?thesis
    using qm.remove_ok [OF assms(1), of 0 i] qm.insert_out [OF assms(1), of i x]
      qm.remove_out [OF assms(1), of i]
    by auto
qed

definition ex_queue :: "nat queue_map" where
  "ex_queue = \<lparr>elements = [3 \<mapsto> 10, 4 \<mapsto> 11, 5 \<mapsto> 12], start_index_item = Some 2, end_index_item = Some 5\<rparr>"

lemma ex_queue_indexes [simp]: "start_index ex_queue = 2" "end_index ex_queue = 5"
  by (simp_all add: ex_queue_def start_index_def end_index_def)

lemma ex_queue_inv: "queue_inv ex_queue"
  by (auto simp: queue_inv_def) (auto simp: ex_queue_def)

lemma ex_queue_list: "queue_list ex_queue = [10, 11, 12]"
  by (simp add: queue_list_def) (simp add: ex_queue_def)

lemma ex_queue_room: "n \<le> 5 \<Longrightarrow> queue_room ex_queue n"
  by (simp add: queue_room_def)

theorem queue_positions_witness:
  "(\<exists>q' q''. insert_at ex_queue 1 99 = Ok q' \<and> queue_list q' = [10, 99, 11, 12] \<and>
      remove_at q' 1 = Ok (Some 99, q'') \<and> queue_list q'' = [10, 11, 12]) \<and>
   (\<exists>q'. remove_at ex_queue 1 = Ok (Some 11, q') \<and> queue_list q' = [10, 12])"
  using queue_positions [OF ex_queue_inv ex_queue_room, of 1 99]
  by (auto simp: ex_queue_list simp del: length_queue_list)

text \<open>
  (C30) A range query in ascending order returns the elements from the start position up to, and not
  including, the end position, and fails for a range that is not within the queue.
\<close>

theorem queue_query_slice:
  assumes "queue_inv q" and "queue_room q 0"
  shows "queue_query q (Some a) (Some b) Ascending =
    (if a \<le> b \<and> b \<le> length (queue_list q) then Ok (take (b - a) (drop a (queue_list q)))
     else Err (GenericErr ''Invalid range''))"
proof (cases "a \<le> b \<and> b \<le> length (queue_list q)")
  case True
  have "start_index q \<le> end_index q" using assms(1) by (simp add: queue_inv_def)
  with True assms(2) have "start_index q + b + 1 < 2 ^ 64" by (auto simp: queue_room_def)
  with True have "checked_add_u64 (start_index q) a = Some (start_index q + a)"
      "checked_add_u64 (start_index q + a) 1 = Some (Suc (start_index q + a))"
      "checked_add_u64 (start_index q) b = Some (start_index q + b)"
      "checked_add_u64 (start_index q + b) 1 = Some (Suc (start_index q + b))"
    by (simp_all add: checked_add_u64_def)
  with True map_filter_upt_queue [OF assms(1), of a b] show ?thesis
    by (simp add: queue_query_def elements_range_def Let_def del: upt_Suc)
next
  case False
  then show ?thesis by (auto simp: queue_query_def Let_def)
qed

theorem queue_query_slice_witness:
  "queue_query ex_queue (Some 1) (Some 3) Ascending = Ok [11, 12]"
  using queue_query_slice [OF ex_queue_inv ex_queue_room, of 1 3]
  by (simp add: ex_queue_list del: length_queue_list)

end
