(* ===== verification/Processor.thy ===== *)
theory Processor
  imports Queue_Map Storage_Map Deps
begin

text \<open>
  The processor contract (\<open>contracts/processor/src\<close>): its storage, the callback and queue helpers
  (\<open>callback.rs\<close>, \<open>queue.rs\<close>), one definition per handler of \<open>contract.rs\<close>, the entry points and the
  queries. A handler takes the state and returns the new one with the response, or an error.
\<close>

section \<open>State and errors\<close>

record processor =
  config :: processor_config
  med_priority_queue :: "message_batch queue_map"
  high_priority_queue :: "message_batch queue_map"
  execution_id_to_batch :: "(u64, message_batch) storage_map"
  non_atomic_batch_current_function_index :: "(u64, usize) storage_map"
  pending_callbacks :: "(u64, pending_callback) storage_map"
  pending_polytone_callbacks :: "(u64, pending_polytone_callback_info) storage_map"

datatype callback_error_reason =
    PendingCallbackNotFound
  | InvalidCallbackSender
  | UnauthorizedPolytoneCallbackSender
  | InvalidPolytoneCallback
  | PolytonePendingCallbackNotFound
  | PolytoneCallbackStillPending
  | PolytoneCallbackNotRetriable

datatype unauthorized_reason =
    NotAuthorizationModule
  | NotProcessor
  | InvalidPolytoneCallbackInitiator
  | NotExternalDomainProcessor

datatype processor_error =
    Std std_error
  | Unauthorized unauthorized_reason
  | ProcessorPaused
  | NoMessagesToProcess
  | CallbackError callback_error_reason

type_synonym processor_result = "(processor \<times> response, processor_error) result"

text \<open>The \<open>?\<close> operator on a \<open>StdResult\<close> converts the error.\<close>

abbreviation std :: "('a, std_error) result \<Rightarrow> ('a, processor_error) result" where
  "std \<equiv> map_err Std"

section \<open>Queues\<close>

definition get_queue_map :: "priority \<Rightarrow> processor \<Rightarrow> message_batch queue_map" where
  "get_queue_map p s =
     (case p of High \<Rightarrow> high_priority_queue s | Medium \<Rightarrow> med_priority_queue s)"

text \<open>The queue of a priority is written back into the storage it was read from.\<close>

definition set_queue_map :: "priority \<Rightarrow> message_batch queue_map \<Rightarrow> processor \<Rightarrow> processor" where
  "set_queue_map p q s =
     (case p of
        High \<Rightarrow> s\<lparr>high_priority_queue := q\<rparr>
      | Medium \<Rightarrow> s\<lparr>med_priority_queue := q\<rparr>)"

definition put_back_into_queue ::
  "deps \<Rightarrow> processor \<Rightarrow> message_batch \<Rightarrow> u64 \<Rightarrow> retry_logic \<Rightarrow> block_info \<Rightarrow>
   (processor, processor_error) result"
where
  "put_back_into_queue d s batch amounts logic block =
     and_then (std (expect ''Overflow'' (checked_add_u64 amounts 1))) (\<lambda>amounts'.
     let batch' = batch\<lparr>batch_retry := Some
           \<lparr>retry_amounts = amounts',
            retry_cooldown = duration_after (d_api d) (retry_interval logic) block\<rparr>\<rparr>
     in and_then (std (push_back (get_queue_map (batch_priority batch') s) batch')) (\<lambda>q.
          let s' = set_queue_map (batch_priority batch') q s
          in Ok (s'\<lparr>execution_id_to_batch :=
                      sm_set (batch_id batch') batch' (execution_id_to_batch s')\<rparr>)))"

section \<open>Callbacks\<close>

definition create_callback_message ::
  "deps \<Rightarrow> processor \<Rightarrow> processor_config \<Rightarrow> u64 \<Rightarrow> execution_result \<Rightarrow> addr \<Rightarrow>
   processor \<times> cosmos_msg"
where
  "create_callback_message d s cfg execution_id execution_result processor_address =
     (let authorization_callback =
            WasmExecute (authorization_contract cfg)
              (enc_authorization_execute (d_codec d)
                (InternalAuthorizationAction (ProcessorCallback execution_id execution_result)))
              []
      in case processor_domain cfg of
           PMain \<Rightarrow> (s, authorization_callback)
         | PExternal polytone \<Rightarrow>
             (s\<lparr>pending_polytone_callbacks :=
                  sm_set execution_id
                    \<lparr>ppc_execution_result = execution_result, ppc_state = CbPending\<rparr>
                    (pending_polytone_callbacks s)\<rparr>,
              WasmExecute (polytone_note_address polytone)
                (enc_polytone_execute (d_codec d)
                  (PolytoneExecute [authorization_callback]
                    (Some \<lparr>cr_receiver = processor_address,
                           cr_msg = enc_proc_polytone_callback (d_codec d) (ExecutionID execution_id)\<rparr>)
                    (polytone_timeout_seconds polytone)))
                []))"

text \<open>Send the final result of an execution and forget the batch.\<close>

definition finish_execution ::
  "deps \<Rightarrow> processor \<Rightarrow> processor_config \<Rightarrow> u64 \<Rightarrow> execution_result \<Rightarrow> addr \<Rightarrow>
   processor \<times> cosmos_msg"
where
  "finish_execution d s cfg execution_id execution_result processor_address =
     (let (s', m) =
            create_callback_message d s cfg execution_id execution_result processor_address
      in (s'\<lparr>non_atomic_batch_current_function_index :=
               sm_remove execution_id (non_atomic_batch_current_function_index s'),
             execution_id_to_batch := sm_remove execution_id (execution_id_to_batch s')\<rparr>, m))"

definition handle_successful_non_atomic_callback ::
  "deps \<Rightarrow> processor \<Rightarrow> usize \<Rightarrow> u64 \<Rightarrow> message_batch \<Rightarrow> cosmos_msg list \<Rightarrow> addr \<Rightarrow>
   (processor \<times> cosmos_msg list, processor_error) result"
where
  "handle_successful_non_atomic_callback d s index execution_id batch messages processor_address =
     and_then (std (expect ''Overflow'' (checked_add_usize index 1))) (\<lambda>next_index.
       if next_index \<ge> length (batch_msgs batch) then
         (let (s', m) = finish_execution d s (config s) execution_id Success processor_address
          in Ok (s', messages @ [m]))
       else
         (let s' = s\<lparr>non_atomic_batch_current_function_index :=
                       sm_set execution_id next_index (non_atomic_batch_current_function_index s)\<rparr>;
              batch' = batch\<lparr>batch_retry := None\<rparr>
          in and_then (std (push_back (get_queue_map (batch_priority batch') s') batch')) (\<lambda>q.
               Ok (set_queue_map (batch_priority batch') q s', messages))))"

definition handle_successful_atomic_callback ::
  "deps \<Rightarrow> processor \<Rightarrow> processor_config \<Rightarrow> u64 \<Rightarrow> cosmos_msg list \<Rightarrow> addr \<Rightarrow>
   processor \<times> cosmos_msg list"
where
  "handle_successful_atomic_callback d s cfg execution_id messages processor_address =
     (let (s', m) = create_callback_message d s cfg execution_id Success processor_address
      in (s', messages @ [m]))"

text \<open>The retry logic that applies to a batch at a function index.\<close>

definition retry_logic_of :: "message_batch \<Rightarrow> usize option \<Rightarrow> retry_logic option" where
  "retry_logic_of batch index =
     (case batch_subroutine batch of
        Atomic cfg \<Rightarrow> as_retry_logic cfg
      | NonAtomic cfg \<Rightarrow>
          Option.bind (nth_opt (ns_functions cfg) (case index of Some i \<Rightarrow> i | None \<Rightarrow> 0))
            fn_retry_logic)"

definition handle_unsuccessful_callback ::
  "deps \<Rightarrow> processor \<Rightarrow> u64 \<Rightarrow> message_batch \<Rightarrow> cosmos_msg list \<Rightarrow> string \<Rightarrow> processor_config \<Rightarrow>
   block_info \<Rightarrow> usize option \<Rightarrow> addr \<Rightarrow> (processor \<times> cosmos_msg list, processor_error) result"
where
  "handle_unsuccessful_callback d s execution_id batch messages error cfg block index
     processor_address =
     (let amounts = (case batch_retry batch of None \<Rightarrow> 0 | Some retry \<Rightarrow> retry_amounts retry);
          i = (case index of Some i \<Rightarrow> i | None \<Rightarrow> 0)
      in case retry_logic_of batch index of
           Some logic \<Rightarrow>
             (case retry_times logic of
                Amount max_retries \<Rightarrow>
                  if amounts \<ge> max_retries then
                    (let execution_result =
                           (if i = 0 then Rejected error else PartiallyExecuted i error);
                         (s', m) = finish_execution d s cfg execution_id execution_result
                           processor_address
                     in Ok (s', messages @ [m]))
                  else
                    and_then (put_back_into_queue d s batch amounts logic block) (\<lambda>s'.
                      Ok (s', messages))
              | Indefinitely \<Rightarrow>
                  and_then (put_back_into_queue d s batch amounts logic block) (\<lambda>s'.
                    Ok (s', messages)))
         | None \<Rightarrow>
             (let (s', m) = finish_execution d s cfg execution_id (Rejected error) processor_address
              in Ok (s', messages @ [m])))"

section \<open>Instantiation\<close>

record polytone_contracts =
  pcs_polytone_proxy_address :: string
  pcs_polytone_note_address :: string
  pcs_timeout_seconds :: u64

record processor_instantiate_msg =
  pim_authorization_contract :: string
  pim_polytone_contracts :: "polytone_contracts option"

text \<open>The message that makes the note contract create the proxy: an empty list of messages.\<close>

definition create_proxy_msg :: "deps \<Rightarrow> polytone \<Rightarrow> addr \<Rightarrow> cosmos_msg" where
  "create_proxy_msg d p contract_address =
     WasmExecute (polytone_note_address p)
       (enc_polytone_execute (d_codec d)
         (PolytoneExecute []
           (Some \<lparr>cr_receiver = contract_address,
                  cr_msg = enc_proc_polytone_callback (d_codec d) CreateProxy\<rparr>)
           (polytone_timeout_seconds p)))
       []"

definition instantiate :: "deps \<Rightarrow> env \<Rightarrow> processor_instantiate_msg \<Rightarrow> processor_result" where
  "instantiate d env msg =
     and_then (case pim_polytone_contracts msg of
         Some pc \<Rightarrow>
           and_then (std (addr_validate (d_api d) (pcs_polytone_proxy_address pc))) (\<lambda>proxy.
           and_then (std (addr_validate (d_api d) (pcs_polytone_note_address pc))) (\<lambda>note.
             Ok (PExternal \<lparr>polytone_proxy_address = proxy, polytone_note_address = note,
                            polytone_timeout_seconds = pcs_timeout_seconds pc,
                            proxy_on_main_domain_state = PendingResponse\<rparr>)))
       | None \<Rightarrow> Ok PMain)
     (\<lambda>domain.
       Ok (\<lparr>config = \<lparr>authorization_contract = pim_authorization_contract msg,
                      processor_domain = domain, processor_state = Active\<rparr>,
            med_priority_queue = queue_new, high_priority_queue = queue_new,
            execution_id_to_batch = [], non_atomic_batch_current_function_index = [],
            pending_callbacks = [], pending_polytone_callbacks = []\<rparr>,
           add_attribute ''method'' ''instantiate_processor''
             (add_messages (case domain of
                 PMain \<Rightarrow> []
               | PExternal polytone \<Rightarrow> [create_proxy_msg d polytone (env_contract_address env)])
               response_new)))"

section \<open>Actions of the authorization module\<close>

definition pause_processor :: "processor \<Rightarrow> processor_result" where
  "pause_processor s =
     Ok (s\<lparr>config := (config s)\<lparr>processor_state := Paused\<rparr>\<rparr>,
         add_attribute ''method'' ''pause_processor'' response_new)"

definition resume_processor :: "processor \<Rightarrow> processor_result" where
  "resume_processor s =
     Ok (s\<lparr>config := (config s)\<lparr>processor_state := Active\<rparr>\<rparr>,
         add_attribute ''method'' ''resume_processor'' response_new)"

definition batch_expired :: "u64 option \<Rightarrow> env \<Rightarrow> bool" where
  "batch_expired expiration_time env =
     (case expiration_time of
        Some t \<Rightarrow> t < block_seconds (env_block env)
      | None \<Rightarrow> False)"

definition new_batch ::
  "u64 \<Rightarrow> processor_message list \<Rightarrow> subroutine \<Rightarrow> priority \<Rightarrow> u64 option \<Rightarrow> message_batch"
where
  "new_batch execution_id msgs sub prio expiration_time =
     \<lparr>batch_id = execution_id, batch_msgs = msgs, batch_subroutine = sub, batch_priority = prio,
      batch_expiration_time = expiration_time, batch_retry = None\<rparr>"

definition enqueue_messages ::
  "deps \<Rightarrow> processor \<Rightarrow> env \<Rightarrow> u64 \<Rightarrow> processor_message list \<Rightarrow> subroutine \<Rightarrow> priority \<Rightarrow>
   u64 option \<Rightarrow> processor_result"
where
  "enqueue_messages d s env execution_id msgs sub prio expiration_time =
     (if batch_expired expiration_time env then
        (let (s', m) =
               create_callback_message d s (config s) execution_id (Expired 0) (env_contract_address env)
         in Ok (s', add_attribute ''action'' ''expired_batch''
                      (add_attribute ''method'' ''enqueue_messages''
                        (add_messages [m] response_new))))
      else
        (let batch = new_batch execution_id msgs sub prio expiration_time
         in and_then (std (push_back (get_queue_map prio s) batch)) (\<lambda>q.
            let s' = set_queue_map prio q s
            in Ok (s'\<lparr>execution_id_to_batch := sm_set execution_id batch (execution_id_to_batch s')\<rparr>,
                   add_attribute ''method'' ''enqueue_messages'' response_new))))"

definition evict_messages ::
  "deps \<Rightarrow> processor \<Rightarrow> env \<Rightarrow> u64 \<Rightarrow> priority \<Rightarrow> processor_result"
where
  "evict_messages d s env queue_position prio =
     and_then (std (remove_at (get_queue_map prio s) queue_position)) (\<lambda>(removed, q).
       let s' = set_queue_map prio q s
       in case removed of
            Some batch \<Rightarrow>
              (let s'' = s'\<lparr>execution_id_to_batch :=
                              sm_remove (batch_id batch) (execution_id_to_batch s'),
                            non_atomic_batch_current_function_index :=
                              sm_remove (batch_id batch)
                                (non_atomic_batch_current_function_index s'),
                            pending_callbacks :=
                              sm_remove (batch_id batch) (pending_callbacks s')\<rparr>;
                   (t, m) = create_callback_message d s'' (config s'') (batch_id batch)
                     RemovedByOwner (env_contract_address env)
               in Ok (t, add_attribute ''messages_removed''
                           (string_of_nat (length (batch_msgs batch)))
                           (add_attribute ''method'' ''evict_messages''
                             (add_messages [m] response_new))))
          | None \<Rightarrow>
              Ok (s', add_attribute ''messages_removed'' ''0''
                        (add_attribute ''method'' ''evict_messages'' response_new)))"

definition insert_messages ::
  "deps \<Rightarrow> processor \<Rightarrow> env \<Rightarrow> u64 \<Rightarrow> u64 \<Rightarrow> processor_message list \<Rightarrow> subroutine \<Rightarrow> priority \<Rightarrow>
   u64 option \<Rightarrow> processor_result"
where
  "insert_messages d s env queue_position execution_id msgs sub prio expiration_time =
     (if batch_expired expiration_time env then
        (let (s', m) =
               create_callback_message d s (config s) execution_id (Expired 0) (env_contract_address env)
         in Ok (s', add_attribute ''action'' ''expired_batch''
                      (add_attribute ''method'' ''insert_messages''
                        (add_messages [m] response_new))))
      else
        (let batch = new_batch execution_id msgs sub prio expiration_time
         in and_then (std (insert_at (get_queue_map prio s) queue_position batch)) (\<lambda>q.
            let s' = set_queue_map prio q s
            in Ok (s'\<lparr>execution_id_to_batch := sm_set execution_id batch (execution_id_to_batch s')\<rparr>,
                   add_attribute ''method'' ''insert_messages'' response_new))))"

section \<open>Permissionless actions\<close>

text \<open>The function of a non-atomic batch to run: stored, or the first one, which is then stored.\<close>

definition current_function_index :: "processor \<Rightarrow> u64 \<Rightarrow> usize \<times> processor" where
  "current_function_index s execution_id =
     (case sm_get (non_atomic_batch_current_function_index s) execution_id of
        Some index \<Rightarrow> (index, s)
      | None \<Rightarrow>
          (0, s\<lparr>non_atomic_batch_current_function_index :=
                  sm_set execution_id 0 (non_atomic_batch_current_function_index s)\<rparr>))"

text \<open>The part of \<open>process_tick\<close> that runs a batch neither expired nor in its cooldown.\<close>

definition dispatch_batch ::
  "deps \<Rightarrow> processor \<Rightarrow> env \<Rightarrow> message_batch \<Rightarrow> (processor \<times> sub_msg list, processor_error) result"
where
  "dispatch_batch d s env batch =
     (case batch_subroutine batch of
        Atomic _ \<Rightarrow>
          Ok (s, [reply_always
                    (WasmExecute (env_contract_address env)
                      (enc_processor_execute (d_codec d)
                        (InternalProcessorAction (ExecuteAtomic batch)))
                      [])
                    (batch_id batch)])
      | NonAtomic sub \<Rightarrow>
          (let (index, s') = current_function_index s (batch_id batch)
           in and_then (std (index_vec (ns_functions sub) index)) (\<lambda>f.
                case fn_callback_confirmation f of
                  Some cb \<Rightarrow>
                    and_then (std (create_message_by_index_with_execution_id d batch index
                      (batch_id batch))) (\<lambda>msgs.
                      Ok (s'\<lparr>pending_callbacks :=
                                sm_set (batch_id batch)
                                  \<lparr>pc_address = fc_contract_address cb,
                                   pc_callback_msg = fc_callback_message cb,
                                   pc_message_batch = batch\<rparr>
                                  (pending_callbacks s')\<rparr>, msgs))
                | None \<Rightarrow>
                    and_then (std (create_message_by_index batch index)) (\<lambda>msgs.
                      Ok (s', msgs)))))"

text \<open>How many functions of a batch have been executed when it expires.\<close>

definition functions_executed :: "processor \<Rightarrow> message_batch \<Rightarrow> usize" where
  "functions_executed s batch =
     (case batch_subroutine batch of
        Atomic _ \<Rightarrow> 0
      | NonAtomic _ \<Rightarrow>
          (case sm_get (non_atomic_batch_current_function_index s) (batch_id batch) of
             Some index \<Rightarrow> index
           | None \<Rightarrow> 0))"

definition in_cooldown :: "deps \<Rightarrow> env \<Rightarrow> message_batch \<Rightarrow> bool" where
  "in_cooldown d env batch =
     (case batch_retry batch of
        Some retry \<Rightarrow> \<not> is_expired (d_api d) (retry_cooldown retry) (env_block env)
      | None \<Rightarrow> False)"

text \<open>The queue a tick takes from: the high priority one unless it is empty.\<close>

definition tick_priority :: "processor \<Rightarrow> priority" where
  "tick_priority s = (if queue_len (get_queue_map High s) = 0 then Medium else High)"

definition process_tick :: "deps \<Rightarrow> processor \<Rightarrow> env \<Rightarrow> processor_result" where
  "process_tick d s env =
     (if processor_state (config s) = Paused then Err ProcessorPaused
      else
        (let prio = tick_priority s
         in and_then (std (pop_front (get_queue_map prio s))) (\<lambda>(popped, q).
            let s' = set_queue_map prio q s
            in case popped of
                 Some batch \<Rightarrow>
                   if batch_expired (batch_expiration_time batch) env then
                     (let n = functions_executed s' batch;
                          (t, m) = create_callback_message d
                            (s'\<lparr>non_atomic_batch_current_function_index :=
                                  sm_remove (batch_id batch)
                                    (non_atomic_batch_current_function_index s'),
                                execution_id_to_batch :=
                                  sm_remove (batch_id batch) (execution_id_to_batch s')\<rparr>)
                            (config s') (batch_id batch) (Expired n) (env_contract_address env)
                      in Ok (t, add_attribute ''action'' ''expired_batch''
                                  (add_attribute ''method'' ''tick''
                                    (add_messages [m] response_new))))
                   else if in_cooldown d env batch then
                     and_then (std (push_back (get_queue_map prio s') batch)) (\<lambda>q'.
                       Ok (set_queue_map prio q' s',
                           add_attribute ''action'' ''pushed_function_back_to_queue''
                             (add_attribute ''method'' ''tick'' response_new)))
                   else
                     and_then (dispatch_batch d s' env batch) (\<lambda>(t, msgs).
                       Ok (t, add_attribute ''method'' ''tick''
                                (add_submessages msgs response_new)))
               | None \<Rightarrow> Err NoMessagesToProcess)))"

definition retry_callback :: "deps \<Rightarrow> processor \<Rightarrow> env \<Rightarrow> u64 \<Rightarrow> processor_result" where
  "retry_callback d s env execution_id =
     and_then (ok_or (CallbackError PolytonePendingCallbackNotFound)
       (sm_get (pending_polytone_callbacks s) execution_id)) (\<lambda>pending.
       if ppc_state pending \<noteq> CbTimedOut then Err (CallbackError PolytoneCallbackStillPending)
       else
         (let (s', m) = create_callback_message d s (config s) execution_id
                (ppc_execution_result pending) (env_contract_address env)
          in Ok (s', add_attribute ''method'' ''retry_callback'' (add_messages [m] response_new))))"

definition retry_bridge_creation :: "deps \<Rightarrow> processor \<Rightarrow> env \<Rightarrow> processor_result" where
  "retry_bridge_creation d s env =
     (case processor_domain (config s) of
        PMain \<Rightarrow> Err (Unauthorized NotExternalDomainProcessor)
      | PExternal polytone \<Rightarrow>
          if proxy_on_main_domain_state polytone \<noteq> TimedOut then
            Err (CallbackError PolytoneCallbackNotRetriable)
          else
            Ok (s\<lparr>config := (config s)\<lparr>processor_domain :=
                     PExternal (polytone\<lparr>proxy_on_main_domain_state := PendingResponse\<rparr>)\<rparr>\<rparr>,
                add_attribute ''method'' ''retry_bridge_creation''
                  (add_messages [create_proxy_msg d polytone (env_contract_address env)]
                    response_new)))"

section \<open>Internal actions and callbacks\<close>

definition process_callback ::
  "deps \<Rightarrow> processor \<Rightarrow> env \<Rightarrow> message_info \<Rightarrow> u64 \<Rightarrow> binary \<Rightarrow> processor_result"
where
  "process_callback d s env info execution_id msg =
     and_then (ok_or (CallbackError PendingCallbackNotFound)
       (sm_get (pending_callbacks s) execution_id)) (\<lambda>pending.
       if info_sender info \<noteq> pc_address pending then Err (CallbackError InvalidCallbackSender)
       else
         and_then (std (load (sm_get (non_atomic_batch_current_function_index s) execution_id)))
         (\<lambda>index.
         and_then
           (if msg \<noteq> pc_callback_msg pending then
              handle_unsuccessful_callback d s execution_id (pc_message_batch pending) []
                ''Invalid callback message received'' (config s) (env_block env) (Some index)
                (env_contract_address env)
            else
              handle_successful_non_atomic_callback d s index execution_id
                (pc_message_batch pending) [] (env_contract_address env))
         (\<lambda>(s', messages).
           Ok (s'\<lparr>pending_callbacks := sm_remove execution_id (pending_callbacks s')\<rparr>,
               add_attribute ''method'' ''callback'' (add_messages messages response_new)))))"

definition execute_atomic ::
  "processor \<Rightarrow> message_info \<Rightarrow> env \<Rightarrow> message_batch \<Rightarrow> processor_result"
where
  "execute_atomic s info env batch =
     (if info_sender info \<noteq> env_contract_address env then Err (Unauthorized NotProcessor)
      else
        and_then (std (batch_into_msgs batch)) (\<lambda>messages.
          Ok (s, add_attribute ''method'' ''execute_atomic'' (add_messages messages response_new))))"

text \<open>Recording the outcome of a callback sent over the bridge.\<close>

definition set_callback_state ::
  "processor \<Rightarrow> u64 \<Rightarrow> polytone_callback_state \<Rightarrow> (processor, processor_error) result"
where
  "set_callback_state s execution_id st =
     and_then (ok_or (CallbackError PolytonePendingCallbackNotFound)
       (sm_get (pending_polytone_callbacks s) execution_id)) (\<lambda>info.
       Ok (s\<lparr>pending_polytone_callbacks :=
               sm_set execution_id (info\<lparr>ppc_state := st\<rparr>) (pending_polytone_callbacks s)\<rparr>))"

definition process_polytone_callback ::
  "deps \<Rightarrow> processor \<Rightarrow> env \<Rightarrow> message_info \<Rightarrow> callback_message \<Rightarrow> processor_result"
where
  "process_polytone_callback d s env info callback_msg =
     (if cm_initiator callback_msg \<noteq> env_contract_address env then
        Err (Unauthorized InvalidPolytoneCallbackInitiator)
      else
        (case processor_domain (config s) of
           PMain \<Rightarrow> Err (Unauthorized NotExternalDomainProcessor)
         | PExternal polytone \<Rightarrow>
             if info_sender info \<noteq> polytone_note_address polytone then
               Err (CallbackError UnauthorizedPolytoneCallbackSender)
             else
               and_then (map_err (\<lambda>_. CallbackError InvalidPolytoneCallback)
                 (dec_proc_polytone_callback (d_codec d) (cm_initiator_msg callback_msg)))
               (\<lambda>polytone_callback_msg.
               and_then
                 (case polytone_callback_msg of
                    ExecutionID execution_id \<Rightarrow>
                      (case cm_result callback_msg of
                         CallbackExecute (Ok _) \<Rightarrow>
                           Ok (s\<lparr>pending_polytone_callbacks :=
                                   sm_remove execution_id (pending_polytone_callbacks s)\<rparr>)
                       | CallbackExecute (Err error) \<Rightarrow>
                           set_callback_state s execution_id
                             (if error = ''timeout'' then CbTimedOut else CbUnexpectedError error)
                       | CallbackFatalError error \<Rightarrow>
                           set_callback_state s execution_id (CbUnexpectedError error)
                       | CallbackQuery _ \<Rightarrow> Err (CallbackError InvalidPolytoneCallback))
                  | CreateProxy \<Rightarrow>
                      (case cm_result callback_msg of
                         CallbackExecute result \<Rightarrow>
                           Ok (s\<lparr>config := (config s)\<lparr>processor_domain :=
                             PExternal (polytone\<lparr>proxy_on_main_domain_state :=
                               (if result = Err ''timeout'' then TimedOut else Created)\<rparr>)\<rparr>\<rparr>)
                       | CallbackFatalError error \<Rightarrow>
                           Ok (s\<lparr>config := (config s)\<lparr>processor_domain :=
                             PExternal (polytone\<lparr>proxy_on_main_domain_state :=
                               ProxyUnexpectedError error\<rparr>)\<rparr>\<rparr>)
                       | CallbackQuery _ \<Rightarrow> Err (CallbackError InvalidPolytoneCallback)))
               (\<lambda>s'.
                 Ok (s', add_attribute ''function'' ''process_polytone_callback'' response_new)))))"

section \<open>Entry points\<close>

definition authorized_sender :: "processor_config \<Rightarrow> string" where
  "authorized_sender cfg =
     (case processor_domain cfg of
        PMain \<Rightarrow> authorization_contract cfg
      | PExternal polytone \<Rightarrow> polytone_proxy_address polytone)"

definition execute ::
  "deps \<Rightarrow> processor \<Rightarrow> env \<Rightarrow> message_info \<Rightarrow> processor_execute_msg \<Rightarrow> processor_result"
where
  "execute d s env info msg =
     (case msg of
        AuthorizationModuleAction action \<Rightarrow>
          if info_sender info \<noteq> authorized_sender (config s) then
            Err (Unauthorized NotAuthorizationModule)
          else
            (case action of
               EnqueueMsgs execution_id msgs sub prio expiration_time \<Rightarrow>
                 enqueue_messages d s env execution_id msgs sub prio expiration_time
             | EvictMsgs queue_position prio \<Rightarrow> evict_messages d s env queue_position prio
             | InsertMsgs queue_position execution_id msgs sub prio expiration_time \<Rightarrow>
                 insert_messages d s env queue_position execution_id msgs sub prio expiration_time
             | Pause \<Rightarrow> pause_processor s
             | Resume \<Rightarrow> resume_processor s)
      | PermissionlessAction action \<Rightarrow>
          (case action of
             Tick \<Rightarrow> process_tick d s env
           | RetryCallback execution_id \<Rightarrow> retry_callback d s env execution_id
           | RetryBridgeCreation \<Rightarrow> retry_bridge_creation d s env)
      | InternalProcessorAction action \<Rightarrow>
          (case action of
             LibraryCallback execution_id m \<Rightarrow> process_callback d s env info execution_id m
           | ExecuteAtomic batch \<Rightarrow> execute_atomic s info env batch)
      | PolytoneCallback callback_msg \<Rightarrow> process_polytone_callback d s env info callback_msg)"

datatype sub_msg_result = SubOk | SubErr string

definition reply :: "deps \<Rightarrow> processor \<Rightarrow> env \<Rightarrow> u64 \<Rightarrow> sub_msg_result \<Rightarrow> processor_result" where
  "reply d s env execution_id result =
     and_then (std (load (sm_get (execution_id_to_batch s) execution_id))) (\<lambda>batch.
     and_then
       (case sm_get (non_atomic_batch_current_function_index s) execution_id of
          Some index \<Rightarrow>
            (case result of
               SubOk \<Rightarrow>
                 if sm_has (pending_callbacks s) execution_id then Ok (s, [])
                 else handle_successful_non_atomic_callback d s index execution_id batch []
                        (env_contract_address env)
             | SubErr error \<Rightarrow>
                 handle_unsuccessful_callback d s execution_id batch [] error (config s) (env_block env)
                   (Some index) (env_contract_address env))
        | None \<Rightarrow>
            (case result of
               SubOk \<Rightarrow>
                 Ok (handle_successful_atomic_callback d s (config s) execution_id []
                       (env_contract_address env))
             | SubErr error \<Rightarrow>
                 handle_unsuccessful_callback d s execution_id batch [] error (config s) (env_block env)
                   None (env_contract_address env)))
     (\<lambda>(s', messages).
       Ok (s', add_attribute ''method'' ''reply'' (add_messages messages response_new))))"

section \<open>Queries\<close>

definition max_page_limit :: u32 where
  "max_page_limit = 250"

definition get_queue ::
  "processor \<Rightarrow> u64 option \<Rightarrow> u64 option \<Rightarrow> priority \<Rightarrow> (message_batch list, std_error) result"
where
  "get_queue s from_pos to_pos prio = queue_query (get_queue_map prio s) from_pos to_pos Ascending"

definition is_queue_empty :: "processor \<Rightarrow> bool" where
  "is_queue_empty s \<longleftrightarrow>
     queue_is_empty (get_queue_map High s) \<and> queue_is_empty (get_queue_map Medium s)"

definition get_pending_polytone_callbacks ::
  "processor \<Rightarrow> u64 option \<Rightarrow> u32 option \<Rightarrow> pending_polytone_callback_info list"
where
  "get_pending_polytone_callbacks s start_after limit =
     sm_values (sm_page max_page_limit (pending_polytone_callbacks s) start_after limit)"

definition get_pending_polytone_callback ::
  "processor \<Rightarrow> u64 \<Rightarrow> (pending_polytone_callback_info, std_error) result"
where
  "get_pending_polytone_callback s execution_id =
     load (sm_get (pending_polytone_callbacks s) execution_id)"

end
