(* ===== verification/Processor_Invariants.thy ===== *)
theory Processor_Invariants
  imports Processor
begin

text \<open>
  What every handler of the processor keeps. A predicate on batches that survives the two ways in
  which the code rewrites a batch (a retry is counted, the retry state is cleared) is kept by every
  handler, for the batches in the queues, in the map of executions and in the pending callbacks;
  this is proved once, in the locale \<open>batch_invariant\<close>, and used for the invariants of reachable
  states: well-formed queues, queues that hold only their own priority, batches that come from the
  authorization module, bounded retries.
\<close>

section \<open>Reading and writing the parts of the state\<close>

definition queued :: "priority \<Rightarrow> processor \<Rightarrow> message_batch list" where
  "queued p s = queue_list (get_queue_map p s)"

lemma get_set_queue_map [simp]:
  "get_queue_map p (set_queue_map p' q s) = (if p = p' then q else get_queue_map p s)"
  by (auto simp: get_queue_map_def set_queue_map_def split: priority.splits)

lemma queued_set_queue_map [simp]:
  "queued p (set_queue_map p' q s) = (if p = p' then queue_list q else queued p s)"
  by (simp add: queued_def)

lemma set_queue_map_frame [simp]:
  "config (set_queue_map p q s) = config s"
  "execution_id_to_batch (set_queue_map p q s) = execution_id_to_batch s"
  "non_atomic_batch_current_function_index (set_queue_map p q s) =
     non_atomic_batch_current_function_index s"
  "pending_callbacks (set_queue_map p q s) = pending_callbacks s"
  "pending_polytone_callbacks (set_queue_map p q s) = pending_polytone_callbacks s"
  by (auto simp: set_queue_map_def split: priority.splits)

lemma get_queue_map_frame [simp]:
  "get_queue_map p (s\<lparr>config := c\<rparr>) = get_queue_map p s"
  "get_queue_map p (s\<lparr>execution_id_to_batch := m\<rparr>) = get_queue_map p s"
  "get_queue_map p (s\<lparr>non_atomic_batch_current_function_index := n\<rparr>) = get_queue_map p s"
  "get_queue_map p (s\<lparr>pending_callbacks := pc\<rparr>) = get_queue_map p s"
  "get_queue_map p (s\<lparr>pending_polytone_callbacks := ppc\<rparr>) = get_queue_map p s"
  by (simp_all add: get_queue_map_def split: priority.splits)

lemma queued_frame [simp]:
  "queued p (s\<lparr>config := c\<rparr>) = queued p s"
  "queued p (s\<lparr>execution_id_to_batch := m\<rparr>) = queued p s"
  "queued p (s\<lparr>non_atomic_batch_current_function_index := n\<rparr>) = queued p s"
  "queued p (s\<lparr>pending_callbacks := pc\<rparr>) = queued p s"
  "queued p (s\<lparr>pending_polytone_callbacks := ppc\<rparr>) = queued p s"
  by (simp_all add: queued_def)

text \<open>The state after a callback message has been built: only the bridge bookkeeping changes.\<close>

abbreviation after_callback ::
  "deps \<Rightarrow> processor \<Rightarrow> processor_config \<Rightarrow> u64 \<Rightarrow> execution_result \<Rightarrow> addr \<Rightarrow> processor"
where
  "after_callback d s cfg i r a \<equiv> fst (create_callback_message d s cfg i r a)"

lemma create_callback_message_frame [simp]:
  "get_queue_map p (after_callback d s cfg i r a) = get_queue_map p s"
  "queued p (after_callback d s cfg i r a) = queued p s"
  "config (after_callback d s cfg i r a) = config s"
  "execution_id_to_batch (after_callback d s cfg i r a) = execution_id_to_batch s"
  "non_atomic_batch_current_function_index (after_callback d s cfg i r a) =
     non_atomic_batch_current_function_index s"
  "pending_callbacks (after_callback d s cfg i r a) = pending_callbacks s"
  by (simp_all add: create_callback_message_def Let_def split: processor_domain.splits)

lemma finish_execution_frame [simp]:
  "get_queue_map p (fst (finish_execution d s cfg i r a)) = get_queue_map p s"
  "queued p (fst (finish_execution d s cfg i r a)) = queued p s"
  "config (fst (finish_execution d s cfg i r a)) = config s"
  "execution_id_to_batch (fst (finish_execution d s cfg i r a)) =
     sm_remove i (execution_id_to_batch s)"
  "non_atomic_batch_current_function_index (fst (finish_execution d s cfg i r a)) =
     sm_remove i (non_atomic_batch_current_function_index s)"
  "pending_callbacks (fst (finish_execution d s cfg i r a)) = pending_callbacks s"
  "snd (finish_execution d s cfg i r a) = snd (create_callback_message d s cfg i r a)"
  by (simp_all add: finish_execution_def case_prod_beta)

lemma current_function_index_frame [simp]:
  "get_queue_map p (snd (current_function_index s i)) = get_queue_map p s"
  "queued p (snd (current_function_index s i)) = queued p s"
  "config (snd (current_function_index s i)) = config s"
  "execution_id_to_batch (snd (current_function_index s i)) = execution_id_to_batch s"
  "pending_callbacks (snd (current_function_index s i)) = pending_callbacks s"
  by (simp_all add: current_function_index_def split: option.splits)

section \<open>Predicates on batches that the handlers keep\<close>

definition retries :: "message_batch \<Rightarrow> u64" where
  "retries b = (case batch_retry b of None \<Rightarrow> 0 | Some retry \<Rightarrow> retry_amounts retry)"

text \<open>A batch may be put back when its retry logic has retries left.\<close>

definition may_retry :: "message_batch \<Rightarrow> retry_logic \<Rightarrow> bool" where
  "may_retry b logic \<longleftrightarrow>
     (case retry_times logic of Amount n \<Rightarrow> retries b < n | Indefinitely \<Rightarrow> True)"

text \<open>
  The batches of a state satisfy a predicate: those queued, in the queue of their priority, those
  stored under their execution id, and those waiting for a library callback.
\<close>

definition batches_ok :: "(message_batch \<Rightarrow> bool) \<Rightarrow> processor \<Rightarrow> bool" where
  "batches_ok P s \<longleftrightarrow>
     (\<forall>p. queue_inv (get_queue_map p s)) \<and>
     (\<forall>p. \<forall>b \<in> set (queued p s). batch_priority b = p \<and> P b) \<and>
     (\<forall>i b. sm_get (execution_id_to_batch s) i = Some b \<longrightarrow> P b) \<and>
     (\<forall>i c. sm_get (pending_callbacks s) i = Some c \<longrightarrow> P (pc_message_batch c))"

lemma batches_okD:
  assumes "batches_ok P s"
  shows "queue_inv (get_queue_map p s)"
    and "b \<in> set (queued p s) \<Longrightarrow> batch_priority b = p"
    and "b \<in> set (queued p s) \<Longrightarrow> P b"
    and "sm_get (execution_id_to_batch s) i = Some b \<Longrightarrow> P b"
    and "sm_get (pending_callbacks s) i = Some c \<Longrightarrow> P (pc_message_batch c)"
  using assms by (auto simp: batches_ok_def)

text \<open>Writes that keep it. Together they cover every write of the handlers.\<close>

lemma batches_ok_set_queue:
  assumes "batches_ok P s" and "queue_inv q"
    and "set (queue_list q) \<subseteq> set (queued p s) \<union> {b. batch_priority b = p \<and> P b}"
  shows "batches_ok P (set_queue_map p q s)"
  using assms by (auto simp: batches_ok_def)

lemma batches_ok_push:
  assumes "batches_ok P s" and "push_back (get_queue_map p s) b = Ok q"
    and "batch_priority b = p" and "P b"
  shows "batches_ok P (set_queue_map p q s)"
  using qm.push_sound [OF batches_okD(1) [OF assms(1)] assms(2)] assms
  by (intro batches_ok_set_queue) (auto simp: queued_def)

lemma batches_ok_pop:
  assumes "batches_ok P s" and "pop_front (get_queue_map p s) = Ok (y, q)"
  shows "batches_ok P (set_queue_map p q s)"
  using qm.pop_sound [OF batches_okD(1) [OF assms(1)] assms(2)] assms
  by (intro batches_ok_set_queue) (auto simp: queued_def)

lemma popped_queued:
  assumes "batches_ok P s" and "pop_front (get_queue_map p s) = Ok (Some b, q)"
  shows "queued p s = b # queue_list q" and "P b" and "batch_priority b = p"
  using qm.pop_sound [OF batches_okD(1) [OF assms(1)] assms(2)] assms
    batches_okD(2,3) [OF assms(1), of b p]
  by (auto simp: queued_def)

lemma batches_ok_insert:
  assumes "batches_ok P s" and "insert_at (get_queue_map p s) i b = Ok q"
    and "batch_priority b = p" and "P b"
  shows "batches_ok P (set_queue_map p q s)"
  using qm.insert_sound [OF batches_okD(1) [OF assms(1)] assms(2)] assms
  by (intro batches_ok_set_queue) (auto simp: queued_def dest: in_set_takeD in_set_dropD)

lemma batches_ok_remove:
  assumes "batches_ok P s" and "remove_at (get_queue_map p s) i = Ok (y, q)"
  shows "batches_ok P (set_queue_map p q s)"
  using qm.remove_sound [OF batches_okD(1) [OF assms(1)] assms(2)] assms
  by (intro batches_ok_set_queue) (auto simp: queued_def dest: in_set_takeD in_set_dropD)

lemma batches_ok_store:
  "batches_ok P s \<Longrightarrow> P b \<Longrightarrow>
     batches_ok P (s\<lparr>execution_id_to_batch := sm_set i b (execution_id_to_batch s)\<rparr>)"
  by (auto simp: batches_ok_def)

lemma batches_ok_forget:
  "batches_ok P s \<Longrightarrow>
     batches_ok P (s\<lparr>execution_id_to_batch := sm_remove i (execution_id_to_batch s)\<rparr>)"
  "batches_ok P s \<Longrightarrow>
     batches_ok P (s\<lparr>pending_callbacks := sm_remove i (pending_callbacks s)\<rparr>)"
  by (auto simp: batches_ok_def split: if_splits)

lemma batches_ok_await:
  "batches_ok P s \<Longrightarrow> P (pc_message_batch c) \<Longrightarrow>
     batches_ok P (s\<lparr>pending_callbacks := sm_set i c (pending_callbacks s)\<rparr>)"
  by (auto simp: batches_ok_def)

lemma batches_ok_frame [simp]:
  "batches_ok P (s\<lparr>config := c\<rparr>) = batches_ok P s"
  "batches_ok P (s\<lparr>non_atomic_batch_current_function_index := n\<rparr>) = batches_ok P s"
  "batches_ok P (s\<lparr>pending_polytone_callbacks := ppc\<rparr>) = batches_ok P s"
  by (simp_all add: batches_ok_def)

lemma batches_ok_callback [simp]:
  "batches_ok P (after_callback d s cfg i r a) = batches_ok P s"
  by (simp add: batches_ok_def)

lemma batches_ok_current_function_index [simp]:
  "batches_ok P (snd (current_function_index s i)) = batches_ok P s"
  by (simp add: batches_ok_def)

lemma batches_ok_finish:
  "batches_ok P s \<Longrightarrow> batches_ok P (fst (finish_execution d s cfg i r a))"
  by (auto simp: batches_ok_def split: if_splits)

lemmas batches_ok_intros =
  batches_ok_push batches_ok_pop batches_ok_insert batches_ok_remove batches_ok_store
  batches_ok_forget batches_ok_await batches_ok_finish

text \<open>The batch a message of the authorization module brings in.\<close>

fun brought_in :: "processor_execute_msg \<Rightarrow> message_batch option" where
  "brought_in (AuthorizationModuleAction (EnqueueMsgs i msgs sub prio t)) =
     Some (new_batch i msgs sub prio t)"
| "brought_in (AuthorizationModuleAction (InsertMsgs pos i msgs sub prio t)) =
     Some (new_batch i msgs sub prio t)"
| "brought_in _ = None"

lemma new_batch_simps [simp]:
  "batch_id (new_batch i msgs sub prio t) = i"
  "batch_msgs (new_batch i msgs sub prio t) = msgs"
  "batch_subroutine (new_batch i msgs sub prio t) = sub"
  "batch_priority (new_batch i msgs sub prio t) = prio"
  "batch_expiration_time (new_batch i msgs sub prio t) = t"
  "batch_retry (new_batch i msgs sub prio t) = None"
  by (simp_all add: new_batch_def)

section \<open>What the callback handlers do, case by case\<close>

text \<open>The batch as it is put back: one more retry, and its cooldown.\<close>

definition retried_batch :: "deps \<Rightarrow> message_batch \<Rightarrow> retry_logic \<Rightarrow> block_info \<Rightarrow> message_batch" where
  "retried_batch d b logic block =
     b\<lparr>batch_retry := Some
        \<lparr>retry_amounts = Suc (retries b),
         retry_cooldown = duration_after (d_api d) (retry_interval logic) block\<rparr>\<rparr>"

lemma retried_batch_simps [simp]:
  "batch_id (retried_batch d b logic block) = batch_id b"
  "batch_msgs (retried_batch d b logic block) = batch_msgs b"
  "batch_subroutine (retried_batch d b logic block) = batch_subroutine b"
  "batch_priority (retried_batch d b logic block) = batch_priority b"
  "batch_expiration_time (retried_batch d b logic block) = batch_expiration_time b"
  "retries (retried_batch d b logic block) = Suc (retries b)"
  by (simp_all add: retried_batch_def retries_def)

lemma put_back_cases:
  assumes "put_back_into_queue d s b (retries b) logic block = Ok s'"
  obtains q where
    "push_back (get_queue_map (batch_priority b) s) (retried_batch d b logic block) = Ok q"
    "s' = (set_queue_map (batch_priority b) q s)
       \<lparr>execution_id_to_batch :=
          sm_set (batch_id b) (retried_batch d b logic block) (execution_id_to_batch s)\<rparr>"
  using assms
  by (auto simp: put_back_into_queue_def retried_batch_def Let_def res_simps u64_simps)

lemma successful_cases [consumes 1, case_names last more]:
  assumes "handle_successful_non_atomic_callback d s index i b ms a = Ok (s', ms')"
  obtains "length (batch_msgs b) \<le> Suc index"
      and "s' = fst (finish_execution d s (config s) i Success a)"
      and "ms' = ms @ [snd (create_callback_message d s (config s) i Success a)]"
    | q where "Suc index < length (batch_msgs b)"
      and "push_back (get_queue_map (batch_priority b) s) (b\<lparr>batch_retry := None\<rparr>) = Ok q"
      and "s' = set_queue_map (batch_priority b) q
        (s\<lparr>non_atomic_batch_current_function_index :=
             sm_set i (Suc index) (non_atomic_batch_current_function_index s)\<rparr>)"
      and "ms' = ms"
proof (cases "length (batch_msgs b) \<le> Suc index")
  case True
  with assms show ?thesis
    by (intro that(1))
      (auto simp: handle_successful_non_atomic_callback_def res_simps u64_simps case_prod_beta)
next
  case False
  with assms show ?thesis
    by (auto simp: handle_successful_non_atomic_callback_def Let_def res_simps u64_simps
        intro!: that(2))
qed

text \<open>
  The result reported when a function or an atomic batch failed and is not retried; \<open>None\<close> when it
  is put back.
\<close>

definition failure_result :: "message_batch \<Rightarrow> usize option \<Rightarrow> string \<Rightarrow> execution_result option" where
  "failure_result b index e =
     (case retry_logic_of b index of
        None \<Rightarrow> Some (Rejected e)
      | Some logic \<Rightarrow>
          if may_retry b logic then None
          else (case index of
                  Some i \<Rightarrow> Some (if i = 0 then Rejected e else PartiallyExecuted i e)
                | None \<Rightarrow> Some (Rejected e)))"

lemma unsuccessful_cases [consumes 1, case_names final retry]:
  assumes "handle_unsuccessful_callback d s i b ms e cfg block index a = Ok (s', ms')"
  obtains r where "failure_result b index e = Some r"
      and "s' = fst (finish_execution d s cfg i r a)"
      and "ms' = ms @ [snd (create_callback_message d s cfg i r a)]"
    | logic where "retry_logic_of b index = Some logic" and "may_retry b logic"
      and "put_back_into_queue d s b (retries b) logic block = Ok s'" and "ms' = ms"
proof (cases "retry_logic_of b index")
  case None
  with assms show ?thesis
    by (intro that(1) [of "Rejected e"])
      (auto simp: handle_unsuccessful_callback_def failure_result_def case_prod_beta Let_def)
next
  case (Some logic)
  show ?thesis
  proof (cases "may_retry b logic")
    case True
    with assms Some show ?thesis
      by (intro that(2) [of logic])
        (auto simp: handle_unsuccessful_callback_def may_retry_def retries_def Let_def res_simps
          split: retry_times.splits option.splits)
  next
    case False
    then obtain n where "retry_times logic = Amount n" "n \<le> retries b"
      by (auto simp: may_retry_def split: retry_times.splits)
    with assms Some False show ?thesis
      by (intro that(1) [of "the (failure_result b index e)"])
        (auto simp: handle_unsuccessful_callback_def failure_result_def retries_def case_prod_beta
          Let_def split: option.splits if_splits)
  qed
qed

lemma process_tick_cases [consumes 1, case_names expired cooldown dispatched]:
  assumes "process_tick d s env = Ok (s', r)"
  obtains b q where "processor_state (config s) = Active"
      and "pop_front (get_queue_map (tick_priority s) s) = Ok (Some b, q)"
      and "batch_expired (batch_expiration_time b) env"
      and "s' = fst (finish_execution d (set_queue_map (tick_priority s) q s) (config s) (batch_id b)
        (Expired (functions_executed s b)) (env_contract_address env))"
      and "resp_messages r = [plain_msg (snd (create_callback_message d s (config s) (batch_id b)
        (Expired (functions_executed s b)) (env_contract_address env)))]"
    | b q q' where "processor_state (config s) = Active"
      and "pop_front (get_queue_map (tick_priority s) s) = Ok (Some b, q)"
      and "\<not> batch_expired (batch_expiration_time b) env" and "in_cooldown d env b"
      and "push_back q b = Ok q'"
      and "s' = set_queue_map (tick_priority s) q' (set_queue_map (tick_priority s) q s)"
      and "resp_messages r = []"
    | b q where "processor_state (config s) = Active"
      and "pop_front (get_queue_map (tick_priority s) s) = Ok (Some b, q)"
      and "\<not> batch_expired (batch_expiration_time b) env" and "\<not> in_cooldown d env b"
      and "dispatch_batch d (set_queue_map (tick_priority s) q s) env b = Ok (s', resp_messages r)"
proof -
  from assms have act: "processor_state (config s) = Active"
    by (cases "processor_state (config s)") (auto simp: process_tick_def)
  with assms obtain b q where
    pop: "pop_front (get_queue_map (tick_priority s) s) = Ok (Some b, q)"
    by (auto simp: process_tick_def Let_def res_simps split: option.splits)
  have fe: "functions_executed (set_queue_map p q s) b = functions_executed s b" for p
    by (simp add: functions_executed_def split: subroutine.splits)
  show ?thesis
  proof (cases "batch_expired (batch_expiration_time b) env")
    case True
    with assms act pop fe show ?thesis
      by (intro that(1) [of b q])
        (auto simp: process_tick_def Let_def create_callback_message_def finish_execution_def
          split: processor_domain.splits)
  next
    case ne: False
    show ?thesis
    proof (cases "in_cooldown d env b")
      case True
      with assms act pop ne obtain q' where "push_back q b = Ok q'"
          "s' = set_queue_map (tick_priority s) q' (set_queue_map (tick_priority s) q s)"
          "resp_messages r = []"
        by (auto simp: process_tick_def Let_def res_simps)
      with True act pop ne show ?thesis by (intro that(2))
    next
      case False
      with assms act pop ne show ?thesis
        by (intro that(3) [of b q]) (auto simp: process_tick_def Let_def res_simps)
    qed
  qed
qed

text \<open>A polytone callback changes the bridge bookkeeping or the state of the proxy, nothing else.\<close>

lemma polytone_callback_cases:
  assumes "process_polytone_callback d s env info m = Ok (s', r)"
  obtains ppc where "s' = s\<lparr>pending_polytone_callbacks := ppc\<rparr>"
    | p st where "processor_domain (config s) = PExternal p"
      and "s' = s\<lparr>config := (config s)\<lparr>processor_domain :=
        PExternal (p\<lparr>proxy_on_main_domain_state := st\<rparr>)\<rparr>\<rparr>"
proof -
  from assms obtain p c where p: "processor_domain (config s) = PExternal p"
    and c: "dec_proc_polytone_callback (d_codec d) (cm_initiator_msg m) = Ok c"
    by (auto simp: process_polytone_callback_def res_simps
        split: processor_domain.splits if_splits)
  show ?thesis
  proof (cases c)
    case (ExecutionID i)
    with assms p c have "\<exists>ppc. s' = s\<lparr>pending_polytone_callbacks := ppc\<rparr>"
      by (auto simp: process_polytone_callback_def set_callback_state_def res_simps
          split: if_splits callback.splits result.splits)
    with that(1) show ?thesis by blast
  next
    case CreateProxy
    with assms p c that(2) [OF p] show ?thesis
      by (auto simp: process_polytone_callback_def split: if_splits callback.splits)
  qed
qed

section \<open>Predicates on batches, handler by handler\<close>

locale batch_invariant =
  fixes P :: "message_batch \<Rightarrow> bool"
  assumes reset: "P b \<Longrightarrow> P (b\<lparr>batch_retry := None\<rparr>)"
    and retried: "P b \<Longrightarrow> retry_logic_of b i = Some logic \<Longrightarrow> may_retry b logic \<Longrightarrow>
      P (retried_batch d b logic block)"
begin

lemma put_back_ok:
  assumes "batches_ok P s" and "P b" and "retry_logic_of b i = Some logic" and "may_retry b logic"
    and "put_back_into_queue d s b (retries b) logic block = Ok s'"
  shows "batches_ok P s'"
  using assms(5)
proof (cases rule: put_back_cases)
  case (1 q)
  have P: "P (retried_batch d b logic block)" using retried assms(2-4) by blast
  have "batches_ok P (set_queue_map (batch_priority b) q s)"
    using 1(1) assms(1) P by (intro batches_ok_push) auto
  from batches_ok_store [OF this P, of "batch_id b"] 1(2) show ?thesis by simp
qed

lemma successful_ok:
  assumes "batches_ok P s" and "P b"
    and "handle_successful_non_atomic_callback d s index i b ms a = Ok (s', ms')"
  shows "batches_ok P s'"
  using assms(3)
proof (cases rule: successful_cases)
  case last
  with assms(1) show ?thesis by (simp add: batches_ok_finish)
next
  case (more q)
  then show ?thesis using assms(1) reset [OF assms(2)] by (auto intro!: batches_ok_push)
qed

lemma unsuccessful_ok:
  assumes "batches_ok P s" and "P b"
    and "handle_unsuccessful_callback d s i b ms e cfg block index a = Ok (s', ms')"
  shows "batches_ok P s'"
  using assms(3)
proof (cases rule: unsuccessful_cases)
  case (final r)
  with assms(1) show ?thesis by (simp add: batches_ok_finish)
next
  case (retry logic)
  with assms(1,2) show ?thesis by (blast intro: put_back_ok)
qed

lemma enqueue_ok:
  assumes "batches_ok P s" and "P (new_batch i msgs sub prio t)"
    and "enqueue_messages d s env i msgs sub prio t = Ok (s', r)"
  shows "batches_ok P s'"
proof (cases "batch_expired t env")
  case False
  with assms(3) obtain q where
    q: "push_back (get_queue_map prio s) (new_batch i msgs sub prio t) = Ok q"
      "s' = (set_queue_map prio q s)\<lparr>execution_id_to_batch :=
        sm_set i (new_batch i msgs sub prio t) (execution_id_to_batch s)\<rparr>"
    by (auto simp: enqueue_messages_def Let_def res_simps)
  from batches_ok_push [OF assms(1) q(1)] assms(2)
  have "batches_ok P (set_queue_map prio q s)" by simp
  from batches_ok_store [OF this assms(2), of i] q(2) show ?thesis by simp
qed (use assms in \<open>auto simp: enqueue_messages_def case_prod_beta\<close>)

lemma insert_ok:
  assumes "batches_ok P s" and "P (new_batch i msgs sub prio t)"
    and "insert_messages d s env pos i msgs sub prio t = Ok (s', r)"
  shows "batches_ok P s'"
proof (cases "batch_expired t env")
  case False
  with assms(3) obtain q where
    q: "insert_at (get_queue_map prio s) pos (new_batch i msgs sub prio t) = Ok q"
      "s' = (set_queue_map prio q s)\<lparr>execution_id_to_batch :=
        sm_set i (new_batch i msgs sub prio t) (execution_id_to_batch s)\<rparr>"
    by (auto simp: insert_messages_def Let_def res_simps)
  from batches_ok_insert [OF assms(1) q(1)] assms(2)
  have "batches_ok P (set_queue_map prio q s)" by simp
  from batches_ok_store [OF this assms(2), of i] q(2) show ?thesis by simp
qed (use assms in \<open>auto simp: insert_messages_def case_prod_beta\<close>)

lemma evict_ok:
  assumes "batches_ok P s" and "evict_messages d s env pos prio = Ok (s', r)"
  shows "batches_ok P s'"
proof -
  from assms(2) obtain y q where q: "remove_at (get_queue_map prio s) pos = Ok (y, q)"
    by (auto simp: evict_messages_def res_simps)
  note ok = batches_ok_remove [OF assms(1) q]
  have "batches_ok P ((set_queue_map prio q s)\<lparr>execution_id_to_batch := sm_remove i (execution_id_to_batch s),
      non_atomic_batch_current_function_index := n, pending_callbacks := sm_remove i (pending_callbacks s)\<rparr>)"
    for i n
    using ok by (auto simp: batches_ok_def)
  with ok assms(2) q show ?thesis
    by (auto simp: evict_messages_def Let_def case_prod_beta split: option.splits)
qed

lemma dispatch_ok:
  assumes "batches_ok P s" and "P b" and "dispatch_batch d s env b = Ok (s', ms)"
  shows "batches_ok P s'"
proof (cases "batch_subroutine b")
  case (NonAtomic sub)
  let ?s = "snd (current_function_index s (batch_id b))"
  have ok: "batches_ok P ?s" using assms(1) by simp
  have "batches_ok P (?s\<lparr>pending_callbacks := sm_set (batch_id b) c (pending_callbacks s)\<rparr>)"
    if "pc_message_batch c = b" for c
    using batches_ok_await [OF ok, of c "batch_id b"] assms(2) that by simp
  with ok NonAtomic assms(3) show ?thesis
    by (auto simp: dispatch_batch_def case_prod_beta res_simps split: option.splits)
qed (use assms in \<open>auto simp: dispatch_batch_def\<close>)

lemma tick_ok:
  assumes "batches_ok P s" and "process_tick d s env = Ok (s', r)"
  shows "batches_ok P s'"
  using assms(2)
proof (cases rule: process_tick_cases)
  case (expired b q)
  then show ?thesis using batches_ok_pop [OF assms(1)] by (simp add: batches_ok_finish)
next
  case (cooldown b q q')
  with batches_ok_push [OF batches_ok_pop [OF assms(1)], of "tick_priority s" _ q "tick_priority s" b q']
    popped_queued [OF assms(1)] show ?thesis by simp
next
  case (dispatched b q)
  with dispatch_ok [OF batches_ok_pop [OF assms(1)]] popped_queued [OF assms(1)]
  show ?thesis by blast
qed

lemma callback_ok:
  assumes "batches_ok P s" and "process_callback d s env info i msg = Ok (s', r)"
  shows "batches_ok P s'"
proof -
  from assms(2) obtain c t ms where c: "sm_get (pending_callbacks s) i = Some c"
    and t: "s' = t\<lparr>pending_callbacks := sm_remove i (pending_callbacks t)\<rparr>"
      "(\<exists>e cfg block index a. handle_unsuccessful_callback d s i (pc_message_batch c) [] e cfg block
          index a = Ok (t, ms)) \<or>
       (\<exists>index a. handle_successful_non_atomic_callback d s index i (pc_message_batch c) [] a
          = Ok (t, ms))"
    by (auto simp: process_callback_def res_simps split: if_splits) blast+
  from c have "P (pc_message_batch c)" using batches_okD(5) [OF assms(1)] by blast
  with t(2) have "batches_ok P t"
    by (auto dest: successful_ok [OF assms(1)] unsuccessful_ok [OF assms(1)])
  then show ?thesis unfolding t(1) by (rule batches_ok_forget)
qed

lemma polytone_callback_ok:
  assumes "batches_ok P s" and "process_polytone_callback d s env info m = Ok (s', r)"
  shows "batches_ok P s'"
  using assms(2) by (cases rule: polytone_callback_cases) (simp_all add: assms(1))

theorem execute_ok:
  assumes "batches_ok P s" and "\<And>b. brought_in msg = Some b \<Longrightarrow> P b"
    and "execute d s env info msg = Ok (s', r)"
  shows "batches_ok P s'"
proof (cases msg)
  case (AuthorizationModuleAction action)
  with assms show ?thesis
    by (cases action)
      (auto simp: execute_def pause_processor_def resume_processor_def split: if_splits
        dest: enqueue_ok insert_ok evict_ok)
next
  case (PermissionlessAction action)
  with assms show ?thesis
    by (cases action)
      (auto simp: execute_def retry_callback_def retry_bridge_creation_def res_simps case_prod_beta
        split: if_splits processor_domain.splits dest: tick_ok)
next
  case (InternalProcessorAction action)
  with assms show ?thesis
    by (cases action)
      (auto simp: execute_def execute_atomic_def res_simps split: if_splits dest: callback_ok)
next
  case (PolytoneCallback m)
  with assms show ?thesis by (auto simp: execute_def dest: polytone_callback_ok)
qed

theorem reply_ok:
  assumes "batches_ok P s" and "reply d s env i res = Ok (s', r)"
  shows "batches_ok P s'"
proof -
  from assms(2) obtain b where b: "sm_get (execution_id_to_batch s) i = Some b"
    by (auto simp: reply_def res_simps)
  then have "P b" using batches_okD(4) [OF assms(1)] by blast
  with assms b show ?thesis
    by (auto simp: reply_def res_simps handle_successful_atomic_callback_def case_prod_beta
        split: option.splits sub_msg_result.splits if_splits
        dest: successful_ok unsuccessful_ok)
qed

end

section \<open>Reachable states\<close>

text \<open>
  Every state the contract can be in: after its instantiation, a successful message from anyone, or
  a reply with any result. (A failed one leaves the storage as it was.) The history collects the
  batches that were brought in, with their senders. The relation is wider than what the chain does,
  since it allows a reply at any moment; what holds of it holds of every execution, whatever is
  interleaved between a dispatch and its reply.
\<close>

inductive processor_reach :: "deps \<Rightarrow> (addr \<times> message_batch) list \<Rightarrow> processor \<Rightarrow> bool" for d where
  init: "instantiate d env msg = Ok (s, r) \<Longrightarrow> processor_reach d [] s"
| exec: "processor_reach d h s \<Longrightarrow> execute d s env info msg = Ok (s', r) \<Longrightarrow>
    h' = (case brought_in msg of None \<Rightarrow> h | Some b \<Rightarrow> h @ [(info_sender info, b)]) \<Longrightarrow>
    processor_reach d h' s'"
| repl: "processor_reach d h s \<Longrightarrow> reply d s env i res = Ok (s', r) \<Longrightarrow> processor_reach d h s'"

lemma instantiate_batches_ok: "instantiate d env msg = Ok (s, r) \<Longrightarrow> batches_ok P s"
  by (auto simp: instantiate_def batches_ok_def get_queue_map_def queued_def res_simps
      split: priority.splits)

lemma batches_ok_mono: "batches_ok P s \<Longrightarrow> (\<And>b. P b \<Longrightarrow> Q b) \<Longrightarrow> batches_ok Q s"
  by (auto simp: batches_ok_def)

subsection \<open>Who may bring in a batch\<close>

lemma successful_config:
  assumes "handle_successful_non_atomic_callback d s index i b ms a = Ok (s', ms')"
  shows "config s' = config s"
  using assms by (cases rule: successful_cases) simp_all

lemma unsuccessful_config:
  assumes "handle_unsuccessful_callback d s i b ms e cfg block ix a = Ok (s', ms')"
  shows "config s' = config s"
  using assms by (cases rule: unsuccessful_cases) (auto elim!: put_back_cases)

lemma tick_config:
  assumes "process_tick d s env = Ok (s', r)"
  shows "config s' = config s"
  using assms
proof (cases rule: process_tick_cases)
  case (dispatched b q)
  then show ?thesis
    by (auto simp: dispatch_batch_def case_prod_beta res_simps
        split: subroutine.splits option.splits)
qed auto

lemma authorized_sender_update [simp]:
  "authorized_sender (c\<lparr>processor_state := st\<rparr>) = authorized_sender c"
  by (simp add: authorized_sender_def split: processor_domain.splits)

lemma execute_authorized_sender:
  assumes "execute d s env info msg = Ok (s', r)"
  shows "authorized_sender (config s') = authorized_sender (config s)"
proof (cases msg)
  case (AuthorizationModuleAction action)
  with assms show ?thesis
    by (cases action)
      (auto simp: execute_def pause_processor_def resume_processor_def enqueue_messages_def
        insert_messages_def evict_messages_def res_simps Let_def case_prod_beta
        split: if_splits option.splits)
next
  case (PermissionlessAction action)
  with assms show ?thesis
    by (cases action)
      (auto simp: execute_def retry_callback_def retry_bridge_creation_def authorized_sender_def
        res_simps case_prod_beta split: if_splits processor_domain.splits dest: tick_config)
next
  case (InternalProcessorAction action)
  with assms show ?thesis
    by (cases action)
      (auto simp: execute_def execute_atomic_def process_callback_def res_simps
        split: if_splits dest: successful_config unsuccessful_config)
next
  case (PolytoneCallback m)
  with assms have "process_polytone_callback d s env info m = Ok (s', r)"
    by (simp add: execute_def)
  then show ?thesis by (cases rule: polytone_callback_cases) (auto simp: authorized_sender_def)
qed

lemma reply_config: "reply d s env i res = Ok (s', r) \<Longrightarrow> config s' = config s"
  by (auto simp: reply_def res_simps handle_successful_atomic_callback_def case_prod_beta
      split: option.splits sub_msg_result.splits if_splits dest: successful_config unsuccessful_config)

lemma brought_in_authorized:
  "execute d s env info msg = Ok (s', r) \<Longrightarrow> brought_in msg = Some b \<Longrightarrow>
     info_sender info = authorized_sender (config s)"
  by (cases "(msg, b)" rule: prod.exhaust, cases msg rule: brought_in.cases)
    (auto simp: execute_def split: if_splits)

text \<open>
  A batch descends from a batch of the history when they differ at most in the retry state, and
  the one of the history came from the given sender.
\<close>

definition descends :: "(addr \<times> message_batch) list \<Rightarrow> addr \<Rightarrow> message_batch \<Rightarrow> bool" where
  "descends h sender b \<longleftrightarrow>
     (\<exists>b0. (sender, b0) \<in> set h \<and> b\<lparr>batch_retry := None\<rparr> = b0\<lparr>batch_retry := None\<rparr>)"

interpretation descent: batch_invariant "descends h sender" for h sender
  by unfold_locales (auto simp: descends_def retried_batch_def)

lemma descends_append: "descends h sender b \<Longrightarrow> descends (h @ h') sender b"
  by (auto simp: descends_def)

lemma reach_descends:
  "processor_reach d h s \<Longrightarrow> batches_ok (descends h (authorized_sender (config s))) s"
proof (induction rule: processor_reach.induct)
  case (init env msg s r)
  then show ?case by (rule instantiate_batches_ok)
next
  case (exec h s env info msg s' r h')
  let ?a = "authorized_sender (config s)"
  have "batches_ok (descends h' ?a) s"
    using exec.IH
    by (rule batches_ok_mono) (auto simp: exec.hyps intro: descends_append split: option.splits)
  moreover have "descends h' ?a b" if "brought_in msg = Some b" for b
    using that brought_in_authorized [OF exec.hyps(2)] exec.hyps(3) by (auto simp: descends_def)
  ultimately have "batches_ok (descends h' ?a) s'"
    using exec.hyps(2) by (rule descent.execute_ok)
  then show ?case using execute_authorized_sender [OF exec.hyps(2)] by simp
next
  case (repl h s env i res s' r)
  then show ?case using descent.reply_ok reply_config by metis
qed

subsection \<open>Retries are bounded\<close>

definition retry_logics :: "message_batch \<Rightarrow> retry_logic list" where
  "retry_logics b =
     (case batch_subroutine b of
        Atomic cfg \<Rightarrow> (case as_retry_logic cfg of None \<Rightarrow> [] | Some l \<Rightarrow> [l])
      | NonAtomic cfg \<Rightarrow> List.map_filter fn_retry_logic (ns_functions cfg))"

definition retry_limit :: "u64 \<Rightarrow> message_batch \<Rightarrow> bool" where
  "retry_limit n b \<longleftrightarrow>
     list_all (\<lambda>l. case retry_times l of Amount k \<Rightarrow> k \<le> n | Indefinitely \<Rightarrow> False) (retry_logics b)"

definition retries_within :: "u64 \<Rightarrow> message_batch \<Rightarrow> bool" where
  "retries_within n b \<longleftrightarrow> (retry_limit n b \<longrightarrow> retries b \<le> n)"

lemma retry_logic_of_in:
  assumes "retry_logic_of b i = Some l"
  shows "l \<in> set (retry_logics b)"
proof (cases "batch_subroutine b")
  case (NonAtomic cfg)
  with assms obtain k where "k < length (ns_functions cfg)" "fn_retry_logic (ns_functions cfg ! k) = Some l"
    by (auto simp: retry_logic_of_def bind_eq_Some_conv res_simps)
  with NonAtomic show ?thesis by (auto simp: retry_logics_def in_set_map_filter_iff)
qed (use assms in \<open>simp add: retry_logic_of_def retry_logics_def\<close>)

lemma retry_limit_cong:
  "batch_subroutine b = batch_subroutine b' \<Longrightarrow> retry_limit n b = retry_limit n b'"
  by (simp add: retry_limit_def retry_logics_def)

interpretation bounded_retries: batch_invariant "retries_within n" for n
proof (unfold_locales, goal_cases)
  case (1 b)
  then show ?case by (simp add: retries_within_def retries_def)
next
  case (2 b i l d block)
  have "retry_limit n (retried_batch d b l block) = retry_limit n b"
    by (rule retry_limit_cong) simp
  moreover have "Suc (retries b) \<le> n" if "retry_limit n b" "retries b \<le> n"
    using that 2(3) retry_logic_of_in [OF 2(2)]
    by (cases "retry_times l") (auto simp: retry_limit_def may_retry_def list_all_iff split: retry_times.splits)
  ultimately show ?case using 2(1) by (simp add: retries_within_def)
qed

lemma brought_in_fresh: "brought_in msg = Some b \<Longrightarrow> retries b = 0"
  by (cases msg rule: brought_in.cases) (auto simp: retries_def)

lemma reach_retries_within: "processor_reach d h s \<Longrightarrow> batches_ok (retries_within n) s"
proof (induction rule: processor_reach.induct)
  case (exec h s env info msg s' r h')
  from exec.IH _ exec.hyps(2) show ?case
    by (rule bounded_retries.execute_ok) (simp add: brought_in_fresh retries_within_def)
qed (auto intro: instantiate_batches_ok bounded_retries.reply_ok)

end
