(* ===== verification/Processor_Props.thy ===== *)
theory Processor_Props
  imports Processor_Invariants Examples
begin

text \<open>
  Properties of the processor: how a tick schedules the queues, how a batch runs to its end, what is
  reported when a function fails, and what is invariant in every reachable state.
\<close>

section \<open>Scheduling\<close>

lemma tick_priority_queued: "tick_priority s = (if queued High s = [] then Medium else High)"
  by (simp add: tick_priority_def queued_def queue_len_list flip: length_0_conv
      del: length_queue_list)

lemma dispatch_batch_queued:
  assumes "dispatch_batch d s env b = Ok (s', ms)"
  shows "queued p s' = queued p s" and "\<exists>m. ms = [reply_always m (batch_id b)]"
  using assms
  by (auto simp: dispatch_batch_def create_message_by_index_def case_prod_beta res_simps
      create_message_by_index_with_execution_id_def split: subroutine.splits option.splits)

lemma dispatch_batch_error: "dispatch_batch d s env b = Err e \<Longrightarrow> \<exists>x. e = Std x"
  by (auto simp: dispatch_batch_def case_prod_beta res_simps
      split: subroutine.splits option.splits)

lemma tick_schedule:
  assumes "\<And>p. queue_inv (get_queue_map p s)"
    and "process_tick d s env = Ok (s', r)"
  shows "processor_state (config s) = Active \<and>
    (\<exists>p b bs. p = (if queued High s = [] then Medium else High) \<and> queued p s = b # bs \<and>
      (\<forall>p'. p' \<noteq> p \<longrightarrow> queued p' s' = queued p' s) \<and>
      (if batch_expired (batch_expiration_time b) env then
         queued p s' = bs \<and>
         sent r = [snd (create_callback_message d s (config s) (batch_id b)
                     (Expired (functions_executed s b)) (env_contract_address env))] \<and>
         \<not> sm_has (execution_id_to_batch s') (batch_id b)
       else if in_cooldown d env b then queued p s' = bs @ [b] \<and> resp_messages r = []
       else queued p s' = bs \<and> (\<exists>m. resp_messages r = [reply_always m (batch_id b)])))"
proof -
  let ?p = "tick_priority s"
  have pop: "queued ?p s = b # queue_list q \<and> queue_inv q"
    if "pop_front (get_queue_map ?p s) = Ok (Some b, q)" for b q
    using qm.pop_sound [OF assms(1) that] by (simp add: queued_def)
  from assms(2) show ?thesis
  proof (cases rule: process_tick_cases)
    case (expired b q)
    with pop [OF expired(2)] show ?thesis
      by (intro conjI exI [of _ ?p] exI [of _ b] exI [of _ "queue_list q"] tick_priority_queued) (simp_all add: sent_def)
  next
    case (cooldown b q q')
    with pop [OF cooldown(2)] qm.push_sound [of q b q'] show ?thesis
      by (intro conjI exI [of _ ?p] exI [of _ b] exI [of _ "queue_list q"] tick_priority_queued) simp_all
  next
    case (dispatched b q)
    with pop [OF dispatched(2)] dispatch_batch_queued [OF dispatched(5)] show ?thesis
      by (intro conjI exI [of _ ?p] exI [of _ b] exI [of _ "queue_list q"] tick_priority_queued) simp_all
  qed
qed

section \<open>Running a batch\<close>

text \<open>
  What the chain does with the messages of a response: a message with a reply is executed, with the
  given result, and the reply handler is called in the same transaction; the other messages are
  sent. A tick is followed by the dispatch of its messages; the results are collected over a
  sequence of ticks.
\<close>

type_synonym run = "processor \<times> cosmos_msg list \<times> cosmos_msg list"

definition dispatch_sub ::
  "deps \<Rightarrow> env \<Rightarrow> sub_msg_result \<Rightarrow> run \<Rightarrow> sub_msg \<Rightarrow> (run, processor_error) result"
where
  "dispatch_sub d env res = (\<lambda>(s, executed, reported) m.
     if sub_reply_on m = ReplyAlways then
       and_then (reply d s env (sub_id m) res) (\<lambda>(s', r).
         Ok (s', executed @ [sub_msg m], reported @ sent r))
     else Ok (s, executed, reported @ [sub_msg m]))"

definition run_tick :: "deps \<Rightarrow> processor \<Rightarrow> env \<times> sub_msg_result \<Rightarrow> (run, processor_error) result" where
  "run_tick d s = (\<lambda>(env, res).
     and_then (process_tick d s env) (\<lambda>(s', r).
       try_fold (dispatch_sub d env res) (s', [], []) (resp_messages r)))"

fun run_ticks :: "deps \<Rightarrow> processor \<Rightarrow> (env \<times> sub_msg_result) list \<Rightarrow> (run, processor_error) result" where
  "run_ticks d s [] = Ok (s, [], [])"
| "run_ticks d s (x # xs) =
     and_then (run_tick d s x) (\<lambda>(s', ex, rep).
     and_then (run_ticks d s' xs) (\<lambda>(s'', ex', rep').
       Ok (s'', ex @ ex', rep @ rep')))"

lemma run_ticks_append:
  "run_ticks d s xs = Ok (s', ex, rep) \<Longrightarrow> run_ticks d s' ys = Ok (s'', ex', rep') \<Longrightarrow>
     run_ticks d s (xs @ ys) = Ok (s'', ex @ ex', rep @ rep')"
  by (induction xs arbitrary: s ex rep) (auto simp: res_simps)

text \<open>The callback that reports a result, in a given state.\<close>

definition report :: "deps \<Rightarrow> processor \<Rightarrow> u64 \<Rightarrow> execution_result \<Rightarrow> addr \<Rightarrow> cosmos_msg" where
  "report d s i r a = snd (create_callback_message d s (config s) i r a)"

lemma report_cong:
  "config s = config t \<Longrightarrow>
     snd (create_callback_message d s (config t) i r a) = report d t i r a"
  by (simp add: report_def create_callback_message_def Let_def split: processor_domain.splits)

text \<open>
  A non-atomic batch the processor can run without the help of library callbacks: as many functions
  as messages, each message executable, \<open>ms\<close> the messages for the contracts.
\<close>

definition runnable :: "message_batch \<Rightarrow> cosmos_msg list \<Rightarrow> bool" where
  "runnable b ms \<longleftrightarrow>
     (case batch_subroutine b of
        Atomic _ \<Rightarrow> False
      | NonAtomic sub \<Rightarrow>
          length (ns_functions sub) = length (batch_msgs b) \<and>
          list_all (\<lambda>f. fn_callback_confirmation f = None) (ns_functions sub)) \<and>
     batch_into_msgs b = Ok ms \<and> length (batch_msgs b) < 2 ^ 32"

text \<open>The batch is alone in the queues, about to run its function \<open>k\<close>.\<close>

definition waiting :: "processor \<Rightarrow> message_batch \<Rightarrow> usize \<Rightarrow> bool" where
  "waiting s b k \<longleftrightarrow>
     (\<forall>p. queue_inv (get_queue_map p s)) \<and> processor_state (config s) = Active \<and>
     (\<forall>p. queued p s = (if p = batch_priority b then [b] else [])) \<and>
     batch_retry b = None \<and>
     (case sm_get (non_atomic_batch_current_function_index s) (batch_id b) of
        None \<Rightarrow> k = 0
      | Some i \<Rightarrow> i = k) \<and>
     (\<exists>b'. sm_get (execution_id_to_batch s) (batch_id b) = Some b' \<and> b'\<lparr>batch_retry := None\<rparr> = b) \<and>
     \<not> sm_has (pending_callbacks s) (batch_id b)"

text \<open>Nothing is left of the batch.\<close>

definition finished :: "processor \<Rightarrow> message_batch \<Rightarrow> bool" where
  "finished s b \<longleftrightarrow>
     (\<forall>p. queued p s = []) \<and> \<not> sm_has (execution_id_to_batch s) (batch_id b) \<and>
     \<not> sm_has (non_atomic_batch_current_function_index s) (batch_id b)"

lemma retry_update_eqD:
  assumes "b'\<lparr>batch_retry := None\<rparr> = b"
  shows "batch_id b' = batch_id b" "batch_msgs b' = batch_msgs b"
    "batch_subroutine b' = batch_subroutine b" "batch_priority b' = batch_priority b"
  using assms by auto

lemma runnable_message:
  assumes "runnable b ms" and "k < length (batch_msgs b)"
  shows "create_message_by_index b k = Ok [reply_always (ms ! k) (batch_id b)]"
    and "\<exists>sub f. batch_subroutine b = NonAtomic sub \<and> index_vec (ns_functions sub) k = Ok f \<and>
      fn_callback_confirmation f = None"
    and "length ms = length (batch_msgs b)"
proof -
  from assms(1) obtain sub where sub: "batch_subroutine b = NonAtomic sub"
      "length (ns_functions sub) = length (batch_msgs b)"
      "\<And>f. f \<in> set (ns_functions sub) \<Longrightarrow> fn_callback_confirmation f = None"
    and msgs: "list_all2 (\<lambda>(m, f) w. and_then (get_contract_address f) (create_cosmos_msg m) = Ok w)
      (zip (batch_msgs b) (ns_functions sub)) ms"
    by (auto simp: runnable_def batch_into_msgs_def process_functions_def res_simps list_all_iff
        case_prod_unfold split: subroutine.splits)
  from msgs sub(2) show len: "length ms = length (batch_msgs b)"
    by (auto dest: list_all2_lengthD)
  have "and_then (get_contract_address (ns_functions sub ! k)) (create_cosmos_msg (batch_msgs b ! k))
      = Ok (ms ! k)"
    using list_all2_nthD [OF msgs, of k] assms(2) sub(2) by simp
  then show "create_message_by_index b k = Ok [reply_always (ms ! k) (batch_id b)]"
    using sub assms(2)
    by (auto simp: create_message_by_index_def get_contract_address_by_function_index_def
        get_function_by_index_def nth_opt_def index_vec_def create_cosmos_msg_def res_simps
        get_contract_address_def func.truncate_def)
  show "\<exists>sub f. batch_subroutine b = NonAtomic sub \<and> index_vec (ns_functions sub) k = Ok f \<and>
      fn_callback_confirmation f = None"
    using sub assms(2) by (auto simp: res_simps)
qed

text \<open>Between the dispatch of function \<open>k\<close> and its reply.\<close>

definition running :: "processor \<Rightarrow> message_batch \<Rightarrow> usize \<Rightarrow> bool" where
  "running s b k \<longleftrightarrow>
     (\<forall>p. queue_inv (get_queue_map p s)) \<and> processor_state (config s) = Active \<and>
     (\<forall>p. queued p s = []) \<and> batch_retry b = None \<and>
     sm_get (non_atomic_batch_current_function_index s) (batch_id b) = Some k \<and>
     (\<exists>b'. sm_get (execution_id_to_batch s) (batch_id b) = Some b' \<and> b'\<lparr>batch_retry := None\<rparr> = b) \<and>
     \<not> sm_has (pending_callbacks s) (batch_id b)"

lemma waiting_tick:
  assumes "waiting s b k" and "runnable b ms" and "k < length (batch_msgs b)"
    and "\<not> batch_expired (batch_expiration_time b) env"
  shows "\<exists>s' r. process_tick d s env = Ok (s', r) \<and> running s' b k \<and> config s' = config s \<and>
    resp_messages r = [reply_always (ms ! k) (batch_id b)] \<and>
    (\<forall>p n. queue_room (get_queue_map p s) n \<longrightarrow> queue_room (get_queue_map p s') n)"
proof -
  let ?p = "batch_priority b"
  from assms(1) have inv: "queue_inv (get_queue_map p s)" and act: "processor_state (config s) = Active"
    and qd: "queued p s = (if p = ?p then [b] else [])" for p
    by (auto simp: waiting_def)
  have prio: "tick_priority s = ?p"
    by (cases ?p) (simp_all add: tick_priority_queued qd)
  obtain q where q: "pop_front (get_queue_map ?p s) = Ok (Some b, q)" "queue_inv q" "queue_list q = []"
      "\<forall>n. queue_room (get_queue_map ?p s) n \<longrightarrow> queue_room q n"
    using qm.pop_ok [OF inv, of ?p b "[]"] qd [of ?p] by (auto simp: queued_def)
  let ?s = "set_queue_map ?p q s"
  let ?s' = "snd (current_function_index ?s (batch_id b))"
  have idx: "fst (current_function_index ?s (batch_id b)) = k"
      "sm_get (non_atomic_batch_current_function_index ?s') (batch_id b) = Some k"
    using assms(1) by (auto simp: current_function_index_def waiting_def split: option.splits)
  have "dispatch_batch d ?s env b = Ok (?s', [reply_always (ms ! k) (batch_id b)])"
    using runnable_message [OF assms(2,3)] idx(1)
    by (auto simp: dispatch_batch_def case_prod_beta)
  moreover have "in_cooldown d env b = False"
    using assms(1) by (simp add: waiting_def in_cooldown_def)
  ultimately have "process_tick d s env = Ok (?s', add_attribute ''method'' ''tick''
      (add_submessages [reply_always (ms ! k) (batch_id b)] response_new))"
    using act prio q(1) assms(4) by (simp add: process_tick_def Let_def)
  moreover have "running ?s' b k"
    using assms(1) q qd inv idx(2) by (auto simp: running_def waiting_def)
  ultimately show ?thesis using q(4) by simp
qed

lemma running_reply_ok:
  assumes "running s b k" and "k < length (batch_msgs b)" and "length (batch_msgs b) < 2 ^ 32"
    and "Suc k < length (batch_msgs b) \<Longrightarrow> queue_room (get_queue_map (batch_priority b) s) (Suc n)"
  shows "\<exists>s' r. reply d s env (batch_id b) SubOk = Ok (s', r) \<and> config s' = config s \<and>
    (if Suc k < length (batch_msgs b) then
       waiting s' b (Suc k) \<and> sent r = [] \<and> queue_room (get_queue_map (batch_priority b) s') n
     else finished s' b \<and> sent r = [report d s (batch_id b) Success (env_contract_address env)])"
proof -
  from assms(1) obtain b' where b': "sm_get (execution_id_to_batch s) (batch_id b) = Some b'"
      "b'\<lparr>batch_retry := None\<rparr> = b"
    by (auto simp: running_def)
  note eqs = retry_update_eqD [OF b'(2)]
  have h: "reply d s env (batch_id b) SubOk =
      and_then (handle_successful_non_atomic_callback d s k (batch_id b) b' []
        (env_contract_address env)) (\<lambda>(s', messages).
        Ok (s', add_attribute ''method'' ''reply'' (add_messages messages response_new)))"
    using assms(1) b' by (simp add: reply_def running_def)
  show ?thesis
  proof (cases "Suc k < length (batch_msgs b)")
    case True
    have inv: "queue_inv (get_queue_map (batch_priority b) s)" using assms(1) by (simp add: running_def)
    obtain q where q: "push_back (get_queue_map (batch_priority b) s) b = Ok q" "queue_inv q"
        "queue_room q n" "queue_list q = [b]"
      using qm.push_ok [OF inv assms(4) [OF True], of b] assms(1)
      by (auto simp: running_def queued_def)
    let ?s = "set_queue_map (batch_priority b) q (s\<lparr>non_atomic_batch_current_function_index :=
      sm_set (batch_id b) (Suc k) (non_atomic_batch_current_function_index s)\<rparr>)"
    have "handle_successful_non_atomic_callback d s k (batch_id b) b' []
        (env_contract_address env) = Ok (?s, [])"
      using True assms(3) q(1) b'(2) eqs
      by (simp add: handle_successful_non_atomic_callback_def checked_add_usize_def)
    moreover have "waiting ?s b (Suc k)"
      using assms(1) q b' by (auto simp: running_def waiting_def)
    ultimately show ?thesis using True h q(3) by simp
  next
    case False
    let ?f = "finish_execution d s (config s) (batch_id b) Success (env_contract_address env)"
    have "handle_successful_non_atomic_callback d s k (batch_id b) b' []
        (env_contract_address env) = Ok (fst ?f, [snd ?f])"
      using False assms(2,3) eqs
      by (simp add: handle_successful_non_atomic_callback_def checked_add_usize_def case_prod_beta)
    moreover have "finished (fst ?f) b"
      using assms(1) by (simp add: running_def finished_def)
    ultimately show ?thesis using False h by (simp add: report_def)
  qed
qed

lemma running_reply_err:
  assumes "running s b k" and "retry_logic_of b (Some k) = None"
  shows "\<exists>s' r. reply d s env (batch_id b) (SubErr e) = Ok (s', r) \<and> finished s' b \<and>
    sent r = [report d s (batch_id b) (Rejected e) (env_contract_address env)]"
proof -
  from assms(1) obtain b' where b': "sm_get (execution_id_to_batch s) (batch_id b) = Some b'"
      "b'\<lparr>batch_retry := None\<rparr> = b"
    by (auto simp: running_def)
  have "retry_logic_of b' (Some k) = None"
    using assms(2) retry_update_eqD [OF b'(2)] by (simp add: retry_logic_of_def)
  then show ?thesis
    using assms(1) b'(1)
    by (auto simp: reply_def running_def handle_unsuccessful_callback_def finished_def report_def
        Let_def case_prod_beta)
qed

lemma run_tick_ok:
  assumes "waiting s b k" and "runnable b ms" and "k < length (batch_msgs b)"
    and "\<not> batch_expired (batch_expiration_time b) env"
    and "Suc k < length (batch_msgs b) \<Longrightarrow> queue_room (get_queue_map (batch_priority b) s) (Suc n)"
  shows "\<exists>s'. config s' = config s \<and>
    (if Suc k < length (batch_msgs b) then
       run_tick d s (env, SubOk) = Ok (s', [ms ! k], []) \<and> waiting s' b (Suc k) \<and>
       queue_room (get_queue_map (batch_priority b) s') n
     else run_tick d s (env, SubOk) =
            Ok (s', [ms ! k], [report d s (batch_id b) Success (env_contract_address env)]) \<and>
          finished s' b)"
proof -
  obtain s1 r1 where t: "process_tick d s env = Ok (s1, r1)" "running s1 b k" "config s1 = config s"
      "resp_messages r1 = [reply_always (ms ! k) (batch_id b)]"
      "\<forall>p n. queue_room (get_queue_map p s) n \<longrightarrow> queue_room (get_queue_map p s1) n"
    using waiting_tick [OF assms(1-4)] by blast
  have "length (batch_msgs b) < 2 ^ 32" using assms(2) by (simp add: runnable_def)
  from running_reply_ok [OF t(2) assms(3) this] t(5) assms(5)
  obtain s2 r2 where u: "reply d s1 env (batch_id b) SubOk = Ok (s2, r2)" "config s2 = config s1"
    "if Suc k < length (batch_msgs b) then
       waiting s2 b (Suc k) \<and> sent r2 = [] \<and> queue_room (get_queue_map (batch_priority b) s2) n
     else finished s2 b \<and> sent r2 = [report d s1 (batch_id b) Success (env_contract_address env)]"
    by blast
  have "run_tick d s (env, SubOk) = Ok (s2, [ms ! k], sent r2)"
    using t(1,4) u(1) by (simp add: run_tick_def dispatch_sub_def)
  moreover have "report d s1 i r a = report d s i r a" for i r a
    using report_cong [OF t(3)] t(3) by (simp add: report_def)
  ultimately show ?thesis using u(2,3) t(3) by auto
qed

text \<open>As long as the functions succeed, the batch goes through them in order.\<close>

lemma run_ticks_prefix:
  assumes "runnable b ms" and "\<forall>env \<in> set envs. \<not> batch_expired (batch_expiration_time b) env"
    and "waiting s b k" and "k + length envs < length (batch_msgs b)"
    and "queue_room (get_queue_map (batch_priority b) s) (length envs + n)"
  shows "\<exists>s'. run_ticks d s (map (\<lambda>env. (env, SubOk)) envs) =
      Ok (s', take (length envs) (drop k ms), []) \<and>
    waiting s' b (k + length envs) \<and> config s' = config s \<and>
    queue_room (get_queue_map (batch_priority b) s') n"
  using assms(2-)
proof (induction envs arbitrary: s k)
  case (Cons env envs)
  have lt: "Suc k < length (batch_msgs b)" "k < length (batch_msgs b)" using Cons.prems by auto
  obtain s1 where s1: "config s1 = config s" "run_tick d s (env, SubOk) = Ok (s1, [ms ! k], [])"
      "waiting s1 b (Suc k)" "queue_room (get_queue_map (batch_priority b) s1) (length envs + n)"
    using run_tick_ok [OF Cons.prems(2) assms(1) lt(2), of env "length envs + n"] Cons.prems(1,4) lt
    by auto
  obtain s2 where s2: "run_ticks d s1 (map (\<lambda>env. (env, SubOk)) envs) =
      Ok (s2, take (length envs) (drop (Suc k) ms), [])" "waiting s2 b (Suc k + length envs)"
      "config s2 = config s1" "queue_room (get_queue_map (batch_priority b) s2) n"
    using Cons.IH [OF _ s1(3) _ s1(4)] Cons.prems(1,3) by auto
  have "ms ! k # take (length envs) (drop (Suc k) ms) = take (Suc (length envs)) (drop k ms)"
    using runnable_message(3) [OF assms(1) lt(2)] lt(2) by (simp flip: Cons_nth_drop_Suc)
  with s1 s2 show ?case by auto
qed simp





section \<open>A concrete processor\<close>

definition ex_sub :: "retry_logic option \<Rightarrow> subroutine" where
  "ex_sub logic = NonAtomic
     \<lparr>ns_functions = [ex_step ''c1'' ''m1'' logic, ex_step ''c2'' ''m2'' logic],
      ns_expiration_time = None\<rparr>"

definition ex_batch :: "retry_logic option \<Rightarrow> message_batch" where
  "ex_batch logic =
     new_batch 7 [CosmwasmExecuteMsg ''m1'', CosmwasmExecuteMsg ''m2''] (ex_sub logic) Medium None"

definition ex_proc :: "message_batch \<Rightarrow> processor" where
  "ex_proc stored =
     \<lparr>config = \<lparr>authorization_contract = ''auth'', processor_domain = PMain, processor_state = Active\<rparr>,
      med_priority_queue = \<lparr>elements = [Suc 0 \<mapsto> stored\<lparr>batch_retry := None\<rparr>], start_index_item = None,
        end_index_item = Some (Suc 0)\<rparr>,
      high_priority_queue = queue_new,
      execution_id_to_batch = [(7, stored)],
      non_atomic_batch_current_function_index = [],
      pending_callbacks = [], pending_polytone_callbacks = []\<rparr>"

lemma ex_batch_simps [simp]:
  "batch_id (ex_batch l) = 7" "batch_priority (ex_batch l) = Medium" "batch_retry (ex_batch l) = None"
  "length (batch_msgs (ex_batch l)) = 2" "batch_expiration_time (ex_batch l) = None"
  "(ex_batch l)\<lparr>batch_retry := None\<rparr> = ex_batch l"
  by (simp_all add: ex_batch_def new_batch_def)

lemma ex_proc_reach: "processor_reach ex_deps [(''auth'', ex_batch l)] (ex_proc (ex_batch l))"
proof -
  let ?s = "\<lparr>config = \<lparr>authorization_contract = ''auth'', processor_domain = PMain,
      processor_state = Active\<rparr>, med_priority_queue = queue_new, high_priority_queue = queue_new,
      execution_id_to_batch = [], non_atomic_batch_current_function_index = [],
      pending_callbacks = [], pending_polytone_callbacks = []\<rparr>"
  let ?m = "AuthorizationModuleAction (EnqueueMsgs 7 (batch_msgs (ex_batch l))
    (batch_subroutine (ex_batch l)) Medium None)"
  have "instantiate ex_deps ex_env \<lparr>pim_authorization_contract = ''auth'',
      pim_polytone_contracts = None\<rparr> =
    Ok (?s, add_attribute ''method'' ''instantiate_processor'' response_new)"
    by (simp add: instantiate_def add_messages_def response_new_def)
  then have "processor_reach ex_deps [] ?s" by (rule processor_reach.init)
  moreover have "execute ex_deps ?s ex_env (ex_info ''auth'') ?m =
      Ok (ex_proc (ex_batch l), add_attribute ''method'' ''enqueue_messages'' response_new)"
    by (simp add: execute_def authorized_sender_def ex_info_def enqueue_messages_def batch_expired_def
        get_queue_map_def set_queue_map_def push_back_def checked_add_u64_def ex_proc_def
        ex_batch_def new_batch_def queue_new_def end_index_def Let_def)
  ultimately have "processor_reach ex_deps ([] @ [(''auth'', ex_batch l)]) (ex_proc (ex_batch l))"
    by (rule processor_reach.exec) (simp add: ex_info_def ex_batch_def new_batch_def)
  then show ?thesis by simp
qed

lemma ex_proc_queued [simp]:
  "queued p (ex_proc b) = (if p = Medium then [b\<lparr>batch_retry := None\<rparr>] else [])"
  by (cases p) (auto simp: ex_proc_def queued_def get_queue_map_def queue_list_def queue_new_def
      start_index_def end_index_def)

lemma ex_proc_config [simp]:
  "config (ex_proc b) =
     \<lparr>authorization_contract = ''auth'', processor_domain = PMain, processor_state = Active\<rparr>"
  by (simp add: ex_proc_def)

lemma ex_proc_inv [simp]:
  "queue_inv (get_queue_map p (ex_proc b))"
  by (cases p) (auto simp: ex_proc_def get_queue_map_def queue_inv_def queue_new_def
      start_index_def end_index_def)

lemma ex_proc_room: "n \<le> 5 \<Longrightarrow> queue_room (get_queue_map p (ex_proc b)) n"
  by (cases p) (auto simp: ex_proc_def get_queue_map_def queue_room_def queue_new_def end_index_def)

lemma ex_waiting: "b'\<lparr>batch_retry := None\<rparr> = ex_batch l \<Longrightarrow> waiting (ex_proc b') (ex_batch l) 0"
  by (simp add: waiting_def) (simp add: ex_proc_def sm_get_def sm_has_def)

abbreviation ex_msgs :: "cosmos_msg list" where
  "ex_msgs \<equiv> [WasmExecute ''c1'' ''m1'' [], WasmExecute ''c2'' ''m2'' []]"

lemma ex_runnable: "runnable (ex_batch l) ex_msgs"
  by (simp add: runnable_def ex_batch_def new_batch_def ex_sub_def batch_into_msgs_def
      process_functions_def get_contract_address_def account_to_string_def create_cosmos_msg_def
      to_wasm_message_def ex_step_def)

lemma ex_report [simp]:
  "report ex_deps (ex_proc b) i Success a = WasmExecute ''auth'' ''success'' []"
  "report ex_deps (ex_proc b) i (Rejected e) a = WasmExecute ''auth'' (''rejected: '' @ e) []"
  "report ex_deps (ex_proc b) i (PartiallyExecuted n e) a = WasmExecute ''auth'' (''partial: '' @ e) []"
  "report ex_deps (ex_proc b) i RemovedByOwner a = WasmExecute ''auth'' ''removed'' []"
  by (simp_all add: report_def create_callback_message_def ex_deps_def ex_codec_def)

lemma ex_env_simps [simp]: "env_contract_address ex_env = ''self''"
  by (simp add: ex_env_def)

section \<open>Properties\<close>

text \<open>
  (C22) A successful tick of a reachable, active processor takes the batch at the front of the high
  priority queue, or of the medium one when that is empty, and leaves the other queue alone. An
  expired batch is dropped and reported as expired with the number of functions already executed; a
  batch in its cooldown goes to the back of the same queue and nothing is sent; otherwise the batch
  leaves the queue and exactly one message is dispatched, with a reply under its execution id.
\<close>

theorem tick_serves_queue:
  assumes "processor_reach d h s" and "process_tick d s env = Ok (s', r)"
  shows "processor_state (config s) = Active \<and>
    (\<exists>p b bs. p = (if queued High s = [] then Medium else High) \<and> queued p s = b # bs \<and>
      (\<forall>p'. p' \<noteq> p \<longrightarrow> queued p' s' = queued p' s) \<and>
      (if batch_expired (batch_expiration_time b) env then
         queued p s' = bs \<and>
         sent r = [snd (create_callback_message d s (config s) (batch_id b)
                     (Expired (functions_executed s b)) (env_contract_address env))] \<and>
         \<not> sm_has (execution_id_to_batch s') (batch_id b)
       else if in_cooldown d env b then queued p s' = bs @ [b] \<and> resp_messages r = []
       else queued p s' = bs \<and> (\<exists>m. resp_messages r = [reply_always m (batch_id b)])))"
  using batches_okD(1) [OF reach_descends [OF assms(1)]] assms(2) by (rule tick_schedule)

theorem tick_serves_queue_witness:
  "\<exists>s' r. process_tick ex_deps (ex_proc (ex_batch None)) ex_env = Ok (s', r) \<and>
     queued Medium s' = [] \<and> (\<exists>m. resp_messages r = [reply_always m 7])"
proof -
  obtain s' r where t: "process_tick ex_deps (ex_proc (ex_batch None)) ex_env = Ok (s', r)"
    using waiting_tick [OF ex_waiting ex_runnable, of "ex_batch None" None ex_env ex_deps]
    by (auto simp: batch_expired_def)
  from tick_serves_queue [OF ex_proc_reach t] t show ?thesis
    by (auto simp: batch_expired_def in_cooldown_def)
qed

text \<open>
  A tick of a reachable processor is refused as paused exactly when the processor is paused,
  and for want of messages exactly when it is active and both queues are empty.
\<close>

theorem tick_refused:
  assumes "processor_reach d h s"
  shows "(process_tick d s env = Err ProcessorPaused \<longleftrightarrow> processor_state (config s) = Paused) \<and>
    (process_tick d s env = Err NoMessagesToProcess \<longleftrightarrow>
       processor_state (config s) = Active \<and> queued High s = [] \<and> queued Medium s = [])"
proof -
  let ?p = "tick_priority s"
  have inv: "queue_inv (get_queue_map ?p s)" using batches_okD(1) reach_descends [OF assms] by blast
  obtain y q where pop: "pop_front (get_queue_map ?p s) = Ok (y, q)" "y = None \<longleftrightarrow> queued ?p s = []"
    using qm.pop_total [OF inv] qm.pop_sound [OF inv] by (fastforce simp: queued_def)
  have "queued ?p s = [] \<longleftrightarrow> queued High s = [] \<and> queued Medium s = []"
    by (auto simp: tick_priority_queued)
  with pop show ?thesis
    by (cases "processor_state (config s)"; cases y)
      (auto simp: process_tick_def Let_def case_prod_beta res_simps map_err_Err_iff
        dest: dispatch_batch_error split: if_splits)
qed

theorem tick_refused_witness:
  "process_tick ex_deps (ex_proc (ex_batch None)) ex_env \<noteq> Err ProcessorPaused \<and>
   process_tick ex_deps (ex_proc (ex_batch None)) ex_env \<noteq> Err NoMessagesToProcess"
  using tick_refused [OF ex_proc_reach, of None ex_env] by simp



text \<open>
  (C31) When a function of a non-atomic batch fails and has no retry logic, the batch is over and the
  processor reports it as rejected, however many of its functions have been executed before: after
  \<open>k\<close> successful functions the messages of the first \<open>k + 1\<close> have been sent, and the report is still
  \<open>Rejected\<close>, not \<open>PartiallyExecuted k\<close>.
\<close>

theorem non_atomic_failure_reports_rejected:
  assumes "waiting s b 0" and "runnable b ms" and "length envs = k" and "k < length (batch_msgs b)"
    and "\<forall>env \<in> insert env' (set envs). \<not> batch_expired (batch_expiration_time b) env"
    and "queue_room (get_queue_map (batch_priority b) s) k"
    and "retry_logic_of b (Some k) = None"
  shows "\<exists>s'. run_ticks d s (map (\<lambda>env. (env, SubOk)) envs @ [(env', SubErr e)]) =
      Ok (s', take (Suc k) ms, [report d s (batch_id b) (Rejected e) (env_contract_address env')]) \<and>
    finished s' b"
proof -
  obtain s1 where s1: "run_ticks d s (map (\<lambda>env. (env, SubOk)) envs) = Ok (s1, take k ms, [])"
      "waiting s1 b k" "config s1 = config s"
    using run_ticks_prefix [OF assms(2) _ assms(1), of envs 0 d] assms(3-6) by auto
  obtain s2 r2 where s2: "process_tick d s1 env' = Ok (s2, r2)" "running s2 b k" "config s2 = config s1"
      "resp_messages r2 = [reply_always (ms ! k) (batch_id b)]"
    using waiting_tick [OF s1(2) assms(2,4), of env' d] assms(5) by auto
  obtain s3 r3 where s3: "reply d s2 env' (batch_id b) (SubErr e) = Ok (s3, r3)" "finished s3 b"
      "sent r3 = [report d s2 (batch_id b) (Rejected e) (env_contract_address env')]"
    using running_reply_err [OF s2(2) assms(7)] by blast
  have "take (Suc k) ms = take k ms @ [ms ! k]"
    using runnable_message(3) [OF assms(2,4)] assms(4) by (simp add: take_Suc_conv_app_nth)
  moreover have "report d s2 i r a = report d s i r a" for i r a
    using report_cong [of s2 s] s1(3) s2(3) by (simp add: report_def)
  ultimately show ?thesis
    using run_ticks_append [OF s1(1), of "[(env', SubErr e)]"] s2 s3
    by (simp add: run_tick_def dispatch_sub_def)
qed

theorem non_atomic_failure_reports_rejected_witness:
  "\<exists>s'. run_ticks ex_deps (ex_proc (ex_batch None)) [(ex_env, SubOk), (ex_env, SubErr ''boom'')] =
     Ok (s', ex_msgs, [WasmExecute ''auth'' ''rejected: boom'' []]) \<and>
   finished s' (ex_batch None)"
  using non_atomic_failure_reports_rejected [OF ex_waiting ex_runnable, of "ex_batch None" None
      "[ex_env]" "Suc 0" ex_env ex_deps "''boom''"] ex_proc_room [of "Suc 0"]
  by (simp add: batch_expired_def retry_logic_of_def nth_opt_def ex_batch_def new_batch_def
      ex_sub_def ex_step_def)



text \<open>
  (C11) Only what the authorization module sent is ever queued: in every reachable state a batch in
  the queue of a priority has that priority and is, up to its retry state, a batch that came in a
  message of the authorized sender (the authorization contract, or the proxy on another domain).
\<close>

theorem queued_batches_are_authorized:
  assumes "processor_reach d h s" and "b \<in> set (queued p s)"
  shows "batch_priority b = p \<and>
    (\<exists>b0. (authorized_sender (config s), b0) \<in> set h \<and>
       b\<lparr>batch_retry := None\<rparr> = b0\<lparr>batch_retry := None\<rparr>)"
  using batches_okD(2,3) [OF reach_descends [OF assms(1)] assms(2)] by (simp add: descends_def)

theorem queued_batches_are_authorized_witness:
  "\<exists>b0. (''auth'', b0) \<in> set [(''auth'', ex_batch None)] \<and>
     (ex_batch None)\<lparr>batch_retry := None\<rparr> = b0\<lparr>batch_retry := None\<rparr>"
  using queued_batches_are_authorized [OF ex_proc_reach, of "ex_batch None" Medium None]
  by (simp add: authorized_sender_def)



text \<open>
  (C28) Eviction by position, in a reachable state: at a position inside the queue exactly that batch
  is removed, everything stored for it is forgotten and it is reported as removed by the owner; at a
  position past the end the message fails.
\<close>

theorem evict_removes_position:
  assumes "processor_reach d h s"
  shows "(case evict_messages d s env i p of
      Ok (s', r) \<Rightarrow>
        i < length (queued p s) \<and>
        queued p s' = take i (queued p s) @ drop (Suc i) (queued p s) \<and>
        (\<forall>p'. p' \<noteq> p \<longrightarrow> queued p' s' = queued p' s) \<and>
        (let k = batch_id (queued p s ! i)
         in \<not> sm_has (execution_id_to_batch s') k \<and>
            \<not> sm_has (non_atomic_batch_current_function_index s') k \<and>
            \<not> sm_has (pending_callbacks s') k \<and>
            sent r = [report d s k RemovedByOwner (env_contract_address env)])
    | Err e \<Rightarrow>
        i < length (queued p s) \<longrightarrow> \<not> queue_room (get_queue_map p s) 0) \<and>
    (length (queued p s) \<le> i \<longrightarrow>
       evict_messages d s env i p = Err (Std (GenericErr ''Index out of bounds'')))"
proof -
  have inv: "queue_inv (get_queue_map p s)" using batches_okD(1) reach_descends [OF assms] by blast
  show ?thesis
  proof (cases "remove_at (get_queue_map p s) i")
    case (Ok yq)
    obtain y q where yq: "yq = (y, q)" by fastforce
    from qm.remove_sound [OF inv, of i y q] Ok yq have
      r: "i < length (queued p s)" "y = Some (queued p s ! i)"
        "queue_list q = take i (queued p s) @ drop (Suc i) (queued p s)"
      by (auto simp: queued_def)
    have "snd (create_callback_message d t (config s) k RemovedByOwner a) =
        report d s k RemovedByOwner a" for t k a
      by (simp add: report_def create_callback_message_def Let_def split: processor_domain.splits)
    with Ok yq r show ?thesis by (simp add: evict_messages_def Let_def case_prod_beta)
  next
    case (Err e)
    then have "i < length (queued p s) \<Longrightarrow> \<not> queue_room (get_queue_map p s) 0"
      using qm.remove_ok [OF inv, of 0 i] by (auto simp: queued_def)
    with Err qm.remove_out [OF inv, of i] show ?thesis
      by (auto simp: evict_messages_def queued_def)
  qed
qed

theorem evict_removes_position_witness:
  "\<exists>s' r. evict_messages ex_deps (ex_proc (ex_batch None)) ex_env 0 Medium = Ok (s', r) \<and>
     queued Medium s' = [] \<and> sent r = [WasmExecute ''auth'' ''removed'' []]"
  using evict_removes_position [OF ex_proc_reach [of None], where i = 0 and p = Medium and env = ex_env]
    ex_proc_room [of 0 Medium "ex_batch None"]
  by (auto simp: Let_def split: result.splits prod.splits)

text \<open>
  (C26) A callback that times out on the bridge can be sent again, and only then: on an external
  domain, after a result has been sent, a retry is refused while the callback is pending; once the
  note contract reports a timeout, anyone's retry sends the very same message and restores the
  pending entry, so the round can start again; an acknowledgement removes the entry, after which
  there is nothing to retry. The hypothesis on the codec is that the callback payload decodes to
  what was encoded.
\<close>

theorem polytone_callback_retry:
  assumes "processor_domain (config s) = PExternal p"
    and "dec_proc_polytone_callback (d_codec d)
      (enc_proc_polytone_callback (d_codec d) (ExecutionID i)) = Ok (ExecutionID i)"
    and "create_callback_message d s (config s) i res (env_contract_address env) = (s1, m)"
    and "info_sender info = polytone_note_address p"
  shows "retry_callback d s1 env i = Err (CallbackError PolytoneCallbackStillPending) \<and>
    (\<exists>s2 r2 r3. process_polytone_callback d s1 env info
        \<lparr>cm_initiator = env_contract_address env,
         cm_initiator_msg = enc_proc_polytone_callback (d_codec d) (ExecutionID i),
         cm_result = CallbackExecute (Err ''timeout'')\<rparr> = Ok (s2, r2) \<and>
      retry_callback d s2 env i = Ok (s1, r3) \<and> sent r3 = [m]) \<and>
    (\<forall>resp. \<exists>s2 r2. process_polytone_callback d s1 env info
        \<lparr>cm_initiator = env_contract_address env,
         cm_initiator_msg = enc_proc_polytone_callback (d_codec d) (ExecutionID i),
         cm_result = CallbackExecute (Ok resp)\<rparr> = Ok (s2, r2) \<and>
      retry_callback d s2 env i = Err (CallbackError PolytonePendingCallbackNotFound))"
  using assms
  by (auto simp: create_callback_message_def Let_def retry_callback_def
      process_polytone_callback_def set_callback_state_def)

theorem polytone_callback_retry_witness:
  "\<exists>p s1 m. processor_domain (config ((ex_proc (ex_batch None))\<lparr>config :=
       \<lparr>authorization_contract = ''auth'', processor_domain = PExternal p, processor_state = Active\<rparr>\<rparr>)) =
       PExternal p \<and>
     create_callback_message ex_deps ((ex_proc (ex_batch None))\<lparr>config :=
       \<lparr>authorization_contract = ''auth'', processor_domain = PExternal p, processor_state = Active\<rparr>\<rparr>)
       \<lparr>authorization_contract = ''auth'', processor_domain = PExternal p, processor_state = Active\<rparr>
       7 Success ''self'' = (s1, m) \<and>
     retry_callback ex_deps s1 ex_env 7 = Err (CallbackError PolytoneCallbackStillPending)"
proof -
  let ?p = "\<lparr>polytone_proxy_address = ''proxy'', polytone_note_address = ''note'',
    polytone_timeout_seconds = 60, proxy_on_main_domain_state = Created\<rparr>"
  let ?c = "\<lparr>authorization_contract = ''auth'', processor_domain = PExternal ?p, processor_state = Active\<rparr>"
  let ?s = "(ex_proc (ex_batch None))\<lparr>config := ?c\<rparr>"
  obtain s1 m where c: "create_callback_message ex_deps ?s ?c 7 Success ''self'' = (s1, m)"
    by fastforce
  have "dec_proc_polytone_callback (d_codec ex_deps) b = Ok (ExecutionID 7)" for b
    by (simp add: ex_deps_def ex_codec_def)
  with polytone_callback_retry [of ?s ?p ex_deps 7 Success ex_env s1 m "ex_info ''note''"] c
  show ?thesis by (intro exI [of _ ?p] exI [of _ s1] exI [of _ m]) (simp add: ex_info_def)
qed

end
