(* ===== verification/Protocol.thy ===== *)
theory Protocol
  imports Authorization_Access Processor_Props "HOL-Library.Multiset"
begin

text \<open>
  The authorization contract and the processor of the main domain together: the transactions of the
  chain on which both live, and what the two contracts know of each other. A transaction is a message
  of a user to one of them and everything that follows from it: the messages of a response are
  executed in order, each with the messages of its own response before the next one.
\<close>

section \<open>Transactions\<close>

text \<open>
  A state of a transaction: the storage of both contracts and the messages still to be executed, each
  with its sender. Between two transactions no message is left.
\<close>

type_synonym 'o chain = "'o auth_contract \<times> processor \<times> (addr \<times> sub_msg) list"

text \<open>
  A message for one of the contracts can be read there. One that cannot makes the transaction fail.
\<close>

definition readable :: "deps \<Rightarrow> addr \<Rightarrow> addr \<Rightarrow> addr \<times> sub_msg \<Rightarrow> bool" where
  "readable d A P = (\<lambda>(sender, m).
     case sub_msg m of
       WasmExecute c bytes _ \<Rightarrow>
         (c = P \<and> sub_reply_on m = ReplyNever \<longrightarrow> is_ok (dec_processor_execute (d_codec d) bytes)) \<and>
         (c = A \<and> sub_reply_on m = ReplyNever \<longrightarrow> is_ok (dec_authorization_execute (d_codec d) bytes))
     | _ \<Rightarrow> True)"

text \<open>
  The steps of a transaction. A user is anyone but the two contracts; the programs considered here
  have all their functions on the main domain, so that no other domain is registered. A library may
  succeed or fail in any way, and answers with a callback, if it does, in a later transaction and only
  while its function has not been put back into a queue.
\<close>

inductive chain_step ::
  "'o ownable \<Rightarrow> deps \<Rightarrow> addr \<Rightarrow> addr \<Rightarrow> 'o chain \<Rightarrow> 'o chain \<Rightarrow> bool" for ow d A P where
  user_to_authorization:
    "info_sender info \<notin> {A, P} \<Longrightarrow> env_contract_address env = A \<Longrightarrow>
     \<forall>infos. msg \<noteq> PermissionedAction (AddExternalDomains infos) \<Longrightarrow>
     Authorization.execute ow d a env info msg = Ok (a', r) \<Longrightarrow>
     list_all (readable d A P) (map (Pair A) (resp_messages r)) \<Longrightarrow>
     chain_step ow d A P (a, p, []) (a', p, map (Pair A) (resp_messages r))"
| user_to_processor:
    "info_sender info \<notin> {A, P} \<Longrightarrow> env_contract_address env = P \<Longrightarrow>
     \<forall>i b. msg = InternalProcessorAction (LibraryCallback i b) \<longrightarrow>
       (\<forall>prio. i \<notin> batch_id ` set (queued prio p)) \<Longrightarrow>
     Processor.execute d p env info msg = Ok (p', r) \<Longrightarrow>
     list_all (readable d A P) (map (Pair P) (resp_messages r)) \<Longrightarrow>
     chain_step ow d A P (a, p, []) (a, p', map (Pair P) (resp_messages r))"
| to_processor:
    "sub_msg m = WasmExecute P bytes funds \<Longrightarrow>
     dec_processor_execute (d_codec d) bytes = Ok msg \<Longrightarrow> env_contract_address env = P \<Longrightarrow>
     Processor.execute d p env \<lparr>info_sender = A, info_funds = funds\<rparr> msg = Ok (p', r) \<Longrightarrow>
     list_all (readable d A P) (map (Pair P) (resp_messages r)) \<Longrightarrow>
     chain_step ow d A P (a, p, (A, m) # rest) (a, p', map (Pair P) (resp_messages r) @ rest)"
| to_authorization:
    "sub_reply_on m = ReplyNever \<Longrightarrow> sub_msg m = WasmExecute A bytes funds \<Longrightarrow>
     dec_authorization_execute (d_codec d) bytes = Ok msg \<Longrightarrow> env_contract_address env = A \<Longrightarrow>
     Authorization.execute ow d a env \<lparr>info_sender = P, info_funds = funds\<rparr> msg = Ok (a', r) \<Longrightarrow>
     list_all (readable d A P) (map (Pair A) (resp_messages r)) \<Longrightarrow>
     chain_step ow d A P (a, p, (P, m) # rest) (a', p, map (Pair A) (resp_messages r) @ rest)"
| to_library:
    "sub_reply_on m = ReplyAlways \<Longrightarrow> env_contract_address env = P \<Longrightarrow>
     reply d p env (sub_id m) result = Ok (p', r) \<Longrightarrow>
     list_all (readable d A P) (map (Pair P) (resp_messages r)) \<Longrightarrow>
     chain_step ow d A P (a, p, (P, m) # rest) (a, p', map (Pair P) (resp_messages r) @ rest)"
| elsewhere:
    "\<forall>bytes funds. sub_msg m \<noteq> WasmExecute P bytes funds \<Longrightarrow>
     chain_step ow d A P (a, p, (A, m) # rest) (a, p, rest)"

text \<open>
  Every state of the chain, from the instantiation of the two contracts, as long as the execution
  ids have not gone once around.
\<close>

inductive chain_reach ::
  "'o ownable \<Rightarrow> deps \<Rightarrow> addr \<Rightarrow> addr \<Rightarrow> 'o chain \<Rightarrow> bool" for ow d A P where
  init:
    "Authorization.instantiate ow d amsg = Ok (a, ar) \<Longrightarrow> processor_on_main_domain a = P \<Longrightarrow>
     Processor.instantiate d env \<lparr>pim_authorization_contract = A, pim_polytone_contracts = None\<rparr>
       = Ok (p, pr) \<Longrightarrow>
     chain_reach ow d A P (a, p, [])"
| step:
    "chain_reach ow d A P (a, p, st) \<Longrightarrow> next_execution_id a < 2 ^ 64 - 1 \<Longrightarrow>
     chain_step ow d A P (a, p, st) c' \<Longrightarrow> chain_reach ow d A P c'"

text \<open>
  What is relied on of the serialisation: reading what was written gives nothing else than what was
  written.
\<close>

definition codec_sound :: "deps \<Rightarrow> bool" where
  "codec_sound d \<longleftrightarrow>
     (\<forall>m m'. dec_processor_execute (d_codec d) (enc_processor_execute (d_codec d) m) = Ok m' \<longrightarrow> m' = m) \<and>
     (\<forall>m m'. dec_authorization_execute (d_codec d) (enc_authorization_execute (d_codec d) m) = Ok m' \<longrightarrow> m' = m)"

section \<open>Where an execution is\<close>

text \<open>The execution that a message still to be executed is about.\<close>

definition message_execution :: "deps \<Rightarrow> addr \<Rightarrow> addr \<Rightarrow> addr \<times> sub_msg \<Rightarrow> u64 option" where
  "message_execution d A P = (\<lambda>(sender, m).
     if sender = P then
       (if sub_reply_on m = ReplyAlways then Some (sub_id m)
        else case sub_msg m of
          WasmExecute c bytes _ \<Rightarrow>
            (case dec_authorization_execute (d_codec d) bytes of
               Ok (InternalAuthorizationAction (ProcessorCallback i _)) \<Rightarrow> Some i
             | _ \<Rightarrow> None)
        | _ \<Rightarrow> None)
     else
       (case sub_msg m of
          WasmExecute c bytes _ \<Rightarrow>
            if c = P then
              (case dec_processor_execute (d_codec d) bytes of
                 Ok msg \<Rightarrow> map_option batch_id (brought_in msg)
               | Err _ \<Rightarrow> None)
            else None
        | _ \<Rightarrow> None))"

text \<open>
  The executions that the messages of a transaction are about, and among them those of messages
  between the two contracts, as opposed to the dispatch of a function to a library.
\<close>

definition carried :: "deps \<Rightarrow> addr \<Rightarrow> addr \<Rightarrow> (addr \<times> sub_msg) list \<Rightarrow> u64 multiset" where
  "carried d A P st = mset (List.map_filter (message_execution d A P) st)"

definition exchanged :: "deps \<Rightarrow> addr \<Rightarrow> addr \<Rightarrow> (addr \<times> sub_msg) list \<Rightarrow> u64 multiset" where
  "exchanged d A P st = carried d A P (filter (\<lambda>(_, m). sub_reply_on m = ReplyNever) st)"

definition queue_ids :: "processor \<Rightarrow> u64 multiset" where
  "queue_ids p = image_mset batch_id (mset (queued High p) + mset (queued Medium p))"

text \<open>A library has been called for the execution and is to answer with a callback.\<close>

definition awaits :: "processor \<Rightarrow> u64 \<Rightarrow> bool" where
  "awaits p i \<longleftrightarrow>
     sm_has (pending_callbacks p) i \<and> sm_has (non_atomic_batch_current_function_index p) i"

text \<open>
  The executions \<open>L\<close> are those that are in one place: in one of the queues, in a message (of \<open>C\<close>), or
  waiting for a library; and an execution with a function index is not on its way between the
  contracts (in a message of \<open>N\<close>).
\<close>

definition placed :: "(u64 \<Rightarrow> bool) \<Rightarrow> processor \<Rightarrow> u64 multiset \<Rightarrow> u64 multiset \<Rightarrow> bool" where
  "placed L p C N \<longleftrightarrow>
     (\<forall>i. count (queue_ids p + C) i \<le> 1) \<and>
     (\<forall>i. L i \<longleftrightarrow> i \<in># queue_ids p + C \<or> awaits p i) \<and>
     (\<forall>i. sm_has (non_atomic_batch_current_function_index p) i \<longrightarrow> L i \<and> i \<notin># N)"

text \<open>
  A step of the processor that takes the executions \<open>C\<close> from messages and puts \<open>C'\<close> into messages,
  of which \<open>N'\<close> go to the authorization contract.
\<close>

definition moved ::
  "processor \<Rightarrow> processor \<Rightarrow> u64 multiset \<Rightarrow> u64 multiset \<Rightarrow> u64 multiset \<Rightarrow> bool"
where
  "moved p p' C C' N' \<longleftrightarrow>
     queue_ids p' + C' = queue_ids p + C \<and>
     (\<forall>i. sm_has (non_atomic_batch_current_function_index p') i \<longrightarrow>
        (sm_has (non_atomic_batch_current_function_index p) i \<or> i \<in># queue_ids p + C) \<and> i \<notin># N') \<and>
     (\<forall>i. i \<notin># queue_ids p + C \<longrightarrow> awaits p' i = awaits p i) \<and>
     (\<forall>i. sm_has (pending_callbacks p') i \<longrightarrow>
        sm_has (pending_callbacks p) i \<or> i \<in># queue_ids p + C)"

lemma count_le_1_disjoint:
  "count (X + Y) i \<le> (1::nat) \<Longrightarrow> i \<in># X \<Longrightarrow> i \<notin># Y"
  by (auto simp: count_eq_zero_iff [symmetric] Suc_le_eq simp flip: count_greater_zero_iff)

lemma placed_moved:
  assumes "placed L p (C + R) N" and "moved p p' C C' N'" and "M \<subseteq># R" and "M \<subseteq># N"
  shows "placed L p' (C' + R) (N' + M)"
proof -
  have eq: "queue_ids p' + (C' + R) = queue_ids p + (C + R)"
    using assms(2) by (simp add: moved_def add.assoc [symmetric])
  have "L i \<longleftrightarrow> i \<in># queue_ids p + (C + R) \<or> awaits p' i" for i
    using assms(1,2) unfolding placed_def moved_def
    by (cases "i \<in># queue_ids p + C") auto
  moreover have "L i \<and> i \<notin># N' + M" if "sm_has (non_atomic_batch_current_function_index p') i" for i
  proof -
    from that assms(2) have n: "i \<notin># N'"
      and c: "sm_has (non_atomic_batch_current_function_index p) i \<or> i \<in># queue_ids p + C"
      by (auto simp: moved_def)
    from c show ?thesis
    proof
      assume "sm_has (non_atomic_batch_current_function_index p) i"
      with assms(1,4) n show ?thesis by (auto simp: placed_def dest: mset_subset_eqD)
    next
      assume i: "i \<in># queue_ids p + C"
      moreover have "count ((queue_ids p + C) + R) i \<le> 1"
        using assms(1) by (auto simp: placed_def add.assoc)
      ultimately have "i \<notin># R" by (rule count_le_1_disjoint [rotated])
      with assms(1,3) n i show ?thesis by (auto simp: placed_def dest: mset_subset_eqD)
    qed
  qed
  ultimately show ?thesis using assms(1) unfolding placed_def eq by blast
qed


section \<open>The moves of the processor\<close>

lemma queue_ids_frame [simp]:
  "queue_ids (s\<lparr>config := c\<rparr>) = queue_ids s"
  "queue_ids (s\<lparr>execution_id_to_batch := m\<rparr>) = queue_ids s"
  "queue_ids (s\<lparr>non_atomic_batch_current_function_index := n\<rparr>) = queue_ids s"
  "queue_ids (s\<lparr>pending_callbacks := pc\<rparr>) = queue_ids s"
  "queue_ids (after_callback d s cfg i r a) = queue_ids s"
  "queue_ids (fst (finish_execution d s cfg i r a)) = queue_ids s"
  "queue_ids (snd (current_function_index s i)) = queue_ids s"
  by (simp_all add: queue_ids_def)

lemma queue_ids_set:
  "queue_ids (set_queue_map prio q s) + image_mset batch_id (mset (queued prio s)) =
     queue_ids s + image_mset batch_id (mset (queue_list q))"
  by (cases prio) (simp_all add: queue_ids_def)

lemma queue_ids_push:
  assumes "queue_inv (get_queue_map prio s)" and "push_back (get_queue_map prio s) b = Ok q"
  shows "queue_ids (set_queue_map prio q s) = add_mset (batch_id b) (queue_ids s)"
  using queue_ids_set [of prio q s] qm.push_sound [OF assms] by (simp add: queued_def)

lemma queue_ids_pop:
  assumes "queue_inv (get_queue_map prio s)" and "pop_front (get_queue_map prio s) = Ok (Some b, q)"
  shows "queue_ids s = add_mset (batch_id b) (queue_ids (set_queue_map prio q s))"
  using queue_ids_set [of prio q s] qm.pop_sound [OF assms] by (simp add: queued_def)

lemma queue_ids_insert:
  assumes "queue_inv (get_queue_map prio s)" and "insert_at (get_queue_map prio s) pos b = Ok q"
  shows "queue_ids (set_queue_map prio q s) = add_mset (batch_id b) (queue_ids s)"
proof -
  have "queue_list q = take pos (queued prio s) @ b # drop pos (queued prio s)"
    using qm.insert_sound [OF assms] by (simp add: queued_def)
  then have "mset (queue_list q) = add_mset b (mset (queued prio s))"
    by (metis append_take_drop_id mset.simps(2) mset_append union_mset_add_mset_right)
  then show ?thesis using queue_ids_set [of prio q s] by simp
qed

lemma queue_ids_remove:
  assumes "queue_inv (get_queue_map prio s)" and "remove_at (get_queue_map prio s) pos = Ok (y, q)"
  shows "\<exists>b. y = Some b \<and> queue_ids s = add_mset (batch_id b) (queue_ids (set_queue_map prio q s))"
proof -
  have r: "pos < length (queued prio s)" "y = Some (queued prio s ! pos)"
      "queue_list q = take pos (queued prio s) @ drop (Suc pos) (queued prio s)"
    using qm.remove_sound [OF assms] by (auto simp: queued_def)
  then have "mset (queued prio s) = add_mset (queued prio s ! pos) (mset (queue_list q))"
    by (metis id_take_nth_drop mset.simps(2) mset_append union_mset_add_mset_right)
  then show ?thesis using r(2) queue_ids_set [of prio q s] by simp
qed


text \<open>The processor of the main domain, with everything stored under the execution id of its batch.\<close>

definition keyed :: "addr \<Rightarrow> processor \<Rightarrow> bool" where
  "keyed A p \<longleftrightarrow>
     processor_domain (config p) = PMain \<and> authorization_contract (config p) = A \<and>
     pending_polytone_callbacks p = [] \<and>
     (\<forall>i b. sm_get (execution_id_to_batch p) i = Some b \<longrightarrow> batch_id b = i) \<and>
     (\<forall>i c. sm_get (pending_callbacks p) i = Some c \<longrightarrow> batch_id (pc_message_batch c) = i)"

definition processor_ok :: "addr \<Rightarrow> processor \<Rightarrow> bool" where
  "processor_ok A p \<longleftrightarrow> keyed A p \<and> batches_ok (\<lambda>_. True) p"

lemma processor_okD:
  assumes "processor_ok A p"
  shows "processor_domain (config p) = PMain" and "authorization_contract (config p) = A"
    and "pending_polytone_callbacks p = []" and "queue_inv (get_queue_map prio p)"
    and "sm_get (execution_id_to_batch p) i = Some b \<Longrightarrow> batch_id b = i"
    and "sm_get (pending_callbacks p) i = Some c \<Longrightarrow> batch_id (pc_message_batch c) = i"
  using assms batches_okD(1) by (auto simp: processor_ok_def keyed_def)

text \<open>The callback that reports a result to the authorization contract.\<close>

definition report_msg :: "deps \<Rightarrow> addr \<Rightarrow> u64 \<Rightarrow> execution_result \<Rightarrow> cosmos_msg" where
  "report_msg d A i res =
     WasmExecute A
       (enc_authorization_execute (d_codec d) (InternalAuthorizationAction (ProcessorCallback i res))) []"

lemma callback_on_main:
  "processor_domain cfg = PMain \<Longrightarrow>
     create_callback_message d p cfg i res a = (p, report_msg d (authorization_contract cfg) i res)"
  by (simp add: create_callback_message_def report_msg_def)

text \<open>
  What a response of the processor consists of: nothing, the report of an execution that is over, or
  the dispatch of a function.
\<close>

definition outcome ::
  "deps \<Rightarrow> addr \<Rightarrow> sub_msg list \<Rightarrow> u64 multiset \<Rightarrow> u64 multiset \<Rightarrow> bool"
where
  "outcome d A ms C N \<longleftrightarrow>
     ms = [] \<and> C = {#} \<and> N = {#} \<or>
     (\<exists>i res. ms = [plain_msg (report_msg d A i res)] \<and> final_result res \<and> C = {#i#} \<and> N = {#i#}) \<or>
     (\<exists>m i. ms = [reply_always m i] \<and> C = {#i#} \<and> N = {#})"

lemma outcome_report:
  "final_result res \<Longrightarrow> outcome d A [plain_msg (report_msg d A i res)] {#i#} {#i#}"
  by (auto simp: outcome_def)

lemma outcome_none: "outcome d A [] {#} {#}"
  by (simp add: outcome_def)

lemma awaits_frame:
  "awaits (s\<lparr>config := c\<rparr>) i = awaits s i" "awaits (set_queue_map prio q s) i = awaits s i"
  "awaits (s\<lparr>execution_id_to_batch := m\<rparr>) i = awaits s i"
  by (simp_all add: awaits_def)

lemma finish_moved:
  "moved p (fst (finish_execution d p cfg i res a)) {#i#} {#i#} {#i#}"
  by (auto simp: moved_def awaits_def)

lemma push_moved:
  assumes "queue_inv (get_queue_map prio p)" and "push_back (get_queue_map prio p) b = Ok q"
    and "batch_id b = i"
  shows "moved p ((set_queue_map prio q p)\<lparr>execution_id_to_batch := m\<rparr>) {#i#} {#} {#}"
    and "moved p (set_queue_map prio q
      (p\<lparr>non_atomic_batch_current_function_index :=
          sm_set i k (non_atomic_batch_current_function_index p)\<rparr>)) {#i#} {#} {#}"
  using queue_ids_push [OF assms(1,2)] assms(3)
    queue_ids_push [of prio "p\<lparr>non_atomic_batch_current_function_index :=
      sm_set i k (non_atomic_batch_current_function_index p)\<rparr>" b q] assms(1,2)
  by (auto simp: moved_def awaits_def)

lemma successful_moved:
  assumes "processor_ok A p" and "batch_id b = i"
    and "handle_successful_non_atomic_callback d p k i b [] a = Ok (p', ms)"
  shows "\<exists>C. moved p p' {#i#} C C \<and> outcome d A (map plain_msg ms) C C"
  using assms(3)
proof (cases rule: successful_cases)
  case last
  then have "ms = [report_msg d A i Success]"
    using processor_okD(1,2) [OF assms(1)] by (simp add: callback_on_main)
  then show ?thesis using last(2) finish_moved outcome_report [of Success] by fastforce
next
  case (more q)
  then show ?thesis
    using push_moved(2) [OF processor_okD(4) [OF assms(1)] more(2), of i "Suc k"] assms(2)
    by (intro exI [of _ "{#}"]) (simp add: outcome_none)
qed

lemma failure_final: "failure_result b index e = Some r \<Longrightarrow> final_result r"
  by (auto simp: failure_result_def split: option.splits if_splits)

lemma unsuccessful_moved:
  assumes "processor_ok A p" and "batch_id b = i"
    and "handle_unsuccessful_callback d p i b [] e (config p) block index a = Ok (p', ms)"
  shows "\<exists>C. moved p p' {#i#} C C \<and> outcome d A (map plain_msg ms) C C"
  using assms(3)
proof (cases rule: unsuccessful_cases)
  case (final r)
  then have "ms = [report_msg d A i r]"
    using processor_okD(1,2) [OF assms(1)] by (simp add: callback_on_main)
  then show ?thesis using final(2) finish_moved outcome_report failure_final [OF final(1)] by fastforce
next
  case (retry logic)
  from retry(3) show ?thesis
  proof (cases rule: put_back_cases)
    case (1 q)
    then show ?thesis
      using push_moved(1) [OF processor_okD(4) [OF assms(1)] 1(1), of i] assms(2) retry(4)
      by (intro exI [of _ "{#}"]) (simp add: outcome_none)
  qed
qed

lemma reply_moved:
  assumes "processor_ok A p" and "reply d p env i res = Ok (p', r)"
  shows "(p' = p \<and> resp_messages r = [] \<and> awaits p i) \<or>
    (\<exists>C. moved p p' {#i#} C C \<and> outcome d A (resp_messages r) C C)"
proof -
  from assms(2) obtain b where b: "sm_get (execution_id_to_batch p) i = Some b"
    by (auto simp: reply_def res_simps)
  note id = processor_okD(5) [OF assms(1) b]
  show ?thesis
  proof (cases "sm_get (non_atomic_batch_current_function_index p) i")
    case None
    show ?thesis
    proof (cases res)
      case SubOk
      have "moved p p {#i#} {#i#} {#i#}" using None by (auto simp: moved_def sm_has_def)
      then show ?thesis
        using assms(2) b None SubOk processor_okD(1,2) [OF assms(1)] outcome_report [of Success]
        by (fastforce simp: reply_def handle_successful_atomic_callback_def callback_on_main)
    next
      case (SubErr e)
      with assms(2) b None obtain ms where
        "handle_unsuccessful_callback d p i b [] e (config p) (env_block env) None
          (env_contract_address env) = Ok (p', ms)" "resp_messages r = map plain_msg ms"
        by (auto simp: reply_def res_simps)
      then show ?thesis using unsuccessful_moved [OF assms(1) id] by metis
    qed
  next
    case (Some k)
    show ?thesis
    proof (cases res)
      case SubOk
      show ?thesis
      proof (cases "sm_has (pending_callbacks p) i")
        case True
        with assms(2) b Some SubOk show ?thesis by (auto simp: reply_def awaits_def sm_has_def)
      next
        case False
        with assms(2) b Some SubOk obtain ms where
          "handle_successful_non_atomic_callback d p k i b [] (env_contract_address env) = Ok (p', ms)"
          "resp_messages r = map plain_msg ms"
          by (auto simp: reply_def res_simps)
        then show ?thesis using successful_moved [OF assms(1) id] by metis
      qed
    next
      case (SubErr e)
      with assms(2) b Some obtain ms where
        "handle_unsuccessful_callback d p i b [] e (config p) (env_block env) (Some k)
          (env_contract_address env) = Ok (p', ms)" "resp_messages r = map plain_msg ms"
        by (auto simp: reply_def res_simps)
      then show ?thesis using unsuccessful_moved [OF assms(1) id] by metis
    qed
  qed
qed


lemma dispatch_cases:
  assumes "dispatch_batch d p env b = Ok (p', ms)"
  obtains m where "ms = [reply_always m (batch_id b)]" and "p' = p"
    | m where "ms = [reply_always m (batch_id b)]" and "p' = snd (current_function_index p (batch_id b))"
    | m c where "ms = [reply_always m (batch_id b)]" and "pc_message_batch c = b"
      and "p' = (snd (current_function_index p (batch_id b)))\<lparr>pending_callbacks :=
        sm_set (batch_id b) c (pending_callbacks p)\<rparr>"
proof (cases "batch_subroutine b")
  case (Atomic cfg)
  with assms that(1) show ?thesis by (auto simp: dispatch_batch_def)
next
  case (NonAtomic sub)
  let ?k = "fst (current_function_index p (batch_id b))"
  from NonAtomic assms obtain f where f: "index_vec (ns_functions sub) ?k = Ok f"
    by (auto simp: dispatch_batch_def case_prod_beta and_then_Ok_iff map_err_Ok_iff)
  show ?thesis
  proof (cases "fn_callback_confirmation f")
    case None
    with NonAtomic assms f show ?thesis
      by (auto simp: dispatch_batch_def case_prod_beta create_message_by_index_def
          and_then_Ok_iff map_err_Ok_iff intro!: that(2))
  next
    case (Some cb)
    with NonAtomic assms f show ?thesis
      by (auto simp: dispatch_batch_def case_prod_beta create_message_by_index_with_execution_id_def
          and_then_Ok_iff map_err_Ok_iff intro!: that(3))
  qed
qed

lemma current_function_index_has:
  "sm_has (non_atomic_batch_current_function_index (snd (current_function_index p i))) j \<longleftrightarrow>
     sm_has (non_atomic_batch_current_function_index p) j \<or> j = i"
  by (auto simp: current_function_index_def sm_has_def split: option.splits)

lemma tick_moved:
  assumes "processor_ok A p" and "process_tick d p env = Ok (p', r)"
  shows "\<exists>C N. moved p p' {#} C N \<and> outcome d A (resp_messages r) C N"
  using assms(2)
proof (cases rule: process_tick_cases)
  case (expired b q)
  let ?p = "set_queue_map (tick_priority p) q p" and ?i = "batch_id b"
  have "resp_messages r = [plain_msg (report_msg d A ?i (Expired (functions_executed p b)))]"
    using expired(5) processor_okD(1,2) [OF assms(1)] by (simp add: callback_on_main)
  then have "outcome d A (resp_messages r) {#?i#} {#?i#}" by (simp add: outcome_report)
  moreover have "moved p p' {#} {#?i#} {#?i#}"
    using queue_ids_pop [OF processor_okD(4) [OF assms(1)] expired(2)] expired(4)
    by (auto simp: moved_def awaits_def)
  ultimately show ?thesis by blast
next
  case (cooldown b q q')
  let ?p = "set_queue_map (tick_priority p) q p"
  note q = qm.pop_sound [OF processor_okD(4) [OF assms(1)] cooldown(2)]
  have "queue_ids p' = queue_ids p"
    using queue_ids_pop [OF processor_okD(4) [OF assms(1)] cooldown(2)] cooldown(6) q
      queue_ids_push [of "tick_priority p" ?p b q'] cooldown(5) by simp
  then have "moved p p' {#} {#} {#}" using cooldown(6) by (auto simp: moved_def awaits_def)
  then show ?thesis using cooldown(7) outcome_none by metis
next
  case (dispatched b q)
  let ?p = "set_queue_map (tick_priority p) q p" and ?i = "batch_id b"
  note ids = queue_ids_pop [OF processor_okD(4) [OF assms(1)] dispatched(2)]
  from dispatched(5) have "moved p p' {#} {#?i#} {#} \<and> (\<exists>m. resp_messages r = [reply_always m ?i])"
    by (cases rule: dispatch_cases)
      (auto simp: moved_def awaits_def ids current_function_index_has)
  then show ?thesis by (intro exI [of _ "{#?i#}"] exI [of _ "{#}"]) (auto simp: outcome_def)
qed

lemma callback_moved:
  assumes "processor_ok A p" and "process_callback d p env info i m = Ok (p', r)"
  shows "awaits p i \<and> (\<exists>C. moved p p' {#i#} C C \<and> outcome d A (resp_messages r) C C)"
proof -
  from assms(2) obtain c k t ms where c: "sm_get (pending_callbacks p) i = Some c"
    and k: "sm_get (non_atomic_batch_current_function_index p) i = Some k"
    and t: "p' = t\<lparr>pending_callbacks := sm_remove i (pending_callbacks t)\<rparr>"
      "resp_messages r = map plain_msg ms"
    and h: "handle_unsuccessful_callback d p i (pc_message_batch c) []
          ''Invalid callback message received'' (config p) (env_block env) (Some k)
          (env_contract_address env) = Ok (t, ms) \<or>
       handle_successful_non_atomic_callback d p k i (pc_message_batch c) []
          (env_contract_address env) = Ok (t, ms)"
    by (auto simp: process_callback_def and_then_Ok_iff map_err_Ok_iff load_Ok_iff ok_or_Ok_iff
        split: if_splits)
  note id = processor_okD(6) [OF assms(1) c]
  from h obtain C where "moved p t {#i#} C C" "outcome d A (map plain_msg ms) C C"
    using unsuccessful_moved [OF assms(1) id] successful_moved [OF assms(1) id] by blast
  moreover from this(1) have "moved p p' {#i#} C C" by (auto simp: moved_def awaits_def t(1))
  ultimately show ?thesis using c k t(2) by (auto simp: awaits_def sm_has_def)
qed

text \<open>The executions a message brings in.\<close>

abbreviation brought_ids :: "processor_execute_msg \<Rightarrow> u64 multiset" where
  "brought_ids msg \<equiv> (case brought_in msg of Some b \<Rightarrow> {#batch_id b#} | None \<Rightarrow> {#})"

lemma module_action_moved:
  assumes "processor_ok A p" and "Processor.execute d p env info (AuthorizationModuleAction act) = Ok (p', r)"
    and fresh: "\<forall>i. i \<in># brought_ids (AuthorizationModuleAction act) \<longrightarrow>
      \<not> sm_has (non_atomic_batch_current_function_index p) i"
  shows "\<exists>C. moved p p' (brought_ids (AuthorizationModuleAction act)) C C \<and>
    outcome d A (resp_messages r) C C"
proof (cases act)
  case (EnqueueMsgs i msgs sub prio t)
  show ?thesis
  proof (cases "batch_expired t env")
    case True
    then show ?thesis
      using assms EnqueueMsgs processor_okD(1,2) [OF assms(1)] outcome_report [of "Expired 0" d A i]
      by (intro exI [of _ "{#i#}"])
        (auto simp: Processor.execute_def enqueue_messages_def callback_on_main moved_def split: if_splits)
  next
    case False
    then show ?thesis
      using assms(2) EnqueueMsgs push_moved(1) [OF processor_okD(4) [OF assms(1)]] outcome_none
      by (intro exI [of _ "{#}"])
        (auto simp: Processor.execute_def enqueue_messages_def Let_def and_then_Ok_iff map_err_Ok_iff
          split: if_splits)
  qed
next
  case (InsertMsgs pos i msgs sub prio t)
  show ?thesis
  proof (cases "batch_expired t env")
    case True
    then show ?thesis
      using assms InsertMsgs processor_okD(1,2) [OF assms(1)] outcome_report [of "Expired 0" d A i]
      by (intro exI [of _ "{#i#}"])
        (auto simp: Processor.execute_def Processor.insert_messages_def callback_on_main moved_def split: if_splits)
  next
    case False
    then show ?thesis
      using assms(2) InsertMsgs queue_ids_insert [OF processor_okD(4) [OF assms(1)]] outcome_none
      by (intro exI [of _ "{#}"])
        (auto simp: Processor.execute_def Processor.insert_messages_def Let_def and_then_Ok_iff
          map_err_Ok_iff moved_def awaits_def split: if_splits)
  qed
next
  case (EvictMsgs pos prio)
  with assms(2) obtain y q where q: "remove_at (get_queue_map prio p) pos = Ok (y, q)"
    by (auto simp: Processor.execute_def Processor.evict_messages_def and_then_Ok_iff map_err_Ok_iff
        split: if_splits)
  from queue_ids_remove [OF processor_okD(4) [OF assms(1)] q] obtain b where
    b: "y = Some b" "queue_ids p = add_mset (batch_id b) (queue_ids (set_queue_map prio q p))" by blast
  show ?thesis
    using assms(2) EvictMsgs q b processor_okD(1,2) [OF assms(1)]
      outcome_report [of RemovedByOwner d A "batch_id b"]
    by (intro exI [of _ "{#batch_id b#}"])
      (auto simp: Processor.execute_def Processor.evict_messages_def Let_def callback_on_main moved_def
        awaits_def split: if_splits)
qed (use assms(2) outcome_none in \<open>auto simp: Processor.execute_def Processor.pause_processor_def
    Processor.resume_processor_def moved_def awaits_def split: if_splits intro!: exI [of _ "{#}"]\<close>)


section \<open>What the processor keeps\<close>

interpretation any_batch: batch_invariant "\<lambda>_. True"
  by unfold_locales simp_all

lemma keyed_simps [simp]:
  "keyed A (set_queue_map prio q p) = keyed A p"
  "keyed A (p\<lparr>non_atomic_batch_current_function_index := n\<rparr>) = keyed A p"
  "keyed A (snd (current_function_index p i)) = keyed A p"
  "keyed A (p\<lparr>config := (config p)\<lparr>processor_state := st\<rparr>\<rparr>) = keyed A p"
  by (auto simp: keyed_def current_function_index_def split: option.split)

lemma keyed_updates:
  "keyed A p \<Longrightarrow> batch_id b = i \<Longrightarrow>
     keyed A (p\<lparr>execution_id_to_batch := sm_set i b (execution_id_to_batch p)\<rparr>)"
  "keyed A p \<Longrightarrow> keyed A (p\<lparr>execution_id_to_batch := sm_remove i (execution_id_to_batch p)\<rparr>)"
  "keyed A p \<Longrightarrow> batch_id (pc_message_batch c) = i \<Longrightarrow>
     keyed A (p\<lparr>pending_callbacks := sm_set i c (pending_callbacks p)\<rparr>)"
  "keyed A p \<Longrightarrow> keyed A (p\<lparr>pending_callbacks := sm_remove i (pending_callbacks p)\<rparr>)"
  by (auto simp: keyed_def split: if_splits)

lemma keyed_finish: "keyed A p \<Longrightarrow> keyed A (fst (finish_execution d p (config p) i res a))"
  by (auto simp: finish_execution_def keyed_def callback_on_main split: if_splits)

lemma keyed_successful:
  assumes "keyed A p" and "handle_successful_non_atomic_callback d p k i b ms a = Ok (p', ms')"
  shows "keyed A p'"
  using assms(2) by (cases rule: successful_cases) (simp_all add: assms(1) keyed_finish)

lemma keyed_unsuccessful:
  assumes "keyed A p" and "handle_unsuccessful_callback d p i b ms e (config p) block index a = Ok (p', ms')"
  shows "keyed A p'"
  using assms(2)
proof (cases rule: unsuccessful_cases)
  case (retry logic)
  from retry(3) show ?thesis
  proof (cases rule: put_back_cases)
    case (1 q)
    then show ?thesis
      using keyed_updates(1) [of A "set_queue_map (batch_priority b) q p" "retried_batch d b logic block"]
        assms(1) by simp
  qed
qed (simp add: assms(1) keyed_finish)

lemma keyed_tick:
  assumes "keyed A p" and "process_tick d p env = Ok (p', r)"
  shows "keyed A p'"
  using assms(2)
proof (cases rule: process_tick_cases)
  case (expired b q)
  then show ?thesis
    using keyed_finish [of A "set_queue_map (tick_priority p) q p"] assms(1) by simp
next
  case (dispatched b q)
  let ?p = "snd (current_function_index (set_queue_map (tick_priority p) q p) (batch_id b))"
  from dispatched(5) show ?thesis
  proof (cases rule: dispatch_cases)
    case (3 m c)
    then show ?thesis using keyed_updates(3) [of A ?p c] assms(1) by simp
  qed (simp_all add: assms(1))
qed (simp add: assms(1))

lemma keyed_callback:
  assumes "keyed A p" and "process_callback d p env info i m = Ok (p', r)"
  shows "keyed A p'"
proof -
  from assms(2) obtain b k t ms where t: "p' = t\<lparr>pending_callbacks := sm_remove i (pending_callbacks t)\<rparr>"
      "handle_unsuccessful_callback d p i b []
          ''Invalid callback message received'' (config p) (env_block env) (Some k)
          (env_contract_address env) = Ok (t, ms) \<or>
       handle_successful_non_atomic_callback d p k i b [] (env_contract_address env) = Ok (t, ms)"
    by (auto simp: process_callback_def and_then_Ok_iff split: if_splits)
  with assms(1) show ?thesis by (auto intro: keyed_updates(4) keyed_successful keyed_unsuccessful)
qed

lemma keyed_store:
  "keyed A p \<Longrightarrow> keyed A ((set_queue_map prio q p)\<lparr>execution_id_to_batch :=
     sm_set i (new_batch i msgs sub prio' t) (execution_id_to_batch p)\<rparr>)"
  using keyed_updates(1) [of A "set_queue_map prio q p" "new_batch i msgs sub prio' t" i] by simp

lemma keyed_evict:
  "keyed A p \<Longrightarrow> keyed A ((set_queue_map prio q p)\<lparr>execution_id_to_batch := sm_remove i (execution_id_to_batch p),
     non_atomic_batch_current_function_index := n, pending_callbacks := sm_remove i (pending_callbacks p)\<rparr>)"
  by (auto simp: keyed_def split: if_splits)

lemma keyedD:
  "keyed A p \<Longrightarrow> processor_domain (config p) = PMain" "keyed A p \<Longrightarrow> pending_polytone_callbacks p = []"
  by (simp_all add: keyed_def)

lemma keyed_execute:
  assumes k: "keyed A p" and "Processor.execute d p env info msg = Ok (p', r)"
  shows "keyed A p'"
proof (cases msg)
  case (AuthorizationModuleAction action)
  with assms(2) keyedD(1) [OF k] keyed_store [OF k] keyed_evict [OF k] k show ?thesis
    by (cases action)
      (auto simp: Processor.execute_def Processor.pause_processor_def Processor.resume_processor_def
        enqueue_messages_def Processor.insert_messages_def Processor.evict_messages_def
        callback_on_main Let_def and_then_Ok_iff split: if_splits option.splits)
next
  case (PermissionlessAction action)
  with assms(2) keyedD [OF k] show ?thesis
    by (cases action)
      (auto simp: Processor.execute_def retry_callback_def Processor.retry_bridge_creation_def
        and_then_Ok_iff ok_or_Ok_iff dest: keyed_tick [OF k])
next
  case (InternalProcessorAction action)
  with assms(2) k show ?thesis
    by (cases action)
      (auto simp: Processor.execute_def execute_atomic_def and_then_Ok_iff split: if_splits
        dest: keyed_callback)
next
  case (PolytoneCallback m)
  with assms(2) keyedD(1) [OF k] show ?thesis
    by (auto simp: Processor.execute_def Processor.process_polytone_callback_def split: if_splits)
qed

lemma keyed_reply: "keyed A p \<Longrightarrow> reply d p env i res = Ok (p', r) \<Longrightarrow> keyed A p'"
  by (auto simp: reply_def and_then_Ok_iff handle_successful_atomic_callback_def callback_on_main
      keyedD(1) split: option.splits sub_msg_result.splits if_splits
      dest: keyed_successful keyed_unsuccessful)

lemma processor_ok_execute:
  "processor_ok A p \<Longrightarrow> Processor.execute d p env info msg = Ok (p', r) \<Longrightarrow> processor_ok A p'"
  unfolding processor_ok_def using keyed_execute any_batch.execute_ok by blast

lemma processor_ok_reply: "processor_ok A p \<Longrightarrow> reply d p env i res = Ok (p', r) \<Longrightarrow> processor_ok A p'"
  unfolding processor_ok_def using keyed_reply any_batch.reply_ok by blast

text \<open>A message of a user: nothing but ticks and callbacks of libraries has an effect.\<close>

lemma user_moved:
  assumes "processor_ok A p" and "Processor.execute d p env info msg = Ok (p', r)"
    and "info_sender info \<noteq> A" and "info_sender info \<noteq> env_contract_address env"
  shows "(\<exists>C N. moved p p' {#} C N \<and> outcome d A (resp_messages r) C N) \<or>
    (\<exists>i b C. msg = InternalProcessorAction (LibraryCallback i b) \<and> awaits p i \<and>
      moved p p' {#i#} C C \<and> outcome d A (resp_messages r) C C)"
proof (cases msg)
  case (AuthorizationModuleAction action)
  with assms(2,3) processor_okD(1,2) [OF assms(1)] show ?thesis
    by (simp add: Processor.execute_def authorized_sender_def)
next
  case (PermissionlessAction action)
  with assms(2) processor_okD(1,3) [OF assms(1)] show ?thesis
    by (cases action)
      (auto simp: Processor.execute_def retry_callback_def Processor.retry_bridge_creation_def
        and_then_Ok_iff ok_or_Ok_iff dest: tick_moved [OF assms(1)])
next
  case (InternalProcessorAction action)
  with assms(2,4) show ?thesis
    by (cases action)
      (auto simp: Processor.execute_def execute_atomic_def dest: callback_moved [OF assms(1)])
next
  case (PolytoneCallback m)
  with assms(2) processor_okD(1) [OF assms(1)] show ?thesis
    by (auto simp: Processor.execute_def Processor.process_polytone_callback_def split: if_splits)
qed

end
