(* ===== verification/Protocol_Invariants.thy ===== *)
theory Protocol_Invariants
  imports Protocol
begin

text \<open>
  What every transaction keeps: which messages the authorization contract sends to the processor and
  when, and that every step of a transaction leaves each running execution in exactly one place.
\<close>

section \<open>What the authorization contract sends\<close>

text \<open>An authorization contract that knows no other domain.\<close>

definition main_only :: "addr \<Rightarrow> 'o auth_contract \<Rightarrow> bool" where
  "main_only P a \<longleftrightarrow>
     external_domains a = [] \<and> processor_on_main_domain a = P \<and>
     (\<forall>i cb. sm_get (processor_callbacks a) i = Some cb \<longrightarrow>
        pci_processor_callback_address cb = P \<and> pci_bridge_callback_address cb = None \<and>
        pci_execution_result cb \<noteq> Timeout True)"

text \<open>
  Messages that bring no execution to the processor: what goes to it is an action of the
  authorization module without a batch.
\<close>

definition quiet_msg :: "deps \<Rightarrow> cosmos_msg \<Rightarrow> bool" where
  "quiet_msg d m =
     (case m of
        WasmExecute c bytes funds \<Rightarrow>
          (\<exists>act. bytes = enc_processor_execute (d_codec d) (AuthorizationModuleAction act) \<and>
            brought_in (AuthorizationModuleAction act) = None)
      | _ \<Rightarrow> True)"

abbreviation quiet :: "deps \<Rightarrow> cosmos_msg list \<Rightarrow> bool" where
  "quiet d \<equiv> list_all (quiet_msg d)"

definition same_domains :: "'o auth_contract \<Rightarrow> 'o auth_contract \<Rightarrow> bool" where
  "same_domains a a' \<longleftrightarrow>
     external_domains a' = external_domains a \<and>
     processor_on_main_domain a' = processor_on_main_domain a"

definition quietly :: "deps \<Rightarrow> 'o auth_contract \<Rightarrow> 'o auth_contract \<Rightarrow> response \<Rightarrow> bool" where
  "quietly d a a' r \<longleftrightarrow>
     same_tracking a a' \<and> same_domains a a' \<and>
     resp_messages r = map plain_msg (sent r) \<and> quiet d (sent r)"

definition starting :: "deps \<Rightarrow> addr \<Rightarrow> 'o auth_contract \<Rightarrow> 'o auth_contract \<Rightarrow> response \<Rightarrow> bool" where
  "starting d P a a' r \<longleftrightarrow>
     (\<exists>a1 label cb act b. same_tracking a a1 \<and> same_domains a a1 \<and> a' = started a1 label cb \<and>
        starts a1 label cb \<and> pci_processor_callback_address cb = P \<and>
        pci_bridge_callback_address cb = None \<and>
        resp_messages r =
          [plain_msg (WasmExecute P (enc_processor_execute (d_codec d) (AuthorizationModuleAction act)) [])] \<and>
        brought_in (AuthorizationModuleAction act) = Some b \<and> batch_id b = next_execution_id a)"

lemma quiet_msg_simps [simp]:
  "quiet_msg d (Stargate u v)" "quiet_msg d (BankSend u cs)"
  "brought_in (AuthorizationModuleAction act) = None \<Longrightarrow>
     quiet_msg d (WasmExecute c (enc_processor_execute (d_codec d) (AuthorizationModuleAction act)) f)"
  by (auto simp: quiet_msg_def)

lemma plain_sent: "resp_messages r = map plain_msg ms \<Longrightarrow> resp_messages r = map plain_msg (sent r)"
  by (simp add: sent_def comp_def)

lemma same_domains_refl [simp]: "same_domains a a"
  by (simp add: same_domains_def)

lemma store_on_main:
  assumes "external_domains s = []"
    and "store_inprocess_callback s t i initiator dest label ttl messages = Ok s'"
  shows "dest = Main" and "s' = s\<lparr>processor_callbacks := sm_set i
    (new_callback t i initiator dest label ttl messages (processor_on_main_domain s) None)
    (processor_callbacks s)\<rparr>"
  using assms
  by (cases dest; auto simp: store_inprocess_callback_def new_callback_def and_then_Ok_iff load_Ok_iff)+

text \<open>Storing a new execution and sending it, as the three handlers that start one do.\<close>

lemma starting_intro:
  assumes "external_domains a = []" and "processor_on_main_domain a = P"
    and "same_tracking a a1" and "same_domains a a1"
    and "increase_current_executions a1 label = Ok a2"
    and "store_inprocess_callback (snd (get_and_increase_execution_id a2)) t (next_execution_id a2)
      initiator dest label ttl messages = Ok a'"
    and "resp_messages r = [plain_msg (WasmExecute P (enc_processor_execute (d_codec d)
      (AuthorizationModuleAction act)) [])]"
    and "map_option batch_id (brought_in (AuthorizationModuleAction act)) = Some (next_execution_id a2)"
  shows "starting d P a a' r"
proof -
  note a2 = increase_cases(1) [OF assms(5)]
  let ?cb = "new_callback t (next_execution_id a1) initiator dest label ttl messages P None"
  have "external_domains (snd (get_and_increase_execution_id a2)) = []"
    using assms(1,4) by (simp add: a2 same_domains_def)
  from store_on_main(2) [OF this assms(6)] have "a' = started a1 label ?cb"
    using assms(2,4) by (simp add: a2 started_def same_domains_def)
  moreover have "starts a1 label ?cb" by (simp add: starts_def)
  ultimately show ?thesis
    unfolding starting_def using assms(3,4,7,8)
    by (intro exI [of _ a1] exI [of _ label] exI [of _ ?cb] exI [of _ act])
      (auto simp: a2 same_tracking_def)
qed

lemma on_main_msgs:
  assumes "external_domains a = []" and "processor_on_main_domain a = P"
  shows "create_msg_for_processor d a bytes dest req = Ok m \<longleftrightarrow> dest = Main \<and> m = WasmExecute P bytes []"
    and "execute_msg_binary d a dest msg enc = Ok bytes \<longleftrightarrow>
      dest = Main \<and> bytes = enc_processor_execute (d_codec d) (AuthorizationModuleAction msg)"
  using assms
  by (cases dest; auto simp: create_msg_for_processor_def create_msg_for_main_domain_def
      execute_msg_binary_def and_then_Ok_iff load_Ok_iff)+

lemma send_msgs_starting:
  assumes "external_domains a = []" and "processor_on_main_domain a = P"
    and "send_msgs d a env info label ttl messages = Ok (a', r)"
  shows "starting d P a a' r"
proof -
  from assms(3) obtain au a2 dest bytes msg where
    inc: "increase_current_executions a label = Ok a2"
    and st: "store_inprocess_callback (snd (get_and_increase_execution_id a2)) (block_seconds (env_block env))
        (next_execution_id a2) (User (info_sender info)) dest label ttl messages = Ok a'"
    and msg: "execute_msg_binary d a2 dest
        (EnqueueMsgs (next_execution_id a2) messages (auth_subroutine au) (auth_priority au)
          (batch_expiration (auth_subroutine au) env))
        (map_ok (EncSendMsgs (next_execution_id a2) (auth_priority au) (auth_subroutine au)
          (batch_expiration (auth_subroutine au) env)) (convert_into_encoder_messages messages au)) = Ok bytes"
      "create_msg_for_processor d a2 bytes dest
        (Some (execution_callback_request d env (next_execution_id a2))) = Ok msg"
      "resp_messages r = [plain_msg msg]"
    by (auto simp: send_msgs_def Let_def case_prod_beta and_then_Ok_iff ok_or_Ok_iff map_err_Ok_iff
        split: if_splits)
  have "external_domains a2 = []" "processor_on_main_domain a2 = P"
    using increase_cases(1) [OF inc] assms(1,2) by simp_all
  note m = on_main_msgs [OF this]
  show ?thesis
    by (rule starting_intro [OF assms(1,2) _ _ inc st])
      (use msg m in \<open>auto simp: same_tracking_def\<close>)
qed

lemma insert_messages_starting:
  assumes "external_domains a = []" and "processor_on_main_domain a = P"
    and "Authorization.insert_messages d a env label pos prio messages = Ok (a', r)"
  shows "starting d P a a' r"
proof -
  from assms(3) obtain au a2 dest bytes msg where
    inc: "increase_current_executions a label = Ok a2"
    and st: "store_inprocess_callback (snd (get_and_increase_execution_id a2)) (block_seconds (env_block env))
        (next_execution_id a2) Owner dest label None messages = Ok a'"
    and msg: "execute_msg_binary d a2 dest
        (InsertMsgs pos (next_execution_id a2) messages (auth_subroutine au) prio
          (batch_expiration (auth_subroutine au) env))
        (map_ok (EncInsertMsgs (next_execution_id a2) pos prio (auth_subroutine au)
          (batch_expiration (auth_subroutine au) env)) (convert_into_encoder_messages messages au)) = Ok bytes"
      "create_msg_for_processor d a2 bytes dest
        (Some (execution_callback_request d env (next_execution_id a2))) = Ok msg"
      "resp_messages r = [plain_msg msg]"
    by (auto simp: Authorization.insert_messages_def Let_def case_prod_beta and_then_Ok_iff ok_or_Ok_iff
        map_err_Ok_iff)
  have "external_domains a2 = []" "processor_on_main_domain a2 = P"
    using increase_cases(1) [OF inc] assms(1,2) by simp_all
  note m = on_main_msgs [OF this]
  show ?thesis
    by (rule starting_intro [OF assms(1,2) _ _ inc st])
      (use msg m in \<open>auto simp: same_tracking_def\<close>)
qed


lemma queued_msgs_brought:
  "queued_msgs act = Some msgs \<Longrightarrow>
     map_option batch_id (brought_in (AuthorizationModuleAction (assign_execution_id act i))) = Some i"
  "queued_msgs act = None \<Longrightarrow> brought_in (AuthorizationModuleAction act) = None"
  by (cases act; simp add: assign_execution_id_def)+

lemma execute_zk_main:
  assumes "external_domains a = []" and "processor_on_main_domain a = P"
    and "execute_zk_authorization d a env info label inputs zkp payload = Ok (a', r)"
  shows "quietly d a a' r \<or> starting d P a a' r"
proof -
  from assms(3) obtain z m a1 processor_msg req msg where
    a1: "check_last_block a z m = Ok a1"
    and st: "(case queued_msgs (zm_message m) of
         Some msgs \<Rightarrow>
           and_then (astd (increase_current_executions a1 label)) (\<lambda>s2.
           let (i, s3) = get_and_increase_execution_id s2
           in and_then (astd (store_inprocess_callback s3 (block_seconds (env_block env)) i
                   (User (info_sender info)) (zm_domain m) label None msgs)) (\<lambda>s4.
                Ok (s4, assign_execution_id (zm_message m) i,
                    Some (execution_callback_request d env i))))
       | None \<Rightarrow> Ok (a1, zm_message m, None)) = Ok (a', processor_msg, req)"
    and msg: "create_msg_for_processor d a'
         (enc_processor_execute (d_codec d) (AuthorizationModuleAction processor_msg))
         (zm_domain m) req = Ok msg" "resp_messages r = [plain_msg msg]"
    by (auto simp: execute_zk_authorization_def and_then_Ok_iff map_err_Ok_iff ok_or_Ok_iff)
  have same: "same_tracking a a1" "same_domains a a1"
    using check_last_block_cases [OF a1] by (auto simp: same_tracking_def same_domains_def)
  show ?thesis
  proof (cases "queued_msgs (zm_message m)")
    case None
    with st have a': "a' = a1" "processor_msg = zm_message m" by simp_all
    have "external_domains a1 = []" "processor_on_main_domain a1 = P"
      using same(2) assms(1,2) by (simp_all add: same_domains_def)
    with msg a' have "resp_messages r = [plain_msg (WasmExecute P
        (enc_processor_execute (d_codec d) (AuthorizationModuleAction (zm_message m))) [])]"
      by (simp add: on_main_msgs(1))
    then show ?thesis
      using same a'(1) queued_msgs_brought(2) [OF None] by (simp add: quietly_def sent_def)
  next
    case (Some msgs)
    with st obtain a2 where
      inc: "increase_current_executions a1 label = Ok a2"
      and sto: "store_inprocess_callback (snd (get_and_increase_execution_id a2))
        (block_seconds (env_block env)) (next_execution_id a2) (User (info_sender info)) (zm_domain m)
        label None msgs = Ok a'"
      and pm: "processor_msg = assign_execution_id (zm_message m) (next_execution_id a2)"
      by (auto simp: and_then_Ok_iff map_err_Ok_iff Let_def case_prod_beta)
    have ext: "external_domains (snd (get_and_increase_execution_id a2)) = []"
      using increase_cases(1) [OF inc] same(2) assms(1) by (simp add: same_domains_def)
    have "external_domains a' = []" "processor_on_main_domain a' = P"
      using store_on_main(2) [OF ext sto] increase_cases(1) [OF inc] same(2) assms(1,2)
      by (simp_all add: same_domains_def)
    with msg pm have r: "resp_messages r = [plain_msg (WasmExecute P (enc_processor_execute (d_codec d)
        (AuthorizationModuleAction (assign_execution_id (zm_message m) (next_execution_id a2)))) [])]"
      by (simp add: on_main_msgs(1))
    have "starting d P a a' r"
      by (rule starting_intro [OF assms(1,2) same inc sto r queued_msgs_brought(1) [OF Some]])
    then show ?thesis ..
  qed
qed

text \<open>Every message of a user.\<close>

lemma list_all2_quiet:
  "list_all2 R xs ms \<Longrightarrow> (\<And>x y. R x y \<Longrightarrow> quiet_msg d y) \<Longrightarrow> quiet d ms"
  by (induction rule: list_all2_induct) auto

lemma tokenfactory_quiet:
  assumes "tokenfactory_msgs d env label mode = Ok ms"
  shows "quiet d ms"
proof (cases mode)
  case (Permissioned pt)
  with assms show ?thesis
    by (cases pt)
      (auto simp: tokenfactory_msgs_def Let_def and_then_Ok_iff try_map_Ok_iff create_denom_msg_def
        mint_msg_def elim!: list_all2_quiet)
qed (use assms in \<open>simp add: tokenfactory_msgs_def Let_def\<close>)

definition still :: "deps \<Rightarrow> 'o auth_contract \<Rightarrow> 'o auth_contract \<times> cosmos_msg list \<Rightarrow> bool" where
  "still d a q \<longleftrightarrow> same_tracking a (fst q) \<and> same_domains a (fst q) \<and> quiet d (snd q)"

lemma create_still:
  "create_authorization d env q info = Ok q' \<Longrightarrow> still d a q \<Longrightarrow> still d a q'"
  "create_zk_authorization d env q zinfo = Ok q' \<Longrightarrow> still d a q \<Longrightarrow> still d a q'"
  by (auto simp: still_def create_authorization_def create_zk_authorization_def case_prod_beta
      and_then_Ok_iff map_err_Ok_iff same_tracking_def same_domains_def split: if_splits
      dest!: tokenfactory_quiet)

lemma fold_still:
  assumes "try_fold f (a, []) infos = Ok (a', ms)"
    and "\<And>q x q'. f q x = Ok q' \<Longrightarrow> still d a q \<Longrightarrow> still d a q'"
  shows "still d a (a', ms)"
  by (rule try_fold_invariant [OF assms(1)]) (use assms(2) in \<open>auto simp: still_def\<close>)

lemma fold_create_still:
  "try_fold (create_authorization d env) (a, []) infos = Ok (a', ms) \<Longrightarrow> still d a (a', ms)"
  "try_fold (create_zk_authorization d env) (a, []) zinfos = Ok (a', ms) \<Longrightarrow> still d a (a', ms)"
  using fold_still create_still by blast+

lemma still_quietly:
  "still d a (a', ms) \<Longrightarrow> resp_messages r = map plain_msg ms \<Longrightarrow> quietly d a a' r"
  by (simp add: still_def quietly_def sent_def comp_def)

lemma create_quietly:
  "create_authorizations d a env infos = Ok (a', r) \<Longrightarrow> quietly d a a' r"
  "create_zk_authorizations d a env zinfos = Ok (a', r) \<Longrightarrow> quietly d a a' r"
  by (auto simp: create_authorizations_def create_zk_authorizations_def and_then_Ok_iff
      dest!: fold_create_still elim!: still_quietly)

lemma mint_quietly: "mint_authorizations d a env label mints = Ok (a', r) \<Longrightarrow> quietly d a a' r"
  by (cases "get_authorization_mode a label")
    (auto simp: mint_authorizations_def quietly_def mint_msg_def comp_def list_all_iff
      split: authorization_mode.splits)

lemma modify_quietly:
  "modify_authorization d a label nb ex mc prio = Ok (a', r) \<Longrightarrow> quietly d a a' r"
  "modify_zk_authorization a label v = Ok (a', r) \<Longrightarrow> quietly d a a' r"
  "update_zk_authorization_route a label route = Ok (a', r) \<Longrightarrow> quietly d a a' r"
  "set_verification_router d a address = Ok (a', r) \<Longrightarrow> quietly d a a' r"
  by (auto simp: modify_authorization_def modify_zk_authorization_def
      update_zk_authorization_route_def set_verification_router_def Let_def and_then_Ok_iff
      quietly_def same_tracking_def same_domains_def)

lemma set_state_quietly:
  "disable_authorization a label = Ok (a', r) \<Longrightarrow> quietly d a a' r"
  "enable_authorization a label = Ok (a', r) \<Longrightarrow> quietly d a a' r"
  by (auto simp: disable_authorization_def enable_authorization_def set_authorization_state_def
      and_then_Ok_iff quietly_def same_tracking_def same_domains_def split: option.splits)

lemma control_quietly:
  assumes "external_domains a = []"
  shows "Authorization.pause_processor d a dest = Ok (a', r) \<Longrightarrow> quietly d a a' r"
    and "Authorization.resume_processor d a dest = Ok (a', r) \<Longrightarrow> quietly d a a' r"
    and "Authorization.evict_messages d a dest pos prio = Ok (a', r) \<Longrightarrow> quietly d a a' r"
  by (auto simp: Authorization.pause_processor_def Authorization.resume_processor_def
      Authorization.evict_messages_def on_main_msgs [OF assms refl] and_then_Ok_iff map_err_Ok_iff
      quietly_def)

lemma permissioned_main:
  assumes "main_only P a" and "\<forall>infos. m \<noteq> AddExternalDomains infos"
    and "permissioned_action d a env m = Ok (a', r)"
  shows "quietly d a a' r \<or> starting d P a a' r"
proof -
  have a: "external_domains a = []" "processor_on_main_domain a = P"
    using assms(1) by (simp_all add: main_only_def)
  show ?thesis
    using assms(2,3)
    by (cases m)
      (auto simp: permissioned_action_def dest: create_quietly mint_quietly modify_quietly
        set_state_quietly control_quietly [OF a(1)] insert_messages_starting [OF a])
qed

lemma permissionless_main:
  assumes "main_only P a" and "permissionless_action d a env info m = Ok (a', r)"
  shows "quietly d a a' r \<or> starting d P a a' r"
proof -
  have a: "external_domains a = []" "processor_on_main_domain a = P"
    using assms(1) by (simp_all add: main_only_def)
  show ?thesis
  proof (cases m)
    case (RetryMsgs i)
    with assms(2) have "retry_msgs d a env i = Ok (a', r)" by (simp add: permissionless_action_def)
    then show ?thesis
      by (cases rule: retry_msgs_cases) (use assms(1) in \<open>auto simp: main_only_def\<close>)
  next
    case (AuthRetryBridgeCreation n)
    with assms(2) a(1) show ?thesis
      by (simp add: permissionless_action_def Authorization.retry_bridge_creation_def load_def)
  qed (use assms(2) in \<open>auto simp: permissionless_action_def dest: send_msgs_starting [OF a]
      execute_zk_main [OF a]\<close>)
qed

lemma update_ownership_quietly:
  assumes "Authorization.update_ownership ow a env info action = Ok (a', r)"
  shows "quietly d a a' r"
  using assms
  by (cases action; cases "first_ownership a")
    (auto simp: Authorization.update_ownership_def and_then_Ok_iff quietly_def same_tracking_def
      same_domains_def sent_def response_new_def)

lemma user_message_main:
  assumes main: "main_only P a" and "info_sender info \<noteq> P"
    and "\<forall>infos. msg \<noteq> PermissionedAction (AddExternalDomains infos)"
    and "Authorization.execute ow d a env info msg = Ok (a', r)"
  shows "quietly d a a' r \<or> starting d P a a' r"
proof (cases msg)
  case (UpdateOwnership action)
  with assms(4) update_ownership_quietly [of ow a env info action] show ?thesis
    by (auto simp: Authorization.execute_def)
next
  case (OwnerAction m)
  with assms(4) show ?thesis
    by (cases m) (auto simp: Authorization.execute_def add_sub_owner_def remove_sub_owner_def
        and_then_Ok_iff quietly_def same_tracking_def same_domains_def)
next
  case (PermissionedAction m)
  with assms(4) have "permissioned_action d a env m = Ok (a', r)"
    by (auto simp: Authorization.execute_def and_then_Ok_iff)
  with PermissionedAction assms(3) show ?thesis by (intro permissioned_main [OF main]) auto
next
  case (AuthPermissionlessAction m)
  with assms(4) have "permissionless_action d a env info m = Ok (a', r)"
    by (simp add: Authorization.execute_def)
  then show ?thesis by (rule permissionless_main [OF main])
next
  case (InternalAuthorizationAction m)
  with assms(2,4) main show ?thesis
    by (cases m) (auto simp: Authorization.execute_def main_only_def elim!: processor_callback_cases)
next
  case (AuthPolytoneCallback m)
  with assms(4) have "Authorization.process_polytone_callback d a env info m = Ok (a', r)"
    by (simp add: Authorization.execute_def)
  then show ?thesis
  proof (cases rule: polytone_callback_auth_cases)
    case (execution i)
    from execution(3) have "process_bridge_result d a env info i (cm_result m) \<noteq> Ok (a', sent r)"
      using main by (auto simp: process_bridge_result_def main_only_def and_then_Ok_iff map_err_Ok_iff
          load_Ok_iff split: if_splits)
    with execution(3) show ?thesis by simp
  next
    case (creation n)
    then show ?thesis using main by (simp add: process_proxy_result_def main_only_def load_def)
  qed
next
  case (HyperlaneCallback m)
  with assms(4) main show ?thesis
    by (simp add: Authorization.execute_def process_hyperlane_callback_def main_only_def sm_values_def)
qed


section \<open>The invariant\<close>

text \<open>The messages that occur in a transaction.\<close>

definition item_ok :: "deps \<Rightarrow> addr \<Rightarrow> addr \<Rightarrow> addr \<times> sub_msg \<Rightarrow> bool" where
  "item_ok d A P x \<longleftrightarrow>
     readable d A P x \<and>
     ((\<exists>m i. x = (P, reply_always m i)) \<or>
      (\<exists>i res. x = (P, plain_msg (report_msg d A i res)) \<and> final_result res) \<or>
      (\<exists>w. x = (A, plain_msg w) \<and>
         (\<forall>c bytes f. w = WasmExecute c bytes f \<longrightarrow>
            (\<exists>act. bytes = enc_processor_execute (d_codec d) (AuthorizationModuleAction act)))))"

text \<open>A callback is stored only for an execution the authorization contract has stored.\<close>

definition known_pending :: "'o auth_contract \<Rightarrow> processor \<Rightarrow> bool" where
  "known_pending a p \<longleftrightarrow>
     (\<forall>i. sm_has (pending_callbacks p) i \<longrightarrow> sm_has (processor_callbacks a) i)"

lemma known_pending_moved:
  assumes "known_pending a p" and "placed (in_process a) p (C + R) N" and "moved p p' C C' N'"
  shows "known_pending a p'"
  unfolding known_pending_def
proof (intro allI impI)
  fix i assume "sm_has (pending_callbacks p') i"
  with assms(3) have "sm_has (pending_callbacks p) i \<or> i \<in># queue_ids p + C" by (simp add: moved_def)
  moreover have "in_process a i" if "i \<in># queue_ids p + C" using that assms(2) by (auto simp: placed_def)
  ultimately show "sm_has (processor_callbacks a) i"
    using assms(1) by (auto simp: known_pending_def in_process_def sm_has_def split: option.splits)
qed

definition chain_inv :: "deps \<Rightarrow> addr \<Rightarrow> addr \<Rightarrow> 'o chain \<Rightarrow> bool" where
  "chain_inv d A P = (\<lambda>(a, p, st).
     accounted a \<and> main_only P a \<and> processor_ok A p \<and> known_pending a p \<and>
     list_all (item_ok d A P) st \<and>
     placed (in_process a) p (carried d A P st) (exchanged d A P st))"

abbreviation execution_ids :: "u64 option \<Rightarrow> u64 multiset" where
  "execution_ids e \<equiv> (case e of Some i \<Rightarrow> {#i#} | None \<Rightarrow> {#})"

lemma carried_simps [simp]:
  "carried d A P [] = {#}"
  "carried d A P (x # st) = execution_ids (message_execution d A P x) + carried d A P st"
  "carried d A P (st @ st') = carried d A P st + carried d A P st'"
  by (simp_all add: carried_def List.map_filter_def split: option.split)

lemma exchanged_simps [simp]:
  "exchanged d A P [] = {#}"
  "exchanged d A P (x # st) =
     (if sub_reply_on (snd x) = ReplyNever then execution_ids (message_execution d A P x) else {#}) +
     exchanged d A P st"
  "exchanged d A P (st @ st') = exchanged d A P st + exchanged d A P st'"
  by (simp_all add: exchanged_def case_prod_beta)

lemma exchanged_carried: "exchanged d A P st \<subseteq># carried d A P st"
  by (induction st) (auto split: option.split intro: mset_subset_eq_add_right subset_mset.order_trans)

lemma read_report:
  assumes "codec_sound d" and "readable d A P (s, plain_msg (report_msg d A i res))"
  shows "dec_authorization_execute (d_codec d) (enc_authorization_execute (d_codec d)
    (InternalAuthorizationAction (ProcessorCallback i res))) =
    Ok (InternalAuthorizationAction (ProcessorCallback i res))"
  using assms by (auto simp: readable_def report_msg_def codec_sound_def is_ok_iff)

lemma report_execution:
  assumes "codec_sound d" and "readable d A P (P, plain_msg (report_msg d A i res))"
  shows "message_execution d A P (P, plain_msg (report_msg d A i res)) = Some i"
  using read_report [OF assms] by (simp add: message_execution_def report_msg_def)

lemma dispatch_execution [simp]: "message_execution d A P (P, reply_always m i) = Some i"
  by (simp add: message_execution_def)

lemma outcome_items:
  assumes "codec_sound d" and "outcome d A ms C N" and "list_all (readable d A P) (map (Pair P) ms)"
  shows "list_all (item_ok d A P) (map (Pair P) ms)" and "carried d A P (map (Pair P) ms) = C"
    and "exchanged d A P (map (Pair P) ms) = N"
  using assms by (auto simp: outcome_def item_ok_def report_execution intro!: exI)

lemma module_execution:
  assumes "codec_sound d" and "A \<noteq> P"
    and "readable d A P (A, plain_msg (WasmExecute P (enc_processor_execute (d_codec d) msg) f))"
  shows "dec_processor_execute (d_codec d) (enc_processor_execute (d_codec d) msg) = Ok msg"
    and "message_execution d A P (A, plain_msg (WasmExecute P (enc_processor_execute (d_codec d) msg) f)) =
      map_option batch_id (brought_in msg)"
proof -
  show "dec_processor_execute (d_codec d) (enc_processor_execute (d_codec d) msg) = Ok msg"
    using assms by (auto simp: readable_def codec_sound_def is_ok_iff)
  then show "message_execution d A P (A, plain_msg (WasmExecute P (enc_processor_execute (d_codec d) msg) f)) =
      map_option batch_id (brought_in msg)"
    using assms(2) by (simp add: message_execution_def)
qed

lemma quiet_execution:
  assumes "codec_sound d" and "A \<noteq> P" and "readable d A P (A, plain_msg w)" and "quiet_msg d w"
  shows "message_execution d A P (A, plain_msg w) = None"
proof (cases "\<exists>bytes f. w = WasmExecute P bytes f")
  case True
  with assms(4) obtain act f where
    "w = WasmExecute P (enc_processor_execute (d_codec d) (AuthorizationModuleAction act)) f"
    "brought_in (AuthorizationModuleAction act) = None"
    by (auto simp: quiet_msg_def)
  with module_execution(2) [OF assms(1,2)] assms(3) show ?thesis by simp
next
  case False
  with assms(2) show ?thesis by (auto simp: message_execution_def split: cosmos_msg.split)
qed

lemma quiet_item: "readable d A P (A, plain_msg w) \<Longrightarrow> quiet_msg d w \<Longrightarrow> item_ok d A P (A, plain_msg w)"
  unfolding item_ok_def by (intro conjI disjI2 exI [of _ w]) (auto simp: quiet_msg_def)

lemma quiet_items:
  assumes "codec_sound d" and "A \<noteq> P" and "quiet d ms"
    and "list_all (readable d A P) (map (Pair A \<circ> plain_msg) ms)"
  shows "list_all (item_ok d A P) (map (Pair A \<circ> plain_msg) ms) \<and>
    carried d A P (map (Pair A \<circ> plain_msg) ms) = {#} \<and> exchanged d A P (map (Pair A \<circ> plain_msg) ms) = {#}"
  using assms(3,4)
proof (induction ms)
  case (Cons w ms)
  then have "message_execution d A P (A, plain_msg w) = None"
    by (intro quiet_execution [OF assms(1,2)]) auto
  moreover have "item_ok d A P (A, plain_msg w)" using Cons.prems by (simp add: quiet_item)
  ultimately show ?case using Cons by simp
qed simp

text \<open>An execution that starts, ends, or is answered by its library.\<close>

lemma placed_start:
  "placed L p {#} {#} \<Longrightarrow> \<not> L n \<Longrightarrow> placed (\<lambda>j. L j \<or> j = n) p {#n#} {#n#}"
  by (fastforce simp: placed_def count_eq_zero_iff)

lemma placed_end:
  assumes "placed L p (add_mset i C) (add_mset i N)"
  shows "L i" and "placed (\<lambda>j. L j \<and> j \<noteq> i) p C N"
proof -
  from assms show "L i" by (simp add: placed_def)
  from assms have cnt: "count (queue_ids p + C + {#i#}) j \<le> 1" for j
    by (simp add: placed_def)
  have "i \<notin># queue_ids p + C"
    using cnt [of i] by (simp add: not_in_iff)
  moreover have "\<not> awaits p i" using assms by (auto simp: placed_def awaits_def)
  moreover have "count (queue_ids p + C) j \<le> 1" for j
    by (rule le_trans [OF _ cnt [of j]]) simp
  ultimately show "placed (\<lambda>j. L j \<and> j \<noteq> i) p C N" using assms by (auto simp: placed_def)
qed

lemma placed_wait:
  assumes "placed L p (add_mset i C) N" and "awaits p i"
  shows "placed L p C N"
proof -
  from assms(1) have cnt: "count (queue_ids p + C + {#i#}) j \<le> 1" for j by (simp add: placed_def)
  have "count (queue_ids p + C) j \<le> 1" for j
    by (rule le_trans [OF _ cnt [of j]]) simp
  then show ?thesis using assms by (auto simp: placed_def)
qed

lemma placed_answer:
  "placed L p {#} {#} \<Longrightarrow> awaits p i \<Longrightarrow> i \<notin># queue_ids p \<Longrightarrow> placed L p {#i#} {#}"
  by (auto simp: placed_def not_in_iff)


section \<open>Every step keeps the invariant\<close>

lemma in_process_same: "same_tracking a a' \<Longrightarrow> in_process a' = in_process a"
  by (simp add: fun_eq_iff in_process_def same_tracking_def)

lemma main_only_same:
  "main_only P a \<Longrightarrow> same_tracking a a' \<Longrightarrow> same_domains a a' \<Longrightarrow> main_only P a'"
  by (simp add: main_only_def same_tracking_def same_domains_def)

lemma inv_user_to_authorization:
  assumes inv: "chain_inv d A P (a, p, [])" and sound: "codec_sound d" and ne: "A \<noteq> P"
    and "info_sender info \<noteq> P" and "next_execution_id a < 2 ^ 64 - 1"
    and "\<forall>infos. msg \<noteq> PermissionedAction (AddExternalDomains infos)"
    and "Authorization.execute ow d a env info msg = Ok (a', r)"
    and rd: "list_all (readable d A P) (map (Pair A) (resp_messages r))"
  shows "chain_inv d A P (a', p, map (Pair A) (resp_messages r))"
proof -
  have main: "main_only P a" and acc: "accounted a" and pok: "processor_ok A p"
    and kp: "known_pending a p" and pl: "placed (in_process a) p {#} {#}"
    using inv by (simp_all add: chain_inv_def)
  from user_message_main [OF main assms(4,6,7)] show ?thesis
  proof
    assume q: "quietly d a a' r"
    then have ms: "map (Pair A) (resp_messages r) = map (Pair A \<circ> plain_msg) (sent r)"
      by (simp add: quietly_def)
    have items: "list_all (item_ok d A P) (map (Pair A) (resp_messages r)) \<and>
        carried d A P (map (Pair A) (resp_messages r)) = {#} \<and>
        exchanged d A P (map (Pair A) (resp_messages r)) = {#}"
      using quiet_items [OF sound ne, of "sent r"] q rd unfolding ms by (simp add: quietly_def)
    have st: "same_tracking a a'" "same_domains a a'" using q by (simp_all add: quietly_def)
    show ?thesis
      using items pl pok kp st(1) accounted_same [OF st(1) acc] main_only_same [OF main st]
        in_process_same [OF st(1)]
      by (simp add: chain_inv_def known_pending_def same_tracking_def)
  next
    assume "starting d P a a' r"
    then obtain a1 label cb act b where
      st: "same_tracking a a1" "same_domains a a1" "a' = started a1 label cb" "starts a1 label cb"
        "pci_processor_callback_address cb = P" "pci_bridge_callback_address cb = None"
      and r: "resp_messages r = [plain_msg (WasmExecute P
        (enc_processor_execute (d_codec d) (AuthorizationModuleAction act)) [])]"
      and b: "brought_in (AuthorizationModuleAction act) = Some b" "batch_id b = next_execution_id a"
      unfolding starting_def by blast
    let ?n = "next_execution_id a" and ?st = "map (Pair A) (resp_messages r)"
    have n: "next_execution_id a1 = ?n" "processor_callbacks a1 = processor_callbacks a"
      using st(1) by (simp_all add: same_tracking_def)
    have ex: "message_execution d A P (A, plain_msg (WasmExecute P
        (enc_processor_execute (d_codec d) (AuthorizationModuleAction act)) [])) = Some ?n"
      using module_execution(2) [OF sound ne] rd b unfolding r by simp
    have fresh: "sm_get (processor_callbacks a) ?n = None" by (rule accounted_fresh [OF acc])
    have ip: "in_process a' = (\<lambda>j. in_process a j \<or> j = ?n)"
      using st(4) fresh n
      by (auto simp: fun_eq_iff in_process_def st(3) started_def starts_def)
    have "item_ok d A P (A, plain_msg (WasmExecute P
        (enc_processor_execute (d_codec d) (AuthorizationModuleAction act)) []))"
      using rd unfolding r item_ok_def by (intro conjI disjI2 exI) auto
    moreover have "accounted a'"
      using accounted_started [OF accounted_same [OF st(1) acc] st(4)] assms(5) n(1) st(3) by simp
    moreover have "main_only P a'"
      using main st n by (auto simp: main_only_def started_def same_domains_def starts_def)
    moreover have "placed (in_process a') p {#?n#} {#?n#}"
      unfolding ip by (rule placed_start [OF pl]) (simp add: in_process_def fresh)
    moreover have "known_pending a' p"
      using kp n by (simp add: known_pending_def st(3) started_def)
    ultimately show ?thesis using pok ex by (simp add: chain_inv_def r)
  qed
qed

lemma inv_user_to_processor:
  assumes inv: "chain_inv d A P (a, p, [])" and sound: "codec_sound d"
    and "info_sender info \<notin> {A, P}" and "env_contract_address env = P"
    and guard: "\<forall>i b. msg = InternalProcessorAction (LibraryCallback i b) \<longrightarrow>
      (\<forall>prio. i \<notin> batch_id ` set (queued prio p))"
    and ex: "Processor.execute d p env info msg = Ok (p', r)"
    and rd: "list_all (readable d A P) (map (Pair P) (resp_messages r))"
  shows "chain_inv d A P (a, p', map (Pair P) (resp_messages r))"
proof -
  have pok: "processor_ok A p" and kp: "known_pending a p" and pl: "placed (in_process a) p {#} {#}"
    using inv by (simp_all add: chain_inv_def)
  have "info_sender info \<noteq> A" "info_sender info \<noteq> env_contract_address env" using assms(3,4) by auto
  from user_moved [OF pok ex this]
  have "\<exists>C N. placed (in_process a) p' C N \<and> known_pending a p' \<and> outcome d A (resp_messages r) C N"
  proof (elim disjE exE conjE)
    fix C N assume "moved p p' {#} C N" and "outcome d A (resp_messages r) C N"
    then show ?thesis
      using placed_moved [of _ p "{#}" "{#}" "{#}" p' C N "{#}"] pl
        known_pending_moved [OF kp, of "{#}" "{#}" "{#}" p' C N] by auto
  next
    fix i b C
    assume m: "msg = InternalProcessorAction (LibraryCallback i b)" and "awaits p i"
      and mv: "moved p p' {#i#} C C" and "outcome d A (resp_messages r) C C"
    moreover have "i \<notin># queue_ids p" using guard m by (auto simp: queue_ids_def)
    ultimately have "placed (in_process a) p {#i#} {#}" by (intro placed_answer [OF pl])
    with mv have "placed (in_process a) p' C C" "known_pending a p'"
      using placed_moved [of _ p "{#i#}" "{#}" "{#}" p' C C "{#}"]
        known_pending_moved [OF kp, of "{#i#}" "{#}" "{#}" p' C C] by simp_all
    then show ?thesis using \<open>outcome d A (resp_messages r) C C\<close> by blast
  qed
  then obtain C N where "placed (in_process a) p' C N" "known_pending a p'"
    "outcome d A (resp_messages r) C N" by blast
  then show ?thesis
    using inv processor_ok_execute [OF pok ex] outcome_items [OF sound _ rd] by (auto simp: chain_inv_def)
qed

lemma inv_to_processor:
  assumes inv: "chain_inv d A P (a, p, (A, m) # rest)" and sound: "codec_sound d" and ne: "A \<noteq> P"
    and m: "sub_msg m = WasmExecute P bytes funds"
    and dec: "dec_processor_execute (d_codec d) bytes = Ok msg"
    and ex: "Processor.execute d p env \<lparr>info_sender = A, info_funds = funds\<rparr> msg = Ok (p', r)"
    and rd: "list_all (readable d A P) (map (Pair P) (resp_messages r))"
  shows "chain_inv d A P (a, p', map (Pair P) (resp_messages r) @ rest)"
proof -
  have pok: "processor_ok A p" using inv by (simp add: chain_inv_def)
  have item: "item_ok d A P (A, m)" using inv by (simp add: chain_inv_def)
  with m ne obtain act where act: "m = plain_msg (WasmExecute P
      (enc_processor_execute (d_codec d) (AuthorizationModuleAction act)) funds)"
    by (auto simp: item_ok_def)
  then have never: "sub_reply_on m = ReplyNever" by simp
  have "readable d A P (A, m)" using item by (simp add: item_ok_def)
  note mod = module_execution [OF sound ne this [unfolded act]]
  have msg: "msg = AuthorizationModuleAction act" using dec m mod(1) act by simp
  let ?B = "brought_ids msg" and ?R = "carried d A P rest"
  have ids: "execution_ids (message_execution d A P (A, m)) = ?B"
    using mod(2) by (simp add: act msg split: option.split)
  have pl: "placed (in_process a) p (?B + ?R) (?B + exchanged d A P rest)"
    using inv never by (simp add: chain_inv_def ids)
  have "\<not> sm_has (non_atomic_batch_current_function_index p) i" if "i \<in># ?B" for i
    using pl that by (auto simp: placed_def)
  with module_action_moved [OF pok ex [unfolded msg]] obtain C where
    C: "moved p p' ?B C C" "outcome d A (resp_messages r) C C"
    unfolding msg by auto
  have "placed (in_process a) p' (C + ?R) (C + exchanged d A P rest)"
    by (rule placed_moved [OF pl C(1) exchanged_carried]) simp
  moreover have "known_pending a p'"
    using inv by (intro known_pending_moved [OF _ pl C(1)]) (simp add: chain_inv_def)
  ultimately show ?thesis
    using inv processor_ok_execute [OF pok ex] outcome_items [OF sound C(2) rd]
    by (simp add: chain_inv_def)
qed

lemma callback_plain:
  "process_processor_callback d a env info i res = Ok (a', r) \<Longrightarrow> resp_messages r = map plain_msg (sent r)"
  by (auto simp: process_processor_callback_def Let_def and_then_Ok_iff split: if_splits)

lemma inv_to_authorization:
  assumes inv: "chain_inv d A P (a, p, (P, m) # rest)" and sound: "codec_sound d" and ne: "A \<noteq> P"
    and "next_execution_id a < 2 ^ 64 - 1" and never: "sub_reply_on m = ReplyNever"
    and m: "sub_msg m = WasmExecute A bytes funds"
    and dec: "dec_authorization_execute (d_codec d) bytes = Ok msg"
    and ex: "Authorization.execute ow d a env \<lparr>info_sender = P, info_funds = funds\<rparr> msg = Ok (a', r)"
    and rd: "list_all (readable d A P) (map (Pair A) (resp_messages r))"
  shows "chain_inv d A P (a', p, map (Pair A) (resp_messages r) @ rest)"
proof -
  have item: "item_ok d A P (P, m)" and acc: "accounted a" and main: "main_only P a"
    using inv by (simp_all add: chain_inv_def)
  from item never ne obtain i res where rep: "m = plain_msg (report_msg d A i res)" "final_result res"
    by (auto simp: item_ok_def)
  have rm: "readable d A P (P, m)" using item by (simp add: item_ok_def)
  have msg: "msg = InternalAuthorizationAction (ProcessorCallback i res)"
    using read_report [OF sound rm [unfolded rep(1)]] dec m by (simp add: rep(1) report_msg_def)
  have "placed (in_process a) p (add_mset i (carried d A P rest)) (add_mset i (exchanged d A P rest))"
    using inv report_execution [OF sound rm [unfolded rep(1)]] by (simp add: chain_inv_def rep(1))
  note pl = placed_end [OF this]
  have cbk: "process_processor_callback d a env \<lparr>info_sender = P, info_funds = funds\<rparr> i res = Ok (a', r)"
    using ex by (simp add: msg Authorization.execute_def)
  note plain = callback_plain [OF cbk]
  from cbk obtain cb mode where cb: "sm_get (processor_callbacks a) i = Some cb"
      "a' = ended a i cb res (block_seconds (env_block env))"
    and sent: "sent r = (case paying_user (pci_initiator cb) mode of
       Some u \<Rightarrow> [settle_msg d env (pci_label cb) u res] | None \<Rightarrow> [])"
    by (auto elim!: processor_callback_cases)
  have res: "res \<noteq> InProcess" "res \<noteq> Timeout True" using rep(2) by auto
  have ip: "in_process a' = (\<lambda>j. in_process a j \<and> j \<noteq> i)"
    using res cb by (auto simp: fun_eq_iff in_process_def ended_def)
  have "accounted a'"
    by (rule accounted_effect [OF execute_effect [OF ex] acc assms(4)])
      (use pl(1) res in \<open>auto simp: msg reported_def\<close>)
  moreover have "main_only P a'" using main cb res by (auto simp: main_only_def ended_def)
  moreover have "known_pending a' p" using inv cb by (simp add: chain_inv_def known_pending_def ended_def)
  moreover have "quiet d (sent r)"
    by (auto simp: sent settle_msg_def refund_msg_def burn_msg_def Let_def split: option.split execution_result.split)
  ultimately show ?thesis
    using inv pl(2) quiet_items [OF sound ne, of "sent r"] rd
    by (simp add: chain_inv_def ip plain)
qed


lemma inv_to_library:
  assumes inv: "chain_inv d A P (a, p, (P, m) # rest)" and sound: "codec_sound d" and ne: "A \<noteq> P"
    and always: "sub_reply_on m = ReplyAlways"
    and ex: "reply d p env (sub_id m) result = Ok (p', r)"
    and rd: "list_all (readable d A P) (map (Pair P) (resp_messages r))"
  shows "chain_inv d A P (a, p', map (Pair P) (resp_messages r) @ rest)"
proof -
  have pok: "processor_ok A p" using inv by (simp add: chain_inv_def)
  have "message_execution d A P (P, m) = Some (sub_id m)"
    using always by (simp add: message_execution_def)
  with inv always have pl: "placed (in_process a) p ({#sub_id m#} + carried d A P rest) (exchanged d A P rest)"
    by (simp add: chain_inv_def)
  from reply_moved [OF pok ex] show ?thesis
  proof (elim disjE exE conjE)
    assume "p' = p" and "resp_messages r = []" and "awaits p (sub_id m)"
    then show ?thesis using inv placed_wait [of "in_process a" p "sub_id m"] pl by (simp add: chain_inv_def)
  next
    fix C assume C: "moved p p' {#sub_id m#} C C" "outcome d A (resp_messages r) C C"
    have "placed (in_process a) p' (C + carried d A P rest) (C + exchanged d A P rest)"
      by (rule placed_moved [OF pl C(1) exchanged_carried]) simp
    moreover have "known_pending a p'"
      using inv by (intro known_pending_moved [OF _ pl C(1)]) (simp add: chain_inv_def)
    ultimately show ?thesis
      using inv processor_ok_reply [OF pok ex] outcome_items [OF sound C(2) rd]
      by (simp add: chain_inv_def)
  qed
qed

lemma inv_elsewhere:
  assumes inv: "chain_inv d A P (a, p, (A, m) # rest)" and ne: "A \<noteq> P"
    and m: "\<forall>bytes funds. sub_msg m \<noteq> WasmExecute P bytes funds"
  shows "chain_inv d A P (a, p, rest)"
proof -
  have "message_execution d A P (A, m) = None"
    using m ne by (auto simp: message_execution_def split: cosmos_msg.split)
  with inv show ?thesis by (simp add: chain_inv_def split: if_splits)
qed

lemma inv_step:
  assumes "chain_step ow d A P (a, p, st) c'" and "chain_inv d A P (a, p, st)"
    and "next_execution_id a < 2 ^ 64 - 1" and "codec_sound d" and "A \<noteq> P"
  shows "chain_inv d A P c'"
  using assms(1)
proof (cases rule: chain_step.cases)
  case (user_to_authorization info env msg a' r)
  show ?thesis unfolding user_to_authorization(2)
    by (rule inv_user_to_authorization [OF assms(2) [unfolded user_to_authorization(1)] assms(4,5) _
          assms(3) user_to_authorization(5-7)])
      (use user_to_authorization(3) in simp)
next
  case (user_to_processor info env msg p' r)
  show ?thesis unfolding user_to_processor(2)
    by (rule inv_user_to_processor [OF assms(2) [unfolded user_to_processor(1)] assms(4)
          user_to_processor(3-7)])
next
  case (to_processor m bytes funds msg env p' r rest)
  show ?thesis unfolding to_processor(2)
    by (rule inv_to_processor [OF assms(2) [unfolded to_processor(1)] assms(4,5) to_processor(3,4,6,7)])
next
  case (to_authorization m bytes funds msg env a' r rest)
  show ?thesis unfolding to_authorization(2)
    by (rule inv_to_authorization [OF assms(2) [unfolded to_authorization(1)] assms(4,5,3)
          to_authorization(3-5,7,8)])
next
  case (to_library m env result p' r rest)
  show ?thesis unfolding to_library(2)
    by (rule inv_to_library [OF assms(2) [unfolded to_library(1)] assms(4,5) to_library(3,5,6)])
next
  case (elsewhere m rest)
  show ?thesis unfolding elsewhere(2)
    by (rule inv_elsewhere [OF assms(2) [unfolded elsewhere(1)] assms(5) elsewhere(3)])
qed

lemma inv_init:
  assumes "Authorization.instantiate ow d amsg = Ok (a, ar)" and "processor_on_main_domain a = P"
    and "Processor.instantiate d env \<lparr>pim_authorization_contract = A, pim_polytone_contracts = None\<rparr>
      = Ok (p, pr)"
  shows "chain_inv d A P (a, p, [])"
proof -
  have "accounted a" by (rule accounted_orderly [OF orderly_reach.init [OF assms(1)]])
  moreover have "main_only P a" and "in_process a = (\<lambda>_. False)"
    using assms(1,2)
    by (auto simp: Authorization.instantiate_def and_then_Ok_iff main_only_def in_process_def fun_eq_iff)
  moreover have "processor_ok A p"
    using assms(3) instantiate_batches_ok [OF assms(3)]
    by (auto simp: Processor.instantiate_def processor_ok_def keyed_def)
  moreover have "placed (\<lambda>_. False) p {#} {#}"
    using assms(3)
    by (auto simp: Processor.instantiate_def placed_def queue_ids_def queued_def get_queue_map_def
        awaits_def sm_has_def)
  moreover have "known_pending a p"
    using assms(3) by (auto simp: Processor.instantiate_def known_pending_def sm_has_def)
  ultimately show ?thesis by (simp add: chain_inv_def)
qed

lemma chain_reach_inv:
  assumes "chain_reach ow d A P c" and "codec_sound d" and "A \<noteq> P"
  shows "chain_inv d A P c"
  using assms(1)
proof (induction rule: chain_reach.induct)
  case (init amsg a ar env p pr)
  then show ?case by (rule inv_init)
next
  case (step a p st c')
  show ?case by (rule inv_step [OF step(3,4,2) assms(2,3)])
qed

end
