(* ===== verification/Protocol_Props.thy ===== *)
theory Protocol_Props
  imports Protocol_Invariants
begin


section \<open>From the user's messages to the result\<close>









section \<open>A concrete chain\<close>


abbreviation ex_run_messages :: "processor_message list" where
  "ex_run_messages \<equiv> [CosmwasmExecuteMsg ''m1'', CosmwasmExecuteMsg ''m2'']"

definition ex_enqueue :: processor_execute_msg where
  "ex_enqueue = AuthorizationModuleAction (EnqueueMsgs 0 ex_run_messages (ex_sub None) Medium None)"

definition ex_success :: authorization_execute_msg where
  "ex_success = InternalAuthorizationAction (ProcessorCallback 0 Success)"

definition ex_chain_deps :: deps where
  "ex_chain_deps = ex_deps\<lparr>d_codec := ex_codec
     \<lparr>enc_processor_execute := (\<lambda>m. if m = ex_enqueue then ''enqueue'' else ''other''),
      dec_processor_execute := (\<lambda>b. if b = ''enqueue'' then Ok ex_enqueue else Err (GenericErr ''parse'')),
      enc_authorization_execute := (\<lambda>m. if m = ex_success then ''success'' else ''other''),
      dec_authorization_execute := (\<lambda>b. if b = ''success'' then Ok ex_success else Err (GenericErr ''parse''))\<rparr>\<rparr>"


lemma ex_chain_deps_simps [simp]:
  "d_api ex_chain_deps = ex_api" "d_json ex_chain_deps = ex_json" "d_querier ex_chain_deps = ex_querier"
  "enc_processor_execute (d_codec ex_chain_deps) m = (if m = ex_enqueue then ''enqueue'' else ''other'')"
  "dec_processor_execute (d_codec ex_chain_deps) b =
     (if b = ''enqueue'' then Ok ex_enqueue else Err (GenericErr ''parse''))"
  "enc_msg_create_denom (d_codec ex_chain_deps) x = ''create''"
  "enc_msg_mint (d_codec ex_chain_deps) y = ''mint''"
  by (simp_all add: ex_chain_deps_def ex_deps_def ex_codec_def)















section \<open>Properties\<close>





end
