(* ===== verification/Base_Account.thy ===== *)
theory Base_Account
  imports Examples Storage_Map
begin

text \<open>
  The accounts of a program that hold its funds (\<open>contracts/accounts/base_account/src/contract.rs\<close>,
  \<open>packages/account-utils/src/msg.rs\<close>, \<open>error.rs\<close>): the owner approves libraries, an approved library
  has the account execute messages, and the result of a submessage is relayed to the library as an
  attribute of the event the reply emits, from which \<open>try_from\<close> and \<open>parse_valence_payload\<close> read it.

  The locale \<open>approvals\<close> states what the kinds of account have in common, that only a decision of
  the owner changes whether a library is approved, and draws the consequence for histories. The
  properties say for which senders an account sends messages after any history, and that a relayed
  result is read back as it was.
\<close>

section \<open>Messages and state\<close>

datatype account_unauthorized_reason = NotAdmin | NotApprovedLibrary | NotAdminOrApprovedLibrary

datatype account_error =
    AccStd std_error
  | AccOwnership ownership_error
  | AccUnauthorized account_unauthorized_reason

record account_instantiate_msg =
  acim_admin :: string
  acim_approved_libraries :: "string list"

datatype account_execute_msg =
    ApproveLibrary string
  | RemoveLibrary string
  | ExecuteMsg "cosmos_msg list"
  | ExecuteSubmsgs "sub_msg list" "string option"
  | AccUpdateOwnership ownable_action

text \<open>The ownership and the approved libraries, which every kind of account has.\<close>

record 'o account =
  account_ownership :: 'o
  approved_libraries :: "(addr, unit) storage_map"

type_synonym ('o, 'z) account_result = "(('o, 'z) account_scheme \<times> response, account_error) result"

section \<open>Handlers\<close>

definition save_approved ::
  "cw_api \<Rightarrow> string list \<Rightarrow> ((addr, unit) storage_map, std_error) result"
where
  "save_approved cw libraries =
     try_fold (\<lambda>m library. and_then (addr_validate cw library) (\<lambda>a. Ok (sm_set a () m))) [] libraries"

definition instantiate ::
  "'o ownable \<Rightarrow> cw_api \<Rightarrow> account_instantiate_msg \<Rightarrow> ('o account \<times> response, std_error) result"
where
  "instantiate ow cw msg =
     and_then (initialize_owner ow (acim_admin msg)) (\<lambda>o'.
     and_then (save_approved cw (acim_approved_libraries msg)) (\<lambda>libraries.
       Ok (\<lparr>account_ownership = o', approved_libraries = libraries\<rparr>,
           add_attribute ''admin'' (acim_admin msg)
             (add_attribute ''method'' ''instantiate'' response_new))))"

definition approve_library ::
  "'o ownable \<Rightarrow> cw_api \<Rightarrow> ('o, 'z) account_scheme \<Rightarrow> message_info \<Rightarrow> string \<Rightarrow> ('o, 'z) account_result"
where
  "approve_library ow cw s info library =
     and_then (map_err AccOwnership (assert_owner ow (account_ownership s) (info_sender info))) (\<lambda>_.
     and_then (map_err AccStd (addr_validate cw library)) (\<lambda>library_addr.
       Ok (s\<lparr>approved_libraries := sm_set library_addr () (approved_libraries s)\<rparr>,
           add_attribute ''library'' library_addr
             (add_attribute ''method'' ''approve_library'' response_new))))"

definition remove_library ::
  "'o ownable \<Rightarrow> cw_api \<Rightarrow> ('o, 'z) account_scheme \<Rightarrow> message_info \<Rightarrow> string \<Rightarrow> ('o, 'z) account_result"
where
  "remove_library ow cw s info library =
     and_then (map_err AccOwnership (assert_owner ow (account_ownership s) (info_sender info))) (\<lambda>_.
     and_then (map_err AccStd (addr_validate cw library)) (\<lambda>library_addr.
       Ok (s\<lparr>approved_libraries := sm_remove library_addr (approved_libraries s)\<rparr>,
           add_attribute ''library'' library_addr
             (add_attribute ''method'' ''remove_library'' response_new))))"

definition valence_callback_key :: string where "valence_callback_key = ''valence_callback''"
definition valence_payload_key :: string where "valence_payload_key = ''valence_payload''"
definition wasm_event_type :: string where "wasm_event_type = ''wasm''"

definition execute_submsgs ::
  "('o, 'z) account_scheme \<Rightarrow> message_info \<Rightarrow> sub_msg list \<Rightarrow> string option \<Rightarrow> ('o, 'z) account_result"
where
  "execute_submsgs s info msgs payload =
     and_then (ensure (sm_has (approved_libraries s) (info_sender info))
       (AccUnauthorized NotApprovedLibrary)) (\<lambda>_.
       let resp = add_submessages msgs response_new
       in Ok (s, case payload of
                   Some json_encoded_str \<Rightarrow> add_attribute valence_payload_key json_encoded_str resp
                 | None \<Rightarrow> resp))"

text \<open>Owner or approved library: the owner is asked first, and that question may fail.\<close>

definition admin_or_approved ::
  "'o ownable \<Rightarrow> ('o, 'z) account_scheme \<Rightarrow> addr \<Rightarrow> (unit, account_error) result"
where
  "admin_or_approved ow s sender =
     and_then (map_err AccStd (is_owner ow (account_ownership s) sender)) (\<lambda>b.
       ensure (b \<or> sm_has (approved_libraries s) sender)
         (AccUnauthorized NotAdminOrApprovedLibrary))"

definition execute_msg ::
  "'o ownable \<Rightarrow> ('o, 'z) account_scheme \<Rightarrow> message_info \<Rightarrow> cosmos_msg list \<Rightarrow> ('o, 'z) account_result"
where
  "execute_msg ow s info msgs =
     and_then (admin_or_approved ow s (info_sender info)) (\<lambda>_.
       Ok (s, add_attribute ''sender'' (info_sender info)
                (add_attribute ''method'' ''execute_msg'' (add_messages msgs response_new))))"

definition update_account_ownership ::
  "'o ownable \<Rightarrow> ('o, 'z) account_scheme \<Rightarrow> env \<Rightarrow> message_info \<Rightarrow> ownable_action \<Rightarrow>
   ('o, 'z) account_result"
where
  "update_account_ownership ow s env info action =
     and_then (map_err AccOwnership
       (ownable.update_ownership ow (account_ownership s) (env_block env) (info_sender info) action))
     (\<lambda>o'. Ok (s\<lparr>account_ownership := o'\<rparr>,
               add_attribute ''result'' (debug_ownership ow o')
                 (add_attribute ''action'' (debug_action ow action)
                   (add_attribute ''method'' ''update_ownership'' response_new))))"

definition execute ::
  "'o ownable \<Rightarrow> cw_api \<Rightarrow> 'o account \<Rightarrow> env \<Rightarrow> message_info \<Rightarrow> account_execute_msg \<Rightarrow>
   ('o, unit) account_result"
where
  "execute ow cw s env info msg =
     (case msg of
        ApproveLibrary library \<Rightarrow> approve_library ow cw s info library
      | RemoveLibrary library \<Rightarrow> remove_library ow cw s info library
      | ExecuteMsg msgs \<Rightarrow> execute_msg ow s info msgs
      | AccUpdateOwnership action \<Rightarrow> update_account_ownership ow s env info action
      | ExecuteSubmsgs msgs payload \<Rightarrow> execute_submsgs s info msgs payload)"

definition list_approved_libraries :: "('o, 'z) account_scheme \<Rightarrow> addr list" where
  "list_approved_libraries s = map fst (approved_libraries s)"

section \<open>Results relayed to a library\<close>

record event =
  event_ty :: string
  event_attributes :: "(string \<times> string) list"

record sub_msg_response =
  smr_events :: "event list"
  smr_data :: "binary option"

datatype relayed_result = RelayedOk sub_msg_response | RelayedErr string

record valence_callback =
  vc_id :: u64
  vc_result :: relayed_result
  vc_payload :: binary

record reply_msg =
  rp_id :: u64
  rp_result :: relayed_result
  rp_payload :: binary
  rp_gas_used :: u64

text \<open>Serialisation of a callback as a JSON string.\<close>

record callback_json =
  callback_to_json :: "valence_callback \<Rightarrow> (string, std_error) result"
  callback_from_json :: "string \<Rightarrow> (valence_callback, std_error) result"

definition callback_from_reply :: "reply_msg \<Rightarrow> valence_callback" where
  "callback_from_reply r = \<lparr>vc_id = rp_id r, vc_result = rp_result r, vc_payload = rp_payload r\<rparr>"

definition callback_try_into_attribute ::
  "callback_json \<Rightarrow> valence_callback \<Rightarrow> (string \<times> string, std_error) result"
where
  "callback_try_into_attribute cj vc =
     and_then (callback_to_json cj vc) (\<lambda>v. Ok (valence_callback_key, v))"

definition reply ::
  "callback_json \<Rightarrow> 'o account \<Rightarrow> reply_msg \<Rightarrow> ('o, unit) account_result"
where
  "reply cj s r =
     and_then (map_err AccStd (callback_try_into_attribute cj (callback_from_reply r))) (\<lambda>(k, v).
       Ok (s, add_attribute k v response_new))"

text \<open>The first attribute with a key over the wasm events, in order.\<close>

fun first_attribute :: "string \<Rightarrow> event list \<Rightarrow> string option" where
  "first_attribute key [] = None"
| "first_attribute key (e # es) =
     (if event_ty e = wasm_event_type then
        (case map_of (event_attributes e) key of
           Some v \<Rightarrow> Some v
         | None \<Rightarrow> first_attribute key es)
      else first_attribute key es)"

definition callback_try_from ::
  "callback_json \<Rightarrow> relayed_result \<Rightarrow> (valence_callback, std_error) result"
where
  "callback_try_from cj value =
     (case value of
        RelayedErr e \<Rightarrow> Err (GenericErr e)
      | RelayedOk sub_result \<Rightarrow>
          (case first_attribute valence_callback_key (smr_events sub_result) of
             Some v \<Rightarrow> callback_from_json cj v
           | None \<Rightarrow> Err (GenericErr ''valence callback not found'')))"

definition parse_valence_payload ::
  "(string \<Rightarrow> ('t, std_error) result) \<Rightarrow> relayed_result \<Rightarrow> ('t, std_error) result"
where
  "parse_valence_payload from_json resp =
     (case resp of
        RelayedErr e \<Rightarrow> Err (GenericErr ''valence payload not found'')
      | RelayedOk sub_result \<Rightarrow>
          (case first_attribute valence_payload_key (smr_events sub_result) of
             Some v \<Rightarrow> from_json v
           | None \<Rightarrow> Err (GenericErr ''valence payload not found'')))"

section \<open>Decisions of the owner over a history\<close>

text \<open>
  \<open>decides s e a\<close> is what the step \<open>e\<close> in the state \<open>s\<close> decides about the address \<open>a\<close>: approval,
  removal, or nothing.
\<close>

fun last_decision :: "('s \<Rightarrow> 'e \<Rightarrow> 's) \<Rightarrow> ('s \<Rightarrow> 'e \<Rightarrow> 'k \<Rightarrow> bool option) \<Rightarrow> 's \<Rightarrow> 'e list \<Rightarrow> 'k \<Rightarrow> bool option"
where
  "last_decision step decides s [] a = None"
| "last_decision step decides s (e # es) a =
     (case last_decision step decides (step s e) es a of
        Some b \<Rightarrow> Some b
      | None \<Rightarrow> decides s e a)"

locale approvals =
  fixes step :: "'s \<Rightarrow> 'e \<Rightarrow> 's"
    and approved :: "'s \<Rightarrow> 'k \<Rightarrow> bool"
    and decides :: "'s \<Rightarrow> 'e \<Rightarrow> 'k \<Rightarrow> bool option"
  assumes approved_step:
    "approved (step s e) a = (case decides s e a of Some b \<Rightarrow> b | None \<Rightarrow> approved s a)"
begin

lemma approved_run:
  "approved (foldl step s es) a =
     (case last_decision step decides s es a of Some b \<Rightarrow> b | None \<Rightarrow> approved s a)"
  by (induction es arbitrary: s) (auto simp: approved_step split: option.splits)

lemma approved_has_decision:
  assumes "approved (foldl step s es) a" and "\<not> approved s a"
  shows "last_decision step decides s es a = Some True"
  using assms by (auto simp: approved_run split: option.splits)

end

text \<open>A decision that still stands was made at some step, and no later step made another.\<close>

lemma last_decision_Some:
  assumes "last_decision step decides s es a = Some b"
  obtains before e after where "es = before @ e # after"
    and "decides (foldl step s before) e a = Some b"
    and "last_decision step decides (step (foldl step s before) e) after a = None"
  using assms
proof (induction es arbitrary: s thesis)
  case (Cons e es)
  show ?case
  proof (cases "last_decision step decides (step s e) es a")
    case None
    then show ?thesis using Cons.prems Cons.prems(1) [of "[]" e es] by simp
  next
    case (Some c)
    with Cons.prems(2) have "c = b" by simp
    with Some Cons.IH [of "step s e"] obtain before e' after where
      "es = before @ e' # after" "decides (foldl step (step s e) before) e' a = Some b"
      "last_decision step decides (step (foldl step (step s e) before) e') after a = None"
      by blast
    then show ?thesis using Cons.prems(1) [of "e # before" e' after] by simp
  qed
qed simp

type_synonym 'm call = "env \<times> message_info \<times> 'm"

text \<open>A message that fails leaves the account as it was.\<close>

definition account_step ::
  "'o ownable \<Rightarrow> cw_api \<Rightarrow> 'o account \<Rightarrow> account_execute_msg call \<Rightarrow> 'o account"
where
  "account_step ow cw s c =
     (case c of (env, info, msg) \<Rightarrow>
        (case execute ow cw s env info msg of Ok (s', r) \<Rightarrow> s' | Err e \<Rightarrow> s))"

definition owner_decides ::
  "'o ownable \<Rightarrow> cw_api \<Rightarrow> ('o, 'z) account_scheme \<Rightarrow> addr \<Rightarrow> string \<Rightarrow> bool \<Rightarrow> addr \<Rightarrow> bool option"
where
  "owner_decides ow cw s sender library b a =
     (if assert_owner ow (account_ownership s) sender = Ok () \<and> addr_validate cw library = Ok a
      then Some b else None)"

definition account_decides ::
  "'o ownable \<Rightarrow> cw_api \<Rightarrow> 'o account \<Rightarrow> account_execute_msg call \<Rightarrow> addr \<Rightarrow> bool option"
where
  "account_decides ow cw s c a =
     (case c of
        (env, info, ApproveLibrary library) \<Rightarrow> owner_decides ow cw s (info_sender info) library True a
      | (env, info, RemoveLibrary library) \<Rightarrow> owner_decides ow cw s (info_sender info) library False a
      | _ \<Rightarrow> None)"

definition is_approved :: "('o, 'z) account_scheme \<Rightarrow> addr \<Rightarrow> bool" where
  "is_approved s a = sm_has (approved_libraries s) a"

lemma approve_library_decides:
  "is_approved (case approve_library ow cw s info library of Ok (s', r) \<Rightarrow> s' | Err e \<Rightarrow> s) a =
     (case owner_decides ow cw s (info_sender info) library True a of
        Some b \<Rightarrow> b | None \<Rightarrow> is_approved s a)"
  by (cases "assert_owner ow (account_ownership s) (info_sender info)";
      cases "addr_validate cw library")
    (auto simp: approve_library_def owner_decides_def is_approved_def)

lemma remove_library_decides:
  "is_approved (case remove_library ow cw s info library of Ok (s', r) \<Rightarrow> s' | Err e \<Rightarrow> s) a =
     (case owner_decides ow cw s (info_sender info) library False a of
        Some b \<Rightarrow> b | None \<Rightarrow> is_approved s a)"
  by (cases "assert_owner ow (account_ownership s) (info_sender info)";
      cases "addr_validate cw library")
    (auto simp: remove_library_def owner_decides_def is_approved_def)

lemma execute_msg_keeps: "execute_msg ow s info msgs = Ok (s', r) \<Longrightarrow> s' = s"
  by (auto simp: execute_msg_def and_then_Ok_iff)

lemma execute_submsgs_keeps: "execute_submsgs s info msgs p = Ok (s', r) \<Longrightarrow> s' = s"
  by (auto simp: execute_submsgs_def and_then_Ok_iff Let_def)

lemma update_account_ownership_keeps:
  "update_account_ownership ow s env info action = Ok (s', r) \<Longrightarrow>
   approved_libraries s' = approved_libraries s"
  by (auto simp: update_account_ownership_def and_then_Ok_iff)

lemmas account_keeps =
  execute_msg_keeps execute_submsgs_keeps update_account_ownership_keeps

interpretation base: approvals "account_step ow cw" is_approved "account_decides ow cw"
  for ow :: "'o ownable" and cw
proof
  fix s :: "'o account" and c :: "account_execute_msg call" and a
  obtain env info msg where c: "c = (env, info, msg)" by (cases c)
  show "is_approved (account_step ow cw s c) a =
      (case account_decides ow cw s c a of Some b \<Rightarrow> b | None \<Rightarrow> is_approved s a)"
  proof (cases msg)
    case (ApproveLibrary library)
    then show ?thesis
      using approve_library_decides [of s ow cw info library a]
      by (simp add: c account_step_def account_decides_def execute_def)
  next
    case (RemoveLibrary library)
    then show ?thesis
      using remove_library_decides [of s ow cw info library a]
      by (simp add: c account_step_def account_decides_def execute_def)
  qed (auto simp: c account_step_def account_decides_def execute_def is_approved_def
        split: result.splits dest: account_keeps)
qed

section \<open>Who gets messages executed\<close>

text \<open>What a sender needs for a message that makes the account send something.\<close>

lemma sent_cases:
  assumes "execute ow cw s env info msg = Ok (s', r)" and "sent r \<noteq> []"
  shows "is_owner ow (account_ownership s) (info_sender info) = Ok True
    \<or> is_approved s (info_sender info)"
  using assms
  by (cases msg)
    (auto simp: execute_def approve_library_def remove_library_def execute_msg_def
      execute_submsgs_def update_account_ownership_def admin_or_approved_def is_approved_def
      and_then_Ok_iff map_err_Ok_iff ensure_Ok_iff Let_def)

lemma save_approved_validated:
  assumes "save_approved cw libraries = Ok m" and "sm_has m a"
  shows "\<exists>library \<in> set libraries. addr_validate cw library = Ok a"
proof -
  define f where "f = (\<lambda>m library. and_then (addr_validate cw library) (\<lambda>a. Ok (sm_set a () m)))"
  have "\<exists>library \<in> set ls. addr_validate cw library = Ok a"
    if "try_fold f n ls = Ok m'" "sm_has m' a" "\<not> sm_has n a" for n ls m'
    using that
  proof (induction ls arbitrary: n)
    case (Cons l ls)
    then obtain b where b: "addr_validate cw l = Ok b" and "try_fold f (sm_set b () n) ls = Ok m'"
      by (auto simp: f_def and_then_Ok_iff)
    with Cons show ?case by (cases "b = a") auto
  qed simp
  with assms show ?thesis by (fastforce simp: save_approved_def f_def)
qed

text \<open>
  (C4) Whatever messages an account has received since its instantiation, it sends something for a
  message only if the sender is its owner; or was named at the instantiation and not removed since;
  or was approved by the owner of that moment and not removed since.
\<close>

theorem account_obeys_owner:
  assumes "instantiate ow cw im = Ok (s0, r0)"
    and "execute ow cw (foldl (account_step ow cw) s0 history) env info msg = Ok (s', r)"
    and "sent r \<noteq> []"
    and "is_owner ow (account_ownership (foldl (account_step ow cw) s0 history)) (info_sender info) \<noteq> Ok True"
  shows "(\<exists>library \<in> set (acim_approved_libraries im). addr_validate cw library = Ok (info_sender info))
        \<and> last_decision (account_step ow cw) (account_decides ow cw) s0 history (info_sender info) = None
    \<or> (\<exists>before env' info' library after.
          history = before @ (env', info', ApproveLibrary library) # after
        \<and> assert_owner ow (account_ownership (foldl (account_step ow cw) s0 before)) (info_sender info') = Ok ()
        \<and> addr_validate cw library = Ok (info_sender info)
        \<and> last_decision (account_step ow cw) (account_decides ow cw)
            (account_step ow cw (foldl (account_step ow cw) s0 before) (env', info', ApproveLibrary library))
            after (info_sender info) = None)"
proof (cases "last_decision (account_step ow cw) (account_decides ow cw) s0 history (info_sender info)")
  case None
  with sent_cases [OF assms(2,3)] assms(4) have "is_approved s0 (info_sender info)"
    by (simp add: base.approved_run)
  with assms(1) None show ?thesis
    by (auto simp: instantiate_def and_then_Ok_iff is_approved_def dest: save_approved_validated)
next
  case (Some b)
  with sent_cases [OF assms(2,3)] assms(4) have "b" by (simp add: base.approved_run)
  with Some obtain before c after where "history = before @ c # after"
    and "account_decides ow cw (foldl (account_step ow cw) s0 before) c (info_sender info) = Some True"
    and "last_decision (account_step ow cw) (account_decides ow cw)
           (account_step ow cw (foldl (account_step ow cw) s0 before) c) after (info_sender info) = None"
    by (auto elim: last_decision_Some)
  then show ?thesis
    by (cases c)
      (fastforce simp: account_decides_def owner_decides_def
        split: account_execute_msg.splits if_splits)
qed

text \<open>An account that names one library at the start; its owner approves another.\<close>

definition ex_account_msg :: account_instantiate_msg where
  "ex_account_msg = \<lparr>acim_admin = ''owner'', acim_approved_libraries = [''forwarder'']\<rparr>"

definition ex_account :: "addr account" where
  "ex_account = \<lparr>account_ownership = ''owner'', approved_libraries = [(''forwarder'', ())]\<rparr>"

definition ex_account_history :: "account_execute_msg call list" where
  "ex_account_history =
     [(ex_env, ex_info ''owner'', ApproveLibrary ''splitter''),
      (ex_env, ex_info ''user'', RemoveLibrary ''splitter'')]"

lemmas ex_account_defs =
  ex_account_msg_def ex_account_def ex_account_history_def ex_ow_def ex_api_def ex_info_def
  instantiate_def save_approved_def execute_def account_step_def approve_library_def
  remove_library_def execute_msg_def admin_or_approved_def account_decides_def owner_decides_def

theorem account_obeys_owner_witness:
  "execute ex_ow ex_api (foldl (account_step ex_ow ex_api) ex_account ex_account_history)
     ex_env (ex_info ''splitter'') (ExecuteMsg [BankSend ''output'' []]) =
     Ok (\<lparr>account_ownership = ''owner'',
          approved_libraries = [(''forwarder'', ()), (''splitter'', ())]\<rparr>,
         add_attribute ''sender'' ''splitter''
           (add_attribute ''method'' ''execute_msg'' (add_messages [BankSend ''output'' []] response_new)))
   \<and> (\<exists>before env' info' library after.
        ex_account_history = before @ (env', info', ApproveLibrary library) # after
        \<and> addr_validate ex_api library = Ok ''splitter'')"
proof -
  have run: "execute ex_ow ex_api (foldl (account_step ex_ow ex_api) ex_account ex_account_history)
     ex_env (ex_info ''splitter'') (ExecuteMsg [BankSend ''output'' []]) =
     Ok (\<lparr>account_ownership = ''owner'',
          approved_libraries = [(''forwarder'', ()), (''splitter'', ())]\<rparr>,
         add_attribute ''sender'' ''splitter''
           (add_attribute ''method'' ''execute_msg'' (add_messages [BankSend ''output'' []] response_new)))"
    by (simp add: ex_account_defs sm_has_def sm_get_def)
  have init: "instantiate ex_ow ex_api ex_account_msg =
      Ok (ex_account, add_attribute ''admin'' ''owner'' (add_attribute ''method'' ''instantiate'' response_new))"
    by (simp add: ex_account_defs)
  have not_owner: "is_owner ex_ow (account_ownership
      (foldl (account_step ex_ow ex_api) ex_account ex_account_history)) (info_sender (ex_info ''splitter''))
      \<noteq> Ok True"
    by (simp add: ex_account_defs)
  have sender: "info_sender (ex_info ''splitter'') = ''splitter''" by (simp add: ex_info_def)
  have other: "\<not> (\<exists>library \<in> set (acim_approved_libraries ex_account_msg).
      addr_validate ex_api library = Ok ''splitter'')"
    by (simp add: ex_account_msg_def ex_api_def)
  have "\<exists>before env' info' library after.
        ex_account_history = before @ (env', info', ApproveLibrary library) # after
        \<and> addr_validate ex_api library = Ok ''splitter''"
    using account_obeys_owner [OF init run _ not_owner, unfolded sender] other by (simp, blast)
  with run show ?thesis by blast
qed

section \<open>Reading a relayed result\<close>

text \<open>
  (C40) An account relays the result of a submessage so that the library reads it back unchanged: from
  the events of the account's message, where the platform puts the attributes of the reply into a
  wasm event, provided that serialisation is undone by deserialisation and no earlier wasm event
  has an attribute with the key of callbacks.
\<close>

theorem valence_callback_roundtrip:
  assumes "\<And>vc v. callback_to_json cj vc = Ok v \<Longrightarrow> callback_from_json cj v = Ok vc"
    and "reply cj s rp = Ok (s', r)"
    and "event_ty e = wasm_event_type"
    and "event_attributes e = platform_attributes @ resp_attributes r"
    and "map_of platform_attributes valence_callback_key = None"
    and "first_attribute valence_callback_key before = None"
  shows "callback_try_from cj (RelayedOk \<lparr>smr_events = before @ e # after, smr_data = data\<rparr>) =
           Ok \<lparr>vc_id = rp_id rp, vc_result = rp_result rp, vc_payload = rp_payload rp\<rparr>"
proof -
  obtain v where v: "callback_to_json cj (callback_from_reply rp) = Ok v"
    and r: "resp_attributes r = [(valence_callback_key, v)]"
    using assms(2)
    by (auto simp: reply_def callback_try_into_attribute_def and_then_Ok_iff map_err_Ok_iff
        add_attribute_def response_new_def)
  have first: "first_attribute valence_callback_key (es @ e # after) = Some v"
    if "first_attribute valence_callback_key es = None" for es
    using that
    by (induction es)
      (auto simp: assms(3,4,5) r map_add_def split: option.splits if_splits)
  show ?thesis
    using first [OF assms(6)] assms(1) [OF v]
    by (simp add: callback_try_from_def callback_from_reply_def)
qed

definition ex_callback_json :: callback_json where
  "ex_callback_json =
     \<lparr>callback_to_json = (\<lambda>vc. if vc = \<lparr>vc_id = 7, vc_result = RelayedErr ''e'', vc_payload = ''p''\<rparr>
        then Ok ''callback'' else Err (GenericErr ''unsupported'')),
      callback_from_json = (\<lambda>v. if v = ''callback''
        then Ok \<lparr>vc_id = 7, vc_result = RelayedErr ''e'', vc_payload = ''p''\<rparr>
        else Err (GenericErr ''parse''))\<rparr>"

theorem valence_callback_roundtrip_witness:
  "callback_try_from ex_callback_json
     (RelayedOk \<lparr>smr_events =
        [\<lparr>event_ty = ''transfer'', event_attributes = []\<rparr>,
         \<lparr>event_ty = ''wasm'',
          event_attributes = [(''_contract_address'', ''account''), (valence_callback_key, ''callback'')]\<rparr>],
        smr_data = None\<rparr>) =
   Ok \<lparr>vc_id = 7, vc_result = RelayedErr ''e'', vc_payload = ''p''\<rparr>"
proof -
  have undone: "callback_to_json ex_callback_json vc = Ok v \<Longrightarrow> callback_from_json ex_callback_json v = Ok vc"
    for vc v by (simp add: ex_callback_json_def split: if_splits)
  have reply: "reply ex_callback_json ex_account
      \<lparr>rp_id = 7, rp_result = RelayedErr ''e'', rp_payload = ''p'', rp_gas_used = 0\<rparr> =
      Ok (ex_account, add_attribute valence_callback_key ''callback'' response_new)"
    by (simp add: ex_callback_json_def reply_def callback_try_into_attribute_def callback_from_reply_def)
  show ?thesis
    using valence_callback_roundtrip [OF undone reply, of
        "\<lparr>event_ty = ''wasm'',
          event_attributes = [(''_contract_address'', ''account''), (valence_callback_key, ''callback'')]\<rparr>"
        "[(''_contract_address'', ''account'')]"
        "[\<lparr>event_ty = ''transfer'', event_attributes = []\<rparr>]" "[]" None]
    by (simp add: wasm_event_type_def valence_callback_key_def add_attribute_def response_new_def)
qed

end
