(* ===== verification/Library_Base.thy ===== *)
theory Library_Base
  imports Base_Account
begin

text \<open>
  What all libraries share (\<open>packages/library-base/src\<close>, \<open>packages/library-utils/src\<close>, the code
  that the macro \<open>ValenceLibraryInterface\<close> of \<open>packages/valence-macros/src/lib.rs\<close> generates): the
  errors, messages on behalf of an account, updates of a configuration, and the two entry points,
  which take the function that processes a message of the library and the functions that validate
  and update its configuration. Denominations (\<open>cw_denom\<close>), decimals, queries and serialisers come
  from other packages and are arguments.

  \<open>lib_execute_cases\<close> is the access control of every library. The locale \<open>validated_config\<close> is the
  contract between the entry points and the configuration of a library: the checked configuration
  stays the validation of the raw one. The locale \<open>diff_update\<close> is the contract of the generated
  \<open>get_diff_update\<close>: the update it computes leads to the other configuration. Each library that keeps
  them is an instance.
\<close>

section \<open>Errors, denominations, decimals\<close>

datatype library_unauthorized_reason = NotAllowed

datatype library_error =
    LibStd std_error
  | LibOwnership ownership_error
  | LibUnauthorized library_unauthorized_reason
  | ConfigurationError string
  | ExecutionError string

datatype unchecked_denom = UncheckedNative string | UncheckedCw20 string
datatype checked_denom = Native string | Cw20 addr

text \<open>A decimal is its number of atoms, \<open>10 ^ 18\<close> to the unit.\<close>

type_synonym decimal = nat

abbreviation decimal_one :: decimal where "decimal_one \<equiv> 10 ^ 18"

text \<open>Validation of a denomination against the chain.\<close>

type_synonym denom_check = "unchecked_denom \<Rightarrow> (checked_denom, string) result"

text \<open>What the validation of a configuration asks of the chain and of the decimals.\<close>

record config_checks =
  ck_api :: cw_api
  ck_into_checked :: denom_check
  ck_decimal_add :: "decimal \<Rightarrow> decimal \<Rightarrow> (decimal, std_error) result"
  ck_to_uint_ceil :: "decimal \<Rightarrow> u128"

text \<open>What the functions of the libraries receive from outside.\<close>

record lib_deps =
  l_denom_balance :: "checked_denom \<Rightarrow> addr \<Rightarrow> (u128, std_error) result"
  l_transfer_to :: "checked_denom \<Rightarrow> addr \<Rightarrow> u128 \<Rightarrow> (cosmos_msg, std_error) result"
  l_denom_name :: "checked_denom \<Rightarrow> string"
  l_bank_balance :: "addr \<Rightarrow> string \<Rightarrow> (u128, std_error) result"
  l_dynamic_ratio :: "addr \<Rightarrow> string list \<Rightarrow> string \<Rightarrow> (string \<rightharpoonup> decimal, std_error) result"
  l_multiply_ratio :: "u128 \<Rightarrow> u128 \<Rightarrow> u128 \<Rightarrow> (u128, std_error) result"
  l_enc_account :: "account_execute_msg \<Rightarrow> binary"

text \<open>
  What the packages document of the arithmetic: \<open>multiply_ratio\<close> rounds down and panics on a zero
  denominator or a result that does not fit; addition of decimals panics on overflow;
  \<open>to_uint_ceil\<close> rounds up. A denomination that passes the check is that of one unchecked form only.
\<close>

definition multiply_ok :: "lib_deps \<Rightarrow> bool" where
  "multiply_ok d \<longleftrightarrow>
     (\<forall>a n q r. l_multiply_ratio d a n q = Ok r \<longleftrightarrow> q \<noteq> 0 \<and> r = a * n div q \<and> r < 2 ^ 128)"

definition decimals_ok :: "config_checks \<Rightarrow> bool" where
  "decimals_ok ck \<longleftrightarrow>
     (\<forall>a b r. ck_decimal_add ck a b = Ok r \<longleftrightarrow> r = a + b \<and> a + b < 2 ^ 128)
   \<and> (\<forall>a. ck_to_uint_ceil ck a = (a + (decimal_one - 1)) div decimal_one)"

definition denoms_ok :: "config_checks \<Rightarrow> bool" where
  "denoms_ok ck \<longleftrightarrow>
     (\<forall>u u' c. ck_into_checked ck u = Ok c \<longrightarrow> ck_into_checked ck u' = Ok c \<longrightarrow> u = u')"

definition checked_add_u128 :: "u128 \<Rightarrow> u128 \<Rightarrow> u128 option" where
  "checked_add_u128 a b = (if a + b < 2 ^ 128 then Some (a + b) else None)"

lemma checked_add_u128_Some_iff: "checked_add_u128 a b = Some c \<longleftrightarrow> c = a + b \<and> a + b < 2 ^ 128"
  by (auto simp: checked_add_u128_def)

definition checked_mul_u128 :: "u128 \<Rightarrow> u128 \<Rightarrow> u128 option" where
  "checked_mul_u128 a b = (if a * b < 2 ^ 128 then Some (a * b) else None)"

definition checked_div_u128 :: "u128 \<Rightarrow> u128 \<Rightarrow> u128 option" where
  "checked_div_u128 a b = (if b = 0 then None else Some (a div b))"

definition checked_sub_u128 :: "u128 \<Rightarrow> u128 \<Rightarrow> u128 option" where
  "checked_sub_u128 a b = (if b \<le> a then Some (a - b) else None)"

text \<open>The sum of an iterator of amounts; it panics on overflow.\<close>

definition sum_u128 :: "u128 list \<Rightarrow> (u128, std_error) result" where
  "sum_u128 = try_fold (\<lambda>a b. expect ''attempt to add with overflow'' (checked_add_u128 a b)) 0"

lemma sum_u128_Ok: "sum_u128 xs = Ok n \<Longrightarrow> n = sum_list xs"
proof -
  have "try_fold (\<lambda>a b. expect ''attempt to add with overflow'' (checked_add_u128 a b)) m xs = Ok n
      \<Longrightarrow> n = m + sum_list xs" for m
  proof (induction xs arbitrary: m)
    case (Cons x xs)
    then have "try_fold (\<lambda>a b. expect ''attempt to add with overflow'' (checked_add_u128 a b)) (m + x) xs = Ok n"
      by (auto simp: and_then_Ok_iff expect_Ok_iff checked_add_u128_Some_iff)
    from Cons.IH [OF this] show ?case by simp
  qed simp
  from this [of 0] show "sum_u128 xs = Ok n \<Longrightarrow> n = sum_list xs" by (simp add: sum_u128_def)
qed

lemma sum_u128_fits: "sum_list xs < 2 ^ 128 \<Longrightarrow> sum_u128 xs = Ok (sum_list xs)"
proof -
  have "m + sum_list xs < 2 ^ 128 \<Longrightarrow>
      try_fold (\<lambda>a b. expect ''attempt to add with overflow'' (checked_add_u128 a b)) m xs
      = Ok (m + sum_list xs)" for m
    by (induction xs arbitrary: m) (auto simp: checked_add_u128_def add.assoc)
  from this [of 0] show "sum_list xs < 2 ^ 128 \<Longrightarrow> sum_u128 xs = Ok (sum_list xs)"
    by (simp add: sum_u128_def)
qed

text \<open>\<open>unwrap()\<close> of a missing value panics.\<close>

definition unwrap :: "'a option \<Rightarrow> ('a, library_error) result" where
  "unwrap m = map_err LibStd (expect ''called `Option::unwrap()` on a `None` value'' m)"

section \<open>Messages on behalf of an account\<close>

definition execute_on_behalf_of :: "lib_deps \<Rightarrow> cosmos_msg list \<Rightarrow> addr \<Rightarrow> cosmos_msg" where
  "execute_on_behalf_of d msgs account =
     WasmExecute account (l_enc_account d (ExecuteMsg msgs)) []"

definition execute_submsgs_on_behalf_of ::
  "lib_deps \<Rightarrow> sub_msg list \<Rightarrow> string option \<Rightarrow> addr \<Rightarrow> cosmos_msg"
where
  "execute_submsgs_on_behalf_of d msgs payload account =
     WasmExecute account (l_enc_account d (ExecuteSubmsgs msgs payload)) []"

section \<open>Updates of a configuration\<close>

datatype 'a option_update = NoUpdate | SetTo "'a option"

text \<open>
  The generated update has an option for each field of the raw configuration, or an
  \<open>OptionUpdate\<close> for a field that is itself an option. Applying it, and computing it from two
  configurations, go field by field.
\<close>

definition update_field :: "'a option \<Rightarrow> 'a \<Rightarrow> 'a" where
  "update_field u x = (case u of Some v \<Rightarrow> v | None \<Rightarrow> x)"

definition update_option_field :: "'a option_update \<Rightarrow> 'a option \<Rightarrow> 'a option" where
  "update_option_field u x = (case u of SetTo v \<Rightarrow> v | NoUpdate \<Rightarrow> x)"

definition diff_field :: "'a \<Rightarrow> 'a \<Rightarrow> 'a option" where
  "diff_field x other = (if x \<noteq> other then Some other else None)"

definition diff_option_field :: "'a option \<Rightarrow> 'a option \<Rightarrow> 'a option_update" where
  "diff_option_field x other = (if x \<noteq> other then SetTo other else NoUpdate)"

text \<open>\<open>get_diff_update\<close>: no update at all when every field is the default.\<close>

definition some_update :: "'u \<Rightarrow> 'u \<Rightarrow> 'u option" where
  "some_update default_update u = (if u \<noteq> default_update then Some u else None)"

lemma update_field_simps [simp]:
  "update_field None x = x" "update_field (Some v) x = v"
  "update_option_field NoUpdate y = y" "update_option_field (SetTo w) y = w"
  by (simp_all add: update_field_def update_option_field_def)

lemma update_diff_field [simp]:
  "update_field (diff_field x other) x = other"
  "update_option_field (diff_option_field y other') y = other'"
  by (auto simp: diff_field_def diff_option_field_def)

lemma diff_field_default [simp]:
  "diff_field x other = None \<longleftrightarrow> x = other"
  "diff_option_field y other' = NoUpdate \<longleftrightarrow> y = other'"
  by (auto simp: diff_field_def diff_option_field_def)

section \<open>The entry points\<close>

record ('raw, 'cfg, 'o) library =
  lib_ownership :: 'o
  lib_processor :: addr
  lib_raw :: 'raw
  lib_cfg :: 'cfg

record 'raw library_instantiate_msg =
  lim_owner :: string
  lim_processor :: string
  lim_config :: 'raw

datatype ('m, 'u) library_execute_msg =
    ProcessFunction 'm
  | UpdateConfig 'u
  | UpdateProcessor string
  | LibUpdateOwnership ownable_action

definition lib_instantiate ::
  "'o ownable \<Rightarrow> cw_api \<Rightarrow> ('raw \<Rightarrow> ('cfg, library_error) result) \<Rightarrow> 'raw library_instantiate_msg \<Rightarrow>
   (('raw, 'cfg, 'o) library \<times> response, library_error) result"
where
  "lib_instantiate ow cw validate msg =
     and_then (map_err LibStd (initialize_owner ow (lim_owner msg))) (\<lambda>o'.
     and_then (map_err LibStd (addr_validate cw (lim_processor msg))) (\<lambda>processor.
     and_then (validate (lim_config msg)) (\<lambda>config.
       Ok (\<lparr>lib_ownership = o', lib_processor = processor, lib_raw = lim_config msg, lib_cfg = config\<rparr>,
           add_attribute ''owner'' (debug_string cw (lim_owner msg))
             (add_attribute ''processor'' (lim_processor msg)
               (add_attribute ''method'' ''instantiate'' response_new))))))"

definition assert_processor :: "('raw, 'cfg, 'o, 'z) library_scheme \<Rightarrow> addr \<Rightarrow> (unit, library_error) result"
where
  "assert_processor s sender =
     (if sender \<noteq> lib_processor s then Err (LibUnauthorized NotAllowed) else Ok ())"

type_synonym ('raw, 'cfg, 'o, 'z) library_result =
  "(('raw, 'cfg, 'o, 'z) library_scheme \<times> response, library_error) result"

type_synonym ('raw, 'cfg, 'o, 'z, 'm) process_function =
  "('raw, 'cfg, 'o, 'z) library_scheme \<Rightarrow> env \<Rightarrow> message_info \<Rightarrow> 'm \<Rightarrow> 'cfg \<Rightarrow>
   ('raw, 'cfg, 'o, 'z) library_result"

definition lib_execute ::
  "'o ownable \<Rightarrow> cw_api \<Rightarrow> ('raw, 'cfg, 'o, 'z, 'm) process_function \<Rightarrow> ('u \<Rightarrow> 'raw \<Rightarrow> 'raw) \<Rightarrow>
   ('u \<Rightarrow> 'cfg \<Rightarrow> ('cfg, library_error) result) \<Rightarrow> ('raw, 'cfg, 'o, 'z) library_scheme \<Rightarrow> env \<Rightarrow>
   message_info \<Rightarrow> ('m, 'u) library_execute_msg \<Rightarrow> ('raw, 'cfg, 'o, 'z) library_result"
where
  "lib_execute ow cw process_function update_raw update_config s env info msg =
     (case msg of
        ProcessFunction function \<Rightarrow>
          and_then (assert_processor s (info_sender info)) (\<lambda>_.
            process_function s env info function (lib_cfg s))
      | UpdateConfig new_config \<Rightarrow>
          and_then (map_err LibOwnership (assert_owner ow (lib_ownership s) (info_sender info))) (\<lambda>_.
          and_then (update_config new_config (lib_cfg s)) (\<lambda>config.
            Ok (s\<lparr>lib_raw := update_raw new_config (lib_raw s), lib_cfg := config\<rparr>,
                add_attribute ''method'' ''update_config'' response_new)))
      | UpdateProcessor processor \<Rightarrow>
          and_then (map_err LibOwnership (assert_owner ow (lib_ownership s) (info_sender info))) (\<lambda>_.
          and_then (map_err LibStd (addr_validate cw processor)) (\<lambda>a.
            Ok (s\<lparr>lib_processor := a\<rparr>,
                add_attribute ''processor'' processor
                  (add_attribute ''method'' ''update_processor'' response_new))))
      | LibUpdateOwnership action \<Rightarrow>
          and_then (map_err LibOwnership
            (ownable.update_ownership ow (lib_ownership s) (env_block env) (info_sender info) action))
          (\<lambda>o'. Ok (s\<lparr>lib_ownership := o'\<rparr>,
                    add_attribute ''result'' (debug_ownership ow o')
                      (add_attribute ''action'' (debug_action ow action)
                        (add_attribute ''method'' ''update_ownership'' response_new)))))"

section \<open>Access control\<close>

text \<open>The cases of a successful call, with the sender each needs.\<close>

lemma lib_execute_cases:
  assumes "lib_execute ow cw process_function update_raw update_config s env info msg = Ok (s', r)"
  obtains (process) f where "msg = ProcessFunction f" "info_sender info = lib_processor s"
      "process_function s env info f (lib_cfg s) = Ok (s', r)"
  | (config) u cfg where "msg = UpdateConfig u"
      "assert_owner ow (lib_ownership s) (info_sender info) = Ok ()"
      "update_config u (lib_cfg s) = Ok cfg"
      "s' = s\<lparr>lib_raw := update_raw u (lib_raw s), lib_cfg := cfg\<rparr>" "sent r = []"
  | (processor) p a where "msg = UpdateProcessor p"
      "assert_owner ow (lib_ownership s) (info_sender info) = Ok ()" "addr_validate cw p = Ok a"
      "s' = s\<lparr>lib_processor := a\<rparr>" "sent r = []"
  | (ownership) action o' where "msg = LibUpdateOwnership action"
      "ownable.update_ownership ow (lib_ownership s) (env_block env) (info_sender info) action = Ok o'"
      "s' = s\<lparr>lib_ownership := o'\<rparr>" "sent r = []"
  using assms
  by (cases msg)
    (auto simp: lib_execute_def assert_processor_def and_then_Ok_iff map_err_Ok_iff split: if_splits)

section \<open>The configuration stays the validation of the raw one\<close>

text \<open>
  States a library reaches from its instantiation: the addresses and denominations the chain accepts
  are fixed (\<open>validate\<close>, \<open>update_config\<close>), everything a function reads may change from one message
  to the next (\<open>processes\<close> is the set of functions a message may be processed with).
\<close>

inductive library_reach ::
  "'o ownable \<Rightarrow> cw_api \<Rightarrow> ('raw \<Rightarrow> ('cfg, library_error) result) \<Rightarrow>
   ('raw, 'cfg, 'o, 'z, 'm) process_function set \<Rightarrow> ('u \<Rightarrow> 'raw \<Rightarrow> 'raw) \<Rightarrow>
   ('u \<Rightarrow> 'cfg \<Rightarrow> ('cfg, library_error) result) \<Rightarrow>
   (('raw, 'cfg, 'o) library \<Rightarrow> ('raw, 'cfg, 'o, 'z) library_scheme) \<Rightarrow>
   ('raw, 'cfg, 'o, 'z) library_scheme \<Rightarrow> bool"
  for ow cw validate processes update_raw update_config fresh
where
  library_start: "lib_instantiate ow cw validate msg = Ok (s, r) \<Longrightarrow>
    library_reach ow cw validate processes update_raw update_config fresh (fresh s)"
| library_step: "library_reach ow cw validate processes update_raw update_config fresh s \<Longrightarrow>
    process_function \<in> processes \<Longrightarrow>
    lib_execute ow cw process_function update_raw update_config s env info msg = Ok (s', r) \<Longrightarrow>
    library_reach ow cw validate processes update_raw update_config fresh s'"

locale validated_config =
  fixes validate :: "'raw \<Rightarrow> ('cfg, library_error) result"
    and update_raw :: "'u \<Rightarrow> 'raw \<Rightarrow> 'raw"
    and update_config :: "'u \<Rightarrow> 'cfg \<Rightarrow> ('cfg, library_error) result"
    and processes :: "('raw, 'cfg, 'o, 'z, 'm) process_function set"
    and fresh :: "('raw, 'cfg, 'o) library \<Rightarrow> ('raw, 'cfg, 'o, 'z) library_scheme"
  assumes update_validates:
      "validate raw = Ok cfg \<Longrightarrow> update_config u cfg = Ok cfg' \<Longrightarrow> validate (update_raw u raw) = Ok cfg'"
    and process_keeps_config:
      "p \<in> processes \<Longrightarrow> p s env info m cfg = Ok (s', r) \<Longrightarrow>
       lib_raw s' = lib_raw s \<and> lib_cfg s' = lib_cfg s"
    and fresh_keeps_config: "lib_raw (fresh l) = lib_raw l" "lib_cfg (fresh l) = lib_cfg l"
begin

lemma config_validated:
  assumes "library_reach ow cw validate processes update_raw update_config fresh s"
  shows "validate (lib_raw s) = Ok (lib_cfg s)"
  using assms
proof (induction rule: library_reach.induct)
  case (library_start msg s r)
  then show ?case
    by (auto simp: lib_instantiate_def and_then_Ok_iff map_err_Ok_iff fresh_keeps_config)
next
  case (library_step s p env info msg s' r)
  from library_step(3) show ?case
  proof (cases rule: lib_execute_cases)
    case (process f)
    with library_step process_keeps_config show ?thesis by metis
  next
    case (config u cfg)
    with library_step update_validates show ?thesis by simp
  qed (use library_step in auto)
qed

end

section \<open>The update computed from two configurations\<close>

locale diff_update =
  fixes validate :: "'raw \<Rightarrow> ('cfg, library_error) result"
    and update_raw :: "'u \<Rightarrow> 'raw \<Rightarrow> 'raw"
    and update_config :: "'u \<Rightarrow> 'cfg \<Rightarrow> ('cfg, library_error) result"
    and get_diff_update :: "'raw \<Rightarrow> 'raw \<Rightarrow> 'u option"
  assumes diff_None: "get_diff_update raw other = None \<Longrightarrow> raw = other"
    and diff_raw: "get_diff_update raw other = Some u \<Longrightarrow> update_raw u raw = other"
    and diff_config:
      "validate raw = Ok cfg \<Longrightarrow> validate other = Ok cfg' \<Longrightarrow> get_diff_update raw other = Some u \<Longrightarrow>
       update_config u cfg = Ok cfg'"
begin

lemma diff_reaches_target:
  assumes "validate (lib_raw s) = Ok (lib_cfg s)" and "validate other = Ok cfg'"
    and "assert_owner ow (lib_ownership s) (info_sender info) = Ok ()"
  shows "case get_diff_update (lib_raw s) other of
      None \<Rightarrow> lib_raw s = other \<and> lib_cfg s = cfg'
    | Some u \<Rightarrow> lib_execute ow cw p update_raw update_config s env info (UpdateConfig u) =
        Ok (s\<lparr>lib_raw := other, lib_cfg := cfg'\<rparr>, add_attribute ''method'' ''update_config'' response_new)"
proof (cases "get_diff_update (lib_raw s) other")
  case None
  with diff_None [OF None] assms show ?thesis by simp
next
  case (Some u)
  with diff_raw [OF Some] diff_config [OF assms(1,2) Some] assms(3) show ?thesis
    by (simp add: lib_execute_def)
qed

end

section \<open>A concrete environment\<close>

definition ex_checks :: config_checks where
  "ex_checks =
     \<lparr>ck_api = ex_api,
      ck_into_checked = (\<lambda>u. case u of UncheckedNative s \<Rightarrow> Ok (Native s) | UncheckedCw20 s \<Rightarrow> Ok (Cw20 s)),
      ck_decimal_add = (\<lambda>a b. if a + b < 2 ^ 128 then Ok (a + b) else Err (Panic ''attempt to add with overflow'')),
      ck_to_uint_ceil = (\<lambda>a. (a + (decimal_one - 1)) div decimal_one)\<rparr>"

definition ex_lib_deps :: "(checked_denom \<Rightarrow> addr \<Rightarrow> u128) \<Rightarrow> lib_deps" where
  "ex_lib_deps balances =
     \<lparr>l_denom_balance = (\<lambda>c a. Ok (balances c a)),
      l_transfer_to = (\<lambda>c a n. case c of
          Native s \<Rightarrow> Ok (BankSend a [\<lparr>coin_denom = s, coin_amount = n\<rparr>])
        | Cw20 t \<Rightarrow> Ok (WasmExecute t ''transfer'' [])),
      l_denom_name = (\<lambda>c. case c of Native s \<Rightarrow> s | Cw20 a \<Rightarrow> a),
      l_bank_balance = (\<lambda>a s. Ok (balances (Native s) a)),
      l_dynamic_ratio = (\<lambda>_ names _. Ok (\<lambda>n. if n \<in> set names then Some (5 * 10 ^ 17) else None)),
      l_multiply_ratio = (\<lambda>a n q. if q = 0 then Err (Panic ''Denominator must not be zero'')
        else if a * n div q < 2 ^ 128 then Ok (a * n div q) else Err (Panic ''multiplication overflow'')),
      l_enc_account = (\<lambda>m. case m of ExecuteMsg ms \<Rightarrow> ''execute'' | _ \<Rightarrow> ''other'')\<rparr>"

lemma ex_lib_deps_ok [simp]:
  "multiply_ok (ex_lib_deps b)" "decimals_ok ex_checks" "denoms_ok ex_checks"
  by (auto simp: multiply_ok_def decimals_ok_def denoms_ok_def ex_lib_deps_def ex_checks_def
      split: unchecked_denom.splits)

end
