(* ===== verification/Splitter.thy ===== *)
theory Splitter
  imports Library_Base "HOL-Library.AList"
begin

text \<open>
  The splitter library (\<open>contracts/libraries/splitter/src/msg.rs\<close>, \<open>contract.rs\<close>): validation of a
  configuration of splits, its update, and the function \<open>Split\<close>, which computes an amount per split
  from balances and ratios queried once per key, checks the totals and sends one message to the
  input account.

  The maps of the source are keyed by \<open>Debug\<close> renderings; here the keys are the values rendered. Maps
  are association lists in order of first insertion; where the source iterates over one, that order
  only decides which of several errors is reported.
\<close>

section \<open>Configuration\<close>

datatype split_amount = FixedAmount u128 | FixedRatio decimal | DynamicRatio addr string

datatype unchecked_split_amount =
    UncheckedFixedAmount u128
  | UncheckedFixedRatio decimal
  | UncheckedDynamicRatio string string

record split_config =
  sc_denom :: checked_denom
  sc_account :: addr
  sc_amount :: split_amount

record unchecked_split_config =
  usc_denom :: unchecked_denom
  usc_account :: library_account_type
  usc_amount :: unchecked_split_amount

record library_config =
  slc_input_addr :: library_account_type
  slc_splits :: "unchecked_split_config list"

record config =
  cfg_input_addr :: addr
  cfg_splits :: "split_config list"

record library_config_update =
  slu_input_addr :: "library_account_type option"
  slu_splits :: "unchecked_split_config list option"

section \<open>Validation\<close>

record split_scan =
  scan_denom_set :: "(unchecked_denom \<times> library_account_type) list"
  scan_denom_amount :: "unchecked_denom list"
  scan_denom_ratios :: "(unchecked_denom \<times> decimal) list"

definition scan_split ::
  "config_checks \<Rightarrow> split_scan \<Rightarrow> unchecked_split_config \<Rightarrow> (split_scan, library_error) result"
where
  "scan_split ck st split =
     and_then (map_err LibStd (account_to_addr (ck_api ck) (usc_account split))) (\<lambda>_.
     let key = (usc_denom split, usc_account split);
         denom_key = usc_denom split
     in if key \<in> set (scan_denom_set st) then Err (ConfigurationError ''Duplicate split in split config.'')
        else
          (let st1 = st\<lparr>scan_denom_set := key # scan_denom_set st\<rparr>
           in case usc_amount split of
                UncheckedFixedAmount amount \<Rightarrow>
                  if amount = 0
                  then Err (ConfigurationError ''Invalid split config: amount cannot be zero.'')
                  else Ok (st1\<lparr>scan_denom_amount := denom_key # scan_denom_amount st1\<rparr>)
              | UncheckedFixedRatio ratio \<Rightarrow>
                  if ratio = 0
                  then Err (ConfigurationError ''Invalid split config: ratio cannot be zero.'')
                  else
                    (case map_of (scan_denom_ratios st1) denom_key of
                       Some acc \<Rightarrow>
                         and_then (map_err LibStd (ck_decimal_add ck acc ratio)) (\<lambda>acc'.
                           Ok (st1\<lparr>scan_denom_ratios := AList.update denom_key acc' (scan_denom_ratios st1)\<rparr>))
                     | None \<Rightarrow>
                         Ok (st1\<lparr>scan_denom_ratios := AList.update denom_key ratio (scan_denom_ratios st1)\<rparr>))
              | UncheckedDynamicRatio contract_addr params \<Rightarrow>
                  and_then (map_err LibStd (addr_validate (ck_api ck) contract_addr)) (\<lambda>_. Ok st1)))"

definition check_denom_sum ::
  "config_checks \<Rightarrow> split_scan \<Rightarrow> unit \<Rightarrow> unchecked_denom \<times> decimal \<Rightarrow> (unit, library_error) result"
where
  "check_denom_sum ck st u ks =
     (case ks of (key, acc) \<Rightarrow>
        if key \<in> set (scan_denom_amount st)
        then Err (ConfigurationError
          ''Invalid split config: cannot combine amount and ratio for the same denom'')
        else if ck_to_uint_ceil ck acc \<noteq> 1
        then Err (ConfigurationError ''Invalid split config: sum of ratios for denom is not equal to 1.'')
        else Ok ())"

definition validate_splits ::
  "config_checks \<Rightarrow> unchecked_split_config list \<Rightarrow> (unit, library_error) result"
where
  "validate_splits ck splits =
     (if splits = [] then Err (ConfigurationError ''No split configuration provided.'')
      else
        and_then (try_fold (scan_split ck)
          \<lparr>scan_denom_set = [], scan_denom_amount = [], scan_denom_ratios = []\<rparr> splits) (\<lambda>st.
          try_fold (check_denom_sum ck st) () (scan_denom_ratios st)))"

definition convert_to_checked_split_amount ::
  "cw_api \<Rightarrow> unchecked_split_amount \<Rightarrow> (split_amount, library_error) result"
where
  "convert_to_checked_split_amount cw amount =
     (case amount of
        UncheckedFixedAmount a \<Rightarrow> Ok (FixedAmount a)
      | UncheckedFixedRatio r \<Rightarrow> Ok (FixedRatio r)
      | UncheckedDynamicRatio contract_addr params \<Rightarrow>
          and_then (map_err LibStd (addr_validate cw contract_addr)) (\<lambda>a.
            Ok (DynamicRatio a params)))"

definition checked_config ::
  "config_checks \<Rightarrow> unchecked_split_config \<Rightarrow> (split_config, library_error) result"
where
  "checked_config ck c =
     and_then (map_err ConfigurationError (ck_into_checked ck (usc_denom c))) (\<lambda>denom.
     and_then (map_err LibStd (account_to_addr (ck_api ck) (usc_account c))) (\<lambda>account.
     and_then (convert_to_checked_split_amount (ck_api ck) (usc_amount c)) (\<lambda>amount.
       Ok \<lparr>sc_denom = denom, sc_account = account, sc_amount = amount\<rparr>)))"

definition convert_to_checked_configs ::
  "config_checks \<Rightarrow> unchecked_split_config list \<Rightarrow> (split_config list, library_error) result"
where
  "convert_to_checked_configs ck splits = try_map (checked_config ck) splits"

definition do_validate :: "config_checks \<Rightarrow> library_config \<Rightarrow> (addr, library_error) result" where
  "do_validate ck c =
     and_then (map_err LibStd (account_to_addr (ck_api ck) (slc_input_addr c))) (\<lambda>input_addr.
     and_then (validate_splits ck (slc_splits c)) (\<lambda>_. Ok input_addr))"

definition validate :: "config_checks \<Rightarrow> library_config \<Rightarrow> (config, library_error) result" where
  "validate ck c =
     and_then (do_validate ck c) (\<lambda>input_addr.
     and_then (convert_to_checked_configs ck (slc_splits c)) (\<lambda>checked_splits.
       Ok \<lparr>cfg_input_addr = input_addr, cfg_splits = checked_splits\<rparr>))"

definition update_raw :: "library_config_update \<Rightarrow> library_config \<Rightarrow> library_config" where
  "update_raw u raw =
     \<lparr>slc_input_addr = update_field (slu_input_addr u) (slc_input_addr raw),
      slc_splits = update_field (slu_splits u) (slc_splits raw)\<rparr>"

definition get_diff_update :: "library_config \<Rightarrow> library_config \<Rightarrow> library_config_update option" where
  "get_diff_update c other =
     some_update \<lparr>slu_input_addr = None, slu_splits = None\<rparr>
       \<lparr>slu_input_addr = diff_field (slc_input_addr c) (slc_input_addr other),
        slu_splits = diff_field (slc_splits c) (slc_splits other)\<rparr>"

definition update_config ::
  "config_checks \<Rightarrow> library_config_update \<Rightarrow> config \<Rightarrow> (config, library_error) result"
where
  "update_config ck u cfg =
     and_then (case slu_input_addr u of
         Some input_addr \<Rightarrow>
           and_then (map_err LibStd (account_to_addr (ck_api ck) input_addr)) (\<lambda>a.
             Ok (cfg\<lparr>cfg_input_addr := a\<rparr>))
       | None \<Rightarrow> Ok cfg) (\<lambda>cfg1.
       (case slu_splits u of
          Some splits \<Rightarrow>
            and_then (validate_splits ck splits) (\<lambda>_.
            and_then (convert_to_checked_configs ck splits) (\<lambda>checked.
              Ok (cfg1\<lparr>cfg_splits := checked\<rparr>)))
        | None \<Rightarrow> Ok cfg1))"

section \<open>Split\<close>

datatype function_msgs = Split

definition query_dynamic_ratio ::
  "lib_deps \<Rightarrow> addr \<Rightarrow> string \<Rightarrow> checked_denom \<Rightarrow> (decimal, library_error) result"
where
  "query_dynamic_ratio d contract_addr params denom =
     (let denom_name = l_denom_name d denom
      in and_then (map_err LibStd (l_dynamic_ratio d contract_addr [denom_name] params)) (\<lambda>denom_ratios.
         ok_or (ExecutionError ''Dynamic ratio not found for denom.'') (denom_ratios denom_name)))"

type_synonym balance_cache = "(checked_denom \<times> u128) list"
type_synonym ratio_cache = "((checked_denom \<times> addr \<times> string) \<times> decimal) list"

definition query_split ::
  "lib_deps \<Rightarrow> config \<Rightarrow> balance_cache \<times> ratio_cache \<Rightarrow> split_config \<Rightarrow>
   (balance_cache \<times> ratio_cache, library_error) result"
where
  "query_split d cfg caches split =
     (case caches of (denom_balances, dynamic_ratios) \<Rightarrow>
        and_then
          (case map_of denom_balances (sc_denom split) of
             None \<Rightarrow>
               and_then (map_err LibStd (l_denom_balance d (sc_denom split) (cfg_input_addr cfg))) (\<lambda>balance.
                 Ok (AList.update (sc_denom split) balance denom_balances))
           | Some _ \<Rightarrow> Ok denom_balances) (\<lambda>balances'.
          (case sc_amount split of
             DynamicRatio contract_addr params \<Rightarrow>
               (let key = (sc_denom split, contract_addr, params)
                in case map_of dynamic_ratios key of
                     None \<Rightarrow>
                       and_then (query_dynamic_ratio d contract_addr params (sc_denom split)) (\<lambda>ratio.
                         Ok (balances', AList.update key ratio dynamic_ratios))
                   | Some _ \<Rightarrow> Ok (balances', dynamic_ratios))
           | _ \<Rightarrow> Ok (balances', dynamic_ratios))))"

definition split_transfer ::
  "lib_deps \<Rightarrow> balance_cache \<times> ratio_cache \<Rightarrow> split_config \<Rightarrow>
   (u128 \<times> checked_denom \<times> addr, library_error) result"
where
  "split_transfer d caches split =
     and_then (unwrap (map_of (fst caches) (sc_denom split))) (\<lambda>balance.
     and_then
       (case sc_amount split of
          FixedAmount amount \<Rightarrow> Ok amount
        | FixedRatio ratio \<Rightarrow> map_err LibStd (l_multiply_ratio d balance ratio decimal_one)
        | DynamicRatio contract_addr params \<Rightarrow>
            and_then (unwrap (map_of (snd caches) (sc_denom split, contract_addr, params))) (\<lambda>ratio.
              map_err LibStd (l_multiply_ratio d balance ratio decimal_one))) (\<lambda>amount.
       Ok (amount, sc_denom split, sc_account split)))"

definition transfers_of :: "checked_denom \<Rightarrow> (u128 \<times> checked_denom \<times> addr) list \<Rightarrow> u128 list" where
  "transfers_of denom amounts = map fst (filter (\<lambda>(_, c, _). c = denom) amounts)"

definition check_total ::
  "balance_cache \<Rightarrow> (u128 \<times> checked_denom \<times> addr) list \<Rightarrow> unit \<Rightarrow> checked_denom \<Rightarrow> (unit, library_error) result"
where
  "check_total denom_balances amounts u denom =
     and_then (map_err LibStd (sum_u128 (transfers_of denom amounts))) (\<lambda>total_amount.
     and_then (unwrap (map_of denom_balances denom)) (\<lambda>balance.
       if balance < total_amount
       then Err (ExecutionError ''Insufficient balance for denom in split config.'')
       else Ok ()))"

definition prepare_transfer_amounts ::
  "lib_deps \<Rightarrow> config \<Rightarrow> ((u128 \<times> checked_denom \<times> addr) list, library_error) result"
where
  "prepare_transfer_amounts d cfg =
     and_then (try_fold (query_split d cfg) ([], []) (cfg_splits cfg)) (\<lambda>caches.
     and_then (try_map (split_transfer d caches) (cfg_splits cfg)) (\<lambda>amounts.
     and_then (try_fold (check_total (fst caches) amounts) ()
       (remdups (map (\<lambda>(_, denom, _). denom) amounts))) (\<lambda>_.
       Ok amounts)))"

definition prepare_transfer_messages ::
  "lib_deps \<Rightarrow> (u128 \<times> checked_denom \<times> addr) list \<Rightarrow> (cosmos_msg list, library_error) result"
where
  "prepare_transfer_messages d coins_to_transfer =
     try_map (\<lambda>(amount, denom, account). map_err LibStd (l_transfer_to d denom account amount))
       coins_to_transfer"

definition process_function ::
  "lib_deps \<Rightarrow> (library_config, config, 'o, 'z, function_msgs) process_function"
where
  "process_function d s env info msg cfg =
     (case msg of
        Split \<Rightarrow>
          and_then (prepare_transfer_amounts d cfg) (\<lambda>transfer_amounts.
          and_then (prepare_transfer_messages d transfer_amounts) (\<lambda>transfer_messages.
            Ok (s, add_messages [execute_on_behalf_of d transfer_messages (cfg_input_addr cfg)]
                     (add_attribute ''method'' ''split'' response_new)))))"

definition instantiate ::
  "'o ownable \<Rightarrow> config_checks \<Rightarrow> library_config library_instantiate_msg \<Rightarrow>
   ((library_config, config, 'o) library \<times> response, library_error) result"
where
  "instantiate ow ck msg = lib_instantiate ow (ck_api ck) (validate ck) msg"

definition execute ::
  "'o ownable \<Rightarrow> config_checks \<Rightarrow> lib_deps \<Rightarrow> (library_config, config, 'o, 'z) library_scheme \<Rightarrow> env \<Rightarrow>
   message_info \<Rightarrow> (function_msgs, library_config_update) library_execute_msg \<Rightarrow>
   (library_config, config, 'o, 'z) library_result"
where
  "execute ow ck d s env info msg =
     lib_execute ow (ck_api ck) (process_function d) update_raw (update_config ck) s env info msg"

end
