(* ===== verification/Splitter_Props.thy ===== *)
theory Splitter_Props
  imports Splitter
begin

text \<open>
  Correctness of the splitter: the cached computation of the amounts is the direct one
  (\<open>split_amounts_iff\<close>), a validated configuration of fixed ratios never asks for more than the
  balance and leaves less than one unit per split (\<open>fixed_ratios_split\<close>), and the configuration
  stays the validation of the raw one (interpretation of \<open>validated_config\<close>).
\<close>

section \<open>The cached computation and the direct one\<close>

definition direct_transfer ::
  "lib_deps \<Rightarrow> config \<Rightarrow> split_config \<Rightarrow> (u128 \<times> checked_denom \<times> addr, library_error) result"
where
  "direct_transfer d cfg split =
     and_then (map_err LibStd (l_denom_balance d (sc_denom split) (cfg_input_addr cfg))) (\<lambda>balance.
     and_then
       (case sc_amount split of
          FixedAmount amount \<Rightarrow> Ok amount
        | FixedRatio ratio \<Rightarrow> map_err LibStd (l_multiply_ratio d balance ratio decimal_one)
        | DynamicRatio contract_addr params \<Rightarrow>
            and_then (query_dynamic_ratio d contract_addr params (sc_denom split)) (\<lambda>ratio.
              map_err LibStd (l_multiply_ratio d balance ratio decimal_one))) (\<lambda>amount.
       Ok (amount, sc_denom split, sc_account split)))"

definition cache_ok :: "lib_deps \<Rightarrow> config \<Rightarrow> balance_cache \<times> ratio_cache \<Rightarrow> bool" where
  "cache_ok d cfg c \<longleftrightarrow>
     (\<forall>denom b. map_of (fst c) denom = Some b \<longrightarrow> l_denom_balance d denom (cfg_input_addr cfg) = Ok b)
   \<and> (\<forall>denom a p r. map_of (snd c) (denom, a, p) = Some r \<longrightarrow> query_dynamic_ratio d a p denom = Ok r)"

definition cached :: "balance_cache \<times> ratio_cache \<Rightarrow> split_config \<Rightarrow> bool" where
  "cached c split \<longleftrightarrow>
     map_of (fst c) (sc_denom split) \<noteq> None
   \<and> (case sc_amount split of
        DynamicRatio a p \<Rightarrow> map_of (snd c) (sc_denom split, a, p) \<noteq> None
      | _ \<Rightarrow> True)"

lemma query_split_ok:
  assumes "query_split d cfg c split = Ok c'"
  shows "cached c' split" and "cache_ok d cfg c \<Longrightarrow> cache_ok d cfg c'"
    and "cached c other \<Longrightarrow> cached c' other"
proof -
  obtain B R where c: "c = (B, R)" by (cases c)
  obtain B' where B': "(case map_of B (sc_denom split) of
        None \<Rightarrow> and_then (map_err LibStd (l_denom_balance d (sc_denom split) (cfg_input_addr cfg)))
          (\<lambda>balance. Ok (AList.update (sc_denom split) balance B))
      | Some _ \<Rightarrow> Ok B) = Ok B'"
    and rest: "(case sc_amount split of
             DynamicRatio contract_addr params \<Rightarrow>
               (let key = (sc_denom split, contract_addr, params)
                in case map_of R key of
                     None \<Rightarrow>
                       and_then (query_dynamic_ratio d contract_addr params (sc_denom split)) (\<lambda>ratio.
                         Ok (B', AList.update key ratio R))
                   | Some _ \<Rightarrow> Ok (B', R))
           | _ \<Rightarrow> Ok (B', R)) = Ok c'"
    using assms by (auto simp: query_split_def c and_then_Ok_iff)
  from B' have b: "map_of B' (sc_denom split) \<noteq> None"
    and b_other: "\<And>k. map_of B k \<noteq> None \<Longrightarrow> map_of B' k \<noteq> None"
    and b_ok: "\<And>k v. map_of B' k = Some v \<Longrightarrow> map_of B k = Some v
        \<or> l_denom_balance d k (cfg_input_addr cfg) = Ok v"
    by (auto simp: and_then_Ok_iff map_err_Ok_iff update_conv' split: option.splits if_splits)
  define R' where "R' = snd c'"
  have c': "c' = (B', R')"
    and r: "\<And>a p. sc_amount split = DynamicRatio a p \<Longrightarrow> map_of R' (sc_denom split, a, p) \<noteq> None"
    using rest
    by (cases "sc_amount split";
        auto simp: R'_def and_then_Ok_iff update_conv' Let_def split: option.splits)+
  have r_other: "map_of R k \<noteq> None \<Longrightarrow> map_of R' k \<noteq> None" for k
    using rest
    by (cases "sc_amount split")
      (auto simp: R'_def and_then_Ok_iff update_conv' Let_def split: option.splits)
  have r_ok: "map_of R' (k, a, p) = Some v \<Longrightarrow> map_of R (k, a, p) = Some v
        \<or> query_dynamic_ratio d a p k = Ok v" for k a p v
    using rest
    by (cases "sc_amount split")
      (auto simp: R'_def and_then_Ok_iff update_conv' Let_def split: option.splits if_splits)
  show "cached c' split" using b r by (auto simp: cached_def c' split: split_amount.splits)
  show "cached c other \<Longrightarrow> cached c' other"
    using b_other r_other by (auto simp: cached_def c c' split: split_amount.splits)
  show "cache_ok d cfg c \<Longrightarrow> cache_ok d cfg c'"
    using b_ok r_ok by (fastforce simp: cache_ok_def c c')
qed

lemma query_splits_ok:
  assumes "try_fold (query_split d cfg) c splits = Ok c'" and "cache_ok d cfg c"
  shows "cache_ok d cfg c' \<and> (\<forall>split \<in> set splits. cached c' split)
    \<and> (\<forall>other. cached c other \<longrightarrow> cached c' other)"
  using assms
proof (induction splits arbitrary: c)
  case (Cons split splits)
  then obtain c1 where c1: "query_split d cfg c split = Ok c1"
    and "try_fold (query_split d cfg) c1 splits = Ok c'"
    by (auto simp: and_then_Ok_iff)
  with Cons.IH [of c1] query_split_ok [OF c1] Cons.prems(2) show ?case by auto
qed simp

lemma query_split_total:
  assumes "direct_transfer d cfg split = Ok t"
  shows "\<exists>c1. query_split d cfg c split = Ok c1"
proof -
  obtain B R where c: "c = (B, R)" by (cases c)
  show ?thesis
  proof (cases "sc_amount split")
    case (DynamicRatio a p)
    with assms show ?thesis
      by (cases "map_of B (sc_denom split)"; cases "map_of R (sc_denom split, a, p)")
        (auto simp: c direct_transfer_def query_split_def and_then_Ok_iff map_err_Ok_iff Let_def)
  qed (use assms in \<open>auto simp: c direct_transfer_def query_split_def and_then_Ok_iff map_err_Ok_iff
        split: option.splits\<close>)
qed

lemma query_splits_total:
  assumes "\<forall>split \<in> set splits. \<exists>t. direct_transfer d cfg split = Ok t"
  shows "\<exists>c'. try_fold (query_split d cfg) c splits = Ok c'"
  using assms
proof (induction splits arbitrary: c)
  case (Cons split splits)
  then obtain t where "direct_transfer d cfg split = Ok t" by (meson list.set_intros(1))
  then obtain c1 where c1: "query_split d cfg c split = Ok c1" using query_split_total by blast
  from Cons.IH [of c1] Cons.prems obtain c' where "try_fold (query_split d cfg) c1 splits = Ok c'"
    by (meson list.set_intros(2))
  with c1 have "try_fold (query_split d cfg) c (split # splits) = Ok c'" by simp
  then show ?case ..
qed simp

lemma split_transfer_cached:
  assumes "cache_ok d cfg c" and "cached c split"
  shows "split_transfer d c split = Ok t \<longleftrightarrow> direct_transfer d cfg split = Ok t"
  using assms
  by (auto simp: cache_ok_def cached_def split_transfer_def direct_transfer_def unwrap_def
      and_then_Ok_iff map_err_Ok_iff expect_Ok_iff split: split_amount.splits)

lemma direct_transfer_fields:
  "direct_transfer d cfg split = Ok (n, denom, a) \<Longrightarrow>
   denom = sc_denom split \<and> a = sc_account split
   \<and> (\<exists>b. l_denom_balance d denom (cfg_input_addr cfg) = Ok b)"
  by (auto simp: direct_transfer_def and_then_Ok_iff map_err_Ok_iff)

lemma check_total_Ok:
  assumes "map_of B denom = Some b" and "b < 2 ^ 128"
  shows "check_total B amounts u denom = Ok () \<longleftrightarrow> sum_list (transfers_of denom amounts) \<le> b"
proof
  assume "check_total B amounts u denom = Ok ()"
  then show "sum_list (transfers_of denom amounts) \<le> b"
    using assms
    by (auto simp: check_total_def unwrap_def and_then_Ok_iff map_err_Ok_iff
        dest!: sum_u128_Ok split: if_splits)
next
  assume "sum_list (transfers_of denom amounts) \<le> b"
  with assms(2) have "sum_u128 (transfers_of denom amounts) = Ok (sum_list (transfers_of denom amounts))"
    by (intro sum_u128_fits) linarith
  then show "check_total B amounts u denom = Ok ()"
    using assms \<open>sum_list (transfers_of denom amounts) \<le> b\<close> by (simp add: check_total_def unwrap_def)
qed


definition balances_fit :: "lib_deps \<Rightarrow> bool" where
  "balances_fit d \<longleftrightarrow> (\<forall>denom a b. l_denom_balance d denom a = Ok b \<longrightarrow> b < 2 ^ 128)"

lemma transfers_of_other: "denom \<notin> (\<lambda>(_, c, _). c) ` set amounts \<Longrightarrow> transfers_of denom amounts = []"
  by (force simp: transfers_of_def filter_empty_conv)

lemma check_totals_Ok:
  assumes c: "cache_ok d cfg c" "\<forall>split \<in> set (cfg_splits cfg). cached c split" and fit: "balances_fit d"
    and amounts: "list_all2 (\<lambda>split t. direct_transfer d cfg split = Ok t) (cfg_splits cfg) amounts"
  shows "try_fold (check_total (fst c) amounts) () (remdups (map (\<lambda>(_, denom, _). denom) amounts)) = Ok ()
    \<longleftrightarrow> (\<forall>denom b. l_denom_balance d denom (cfg_input_addr cfg) = Ok b \<longrightarrow>
          sum_list (transfers_of denom amounts) \<le> b)"
proof -
  have in_cache: "\<exists>b. map_of (fst c) denom = Some b \<and> l_denom_balance d denom (cfg_input_addr cfg) = Ok b
      \<and> b < 2 ^ 128" if denom: "denom \<in> (\<lambda>(_, denom, _). denom) ` set amounts" for denom
  proof -
    from denom amounts obtain split where "split \<in> set (cfg_splits cfg)" "sc_denom split = denom"
      by (fastforce simp: list_all2_conv_all_nth in_set_conv_nth dest: direct_transfer_fields)
    with c(2) obtain b where "map_of (fst c) denom = Some b" by (auto simp: cached_def)
    moreover from this c(1) have "l_denom_balance d denom (cfg_input_addr cfg) = Ok b"
      by (simp add: cache_ok_def)
    moreover from this fit have "b < 2 ^ 128" unfolding balances_fit_def by blast
    ultimately show ?thesis by blast
  qed
  show ?thesis
  proof
    assume all: "try_fold (check_total (fst c) amounts) ()
      (remdups (map (\<lambda>(_, denom, _). denom) amounts)) = Ok ()"
    show "\<forall>denom b. l_denom_balance d denom (cfg_input_addr cfg) = Ok b \<longrightarrow>
          sum_list (transfers_of denom amounts) \<le> b"
    proof (intro allI impI)
      fix denom b assume b: "l_denom_balance d denom (cfg_input_addr cfg) = Ok b"
      show "sum_list (transfers_of denom amounts) \<le> b"
      proof (cases "denom \<in> (\<lambda>(_, denom, _). denom) ` set amounts")
        case True
        with in_cache b obtain "map_of (fst c) denom = Some b" "b < 2 ^ 128" by fastforce
        moreover from all True have "check_total (fst c) amounts () denom = Ok ()"
          by (auto simp: try_fold_unit)
        ultimately show ?thesis by (simp add: check_total_Ok)
      qed (simp add: transfers_of_other)
    qed
  next
    assume "\<forall>denom b. l_denom_balance d denom (cfg_input_addr cfg) = Ok b \<longrightarrow>
          sum_list (transfers_of denom amounts) \<le> b"
    with in_cache show "try_fold (check_total (fst c) amounts) ()
      (remdups (map (\<lambda>(_, denom, _). denom) amounts)) = Ok ()"
      by (fastforce simp: try_fold_unit check_total_Ok)
  qed
qed

lemma cache_ok_empty: "cache_ok d cfg ([], [])"
  by (simp add: cache_ok_def)

lemma prepare_transfer_amounts_iff:
  assumes "balances_fit d"
  shows "prepare_transfer_amounts d cfg = Ok amounts \<longleftrightarrow>
    list_all2 (\<lambda>split t. direct_transfer d cfg split = Ok t) (cfg_splits cfg) amounts
    \<and> (\<forall>denom b. l_denom_balance d denom (cfg_input_addr cfg) = Ok b \<longrightarrow>
          sum_list (transfers_of denom amounts) \<le> b)"
    (is "?code \<longleftrightarrow> ?direct \<and> ?within")
proof
  assume ?code
  then obtain c where c: "try_fold (query_split d cfg) ([], []) (cfg_splits cfg) = Ok c"
    and a: "try_map (split_transfer d c) (cfg_splits cfg) = Ok amounts"
    and t: "try_fold (check_total (fst c) amounts) () (remdups (map (\<lambda>(_, denom, _). denom) amounts)) = Ok ()"
    by (auto simp: prepare_transfer_amounts_def and_then_Ok_iff)
  note ok = query_splits_ok [OF c cache_ok_empty]
  have direct: ?direct
    using a ok try_map_cong_Ok [of "cfg_splits cfg" "split_transfer d c" "direct_transfer d cfg"]
    by (simp add: split_transfer_cached flip: try_map_Ok_iff)
  from check_totals_Ok [OF _ _ assms direct, of c] t ok have ?within by blast
  with direct show "?direct \<and> ?within" ..
next
  assume asm: "?direct \<and> ?within"
  then have "\<forall>split \<in> set (cfg_splits cfg). \<exists>t. direct_transfer d cfg split = Ok t"
    by (auto simp: list_all2_conv_all_nth in_set_conv_nth simp del: split_paired_Ex)
  then obtain c where c: "try_fold (query_split d cfg) ([], []) (cfg_splits cfg) = Ok c"
    using query_splits_total by blast
  note ok = query_splits_ok [OF c cache_ok_empty]
  have "try_map (split_transfer d c) (cfg_splits cfg) = Ok amounts"
    using asm ok try_map_cong_Ok [of "cfg_splits cfg" "split_transfer d c" "direct_transfer d cfg"]
    by (simp add: split_transfer_cached flip: try_map_Ok_iff)
  moreover from asm have direct: ?direct ..
  from check_totals_Ok [OF _ _ assms direct, of c] asm ok
  have "try_fold (check_total (fst c) amounts) () (remdups (map (\<lambda>(_, denom, _). denom) amounts)) = Ok ()"
    by blast
  ultimately show ?code using c by (simp add: prepare_transfer_amounts_def)
qed

text \<open>
  (C34) The amounts the splitter transfers are those computed directly for each split, with one query
  each: the caches change nothing. It transfers exactly when each of them can be computed and, for
  every denomination, the sum of the amounts is within the balance of the input account.
\<close>

theorem split_amounts_iff:
  assumes "balances_fit d"
  shows "prepare_transfer_amounts d cfg = Ok amounts \<longleftrightarrow>
    list_all2 (\<lambda>split t. direct_transfer d cfg split = Ok t) (cfg_splits cfg) amounts
    \<and> (\<forall>denom b. l_denom_balance d denom (cfg_input_addr cfg) = Ok b \<longrightarrow>
          sum_list (transfers_of denom amounts) \<le> b)"
  using assms by (rule prepare_transfer_amounts_iff)

section \<open>Validated ratios\<close>

text \<open>The ratios given for a denomination.\<close>

definition ratios_of :: "unchecked_denom \<Rightarrow> unchecked_split_config list \<Rightarrow> decimal list" where
  "ratios_of u splits =
     List.map_filter (\<lambda>s. case usc_amount s of
         UncheckedFixedRatio r \<Rightarrow> if usc_denom s = u then Some r else None
       | _ \<Rightarrow> None) splits"

lemma ratios_of_simps [simp]:
  "ratios_of u [] = []"
  "ratios_of u (s # splits) =
     (case usc_amount s of
        UncheckedFixedRatio r \<Rightarrow> if usc_denom s = u then r # ratios_of u splits else ratios_of u splits
      | _ \<Rightarrow> ratios_of u splits)"
  by (auto simp: ratios_of_def map_filter_simps split: unchecked_split_amount.splits)

lemma scan_splits_ratios:
  assumes "try_fold (scan_split ck) st splits = Ok st'" and "decimals_ok ck"
  shows "map_of (scan_denom_ratios st') u =
    (if ratios_of u splits = [] then map_of (scan_denom_ratios st) u
     else Some ((case map_of (scan_denom_ratios st) u of Some n \<Rightarrow> n | None \<Rightarrow> 0) + sum_list (ratios_of u splits)))"
  using assms(1)
proof (induction splits arbitrary: st)
  case (Cons s splits)
  then obtain st1 where st1: "scan_split ck st s = Ok st1" and "try_fold (scan_split ck) st1 splits = Ok st'"
    by (auto simp: and_then_Ok_iff)
  moreover from st1 assms(2) have "map_of (scan_denom_ratios st1) u =
    (case usc_amount s of
       UncheckedFixedRatio r \<Rightarrow>
         if usc_denom s = u then Some ((case map_of (scan_denom_ratios st) u of Some n \<Rightarrow> n | None \<Rightarrow> 0) + r)
         else map_of (scan_denom_ratios st) u
     | _ \<Rightarrow> map_of (scan_denom_ratios st) u)"
    by (cases "usc_amount s")
      (auto simp: scan_split_def Let_def and_then_Ok_iff map_err_Ok_iff decimals_ok_def update_conv'
        split: if_splits option.splits)
  ultimately show ?case
    using Cons.IH [of st1]
    by (auto split: unchecked_split_amount.splits option.splits if_splits)
qed simp

text \<open>What validation accepts as a sum of ratios: anything that rounds up to one.\<close>

lemma div_eq_one_iff: "m div k = 1 \<longleftrightarrow> k \<le> m \<and> m < 2 * k" for k m :: nat
proof
  assume one: "m div k = 1"
  then have "k \<noteq> 0" by (metis div_by_0 zero_neq_one)
  then have "m mod k < k" by simp
  moreover have "k + m mod k = m" using mult_div_mod_eq [of k m] one by simp
  ultimately show "k \<le> m \<and> m < 2 * k" by linarith
qed (auto intro: div_nat_eqI)

lemma ceil_one_iff: "(n + (decimal_one - 1)) div decimal_one = 1 \<longleftrightarrow> 0 < n \<and> n \<le> decimal_one"
  unfolding div_eq_one_iff by auto

lemma validated_ratio_sums:
  assumes "validate_splits ck splits = Ok ()" and "decimals_ok ck"
  shows "sum_list (ratios_of u splits) \<le> decimal_one"
proof (cases "ratios_of u splits = []")
  case False
  from assms(1) obtain st where
    st: "try_fold (scan_split ck) \<lparr>scan_denom_set = [], scan_denom_amount = [], scan_denom_ratios = []\<rparr> splits = Ok st"
    and sums: "\<forall>ks \<in> set (scan_denom_ratios st). check_denom_sum ck st () ks = Ok ()"
    by (auto simp: validate_splits_def and_then_Ok_iff try_fold_unit split: if_splits)
  from scan_splits_ratios [OF st assms(2), of u] False
  have "(u, sum_list (ratios_of u splits)) \<in> set (scan_denom_ratios st)"
    by (auto dest: map_of_SomeD)
  with sums assms(2) show ?thesis
    by (fastforce simp: check_denom_sum_def decimals_ok_def ceil_one_iff split: if_splits)
qed simp

section \<open>Splitting by fixed ratios\<close>

lemma sum_floors_le: "0 < k \<Longrightarrow> sum_list (map (\<lambda>r. b * r div k) rs) \<le> b * sum_list rs div k" for b k :: nat
proof (induction rs)
  case (Cons r rs)
  have "b * r div k + b * sum_list rs div k \<le> (b * r + b * sum_list rs) div k"
    using Cons.prems
    by (simp add: less_eq_div_iff_mult_less_eq distrib_right add_mono)
  with Cons show ?case by (simp add: distrib_left)
qed simp

lemma sum_floors_ge:
  "b * sum_list rs \<le> k * sum_list (map (\<lambda>r. b * r div k) rs) + (k - 1) * length rs" if "0 < k" for b k :: nat
proof (induction rs)
  case (Cons r rs)
  have "b * r \<le> k * (b * r div k) + (k - 1)"
    using mod_less_divisor [OF that, of "b * r"] mult_div_mod_eq [of k "b * r"] by linarith
  with Cons show ?case by (simp add: distrib_left)
qed simp

lemma floors_dust:
  fixes b k :: nat
  assumes "sum_list rs = k" and "0 < k"
  shows "b < sum_list (map (\<lambda>r. b * r div k) rs) + length rs"
proof -
  let ?f = "sum_list (map (\<lambda>r. b * r div k) rs)"
  from assms have "rs \<noteq> []" by auto
  then have "(k - 1) * length rs < k * length rs" using assms(2) by simp
  moreover have "b * k \<le> k * ?f + (k - 1) * length rs"
    using sum_floors_ge [OF assms(2), of b rs] by (simp only: assms(1))
  ultimately have "b * k < k * ?f + k * length rs" by linarith
  then have "k * b < k * (?f + length rs)" by (simp add: algebra_simps)
  then show ?thesis by simp
qed

definition queried :: "lib_deps \<Rightarrow> config \<Rightarrow> checked_denom \<Rightarrow> u128" where
  "queried d cfg denom = (case l_denom_balance d denom (cfg_input_addr cfg) of Ok b \<Rightarrow> b | Err _ \<Rightarrow> 0)"

definition ratio_of :: "split_config \<Rightarrow> decimal" where
  "ratio_of split = (case sc_amount split of FixedRatio r \<Rightarrow> r | _ \<Rightarrow> 0)"

definition ratio_transfer :: "lib_deps \<Rightarrow> config \<Rightarrow> split_config \<Rightarrow> u128 \<times> checked_denom \<times> addr" where
  "ratio_transfer d cfg split =
     (queried d cfg (sc_denom split) * ratio_of split div decimal_one, sc_denom split, sc_account split)"

lemma checked_config_fixed:
  assumes "checked_config ck s = Ok c" and "usc_amount s = UncheckedFixedRatio r"
  shows "ck_into_checked ck (usc_denom s) = Ok (sc_denom c)" and "sc_amount c = FixedRatio r"
  using assms
  by (auto simp: checked_config_def convert_to_checked_split_amount_def and_then_Ok_iff map_err_Ok_iff)

lemma fixed_transfers_of:
  assumes "list_all2 (\<lambda>s c. checked_config ck s = Ok c) splits checked"
    and "\<forall>s \<in> set splits. \<exists>r. usc_amount s = UncheckedFixedRatio r"
    and "denoms_ok ck" and "ck_into_checked ck u = Ok denom"
  shows "transfers_of denom (map (ratio_transfer d cfg) checked) =
    map (\<lambda>r. queried d cfg denom * r div decimal_one) (ratios_of u splits)"
  using assms(1,2)
proof (induction rule: list_all2_induct)
  case (Cons s splits c checked)
  then obtain r where r: "usc_amount s = UncheckedFixedRatio r" by auto
  note c = checked_config_fixed [OF Cons.hyps(1) r]
  have "sc_denom c = denom \<longleftrightarrow> usc_denom s = u"
    using c(1) assms(3,4) by (auto simp: denoms_ok_def)
  with Cons r c show ?case
    by (auto simp: transfers_of_def ratio_transfer_def ratio_of_def)
qed (simp add: transfers_of_def)

lemma direct_ratio_transfer:
  assumes "multiply_ok d" and "sc_amount c = FixedRatio r" and "r \<le> decimal_one"
    and "l_denom_balance d (sc_denom c) (cfg_input_addr cfg) = Ok b" and "b < 2 ^ 128"
  shows "direct_transfer d cfg c = Ok (ratio_transfer d cfg c)"
proof -
  have "b * r div decimal_one \<le> b * decimal_one div decimal_one"
    using assms(3) by (intro div_le_mono mult_le_mono) auto
  then have "b * r div decimal_one \<le> b" by simp
  with assms(5) have "b * r div decimal_one < 2 ^ 128" by linarith
  with assms(1) have "l_multiply_ratio d b r decimal_one = Ok (b * r div decimal_one)"
    by (simp add: multiply_ok_def)
  with assms(2,4) show ?thesis
    by (simp add: direct_transfer_def ratio_transfer_def queried_def ratio_of_def)
qed

lemma validate_Ok:
  assumes "validate ck raw = Ok cfg"
  shows "validate_splits ck (slc_splits raw) = Ok ()"
    and "list_all2 (\<lambda>s c. checked_config ck s = Ok c) (slc_splits raw) (cfg_splits cfg)"
    and "account_to_addr (ck_api ck) (slc_input_addr raw) = Ok (cfg_input_addr cfg)"
  using assms
  by (auto simp: validate_def do_validate_def convert_to_checked_configs_def and_then_Ok_iff
      map_err_Ok_iff try_map_Ok_iff)

lemma ratio_in_ratios_of:
  "s \<in> set splits \<Longrightarrow> usc_amount s = UncheckedFixedRatio r \<Longrightarrow> r \<in> set (ratios_of (usc_denom s) splits)"
  by (induction splits) (auto split: unchecked_split_amount.splits)

lemma validated_ratio_le:
  assumes "validate_splits ck splits = Ok ()" and "decimals_ok ck"
    and "s \<in> set splits" and "usc_amount s = UncheckedFixedRatio r"
  shows "r \<le> decimal_one"
  using member_le_sum_list [OF ratio_in_ratios_of [OF assms(3,4)]]
    validated_ratio_sums [OF assms(1,2), of "usc_denom s"] by linarith

lemma total_within:
  assumes "validate ck raw = Ok cfg" "decimals_ok ck" "denoms_ok ck"
    and "\<forall>s \<in> set (slc_splits raw). \<exists>r. usc_amount s = UncheckedFixedRatio r"
  shows "sum_list (transfers_of denom (map (ratio_transfer d cfg) (cfg_splits cfg))) \<le> queried d cfg denom"
proof (cases "denom \<in> sc_denom ` set (cfg_splits cfg)")
  case True
  then obtain c where c: "c \<in> set (cfg_splits cfg)" "sc_denom c = denom" by auto
  with validate_Ok(2) [OF assms(1)] obtain s where
    s: "s \<in> set (slc_splits raw)" "checked_config ck s = Ok c"
    by (meson list_all2_in_set2)
  with assms(4) obtain r where r: "usc_amount s = UncheckedFixedRatio r" by auto
  let ?rs = "ratios_of (usc_denom s) (slc_splits raw)"
  let ?b = "queried d cfg denom"
  have "ck_into_checked ck (usc_denom s) = Ok denom"
    using checked_config_fixed(1) [OF s(2) r] c(2) by simp
  note eq = fixed_transfers_of [OF validate_Ok(2) [OF assms(1)] assms(4,3) this, of d cfg]
  have "sum_list (map (\<lambda>r. ?b * r div decimal_one) ?rs) \<le> ?b * sum_list ?rs div decimal_one"
    by (rule sum_floors_le) simp
  also have "\<dots> \<le> ?b * decimal_one div decimal_one"
    using validated_ratio_sums [OF validate_Ok(1) [OF assms(1)] assms(2)]
    by (intro div_le_mono mult_le_mono) auto
  also have "\<dots> = ?b" by simp
  finally show ?thesis unfolding eq .
next
  case False
  then have "transfers_of denom (map (ratio_transfer d cfg) (cfg_splits cfg)) = []"
    by (auto simp: transfers_of_def ratio_transfer_def filter_empty_conv)
  then show ?thesis by simp
qed

lemma fixed_ratio_amounts:
  assumes validated: "validate ck raw = Ok cfg"
    and platform: "decimals_ok ck" "denoms_ok ck" "multiply_ok d" "balances_fit d"
    and fixed: "\<forall>s \<in> set (slc_splits raw). \<exists>r. usc_amount s = UncheckedFixedRatio r"
    and queries: "\<forall>c \<in> set (cfg_splits cfg). \<exists>b. l_denom_balance d (sc_denom c) (cfg_input_addr cfg) = Ok b"
  shows "prepare_transfer_amounts d cfg = Ok (map (ratio_transfer d cfg) (cfg_splits cfg))"
proof -
  have "direct_transfer d cfg c = Ok (ratio_transfer d cfg c)" if c: "c \<in> set (cfg_splits cfg)" for c
  proof -
    from c validate_Ok(2) [OF validated] obtain s where
      s: "s \<in> set (slc_splits raw)" "checked_config ck s = Ok c"
      by (meson list_all2_in_set2)
    with fixed obtain r where r: "usc_amount s = UncheckedFixedRatio r" by auto
    from queries c obtain b where b: "l_denom_balance d (sc_denom c) (cfg_input_addr cfg) = Ok b" by auto
    with platform(4) have "b < 2 ^ 128" unfolding balances_fit_def by blast
    with b show ?thesis
      using direct_ratio_transfer [OF platform(3) checked_config_fixed(2) [OF s(2) r]
          validated_ratio_le [OF validate_Ok(1) [OF validated] platform(1) s(1) r]] by blast
  qed
  then show ?thesis
    using total_within [OF validated platform(1,2) fixed, of _ d] platform(4)
    by (auto simp: prepare_transfer_amounts_iff list_all2_conv_all_nth queried_def split: result.splits)
      (metis result.simps(5))
qed

text \<open>
  (C35) A validated configuration of fixed ratios splits every balance: the amount of each split is the
  rounded-down share of the balance; the amounts of a denomination never exceed its balance; and when
  its ratios sum to one, fewer units than it has splits stay behind.
\<close>

theorem fixed_ratios_split:
  assumes validated: "validate ck raw = Ok cfg"
    and platform: "decimals_ok ck" "denoms_ok ck" "multiply_ok d" "balances_fit d"
    and fixed: "\<forall>s \<in> set (slc_splits raw). \<exists>r. usc_amount s = UncheckedFixedRatio r"
    and queries: "\<forall>c \<in> set (cfg_splits cfg). \<exists>b. l_denom_balance d (sc_denom c) (cfg_input_addr cfg) = Ok b"
  shows "prepare_transfer_amounts d cfg = Ok (map (ratio_transfer d cfg) (cfg_splits cfg))
    \<and> (\<forall>u denom. ck_into_checked ck u = Ok denom \<longrightarrow>
         sum_list (transfers_of denom (map (ratio_transfer d cfg) (cfg_splits cfg))) \<le> queried d cfg denom
       \<and> (sum_list (ratios_of u (slc_splits raw)) = decimal_one \<longrightarrow>
            queried d cfg denom <
              sum_list (transfers_of denom (map (ratio_transfer d cfg) (cfg_splits cfg)))
              + length (ratios_of u (slc_splits raw))))"
proof (intro conjI allI impI)
  show "prepare_transfer_amounts d cfg = Ok (map (ratio_transfer d cfg) (cfg_splits cfg))"
    by (rule fixed_ratio_amounts [OF assms])
next
  fix u denom assume "ck_into_checked ck u = Ok denom"
  note eq = fixed_transfers_of [OF validate_Ok(2) [OF validated] fixed platform(2) this, of d cfg]
  show "sum_list (transfers_of denom (map (ratio_transfer d cfg) (cfg_splits cfg))) \<le> queried d cfg denom"
    by (rule total_within [OF validated platform(1,2) fixed])
  assume "sum_list (ratios_of u (slc_splits raw)) = decimal_one"
  then show "queried d cfg denom <
      sum_list (transfers_of denom (map (ratio_transfer d cfg) (cfg_splits cfg)))
      + length (ratios_of u (slc_splits raw))"
    unfolding eq by (rule floors_dust) simp
qed

section \<open>The stored configuration\<close>

lemma process_keeps: "process_function d s env info m cfg = Ok (s', r) \<Longrightarrow> s' = s"
  by (auto simp: process_function_def and_then_Ok_iff split: function_msgs.splits)

lemma update_config_validates:
  assumes "validate ck raw = Ok cfg" and "update_config ck u cfg = Ok cfg'"
  shows "validate ck (update_raw u raw) = Ok cfg'"
  using assms
  by (cases "slu_input_addr u"; cases "slu_splits u")
    (auto simp: validate_def do_validate_def update_config_def update_raw_def and_then_Ok_iff
      map_err_Ok_iff)

interpretation splitter: validated_config "validate ck" update_raw "update_config ck"
  "range process_function" id
  for ck
  by unfold_locales (auto dest: update_config_validates process_keeps)

lemma diff_fields:
  assumes "get_diff_update raw other = Some u"
  shows "slu_input_addr u = diff_field (slc_input_addr raw) (slc_input_addr other)"
    "slu_splits u = diff_field (slc_splits raw) (slc_splits other)"
  using assms by (auto simp: get_diff_update_def some_update_def split: if_splits)

interpretation splitter_diff: diff_update "validate ck" update_raw "update_config ck" get_diff_update
  for ck
proof unfold_locales
  fix raw other :: library_config
  assume "get_diff_update raw other = None"
  then show "raw = other" by (auto simp: get_diff_update_def some_update_def split: if_splits)
next
  fix raw other :: library_config and u
  assume "get_diff_update raw other = Some u"
  then show "update_raw u raw = other" by (simp add: diff_fields update_raw_def)
next
  fix raw other cfg cfg' u
  assume "validate ck raw = Ok cfg" "validate ck other = Ok cfg'" "get_diff_update raw other = Some u"
  then show "update_config ck u cfg = Ok cfg'"
    by (auto simp: diff_fields diff_field_def validate_def do_validate_def update_config_def
        and_then_Ok_iff map_err_Ok_iff)
qed

text \<open>
  The ratios of a denomination need not sum to one: any sum that rounds up to one is accepted, so a
  single split of a fifth of the balance is a valid configuration.
\<close>

lemma ratios_below_one_accepted:
  assumes "decimals_ok ck" and "addr_validate (ck_api ck) a = Ok b" and "0 < r" and "r \<le> decimal_one"
  shows "validate_splits ck [\<lparr>usc_denom = u, usc_account = Addr a, usc_amount = UncheckedFixedRatio r\<rparr>] = Ok ()"
proof -
  from assms have "ck_to_uint_ceil ck r = 1"
    by (simp only: decimals_ok_def ceil_one_iff)
  with assms show ?thesis
    by (simp add: validate_splits_def scan_split_def check_denom_sum_def account_to_addr_def)
qed

section \<open>A concrete splitter\<close>

definition ex_split :: "string \<Rightarrow> decimal \<Rightarrow> unchecked_split_config" where
  "ex_split a r =
     \<lparr>usc_denom = UncheckedNative ''untrn'', usc_account = Addr a, usc_amount = UncheckedFixedRatio r\<rparr>"

definition ex_splitter_raw :: library_config where
  "ex_splitter_raw =
     \<lparr>slc_input_addr = Addr ''input'',
      slc_splits = [ex_split ''out1'' (3 * 10 ^ 17), ex_split ''out2'' (7 * 10 ^ 17)]\<rparr>"

definition ex_splitter_cfg :: config where
  "ex_splitter_cfg =
     \<lparr>cfg_input_addr = ''input'',
      cfg_splits =
        [\<lparr>sc_denom = Native ''untrn'', sc_account = ''out1'', sc_amount = FixedRatio (3 * 10 ^ 17)\<rparr>,
         \<lparr>sc_denom = Native ''untrn'', sc_account = ''out2'', sc_amount = FixedRatio (7 * 10 ^ 17)\<rparr>]\<rparr>"

lemma ex_splitter_validated: "validate ex_checks ex_splitter_raw = Ok ex_splitter_cfg"
  by (simp add: Let_def validate_def do_validate_def validate_splits_def scan_split_def check_denom_sum_def
      convert_to_checked_configs_def checked_config_def convert_to_checked_split_amount_def
      account_to_addr_def ex_checks_def ex_api_def ex_splitter_raw_def ex_split_def ex_splitter_cfg_def)

lemma ex_balances_fit: "balances_fit (ex_lib_deps (\<lambda>_ _. 1001))"
  by (simp add: balances_fit_def ex_lib_deps_def)

theorem split_amounts_iff_witness:
  "prepare_transfer_amounts (ex_lib_deps (\<lambda>_ _. 1001)) ex_splitter_cfg =
     Ok [(300, Native ''untrn'', ''out1''), (700, Native ''untrn'', ''out2'')]"
  unfolding split_amounts_iff [OF ex_balances_fit]
  by (auto simp: ex_splitter_cfg_def direct_transfer_def transfers_of_def ex_lib_deps_def)

theorem fixed_ratios_split_witness:
  "prepare_transfer_amounts (ex_lib_deps (\<lambda>_ _. 1001)) ex_splitter_cfg =
     Ok [(300, Native ''untrn'', ''out1''), (700, Native ''untrn'', ''out2'')]
   \<and> (1001::nat) < 300 + 700 + 2"
proof -
  have "prepare_transfer_amounts (ex_lib_deps (\<lambda>_ _. 1001)) ex_splitter_cfg =
      Ok (map (ratio_transfer (ex_lib_deps (\<lambda>_ _. 1001)) ex_splitter_cfg) (cfg_splits ex_splitter_cfg))"
    using fixed_ratios_split [OF ex_splitter_validated, of "ex_lib_deps (\<lambda>_ _. 1001)"] ex_balances_fit
    by (simp add: ex_splitter_raw_def ex_split_def ex_splitter_cfg_def ex_lib_deps_def [THEN arg_cong [of _ _ l_denom_balance]])
  then show ?thesis
    by (simp add: ex_splitter_cfg_def ratio_transfer_def ratio_of_def queried_def ex_lib_deps_def)
qed

end
