(* ===== verification/Forwarder.thy ===== *)
theory Forwarder
  imports Library_Base
begin

text \<open>
  The forwarder library (\<open>contracts/libraries/forwarder/src/msg.rs\<close>, \<open>contract.rs\<close>, \<open>state.rs\<close>):
  validation and update of its configuration, and \<open>Forward\<close>, which sends what the input account holds
  of each configured denomination, up to a maximum, and records the block for the minimal interval.

  The property \<open>forward_rate_limited\<close>: one forward sends each denomination at most once and within
  its maximum, and two forwards are at least the configured interval apart, whatever messages the
  library receives between them.
\<close>

section \<open>Configuration\<close>

record forwarding_config =
  fc_denom :: checked_denom
  fc_max_amount :: u128

record unchecked_forwarding_config =
  ufc_denom :: unchecked_denom
  ufc_max_amount :: u128

record forwarding_constraints =
  min_interval :: "duration option"

record library_config =
  flc_input_addr :: library_account_type
  flc_output_addr :: library_account_type
  flc_forwarding_configs :: "unchecked_forwarding_config list"
  flc_forwarding_constraints :: forwarding_constraints

record config =
  fwd_input_addr :: addr
  fwd_output_addr :: addr
  fwd_forwarding_configs :: "forwarding_config list"
  fwd_forwarding_constraints :: forwarding_constraints

record library_config_update =
  flu_input_addr :: "library_account_type option"
  flu_output_addr :: "library_account_type option"
  flu_forwarding_configs :: "unchecked_forwarding_config list option"
  flu_forwarding_constraints :: "forwarding_constraints option"

definition ensure_denom_uniqueness ::
  "unchecked_forwarding_config list \<Rightarrow> (unit, library_error) result"
where
  "ensure_denom_uniqueness fwd_configs =
     and_then (try_fold (\<lambda>denom_map cfg.
         if ufc_denom cfg \<in> set denom_map
         then Err (ConfigurationError ''Duplicate denom in forwarding config.'')
         else Ok (ufc_denom cfg # denom_map)) [] fwd_configs) (\<lambda>_. Ok ())"

definition convert_to_checked_configs ::
  "config_checks \<Rightarrow> unchecked_forwarding_config list \<Rightarrow> (forwarding_config list, library_error) result"
where
  "convert_to_checked_configs ck fwd_configs =
     map_err ConfigurationError
       (try_map (\<lambda>ufc. map_ok (\<lambda>checked. \<lparr>fc_denom = checked, fc_max_amount = ufc_max_amount ufc\<rparr>)
         (ck_into_checked ck (ufc_denom ufc))) fwd_configs)"

definition do_validate :: "config_checks \<Rightarrow> library_config \<Rightarrow> (addr \<times> addr, library_error) result" where
  "do_validate ck c =
     and_then (map_err LibStd (account_to_addr (ck_api ck) (flc_input_addr c))) (\<lambda>input_addr.
     and_then (map_err LibStd (account_to_addr (ck_api ck) (flc_output_addr c))) (\<lambda>output_addr.
     and_then (ensure_denom_uniqueness (flc_forwarding_configs c)) (\<lambda>_.
       Ok (input_addr, output_addr))))"

definition validate :: "config_checks \<Rightarrow> library_config \<Rightarrow> (config, library_error) result" where
  "validate ck c =
     and_then (do_validate ck c) (\<lambda>(input_addr, output_addr).
     and_then (convert_to_checked_configs ck (flc_forwarding_configs c)) (\<lambda>checked_fwd_configs.
       Ok \<lparr>fwd_input_addr = input_addr, fwd_output_addr = output_addr,
           fwd_forwarding_configs = checked_fwd_configs,
           fwd_forwarding_constraints = flc_forwarding_constraints c\<rparr>))"

definition update_raw :: "library_config_update \<Rightarrow> library_config \<Rightarrow> library_config" where
  "update_raw u raw =
     \<lparr>flc_input_addr = update_field (flu_input_addr u) (flc_input_addr raw),
      flc_output_addr = update_field (flu_output_addr u) (flc_output_addr raw),
      flc_forwarding_configs = update_field (flu_forwarding_configs u) (flc_forwarding_configs raw),
      flc_forwarding_constraints =
        update_field (flu_forwarding_constraints u) (flc_forwarding_constraints raw)\<rparr>"

definition get_diff_update :: "library_config \<Rightarrow> library_config \<Rightarrow> library_config_update option" where
  "get_diff_update c other =
     some_update
       \<lparr>flu_input_addr = None, flu_output_addr = None, flu_forwarding_configs = None,
        flu_forwarding_constraints = None\<rparr>
       \<lparr>flu_input_addr = diff_field (flc_input_addr c) (flc_input_addr other),
        flu_output_addr = diff_field (flc_output_addr c) (flc_output_addr other),
        flu_forwarding_configs = diff_field (flc_forwarding_configs c) (flc_forwarding_configs other),
        flu_forwarding_constraints =
          diff_field (flc_forwarding_constraints c) (flc_forwarding_constraints other)\<rparr>"

definition update_config ::
  "config_checks \<Rightarrow> library_config_update \<Rightarrow> config \<Rightarrow> (config, library_error) result"
where
  "update_config ck u cfg =
     and_then (case flu_input_addr u of
         Some input_addr \<Rightarrow>
           map_ok (\<lambda>a. cfg\<lparr>fwd_input_addr := a\<rparr>) (map_err LibStd (account_to_addr (ck_api ck) input_addr))
       | None \<Rightarrow> Ok cfg) (\<lambda>cfg1.
     and_then (case flu_output_addr u of
         Some output_addr \<Rightarrow>
           map_ok (\<lambda>a. cfg1\<lparr>fwd_output_addr := a\<rparr>) (map_err LibStd (account_to_addr (ck_api ck) output_addr))
       | None \<Rightarrow> Ok cfg1) (\<lambda>cfg2.
     and_then (case flu_forwarding_configs u of
         Some forwarding_configs \<Rightarrow>
           and_then (ensure_denom_uniqueness forwarding_configs) (\<lambda>_.
           and_then (convert_to_checked_configs ck forwarding_configs) (\<lambda>checked_fwd_configs.
             Ok (cfg2\<lparr>fwd_forwarding_configs := checked_fwd_configs\<rparr>)))
       | None \<Rightarrow> Ok cfg2) (\<lambda>cfg3.
       Ok (case flu_forwarding_constraints u of
             Some forwarding_constraints \<Rightarrow> cfg3\<lparr>fwd_forwarding_constraints := forwarding_constraints\<rparr>
           | None \<Rightarrow> cfg3))))"

section \<open>Forward\<close>

datatype function_msgs = Forward

record 'o forwarder = "(library_config, config, 'o) library" +
  last_successful_forward :: "block_info option"

definition fresh :: "(library_config, config, 'o) library \<Rightarrow> 'o forwarder" where
  "fresh l = library.extend l \<lparr>last_successful_forward = None\<rparr>"

definition ensure_forwarding_interval ::
  "cw_api \<Rightarrow> config \<Rightarrow> 'o forwarder \<Rightarrow> env \<Rightarrow> (unit, library_error) result"
where
  "ensure_forwarding_interval cw cfg s env =
     (case min_interval (fwd_forwarding_constraints cfg) of
        Some interval \<Rightarrow>
          (case last_successful_forward s of
             Some last_forward \<Rightarrow>
               if \<not> is_expired cw (duration_after cw interval last_forward) (env_block env)
               then Err (ExecutionError ''Forwarding constraint not met.'')
               else Ok ()
           | None \<Rightarrow> Ok ())
      | None \<Rightarrow> Ok ())"

definition prepare_transfer_amounts :: "lib_deps \<Rightarrow> config \<Rightarrow> (u128 \<times> checked_denom) list" where
  "prepare_transfer_amounts d cfg =
     List.map_filter (\<lambda>fwd_cfg.
       (case l_denom_balance d (fc_denom fwd_cfg) (fwd_input_addr cfg) of
          Ok balance \<Rightarrow>
            if balance \<noteq> 0 then Some (min balance (fc_max_amount fwd_cfg), fc_denom fwd_cfg) else None
        | Err _ \<Rightarrow> None)) (fwd_forwarding_configs cfg)"

definition prepare_transfer_messages ::
  "lib_deps \<Rightarrow> (u128 \<times> checked_denom) list \<Rightarrow> addr \<Rightarrow> (cosmos_msg list, library_error) result"
where
  "prepare_transfer_messages d coins_to_transfer output_addr =
     try_map (\<lambda>(amount, denom). map_err LibStd (l_transfer_to d denom output_addr amount)) coins_to_transfer"

definition process_function :: "cw_api \<Rightarrow> lib_deps \<Rightarrow> 'o forwarder \<Rightarrow> env \<Rightarrow> message_info \<Rightarrow>
   function_msgs \<Rightarrow> config \<Rightarrow> ('o forwarder \<times> response, library_error) result"
where
  "process_function cw d s env info msg cfg =
     (case msg of
        Forward \<Rightarrow>
          and_then (ensure_forwarding_interval cw cfg s env) (\<lambda>_.
          let transfer_amounts = prepare_transfer_amounts d cfg
          in and_then (prepare_transfer_messages d transfer_amounts (fwd_output_addr cfg)) (\<lambda>transfer_messages.
            Ok (s\<lparr>last_successful_forward := Some (env_block env)\<rparr>,
                add_messages [execute_on_behalf_of d transfer_messages (fwd_input_addr cfg)]
                  (add_attribute ''method'' ''forward'' response_new)))))"

definition instantiate ::
  "'o ownable \<Rightarrow> config_checks \<Rightarrow> library_config library_instantiate_msg \<Rightarrow>
   ('o forwarder \<times> response, library_error) result"
where
  "instantiate ow ck msg =
     map_ok (\<lambda>(l, r). (fresh l, r)) (lib_instantiate ow (ck_api ck) (validate ck) msg)"

definition execute ::
  "'o ownable \<Rightarrow> config_checks \<Rightarrow> lib_deps \<Rightarrow> 'o forwarder \<Rightarrow> env \<Rightarrow> message_info \<Rightarrow>
   (function_msgs, library_config_update) library_execute_msg \<Rightarrow>
   ('o forwarder \<times> response, library_error) result"
where
  "execute ow ck d s env info msg =
     lib_execute ow (ck_api ck) (process_function (ck_api ck) d) update_raw (update_config ck) s env info msg"

section \<open>The stored configuration\<close>

lemma process_forward:
  assumes "process_function cw d s env info m cfg = Ok (s', r)"
  obtains msgs where "ensure_forwarding_interval cw cfg s env = Ok ()"
    and "prepare_transfer_messages d (prepare_transfer_amounts d cfg) (fwd_output_addr cfg) = Ok msgs"
    and "s' = s\<lparr>last_successful_forward := Some (env_block env)\<rparr>"
    and "sent r = [execute_on_behalf_of d msgs (fwd_input_addr cfg)]"
  using assms by (cases m) (auto simp: process_function_def and_then_Ok_iff Let_def)

lemma forwarder_update_validates:
  assumes "validate ck raw = Ok cfg" and "update_config ck u cfg = Ok cfg'"
  shows "validate ck (update_raw u raw) = Ok cfg'"
  using assms
  by (cases "flu_input_addr u"; cases "flu_output_addr u"; cases "flu_forwarding_configs u";
      cases "flu_forwarding_constraints u")
    (auto simp: validate_def do_validate_def update_config_def update_raw_def and_then_Ok_iff
      map_err_Ok_iff map_ok_Ok_iff)

interpretation forwarder: validated_config "validate ck" update_raw "update_config ck"
  "range (process_function (ck_api ck))" fresh
  for ck
  by unfold_locales
    (auto simp: fresh_def library.defs dest: forwarder_update_validates elim: process_forward)

lemma forwarder_diff_fields:
  assumes "get_diff_update raw other = Some u"
  shows "flu_input_addr u = diff_field (flc_input_addr raw) (flc_input_addr other)"
    "flu_output_addr u = diff_field (flc_output_addr raw) (flc_output_addr other)"
    "flu_forwarding_configs u = diff_field (flc_forwarding_configs raw) (flc_forwarding_configs other)"
    "flu_forwarding_constraints u =
       diff_field (flc_forwarding_constraints raw) (flc_forwarding_constraints other)"
  using assms by (auto simp: get_diff_update_def some_update_def split: if_splits)

interpretation forwarder_diff: diff_update "validate ck" update_raw "update_config ck" get_diff_update
  for ck
proof unfold_locales
  fix raw other :: library_config
  assume "get_diff_update raw other = None"
  then show "raw = other" by (auto simp: get_diff_update_def some_update_def split: if_splits)
next
  fix raw other :: library_config and u
  assume "get_diff_update raw other = Some u"
  then show "update_raw u raw = other" by (simp add: forwarder_diff_fields update_raw_def)
next
  fix raw other cfg cfg' u
  assume "validate ck raw = Ok cfg" "validate ck other = Ok cfg'" "get_diff_update raw other = Some u"
  then show "update_config ck u cfg = Ok cfg'"
    by (auto simp: forwarder_diff_fields diff_field_def validate_def do_validate_def update_config_def
        and_then_Ok_iff map_err_Ok_iff map_ok_Ok_iff)
qed

section \<open>One transfer per denomination\<close>

lemma denom_uniqueness_distinct:
  assumes "ensure_denom_uniqueness cfgs = Ok ()"
  shows "distinct (map ufc_denom cfgs)"
proof -
  define f where "f = (\<lambda>denom_map (cfg :: unchecked_forwarding_config).
         if ufc_denom cfg \<in> set denom_map
         then Err (ConfigurationError ''Duplicate denom in forwarding config.'')
         else Ok (ufc_denom cfg # denom_map))"
  have "distinct (map ufc_denom cfgs) \<and> set (map ufc_denom cfgs) \<inter> set seen = {}"
    if "try_fold f seen cfgs = Ok seen'" for seen seen'
    using that
  proof (induction cfgs arbitrary: seen)
    case (Cons c cfgs)
    then have "ufc_denom c \<notin> set seen" and "try_fold f (ufc_denom c # seen) cfgs = Ok seen'"
      by (auto simp: f_def split: if_splits)
    with Cons.IH [of "ufc_denom c # seen"] show ?case by auto
  qed simp
  with assms show ?thesis
    by (auto simp: ensure_denom_uniqueness_def and_then_Ok_iff f_def)
qed

lemma converted_distinct:
  assumes ok: "denoms_ok ck" and "distinct (map ufc_denom cfgs)"
    and "convert_to_checked_configs ck cfgs = Ok checked"
  shows "distinct (map fc_denom checked)"
proof -
  have rel: "list_all2 (\<lambda>ufc c. ck_into_checked ck (ufc_denom ufc) = Ok (fc_denom c)) cfgs checked"
    using assms(3) unfolding convert_to_checked_configs_def map_err_Ok_iff try_map_Ok_iff
    by (rule list_all2_mono) (auto simp: map_ok_Ok_iff)
  then show ?thesis
    using assms(2)
  proof (induction rule: list_all2_induct)
    case (Cons ufc cfgs c checked)
    have "fc_denom c' \<noteq> fc_denom c" if "c' \<in> set checked" for c'
    proof -
      from list_all2_in_set2 [OF Cons.hyps(2) that] obtain ufc' where ufc': "ufc' \<in> set cfgs"
        and c': "ck_into_checked ck (ufc_denom ufc') = Ok (fc_denom c')" by blast
      from Cons.prems ufc' have "ufc_denom ufc \<noteq> ufc_denom ufc'" by auto
      with ok c' Cons.hyps(1) show ?thesis unfolding denoms_ok_def by metis
    qed
    then have "fc_denom c \<notin> fc_denom ` set checked" by (metis imageE)
    with Cons show ?case by simp
  qed simp
qed

lemma transfers_distinct:
  assumes "denoms_ok ck" and "validate ck raw = Ok cfg"
  shows "distinct (map snd (prepare_transfer_amounts d cfg))"
proof -
  from assms(2) have "ensure_denom_uniqueness (flc_forwarding_configs raw) = Ok ()"
    and "convert_to_checked_configs ck (flc_forwarding_configs raw) = Ok (fwd_forwarding_configs cfg)"
    by (auto simp: validate_def do_validate_def and_then_Ok_iff)
  with assms(1) have "distinct (map fc_denom (fwd_forwarding_configs cfg))"
    using denom_uniqueness_distinct converted_distinct by blast
  then show ?thesis unfolding prepare_transfer_amounts_def
  proof (rule map_filter_distinct)
    fix c y
    assume "(case l_denom_balance d (fc_denom c) (fwd_input_addr cfg) of
          Ok balance \<Rightarrow>
            if balance \<noteq> 0 then Some (min balance (fc_max_amount c), fc_denom c) else None
        | Err _ \<Rightarrow> None) = Some y"
    then show "snd y = fc_denom c"
      by (cases "l_denom_balance d (fc_denom c) (fwd_input_addr cfg)") (auto split: if_splits)
  qed
qed

lemma transfers_bounded:
  assumes "(n, denom) \<in> set (prepare_transfer_amounts d cfg)"
  shows "\<exists>c \<in> set (fwd_forwarding_configs cfg). fc_denom c = denom \<and> n \<le> fc_max_amount c"
    and "\<exists>b. l_denom_balance d denom (fwd_input_addr cfg) = Ok b \<and> n \<le> b"
proof -
  from assms obtain c where c: "c \<in> set (fwd_forwarding_configs cfg)"
    and some: "(case l_denom_balance d (fc_denom c) (fwd_input_addr cfg) of
          Ok balance \<Rightarrow>
            if balance \<noteq> 0 then Some (min balance (fc_max_amount c), fc_denom c) else None
        | Err _ \<Rightarrow> None) = Some (n, denom)"
    by (auto simp: prepare_transfer_amounts_def in_set_map_filter_iff)
  then obtain b where "l_denom_balance d (fc_denom c) (fwd_input_addr cfg) = Ok b"
    and "n = min b (fc_max_amount c)" and "fc_denom c = denom"
    by (cases "l_denom_balance d (fc_denom c) (fwd_input_addr cfg)") (auto split: if_splits)
  with c show "\<exists>c \<in> set (fwd_forwarding_configs cfg). fc_denom c = denom \<and> n \<le> fc_max_amount c"
    and "\<exists>b. l_denom_balance d denom (fwd_input_addr cfg) = Ok b \<and> n \<le> b"
    by auto
qed

section \<open>The interval between two forwards\<close>

text \<open>What happens to a forwarder while it forwards nothing.\<close>

inductive idle :: "'o ownable \<Rightarrow> config_checks \<Rightarrow> 'o forwarder \<Rightarrow> 'o forwarder \<Rightarrow> bool" for ow ck where
  idle_refl: "idle ow ck s s"
| idle_step: "idle ow ck s t \<Longrightarrow> execute ow ck d t env info msg = Ok (t', r) \<Longrightarrow>
    (\<And>f. msg \<noteq> ProcessFunction f) \<Longrightarrow> idle ow ck s t'"

lemma idle_keeps_last: "idle ow ck s t \<Longrightarrow> last_successful_forward t = last_successful_forward s"
proof (induction rule: idle.induct)
  case (idle_step s t d env info msg t' r)
  from idle_step(2) idle_step show ?case
    unfolding execute_def by (cases rule: lib_execute_cases) auto
qed simp

lemma execute_forward:
  assumes "execute ow ck d s env info (ProcessFunction Forward) = Ok (s', r)"
  shows "process_function (ck_api ck) d s env info Forward (lib_cfg s) = Ok (s', r)"
    and "info_sender info = lib_processor s"
  using assms by (auto simp: execute_def elim: lib_execute_cases)

text \<open>
  (C37) A forward in a reachable state is a message of the processor; it sends every denomination at
  most once, not more than its maximum and not more than the balance of the input account. If the
  constraints in force ask for an interval, it has passed since the previous forward, whatever
  messages the library has received in between.
\<close>

theorem forward_rate_limited:
  assumes "library_reach ow (ck_api ck) (validate ck) (range (process_function (ck_api ck))) update_raw
      (update_config ck) fresh s2"
    and "denoms_ok ck"
    and "execute ow ck d1 s1 env1 info1 (ProcessFunction Forward) = Ok (s1', r1)"
    and "idle ow ck s1' s2"
    and "execute ow ck d2 s2 env2 info2 (ProcessFunction Forward) = Ok (s3, r2)"
  shows "info_sender info2 = lib_processor s2
    \<and> distinct (map snd (prepare_transfer_amounts d2 (lib_cfg s2)))
    \<and> (\<forall>(n, denom) \<in> set (prepare_transfer_amounts d2 (lib_cfg s2)).
          (\<exists>c \<in> set (fwd_forwarding_configs (lib_cfg s2)). fc_denom c = denom \<and> n \<le> fc_max_amount c)
        \<and> (\<exists>b. l_denom_balance d2 denom (fwd_input_addr (lib_cfg s2)) = Ok b \<and> n \<le> b))
    \<and> (\<exists>msgs. prepare_transfer_messages d2 (prepare_transfer_amounts d2 (lib_cfg s2))
            (fwd_output_addr (lib_cfg s2)) = Ok msgs
          \<and> sent r2 = [execute_on_behalf_of d2 msgs (fwd_input_addr (lib_cfg s2))])
    \<and> (\<forall>interval. min_interval (fwd_forwarding_constraints (lib_cfg s2)) = Some interval \<longrightarrow>
          is_expired (ck_api ck) (duration_after (ck_api ck) interval (env_block env1)) (env_block env2))"
    (is "_ \<and> _ \<and> ?bounds \<and> ?msgs \<and> ?interval")
proof (intro conjI)
  note p1 = execute_forward(1) [OF assms(3)] and p2 = execute_forward [OF assms(5)]
  show "info_sender info2 = lib_processor s2" by (rule p2)
  show "distinct (map snd (prepare_transfer_amounts d2 (lib_cfg s2)))"
    using transfers_distinct [OF assms(2) forwarder.config_validated [OF assms(1)]] .
  show ?bounds using transfers_bounded by blast
  show ?msgs using p2(1) by (blast elim: process_forward)
  have "last_successful_forward s2 = Some (env_block env1)"
    using idle_keeps_last [OF assms(4)] p1 by (auto elim: process_forward)
  moreover have "ensure_forwarding_interval (ck_api ck) (lib_cfg s2) s2 env2 = Ok ()"
    using p2(1) by (blast elim: process_forward)
  ultimately show ?interval by (auto simp: ensure_forwarding_interval_def split: if_splits)
qed

section \<open>A concrete forwarder\<close>

definition ex_forwarder_msg :: "library_config library_instantiate_msg" where
  "ex_forwarder_msg =
     \<lparr>lim_owner = ''owner'', lim_processor = ''processor'',
      lim_config =
        \<lparr>flc_input_addr = Addr ''input'', flc_output_addr = Addr ''output'',
         flc_forwarding_configs = [\<lparr>ufc_denom = UncheckedNative ''untrn'', ufc_max_amount = 10\<rparr>],
         flc_forwarding_constraints = \<lparr>min_interval = Some (Height 5)\<rparr>\<rparr>\<rparr>"

definition ex_forwarder_cfg :: config where
  "ex_forwarder_cfg =
     \<lparr>fwd_input_addr = ''input'', fwd_output_addr = ''output'',
      fwd_forwarding_configs = [\<lparr>fc_denom = Native ''untrn'', fc_max_amount = 10\<rparr>],
      fwd_forwarding_constraints = \<lparr>min_interval = Some (Height 5)\<rparr>\<rparr>"

definition ex_forwarder :: "block_info option \<Rightarrow> addr forwarder" where
  "ex_forwarder last_forward =
     \<lparr>lib_ownership = ''owner'', lib_processor = ''processor'', lib_raw = lim_config ex_forwarder_msg,
      lib_cfg = ex_forwarder_cfg, last_successful_forward = last_forward\<rparr>"

definition ex_block :: "u64 \<Rightarrow> env" where
  "ex_block h =
     \<lparr>env_block = \<lparr>block_height = h, block_time = 0, block_seconds = 0\<rparr>, env_contract_address = ''forwarder''\<rparr>"

definition ex_forward_response :: response where
  "ex_forward_response =
     add_messages [WasmExecute ''input'' ''execute'' []] (add_attribute ''method'' ''forward'' response_new)"

lemmas ex_forwarder_defs =
  ex_forwarder_msg_def ex_forwarder_cfg_def ex_forwarder_def ex_block_def ex_forward_response_def
  ex_ow_def ex_api_def ex_checks_def ex_info_def ex_lib_deps_def

lemma ex_forward:
  "\<forall>b. last_forward = Some b \<longrightarrow> block_height b + 5 \<le> h \<Longrightarrow>
   execute ex_ow ex_checks (ex_lib_deps (\<lambda>_ _. 12)) (ex_forwarder last_forward) (ex_block h)
     (ex_info ''processor'') (ProcessFunction Forward) =
     Ok (ex_forwarder (Some (env_block (ex_block h))), ex_forward_response)"
  by (cases last_forward)
    (auto simp: ex_forwarder_defs execute_def lib_execute_def assert_processor_def process_function_def
      ensure_forwarding_interval_def prepare_transfer_amounts_def prepare_transfer_messages_def
      execute_on_behalf_of_def map_filter_simps)

lemma ex_forwarder_reach:
  "library_reach ex_ow (ck_api ex_checks) (validate ex_checks)
     (range (process_function (ck_api ex_checks))) update_raw (update_config ex_checks) fresh
     (ex_forwarder (Some (env_block (ex_block 100))))"
proof (rule library_step)
  have "lib_instantiate ex_ow (ck_api ex_checks) (validate ex_checks) ex_forwarder_msg =
      Ok (library.truncate (ex_forwarder None),
          add_attribute ''owner'' (debug_string ex_api ''owner'') (add_attribute ''processor'' ''processor''
            (add_attribute ''method'' ''instantiate'' response_new)))"
    by (simp add: ex_forwarder_defs lib_instantiate_def validate_def do_validate_def account_to_addr_def
        ensure_denom_uniqueness_def convert_to_checked_configs_def library.defs)
  from library_start [OF this, of "range (process_function (ck_api ex_checks))" update_raw
      "update_config ex_checks" fresh]
  show "library_reach ex_ow (ck_api ex_checks) (validate ex_checks)
     (range (process_function (ck_api ex_checks))) update_raw (update_config ex_checks) fresh
     (ex_forwarder None)"
    by (simp add: fresh_def library.defs ex_forwarder_def)
  show "lib_execute ex_ow (ck_api ex_checks) (process_function (ck_api ex_checks) (ex_lib_deps (\<lambda>_ _. 12)))
      update_raw (update_config ex_checks) (ex_forwarder None) (ex_block 100) (ex_info ''processor'')
      (ProcessFunction Forward) =
      Ok (ex_forwarder (Some (env_block (ex_block 100))), ex_forward_response)"
    using ex_forward [of None 100] by (simp add: execute_def)
qed simp

theorem forward_rate_limited_witness:
  "execute ex_ow ex_checks (ex_lib_deps (\<lambda>_ _. 12)) (ex_forwarder (Some (env_block (ex_block 100))))
     (ex_block 105) (ex_info ''processor'') (ProcessFunction Forward) =
     Ok (ex_forwarder (Some (env_block (ex_block 105))), ex_forward_response)
   \<and> is_expired ex_api (duration_after ex_api (Height 5) (env_block (ex_block 100))) (env_block (ex_block 105))"
proof
  have first: "execute ex_ow ex_checks (ex_lib_deps (\<lambda>_ _. 12)) (ex_forwarder None) (ex_block 100)
      (ex_info ''processor'') (ProcessFunction Forward) =
      Ok (ex_forwarder (Some (env_block (ex_block 100))), ex_forward_response)"
    by (rule ex_forward) simp
  show second: "execute ex_ow ex_checks (ex_lib_deps (\<lambda>_ _. 12)) (ex_forwarder (Some (env_block (ex_block 100))))
     (ex_block 105) (ex_info ''processor'') (ProcessFunction Forward) =
     Ok (ex_forwarder (Some (env_block (ex_block 105))), ex_forward_response)"
    by (rule ex_forward) (simp add: ex_block_def)
  have "min_interval (fwd_forwarding_constraints
      (lib_cfg (ex_forwarder (Some (env_block (ex_block 100)))))) = Some (Height 5)"
    by (simp add: ex_forwarder_def ex_forwarder_cfg_def)
  with forward_rate_limited [OF ex_forwarder_reach ex_lib_deps_ok(3) first idle_refl second]
  show "is_expired ex_api (duration_after ex_api (Height 5) (env_block (ex_block 100)))
      (env_block (ex_block 105))"
    by (simp add: ex_checks_def)
qed

end
