(* ===== verification/Library_Props.thy ===== *)
theory Library_Props
  imports Splitter_Props Forwarder "HOL-Library.Countable"
begin

text \<open>
  Properties that span the libraries and the accounts: updates computed from two configurations, and a
  split from the call of the processor to the messages the input account sends.
\<close>

section \<open>Updates computed from two configurations\<close>

text \<open>
  (C38) Reconfiguration by a computed update. In every reachable state of a splitter or a forwarder
  and for every valid raw configuration, the update that \<open>get_diff_update\<close> computes, sent by the owner,
  succeeds and leaves that configuration and its validation stored, and nothing else changed; no
  update is computed only if they are stored already.
\<close>

theorem diff_update_reaches_target:
  fixes s :: "(Splitter.library_config, Splitter.config, 'o) library" and f :: "'o forwarder"
  assumes "library_reach ow (ck_api ck) (Splitter.validate ck) (range Splitter.process_function)
      Splitter.update_raw (Splitter.update_config ck) id s"
    and "library_reach ow (ck_api ck) (Forwarder.validate ck) (range (Forwarder.process_function (ck_api ck)))
      Forwarder.update_raw (Forwarder.update_config ck) Forwarder.fresh f"
    and "Splitter.validate ck other = Ok cfg'" and "Forwarder.validate ck fother = Ok fcfg'"
    and "assert_owner ow (lib_ownership s) (info_sender info) = Ok ()"
    and "assert_owner ow (lib_ownership f) (info_sender info) = Ok ()"
  shows "(case Splitter.get_diff_update (lib_raw s) other of
        None \<Rightarrow> lib_raw s = other \<and> lib_cfg s = cfg'
      | Some u \<Rightarrow> Splitter.execute ow ck d s env info (UpdateConfig u) =
          Ok (s\<lparr>lib_raw := other, lib_cfg := cfg'\<rparr>, add_attribute ''method'' ''update_config'' response_new))
    \<and> (case Forwarder.get_diff_update (lib_raw f) fother of
        None \<Rightarrow> lib_raw f = fother \<and> lib_cfg f = fcfg'
      | Some u \<Rightarrow> Forwarder.execute ow ck d f env info (UpdateConfig u) =
          Ok (f\<lparr>lib_raw := fother, lib_cfg := fcfg'\<rparr>, add_attribute ''method'' ''update_config'' response_new))"
  unfolding Splitter.execute_def Forwarder.execute_def
  using splitter_diff.diff_reaches_target [OF splitter.config_validated [OF assms(1)] assms(3,5)]
    forwarder_diff.diff_reaches_target [OF forwarder.config_validated [OF assms(2)] assms(4,6)]
  by (intro conjI)

section \<open>From the processor to the input account\<close>

text \<open>A message of a library as an account receives it: only one addressed to it concerns it.\<close>

definition deliver ::
  "'o ownable \<Rightarrow> cw_api \<Rightarrow> (binary \<Rightarrow> (account_execute_msg, std_error) result) \<Rightarrow> addr \<Rightarrow> env \<Rightarrow> addr \<Rightarrow>
   'o account \<Rightarrow> cosmos_msg \<Rightarrow> ('o account \<times> cosmos_msg list, account_error) result"
where
  "deliver ow cw dec account_addr env sender acc m =
     (case m of
        WasmExecute a payload funds \<Rightarrow>
          if a = account_addr then
            and_then (map_err AccStd (dec payload)) (\<lambda>msg.
            and_then (Base_Account.execute ow cw acc env \<lparr>info_sender = sender, info_funds = funds\<rparr> msg)
              (\<lambda>(acc', r). Ok (acc', sent r)))
          else Ok (acc, [])
      | _ \<Rightarrow> Ok (acc, []))"

lemma deliver_execute:
  assumes "\<And>m. dec (l_enc_account d m) = Ok m"
  shows "deliver ow cw dec account env sender acc (execute_on_behalf_of d msgs account) =
    and_then (execute_msg ow acc \<lparr>info_sender = sender, info_funds = []\<rparr> msgs) (\<lambda>(acc', r). Ok (acc', sent r))"
  by (simp add: deliver_def execute_on_behalf_of_def assms Base_Account.execute_def)

lemma transfers_built:
  assumes "\<forall>denom a n. \<exists>m. l_transfer_to d denom a n = Ok m"
  shows "\<exists>msgs. try_map (\<lambda>(amount, denom, account). map_err LibStd (l_transfer_to d denom account amount)) xs = Ok msgs"
proof -
  from assms obtain g where "l_transfer_to d denom a n = Ok (g denom a n)" for denom a n
    by metis
  then have "try_map (\<lambda>(amount, denom, account). map_err LibStd (l_transfer_to d denom account amount)) xs
      = Ok (map (\<lambda>(amount, denom, account). g denom account amount) xs)"
    by (intro try_map_total) auto
  then show ?thesis by blast
qed

lemma sent_one: "sent (add_messages [m] (add_attribute k v response_new)) = [m]"
  by simp

lemma split_call:
  assumes "Splitter.prepare_transfer_amounts d (lib_cfg s) = Ok amounts"
    and "try_map (\<lambda>(amount, denom, account). map_err LibStd (l_transfer_to d denom account amount)) amounts = Ok msgs"
    and "info_sender info = lib_processor s"
  shows "Splitter.execute ow ck d s env info (ProcessFunction Splitter.Split) =
    Ok (s, add_messages [execute_on_behalf_of d msgs (cfg_input_addr (lib_cfg s))]
             (add_attribute ''method'' ''split'' response_new))"
  using assms
  by (simp add: Splitter.execute_def lib_execute_def assert_processor_def Splitter.process_function_def
      Splitter.prepare_transfer_messages_def)

lemma split_delivered:
  assumes "\<And>m. dec (l_enc_account d m) = Ok m" and "is_owner ow (account_ownership acc) lib_addr = Ok b"
  shows "deliver ow cw dec account env lib_addr acc (execute_on_behalf_of d msgs account) =
    (if b \<or> is_approved acc lib_addr then Ok (acc, msgs)
     else Err (AccUnauthorized NotAdminOrApprovedLibrary))"
  using assms(2)
  by (simp add: deliver_execute [OF assms(1)] execute_msg_def admin_or_approved_def is_approved_def)

lemma shares_within:
  assumes "Splitter.validate ck raw = Ok cfg" and "decimals_ok ck" "denoms_ok ck"
    and "\<forall>split \<in> set (slc_splits raw). \<exists>r. usc_amount split = Splitter.UncheckedFixedRatio r"
  shows "sum_list (map (\<lambda>c. queried d cfg denom * ratio_of c div decimal_one)
      (filter (\<lambda>c. sc_denom c = denom) (cfg_splits cfg))) \<le> queried d cfg denom"
proof -
  have "map (\<lambda>c. queried d cfg denom * ratio_of c div decimal_one)
      (filter (\<lambda>c. sc_denom c = denom) cs) = transfers_of denom (map (ratio_transfer d cfg) cs)" for cs
    by (induction cs) (auto simp: transfers_of_def ratio_transfer_def)
  then show ?thesis using total_within [OF assms] by simp
qed

text \<open>
  (C3) Split, from the call to the transfers. In every reachable state of a splitter whose splits are
  fixed ratios, a call by the processor succeeds if balances can be queried and transfers built; the
  input account, if it has approved the library, then sends one transfer per split, of the rounded-down
  share of the balance, and for no denomination more than the balance. For any other caller the
  splitter sends nothing, and an account that has not approved it refuses its message.
\<close>

theorem split_end_to_end:
  fixes s :: "(Splitter.library_config, Splitter.config, 'o) library" and acc :: "'o account"
  assumes reach: "library_reach ow (ck_api ck) (Splitter.validate ck) (range Splitter.process_function)
      Splitter.update_raw (Splitter.update_config ck) id s"
    and platform: "decimals_ok ck" "denoms_ok ck" "multiply_ok d" "balances_fit d"
      "\<And>m. dec (l_enc_account d m) = Ok m"
    and fixed: "\<forall>split \<in> set (slc_splits (lib_raw s)). \<exists>r. usc_amount split = Splitter.UncheckedFixedRatio r"
    and queries: "\<forall>c \<in> set (cfg_splits (lib_cfg s)). \<exists>b. l_denom_balance d (sc_denom c) (cfg_input_addr (lib_cfg s)) = Ok b"
    and builds: "\<forall>denom a n. \<exists>m. l_transfer_to d denom a n = Ok m"
    and owner: "is_owner ow (account_ownership acc) lib_addr = Ok b"
  shows "if info_sender info \<noteq> lib_processor s
    then Splitter.execute ow ck d s env info (ProcessFunction Splitter.Split) = Err (LibUnauthorized NotAllowed)
    else \<exists>r m msgs.
       Splitter.execute ow ck d s env info (ProcessFunction Splitter.Split) = Ok (s, r) \<and> sent r = [m]
     \<and> list_all2 (\<lambda>c msg. l_transfer_to d (sc_denom c) (sc_account c)
           (queried d (lib_cfg s) (sc_denom c) * ratio_of c div decimal_one) = Ok msg) (cfg_splits (lib_cfg s)) msgs
     \<and> (\<forall>denom. sum_list (map (\<lambda>c. queried d (lib_cfg s) denom * ratio_of c div decimal_one)
           (filter (\<lambda>c. sc_denom c = denom) (cfg_splits (lib_cfg s)))) \<le> queried d (lib_cfg s) denom)
     \<and> deliver ow cw dec (cfg_input_addr (lib_cfg s)) env lib_addr acc m =
         (if b \<or> is_approved acc lib_addr then Ok (acc, msgs)
          else Err (AccUnauthorized NotAdminOrApprovedLibrary))"
proof (cases "info_sender info = lib_processor s")
  case True
  let ?cfg = "lib_cfg s"
  let ?amounts = "map (ratio_transfer d ?cfg) (cfg_splits ?cfg)"
  note validated = splitter.config_validated [OF reach]
  have amounts: "Splitter.prepare_transfer_amounts d ?cfg = Ok ?amounts"
    by (rule fixed_ratio_amounts [OF validated platform(1-4) fixed queries])
  obtain msgs where
    msgs: "try_map (\<lambda>(amount, denom, account). map_err LibStd (l_transfer_to d denom account amount)) ?amounts = Ok msgs"
    using transfers_built [OF builds] by blast
  have transfers: "list_all2 (\<lambda>c msg. l_transfer_to d (sc_denom c) (sc_account c)
           (queried d ?cfg (sc_denom c) * ratio_of c div decimal_one) = Ok msg) (cfg_splits ?cfg) msgs"
    using msgs by (simp add: try_map_Ok_iff list_all2_map1 ratio_transfer_def map_err_Ok_iff)
  have "\<exists>r m msgs. Splitter.execute ow ck d s env info (ProcessFunction Splitter.Split) = Ok (s, r) \<and> sent r = [m]
     \<and> list_all2 (\<lambda>c msg. l_transfer_to d (sc_denom c) (sc_account c)
           (queried d ?cfg (sc_denom c) * ratio_of c div decimal_one) = Ok msg) (cfg_splits ?cfg) msgs
     \<and> (\<forall>denom. sum_list (map (\<lambda>c. queried d ?cfg denom * ratio_of c div decimal_one)
           (filter (\<lambda>c. sc_denom c = denom) (cfg_splits ?cfg))) \<le> queried d ?cfg denom)
     \<and> deliver ow cw dec (cfg_input_addr ?cfg) env lib_addr acc m =
         (if b \<or> is_approved acc lib_addr then Ok (acc, msgs)
          else Err (AccUnauthorized NotAdminOrApprovedLibrary))"
    by (intro exI conjI allI)
      (rule split_call [OF amounts msgs True], rule sent_one, rule transfers,
        rule shares_within [OF validated platform(1,2) fixed], rule split_delivered [OF platform(5) owner])
  with True show ?thesis by (simp only: not_True_eq_False if_False simp_thms)
next
  case False
  then show ?thesis
    by (simp add: Splitter.execute_def lib_execute_def assert_processor_def)
qed

section \<open>A concrete program\<close>

text \<open>A serialiser that loses nothing: the messages of an account are countable.\<close>

instance coin_ext :: (countable) countable
  by (rule countable_classI [of "\<lambda>c. to_nat (coin_denom c, coin_amount c, coin.more c)"]) simp

instance cosmos_msg :: countable
  by countable_datatype

instance reply_on :: countable
  by countable_datatype

instance sub_msg_ext :: (countable) countable
  by (rule countable_classI [of "\<lambda>c. to_nat (sub_id c, sub_msg c, sub_reply_on c, sub_msg.more c)"]) simp

instance expiration :: countable
  by countable_datatype

instance ownable_action :: countable
  by countable_datatype

instance account_execute_msg :: countable
  by countable_datatype

definition ex_enc :: "account_execute_msg \<Rightarrow> binary" where
  "ex_enc m = replicate (to_nat m) (CHR ''x'')"

definition ex_dec :: "binary \<Rightarrow> (account_execute_msg, std_error) result" where
  "ex_dec b = Ok (from_nat (length b))"

definition ex_d :: lib_deps where
  "ex_d = (ex_lib_deps (\<lambda>_ _. 1001))\<lparr>l_enc_account := ex_enc\<rparr>"

definition ex_splitter :: "(Splitter.library_config, Splitter.config, addr) library" where
  "ex_splitter =
     \<lparr>lib_ownership = ''owner'', lib_processor = ''processor'', lib_raw = ex_splitter_raw,
      lib_cfg = ex_splitter_cfg\<rparr>"

definition ex_input_account :: "addr account" where
  "ex_input_account = \<lparr>account_ownership = ''owner'', approved_libraries = [(''splitter'', ())]\<rparr>"

lemma ex_splitter_reach:
  "library_reach ex_ow (ck_api ex_checks) (Splitter.validate ex_checks) (range Splitter.process_function)
     Splitter.update_raw (Splitter.update_config ex_checks) id ex_splitter"
proof -
  have "lib_instantiate ex_ow (ck_api ex_checks) (Splitter.validate ex_checks)
      \<lparr>lim_owner = ''owner'', lim_processor = ''processor'', lim_config = ex_splitter_raw\<rparr> =
      Ok (ex_splitter, add_attribute ''owner'' (debug_string ex_api ''owner'') (add_attribute ''processor'' ''processor''
        (add_attribute ''method'' ''instantiate'' response_new)))"
    by (simp add: lib_instantiate_def ex_splitter_validated ex_ow_def ex_checks_def [THEN arg_cong [of _ _ ck_api]]
        ex_api_def ex_splitter_def)
  from library_start [OF this, of "range Splitter.process_function" Splitter.update_raw
      "Splitter.update_config ex_checks" id]
  show ?thesis by simp
qed

lemma ex_d_ok:
  "multiply_ok ex_d" "balances_fit ex_d" "ex_dec (l_enc_account ex_d m) = Ok m"
  "\<exists>m. l_transfer_to ex_d denom a n = Ok m" "l_denom_balance ex_d denom a = Ok 1001"
  using ex_lib_deps_ok(1) ex_balances_fit
  by (simp_all add: ex_d_def ex_enc_def ex_dec_def multiply_ok_def balances_fit_def ex_lib_deps_def
      split: checked_denom.splits)

text \<open>The target of the reconfiguration: another input account.\<close>

definition ex_target :: Splitter.library_config where
  "ex_target = ex_splitter_raw\<lparr>slc_input_addr := Addr ''input2''\<rparr>"

lemma ex_target_validated:
  "Splitter.validate ex_checks ex_target = Ok (ex_splitter_cfg\<lparr>cfg_input_addr := ''input2''\<rparr>)"
  by (simp add: Let_def Splitter.validate_def Splitter.do_validate_def Splitter.validate_splits_def
      scan_split_def check_denom_sum_def Splitter.convert_to_checked_configs_def checked_config_def
      Splitter.convert_to_checked_split_amount_def account_to_addr_def ex_checks_def ex_api_def
      ex_target_def ex_splitter_raw_def ex_split_def ex_splitter_cfg_def)

theorem diff_update_reaches_target_witness:
  "Splitter.execute ex_ow ex_checks ex_d ex_splitter ex_env (ex_info ''owner'')
     (UpdateConfig \<lparr>slu_input_addr = Some (Addr ''input2''), slu_splits = None\<rparr>) =
     Ok (ex_splitter\<lparr>lib_raw := ex_target, lib_cfg := ex_splitter_cfg\<lparr>cfg_input_addr := ''input2''\<rparr>\<rparr>,
         add_attribute ''method'' ''update_config'' response_new)"
proof -
  let ?f = "ex_forwarder (Some (env_block (ex_block 100)))"
  have "Splitter.get_diff_update (lib_raw ex_splitter) ex_target =
      Some \<lparr>slu_input_addr = Some (Addr ''input2''), slu_splits = None\<rparr>"
    by (simp add: Splitter.get_diff_update_def some_update_def diff_field_def ex_splitter_def ex_target_def
        ex_splitter_raw_def)
  moreover have "Forwarder.validate ex_checks (lib_raw ?f) = Ok (lib_cfg ?f)"
    by (rule forwarder.config_validated [OF ex_forwarder_reach])
  moreover have "assert_owner ex_ow (lib_ownership ex_splitter) (info_sender (ex_info ''owner'')) = Ok ()"
    and "assert_owner ex_ow (lib_ownership ?f) (info_sender (ex_info ''owner'')) = Ok ()"
    by (simp_all add: ex_ow_def ex_splitter_def ex_forwarder_def ex_info_def)
  ultimately show ?thesis
    using diff_update_reaches_target [OF ex_splitter_reach ex_forwarder_reach ex_target_validated,
        of "lib_raw ?f" "lib_cfg ?f" "ex_info ''owner''" ex_d ex_env] by simp
qed

theorem split_end_to_end_witness:
  "\<exists>r m. Splitter.execute ex_ow ex_checks ex_d ex_splitter ex_env (ex_info ''processor'')
       (ProcessFunction Splitter.Split) = Ok (ex_splitter, r) \<and> sent r = [m]
     \<and> deliver ex_ow ex_api ex_dec ''input'' ex_env ''splitter'' ex_input_account m =
         Ok (ex_input_account, [BankSend ''out1'' [\<lparr>coin_denom = ''untrn'', coin_amount = 300\<rparr>],
                          BankSend ''out2'' [\<lparr>coin_denom = ''untrn'', coin_amount = 700\<rparr>]])"
proof -
  have raw: "\<forall>split \<in> set (slc_splits (lib_raw ex_splitter)). \<exists>r. usc_amount split = Splitter.UncheckedFixedRatio r"
    by (simp add: ex_splitter_def ex_splitter_raw_def ex_split_def)
  have queries: "\<forall>c \<in> set (cfg_splits (lib_cfg ex_splitter)).
      \<exists>b. l_denom_balance ex_d (sc_denom c) (cfg_input_addr (lib_cfg ex_splitter)) = Ok b"
    by (simp add: ex_d_ok)
  have owner: "is_owner ex_ow (account_ownership ex_input_account) ''splitter'' = Ok False"
    by (simp add: ex_ow_def ex_input_account_def)
  have approved: "is_approved ex_input_account ''splitter''"
    by (simp add: is_approved_def ex_input_account_def sm_has_def sm_get_def)
  have sender: "info_sender (ex_info ''processor'') = lib_processor ex_splitter"
    by (simp add: ex_info_def ex_splitter_def)
  have builds: "\<forall>denom a n. \<exists>m. l_transfer_to ex_d denom a n = Ok m"
    by (simp add: ex_d_ok)
  from split_end_to_end [OF ex_splitter_reach ex_lib_deps_ok(2,3) ex_d_ok(1,2,3) raw queries builds owner,
      of "ex_info ''processor''" ex_env ex_api] sender approved
  obtain r m msgs where
    exec: "Splitter.execute ex_ow ex_checks ex_d ex_splitter ex_env (ex_info ''processor'')
       (ProcessFunction Splitter.Split) = Ok (ex_splitter, r)" "sent r = [m]"
    and msgs: "list_all2 (\<lambda>c msg. l_transfer_to ex_d (sc_denom c) (sc_account c)
           (queried ex_d (lib_cfg ex_splitter) (sc_denom c) * ratio_of c div decimal_one) = Ok msg)
           (cfg_splits (lib_cfg ex_splitter)) msgs"
    and delivered: "deliver ex_ow ex_api ex_dec (cfg_input_addr (lib_cfg ex_splitter)) ex_env ''splitter'' ex_input_account m =
      Ok (ex_input_account, msgs)"
    by (simp only: not_True_eq_False if_False simp_thms if_True) (elim exE conjE, blast)
  have "msgs = [BankSend ''out1'' [\<lparr>coin_denom = ''untrn'', coin_amount = 300\<rparr>],
                BankSend ''out2'' [\<lparr>coin_denom = ''untrn'', coin_amount = 700\<rparr>]]"
    using msgs
    by (auto simp: ex_splitter_def ex_splitter_cfg_def list_all2_Cons1 ratio_of_def queried_def ex_d_ok(5))
      (simp_all add: ex_d_def ex_lib_deps_def)
  with exec delivered show ?thesis
    by (auto simp: ex_splitter_def ex_splitter_cfg_def)
qed

end
