(* ===== verification/Reverse_Splitter.thy ===== *)
theory Reverse_Splitter
  imports Library_Base "HOL-Library.AList"
begin

text \<open>
  The reverse splitter library (\<open>contracts/libraries/reverse-splitter/src/msg.rs\<close>,
  \<open>contract.rs\<close>): funds of several accounts go to one output account in amounts that keep fixed or
  queried ratios to a base denomination, optionally scaled by a factor. The keys of the maps of the
  source are \<open>Debug\<close> renderings; here they are the values rendered.

  The property \<open>reverse_split_within_balances\<close>: whatever the ratios and factors, no transfer exceeds
  the balance it is taken from, and all transfers come from the same amount of the base denomination.
  \<open>base_denom_update_not_validated\<close> shows an update the validation does not cover.
\<close>

section \<open>Configuration\<close>

datatype split_amount = FixedAmount u128 | FixedRatio decimal | DynamicRatio addr string

datatype unchecked_split_amount =
    UncheckedFixedAmount u128
  | UncheckedFixedRatio decimal
  | UncheckedDynamicRatio string string

record split_config =
  rs_denom :: checked_denom
  rs_account :: addr
  rs_amount :: split_amount
  rs_factor :: "u64 option"

record unchecked_split_config =
  urs_denom :: unchecked_denom
  urs_account :: library_account_type
  urs_amount :: unchecked_split_amount
  urs_factor :: "u64 option"

record library_config =
  rlc_output_addr :: library_account_type
  rlc_splits :: "unchecked_split_config list"
  rlc_base_denom :: unchecked_denom

record config =
  rcfg_output_addr :: addr
  rcfg_splits :: "split_config list"
  rcfg_base_denom :: checked_denom

record library_config_update =
  rlu_output_addr :: "library_account_type option"
  rlu_splits :: "unchecked_split_config list option"
  rlu_base_denom :: "unchecked_denom option"

section \<open>Validation\<close>

record split_scan =
  scan_keys :: "(unchecked_denom \<times> library_account_type) list"
  config_has_ratio :: bool
  config_has_amount_for_non_base_denom :: bool

definition invalid :: "string \<Rightarrow> ('a, library_error) result" where
  "invalid reason = Err (ConfigurationError (''Invalid split config: '' @ reason))"

definition scan_amount ::
  "config_checks \<Rightarrow> unchecked_denom \<Rightarrow> split_scan \<Rightarrow> unchecked_split_config \<Rightarrow> (split_scan, library_error) result"
where
  "scan_amount ck base_denom st split =
     (case urs_amount split of
        UncheckedFixedAmount amount \<Rightarrow>
          if amount = 0 then invalid ''amount cannot be zero.''
          else if urs_factor split \<noteq> None then invalid ''a factor cannot be specified with an amount.''
          else if urs_denom split \<noteq> base_denom
          then Ok (st\<lparr>config_has_amount_for_non_base_denom := True\<rparr>)
          else Ok st
      | UncheckedFixedRatio ratio \<Rightarrow>
          if ratio = 0 then invalid ''ratio cannot be zero.''
          else if urs_denom split = base_denom \<and> ratio \<noteq> decimal_one
          then invalid ''fixed ratio for base denom must be 1.''
          else Ok (st\<lparr>config_has_ratio := True\<rparr>)
      | UncheckedDynamicRatio contract_addr params \<Rightarrow>
          and_then (map_err LibStd (addr_validate (ck_api ck) contract_addr)) (\<lambda>_.
          if urs_denom split = base_denom then invalid ''ratio for base denom cannot be a dynamic one.''
          else Ok (st\<lparr>config_has_ratio := True\<rparr>)))"

definition scan_split ::
  "config_checks \<Rightarrow> unchecked_denom \<Rightarrow> split_scan \<Rightarrow> unchecked_split_config \<Rightarrow> (split_scan, library_error) result"
where
  "scan_split ck base_denom st split =
     and_then (map_err LibStd (account_to_addr (ck_api ck) (urs_account split))) (\<lambda>_.
     let key = (urs_denom split, urs_account split)
     in if key \<in> set (scan_keys st) then Err (ConfigurationError ''Duplicate split in split config.'')
        else
          and_then (scan_amount ck base_denom (st\<lparr>scan_keys := key # scan_keys st\<rparr>) split) (\<lambda>st'.
            if urs_factor split = Some 0 then invalid ''factor cannot be zero.'' else Ok st'))"

definition validate_splits ::
  "config_checks \<Rightarrow> unchecked_split_config list \<Rightarrow> unchecked_denom \<Rightarrow> (unit, library_error) result"
where
  "validate_splits ck splits base_denom =
     (if splits = [] then Err (ConfigurationError ''No split configuration provided.'')
      else
        and_then (try_fold (scan_split ck base_denom)
          \<lparr>scan_keys = [], config_has_ratio = False, config_has_amount_for_non_base_denom = False\<rparr> splits)
        (\<lambda>st.
          if config_has_ratio st \<and> config_has_amount_for_non_base_denom st
          then invalid ''only base denom can have an amount when ratios are specified for other some denoms.''
          else Ok ()))"

definition convert_to_checked_split_amount ::
  "cw_api \<Rightarrow> unchecked_split_amount \<Rightarrow> (split_amount, library_error) result"
where
  "convert_to_checked_split_amount cw amount =
     (case amount of
        UncheckedFixedAmount a \<Rightarrow> Ok (FixedAmount a)
      | UncheckedFixedRatio r \<Rightarrow> Ok (FixedRatio r)
      | UncheckedDynamicRatio contract_addr params \<Rightarrow>
          and_then (map_err LibStd (addr_validate cw contract_addr)) (\<lambda>a.
            Ok (DynamicRatio a params)))"

definition convert_to_checked_configs ::
  "config_checks \<Rightarrow> unchecked_split_config list \<Rightarrow> (split_config list, library_error) result"
where
  "convert_to_checked_configs ck splits =
     try_map (\<lambda>c.
       and_then (map_err ConfigurationError (ck_into_checked ck (urs_denom c))) (\<lambda>denom.
       and_then (map_err LibStd (account_to_addr (ck_api ck) (urs_account c))) (\<lambda>account.
       and_then (convert_to_checked_split_amount (ck_api ck) (urs_amount c)) (\<lambda>amount.
         Ok \<lparr>rs_denom = denom, rs_account = account, rs_amount = amount, rs_factor = urs_factor c\<rparr>)))) splits"

definition do_validate :: "config_checks \<Rightarrow> library_config \<Rightarrow> (addr, library_error) result" where
  "do_validate ck c =
     and_then (map_err LibStd (account_to_addr (ck_api ck) (rlc_output_addr c))) (\<lambda>output_addr.
     and_then (validate_splits ck (rlc_splits c) (rlc_base_denom c)) (\<lambda>_. Ok output_addr))"

definition validate :: "config_checks \<Rightarrow> library_config \<Rightarrow> (config, library_error) result" where
  "validate ck c =
     and_then (do_validate ck c) (\<lambda>output_addr.
     and_then (convert_to_checked_configs ck (rlc_splits c)) (\<lambda>checked_splits.
     and_then (map_err ConfigurationError (ck_into_checked ck (rlc_base_denom c))) (\<lambda>base_denom.
       Ok \<lparr>rcfg_output_addr = output_addr, rcfg_splits = checked_splits, rcfg_base_denom = base_denom\<rparr>)))"

definition update_raw :: "library_config_update \<Rightarrow> library_config \<Rightarrow> library_config" where
  "update_raw u raw =
     \<lparr>rlc_output_addr = update_field (rlu_output_addr u) (rlc_output_addr raw),
      rlc_splits = update_field (rlu_splits u) (rlc_splits raw),
      rlc_base_denom = update_field (rlu_base_denom u) (rlc_base_denom raw)\<rparr>"

definition get_diff_update :: "library_config \<Rightarrow> library_config \<Rightarrow> library_config_update option" where
  "get_diff_update c other =
     some_update \<lparr>rlu_output_addr = None, rlu_splits = None, rlu_base_denom = None\<rparr>
       \<lparr>rlu_output_addr = diff_field (rlc_output_addr c) (rlc_output_addr other),
        rlu_splits = diff_field (rlc_splits c) (rlc_splits other),
        rlu_base_denom = diff_field (rlc_base_denom c) (rlc_base_denom other)\<rparr>"

definition denom_as_unchecked :: "checked_denom \<Rightarrow> unchecked_denom" where
  "denom_as_unchecked denom =
     (case denom of Native s \<Rightarrow> UncheckedNative s | Cw20 a \<Rightarrow> UncheckedCw20 a)"

definition update_config ::
  "config_checks \<Rightarrow> library_config_update \<Rightarrow> config \<Rightarrow> (config, library_error) result"
where
  "update_config ck u cfg =
     and_then (case rlu_output_addr u of
         Some output_addr \<Rightarrow>
           map_ok (\<lambda>a. cfg\<lparr>rcfg_output_addr := a\<rparr>)
             (map_err LibStd (account_to_addr (ck_api ck) output_addr))
       | None \<Rightarrow> Ok cfg) (\<lambda>cfg1.
     and_then (case rlu_base_denom u of
         Some base_denom \<Rightarrow>
           map_ok (\<lambda>b. cfg1\<lparr>rcfg_base_denom := b\<rparr>)
             (map_err ConfigurationError (ck_into_checked ck base_denom))
       | None \<Rightarrow> Ok cfg1) (\<lambda>cfg2.
       (case rlu_splits u of
          Some splits \<Rightarrow>
            and_then (validate_splits ck splits
              (case rlu_base_denom u of
                 Some base_denom \<Rightarrow> base_denom
               | None \<Rightarrow> denom_as_unchecked (rcfg_base_denom cfg2))) (\<lambda>_.
            and_then (convert_to_checked_configs ck splits) (\<lambda>checked.
              Ok (cfg2\<lparr>rcfg_splits := checked\<rparr>)))
        | None \<Rightarrow> Ok cfg2)))"

section \<open>Split\<close>

datatype function_msgs = Split

definition query_dynamic_ratio ::
  "lib_deps \<Rightarrow> addr \<Rightarrow> string \<Rightarrow> checked_denom \<Rightarrow> (decimal, library_error) result"
where
  "query_dynamic_ratio d contract_addr params denom =
     (let denom_name = l_denom_name d denom
      in and_then (map_err LibStd (l_dynamic_ratio d contract_addr [denom_name] params)) (\<lambda>denom_ratios.
         ok_or (ExecutionError ''Dynamic ratio not found for denom.'') (denom_ratios denom_name)))"

record split_queries =
  account_balances :: "((addr \<times> checked_denom) \<times> u128) list"
  dynamic_ratios :: "((checked_denom \<times> addr \<times> string) \<times> decimal) list"
  denom_amount_count :: usize

definition query_split ::
  "lib_deps \<Rightarrow> split_queries \<Rightarrow> split_config \<Rightarrow> (split_queries, library_error) result"
where
  "query_split d q split =
     and_then (map_err LibStd (l_denom_balance d (rs_denom split) (rs_account split))) (\<lambda>balance.
     let q1 = q\<lparr>account_balances :=
                  AList.update (rs_account split, rs_denom split) balance (account_balances q)\<rparr>
     in case rs_amount split of
          FixedAmount amount \<Rightarrow>
            if balance < amount
            then Err (ExecutionError ''Insufficient balance on account in split config.'')
            else Ok (q1\<lparr>denom_amount_count := denom_amount_count q1 + 1\<rparr>)
        | DynamicRatio contract_addr params \<Rightarrow>
            (let key = (rs_denom split, contract_addr, params)
             in case map_of (dynamic_ratios q1) key of
                  None \<Rightarrow>
                    and_then (query_dynamic_ratio d contract_addr params (rs_denom split)) (\<lambda>ratio.
                      Ok (q1\<lparr>dynamic_ratios := AList.update key ratio (dynamic_ratios q1)\<rparr>))
                | Some _ \<Rightarrow> Ok q1)
        | FixedRatio _ \<Rightarrow> Ok q1)"

text \<open>The amounts as they are, when every split has one.\<close>

definition fixed_transfer ::
  "split_config \<Rightarrow> (u128 \<times> checked_denom \<times> addr, library_error) result"
where
  "fixed_transfer split =
     (case rs_amount split of
        FixedAmount amount \<Rightarrow> Ok (amount, rs_denom split, rs_account split)
      | _ \<Rightarrow> Err (LibStd (Panic ''internal error: entered unreachable code'')))"

text \<open>The amount of a split in terms of the base denomination, with the ratio and factor it has.\<close>

definition amount_in_base_denom ::
  "lib_deps \<Rightarrow> split_queries \<Rightarrow> split_config \<Rightarrow>
   (u128 \<times> decimal \<times> u64 option \<times> checked_denom \<times> addr, library_error) result"
where
  "amount_in_base_denom d q split =
     and_then (unwrap (map_of (account_balances q) (rs_account split, rs_denom split))) (\<lambda>balance.
     and_then
       (case rs_amount split of
          FixedAmount amount \<Rightarrow> Ok (amount, decimal_one, None)
        | _ \<Rightarrow>
            and_then
              (case rs_amount split of
                 FixedRatio ratio \<Rightarrow> Ok ratio
               | DynamicRatio contract_addr params \<Rightarrow>
                   unwrap (map_of (dynamic_ratios q) (rs_denom split, contract_addr, params))
               | FixedAmount _ \<Rightarrow> Err (LibStd (Panic ''internal error: entered unreachable code''))) (\<lambda>ratio.
            and_then (map_err LibStd (l_multiply_ratio d balance ratio decimal_one)) (\<lambda>amount.
            and_then
              (case rs_factor split of
                 Some factor \<Rightarrow>
                   ok_or (LibStd (GenericErr ''Divide by zero'')) (checked_div_u128 amount factor)
               | None \<Rightarrow> Ok amount) (\<lambda>amount'.
              Ok (amount', ratio, rs_factor split))))) (\<lambda>(amount, ratio, factor).
       Ok (amount, ratio, factor, rs_denom split, rs_account split)))"

definition scaled_transfer ::
  "lib_deps \<Rightarrow> u128 \<Rightarrow> u128 \<times> decimal \<times> u64 option \<times> checked_denom \<times> addr \<Rightarrow>
   (u128 \<times> checked_denom \<times> addr, library_error) result"
where
  "scaled_transfer d min_amount t =
     (case t of (_, ratio, factor, denom, account) \<Rightarrow>
        and_then (map_err LibStd (l_multiply_ratio d min_amount decimal_one ratio)) (\<lambda>amount.
        and_then
          (case factor of
             Some f \<Rightarrow> ok_or (LibStd (GenericErr ''Overflow'')) (checked_mul_u128 amount f)
           | None \<Rightarrow> Ok amount) (\<lambda>amount'.
          Ok (amount', denom, account))))"

definition prepare_transfer_amounts ::
  "lib_deps \<Rightarrow> config \<Rightarrow> ((u128 \<times> checked_denom \<times> addr) list, library_error) result"
where
  "prepare_transfer_amounts d cfg =
     and_then (try_fold (query_split d)
       \<lparr>account_balances = [], dynamic_ratios = [], denom_amount_count = 0\<rparr> (rcfg_splits cfg)) (\<lambda>q.
       if denom_amount_count q = length (rcfg_splits cfg) then
         try_map fixed_transfer (rcfg_splits cfg)
       else
         and_then (try_map (amount_in_base_denom d q) (rcfg_splits cfg)) (\<lambda>amounts.
           try_map (scaled_transfer d (Min (set (map fst amounts)))) amounts))"

definition prepare_transfer_messages ::
  "lib_deps \<Rightarrow> (u128 \<times> checked_denom \<times> addr) list \<Rightarrow> addr \<Rightarrow> ((cosmos_msg \<times> addr) list, library_error) result"
where
  "prepare_transfer_messages d coins_to_transfer output_addr =
     try_map (\<lambda>(amount, denom, account).
       map_ok (\<lambda>m. (m, account)) (map_err LibStd (l_transfer_to d denom output_addr amount)))
       coins_to_transfer"

definition process_function ::
  "lib_deps \<Rightarrow> (library_config, config, 'o, 'z, function_msgs) process_function"
where
  "process_function d s env info msg cfg =
     (case msg of
        Split \<Rightarrow>
          and_then (prepare_transfer_amounts d cfg) (\<lambda>transfer_amounts.
          and_then (prepare_transfer_messages d transfer_amounts (rcfg_output_addr cfg)) (\<lambda>transfer_messages.
            Ok (s, add_messages (map (\<lambda>(m, account). execute_on_behalf_of d [m] account) transfer_messages)
                     (add_attribute ''method'' ''split'' response_new)))))"

definition instantiate ::
  "'o ownable \<Rightarrow> config_checks \<Rightarrow> library_config library_instantiate_msg \<Rightarrow>
   ((library_config, config, 'o) library \<times> response, library_error) result"
where
  "instantiate ow ck msg = lib_instantiate ow (ck_api ck) (validate ck) msg"

definition execute ::
  "'o ownable \<Rightarrow> config_checks \<Rightarrow> lib_deps \<Rightarrow> (library_config, config, 'o, 'z) library_scheme \<Rightarrow> env \<Rightarrow>
   message_info \<Rightarrow> (function_msgs, library_config_update) library_execute_msg \<Rightarrow>
   (library_config, config, 'o, 'z) library_result"
where
  "execute ow ck d s env info msg =
     lib_execute ow (ck_api ck) (process_function d) update_raw (update_config ck) s env info msg"

section \<open>No transfer exceeds its balance\<close>

lemma scaled_within:
  fixes b r f m :: nat
  assumes "m * f \<le> b * r div k" and "0 < r"
  shows "m * k div r * f \<le> b"
proof -
  have "(m * k div r * f) * r = m * k div r * r * f" by simp
  also have "\<dots> \<le> m * k * f" by (intro mult_le_mono1 div_times_less_eq_dividend)
  also have "\<dots> = m * f * k" by simp
  also have "\<dots> \<le> b * r div k * k" using assms(1) by (rule mult_le_mono1)
  also have "\<dots> \<le> b * r" by (rule div_times_less_eq_dividend)
  finally show ?thesis using assms(2) by simp
qed

definition queries_ok :: "lib_deps \<Rightarrow> split_queries \<Rightarrow> bool" where
  "queries_ok d q \<longleftrightarrow>
     (\<forall>a denom b. map_of (account_balances q) (a, denom) = Some b \<longrightarrow> l_denom_balance d denom a = Ok b)
   \<and> (\<forall>denom c p r. map_of (dynamic_ratios q) (denom, c, p) = Some r \<longrightarrow> query_dynamic_ratio d c p denom = Ok r)"

lemma reverse_query_ok:
  assumes "query_split d q split = Ok q'" and ok: "queries_ok d q"
  shows "queries_ok d q'
    \<and> (\<exists>b. l_denom_balance d (rs_denom split) (rs_account split) = Ok b
          \<and> (\<forall>n. rs_amount split = FixedAmount n \<longrightarrow> n \<le> b))
    \<and> denom_amount_count q' =
        denom_amount_count q + (case rs_amount split of FixedAmount _ \<Rightarrow> 1 | _ \<Rightarrow> 0)"
proof -
  from assms(1) obtain b where b: "l_denom_balance d (rs_denom split) (rs_account split) = Ok b"
    by (auto simp: query_split_def and_then_Ok_iff map_err_Ok_iff)
  show ?thesis
  proof (cases "rs_amount split")
    case (FixedAmount n)
    with assms b show ?thesis
      by (auto simp: query_split_def queries_ok_def update_conv' Let_def split: if_splits)
  next
    case (FixedRatio r)
    with assms b show ?thesis
      by (auto simp: query_split_def queries_ok_def update_conv' Let_def split: if_splits)
  next
    case (DynamicRatio c p)
    with assms b show ?thesis
      by (cases "map_of (dynamic_ratios q) (rs_denom split, c, p)")
        (auto simp: query_split_def queries_ok_def update_conv' Let_def and_then_Ok_iff split: if_splits)
  qed
qed

definition is_fixed :: "split_config \<Rightarrow> bool" where
  "is_fixed split \<longleftrightarrow> (case rs_amount split of FixedAmount _ \<Rightarrow> True | _ \<Rightarrow> False)"

lemma reverse_queries_ok:
  assumes "try_fold (query_split d) q splits = Ok q'" and "queries_ok d q"
  shows "queries_ok d q'
    \<and> (\<forall>split \<in> set splits. \<exists>b. l_denom_balance d (rs_denom split) (rs_account split) = Ok b
          \<and> (\<forall>n. rs_amount split = FixedAmount n \<longrightarrow> n \<le> b))
    \<and> denom_amount_count q' = denom_amount_count q + length (filter is_fixed splits)"
  using assms
proof (induction splits arbitrary: q)
  case (Cons split splits)
  then obtain q1 where q1: "query_split d q split = Ok q1" and "try_fold (query_split d) q1 splits = Ok q'"
    by (auto simp: and_then_Ok_iff)
  with Cons.IH [of q1] reverse_query_ok [OF q1 Cons.prems(2)] show ?case
    by (auto simp: is_fixed_def split: split_amount.splits)
qed simp

text \<open>The ratio a split has to the base denomination, and its factor.\<close>

definition has_ratio :: "lib_deps \<Rightarrow> split_config \<Rightarrow> decimal \<Rightarrow> bool" where
  "has_ratio d split r \<longleftrightarrow>
     (case rs_amount split of
        FixedAmount _ \<Rightarrow> r = decimal_one
      | FixedRatio ratio \<Rightarrow> r = ratio
      | DynamicRatio c p \<Rightarrow> query_dynamic_ratio d c p (rs_denom split) = Ok r)"

definition factor_of :: "split_config \<Rightarrow> nat" where
  "factor_of split =
     (case rs_amount split of
        FixedAmount _ \<Rightarrow> 1
      | _ \<Rightarrow> (case rs_factor split of Some f \<Rightarrow> f | None \<Rightarrow> 1))"

definition taken_from :: "lib_deps \<Rightarrow> split_config \<Rightarrow> u128 \<times> checked_denom \<times> addr \<Rightarrow> bool" where
  "taken_from d split t \<longleftrightarrow>
     (case t of (n, denom, a) \<Rightarrow>
        denom = rs_denom split \<and> a = rs_account split
      \<and> (\<exists>b. l_denom_balance d denom a = Ok b \<and> n \<le> b))"

definition scaled_by :: "lib_deps \<Rightarrow> u128 \<Rightarrow> split_config \<Rightarrow> u128 \<times> checked_denom \<times> addr \<Rightarrow> bool" where
  "scaled_by d m split t \<longleftrightarrow>
     (\<exists>r. has_ratio d split r \<and> 0 < r \<and> fst t = m * decimal_one div r * factor_of split)"

text \<open>The amount of a split in the base denomination, and what a smaller amount scales back to.\<close>

lemma base_amount_cases:
  assumes "amount_in_base_denom d q split = Ok (amount, ratio, factor, denom, a)"
    and "queries_ok d q" and "multiply_ok d"
  shows "denom = rs_denom split \<and> a = rs_account split \<and> has_ratio d split ratio
    \<and> (case factor of Some f \<Rightarrow> f | None \<Rightarrow> 1) = factor_of split
    \<and> (case rs_amount split of
         FixedAmount n \<Rightarrow> amount = n
       | _ \<Rightarrow> \<exists>b. l_denom_balance d denom a = Ok b \<and> amount * factor_of split \<le> b * ratio div decimal_one)"
proof -
  from assms(1) obtain b where
    b: "map_of (account_balances q) (rs_account split, rs_denom split) = Some b"
    by (auto simp: amount_in_base_denom_def and_then_Ok_iff unwrap_def map_err_Ok_iff expect_Ok_iff)
  with assms(2) have bal: "l_denom_balance d (rs_denom split) (rs_account split) = Ok b"
    by (simp add: queries_ok_def)
  note unfold = amount_in_base_denom_def and_then_Ok_iff unwrap_def map_err_Ok_iff expect_Ok_iff
    ok_or_Ok_iff has_ratio_def factor_of_def multiply_ok_def checked_div_u128_def
  show ?thesis
  proof (cases "rs_amount split")
    case (FixedAmount n)
    with assms(1) b show ?thesis by (auto simp: unfold)
  next
    case (FixedRatio r)
    with assms b bal show ?thesis
      by (auto simp: unfold div_times_less_eq_dividend split: if_splits option.splits)
  next
    case (DynamicRatio c p)
    with assms b bal show ?thesis
      by (auto simp: unfold queries_ok_def div_times_less_eq_dividend split: if_splits option.splits)
  qed
qed

lemma scaled_transfer_cases:
  assumes "scaled_transfer d m (amount, ratio, factor, denom, a) = Ok (n, denom', a')" and "multiply_ok d"
  shows "denom' = denom \<and> a' = a \<and> 0 < ratio
    \<and> n = m * decimal_one div ratio * (case factor of Some f \<Rightarrow> f | None \<Rightarrow> 1)"
  using assms
  by (auto simp: scaled_transfer_def and_then_Ok_iff map_err_Ok_iff ok_or_Ok_iff multiply_ok_def
      checked_mul_u128_def split: option.splits if_splits)

lemma scaled_transfer_taken:
  assumes split: "\<exists>b. l_denom_balance d (rs_denom split) (rs_account split) = Ok b
        \<and> (\<forall>n. rs_amount split = FixedAmount n \<longrightarrow> n \<le> b)"
    and base: "amount_in_base_denom d q split = Ok (amount, rest)" and "m \<le> amount"
    and scaled: "scaled_transfer d m (amount, rest) = Ok t"
    and ok: "queries_ok d q" "multiply_ok d"
  shows "taken_from d split t \<and> scaled_by d m split t"
proof -
  obtain ratio factor denom a where rest: "rest = (ratio, factor, denom, a)" by (cases rest)
  obtain n denom' a' where t: "t = (n, denom', a')" by (cases t)
  note b = base_amount_cases [OF base [unfolded rest] ok]
    and s = scaled_transfer_cases [OF scaled [unfolded rest t] ok(2)]
  have n: "n = m * decimal_one div ratio * factor_of split" using b s by simp
  then have "scaled_by d m split t" using b s by (auto simp: scaled_by_def t)
  moreover have "\<exists>b. l_denom_balance d (rs_denom split) (rs_account split) = Ok b \<and> n \<le> b"
  proof (cases "rs_amount split")
    case (FixedAmount k)
    then have "n = m" using n b by (simp add: has_ratio_def factor_of_def)
    with FixedAmount split b \<open>m \<le> amount\<close> show ?thesis by auto
  next
    case (FixedRatio r)
    with b obtain bal where "l_denom_balance d (rs_denom split) (rs_account split) = Ok bal"
      and "amount * factor_of split \<le> bal * ratio div decimal_one" by auto
    moreover from this(2) mult_le_mono1 [OF \<open>m \<le> amount\<close>, of "factor_of split"]
    have "m * factor_of split \<le> bal * ratio div decimal_one" by linarith
    then have "n \<le> bal" using scaled_within s unfolding n by blast
    ultimately show ?thesis by blast
  next
    case (DynamicRatio c p)
    with b obtain bal where "l_denom_balance d (rs_denom split) (rs_account split) = Ok bal"
      and "amount * factor_of split \<le> bal * ratio div decimal_one" by auto
    moreover from this(2) mult_le_mono1 [OF \<open>m \<le> amount\<close>, of "factor_of split"]
    have "m * factor_of split \<le> bal * ratio div decimal_one" by linarith
    then have "n \<le> bal" using scaled_within s unfolding n by blast
    ultimately show ?thesis by blast
  qed
  ultimately show ?thesis using b s by (simp add: taken_from_def t)
qed

lemma fixed_transfers_taken:
  assumes "list_all2 (\<lambda>split t. fixed_transfer split = Ok t) splits transfers"
    and "\<forall>split \<in> set splits. \<exists>b. l_denom_balance d (rs_denom split) (rs_account split) = Ok b
          \<and> (\<forall>n. rs_amount split = FixedAmount n \<longrightarrow> n \<le> b)"
  shows "list_all2 (taken_from d) splits transfers
    \<and> list_all2 (\<lambda>split t. rs_amount split = FixedAmount (fst t)) splits transfers"
proof -
  have "taken_from d split t \<and> rs_amount split = FixedAmount (fst t)"
    if "split \<in> set splits" "fixed_transfer split = Ok t" for split t
    using that assms(2)
    by (auto simp: fixed_transfer_def taken_from_def split: split_amount.splits)
  with assms(1) show ?thesis
    unfolding list_all2_conv_all_nth by simp
qed

lemma scaled_transfers_taken:
  assumes ok: "queries_ok d q" and "multiply_ok d"
    and funded: "\<forall>split \<in> set splits. \<exists>b. l_denom_balance d (rs_denom split) (rs_account split) = Ok b
          \<and> (\<forall>n. rs_amount split = FixedAmount n \<longrightarrow> n \<le> b)"
    and a: "list_all2 (\<lambda>split t. amount_in_base_denom d q split = Ok t) splits amounts"
    and t: "list_all2 (\<lambda>a t. scaled_transfer d (Min (set (map fst amounts))) a = Ok t) amounts transfers"
  shows "list_all2 (taken_from d) splits transfers
    \<and> list_all2 (scaled_by d (Min (set (map fst amounts)))) splits transfers"
proof -
  have "taken_from d (splits ! i) (transfers ! i)
      \<and> scaled_by d (Min (set (map fst amounts))) (splits ! i) (transfers ! i)" if "i < length splits" for i
  proof (rule scaled_transfer_taken [OF _ _ _ _ _ assms(2)])
    show "amount_in_base_denom d q (splits ! i) = Ok (fst (amounts ! i), snd (amounts ! i))"
      and "scaled_transfer d (Min (set (map fst amounts))) (fst (amounts ! i), snd (amounts ! i)) = Ok (transfers ! i)"
      using a t that by (simp_all add: list_all2_conv_all_nth)
    show "Min (set (map fst amounts)) \<le> fst (amounts ! i)"
      using a that by (intro Min_le) (auto simp: list_all2_conv_all_nth)
    show "queries_ok d q" and "\<exists>b. l_denom_balance d (rs_denom (splits ! i)) (rs_account (splits ! i)) = Ok b
      \<and> (\<forall>n. rs_amount (splits ! i) = FixedAmount n \<longrightarrow> n \<le> b)"
      using ok funded that by simp_all
  qed
  with a t show ?thesis by (auto simp: list_all2_conv_all_nth)
qed

text \<open>
  (C36) Every transfer of the reverse splitter is taken from the balance of its account and does not
  exceed it. If all splits have amounts, those are transferred; otherwise all transfers come from one
  amount of the base denomination, scaled back by the ratio (rounded down) and factor of the split.
\<close>

theorem reverse_split_within_balances:
  assumes "multiply_ok d" and "prepare_transfer_amounts d cfg = Ok transfers"
  shows "list_all2 (taken_from d) (rcfg_splits cfg) transfers
    \<and> (if \<forall>split \<in> set (rcfg_splits cfg). is_fixed split
       then list_all2 (\<lambda>split t. rs_amount split = FixedAmount (fst t)) (rcfg_splits cfg) transfers
       else \<exists>m. list_all2 (scaled_by d m) (rcfg_splits cfg) transfers)"
proof -
  let ?splits = "rcfg_splits cfg"
  from assms(2) obtain q where
    q: "try_fold (query_split d) \<lparr>account_balances = [], dynamic_ratios = [], denom_amount_count = 0\<rparr> ?splits = Ok q"
    and rest: "(if denom_amount_count q = length ?splits then try_map fixed_transfer ?splits
       else and_then (try_map (amount_in_base_denom d q) ?splits) (\<lambda>amounts.
           try_map (scaled_transfer d (Min (set (map fst amounts)))) amounts)) = Ok transfers"
    by (auto simp: prepare_transfer_amounts_def and_then_Ok_iff)
  have "queries_ok d \<lparr>account_balances = [], dynamic_ratios = [], denom_amount_count = 0\<rparr>"
    by (simp add: queries_ok_def)
  from reverse_queries_ok [OF q this] have ok: "queries_ok d q"
    and funded: "\<forall>split \<in> set ?splits. \<exists>b. l_denom_balance d (rs_denom split) (rs_account split) = Ok b
          \<and> (\<forall>n. rs_amount split = FixedAmount n \<longrightarrow> n \<le> b)"
    and count: "denom_amount_count q = length (filter is_fixed ?splits)"
    by simp_all
  have fixed_iff: "denom_amount_count q = length ?splits \<longleftrightarrow> (\<forall>split \<in> set ?splits. is_fixed split)"
    unfolding count by (metis filter_True length_filter_less less_irrefl)
  show ?thesis
  proof (cases "\<forall>split \<in> set ?splits. is_fixed split")
    case True
    with rest fixed_iff have "list_all2 (\<lambda>split t. fixed_transfer split = Ok t) ?splits transfers"
      by (simp add: try_map_Ok_iff)
    from fixed_transfers_taken [OF this funded] True show ?thesis by simp
  next
    case False
    with rest fixed_iff obtain amounts where
      a: "list_all2 (\<lambda>split t. amount_in_base_denom d q split = Ok t) ?splits amounts"
      and t: "list_all2 (\<lambda>a t. scaled_transfer d (Min (set (map fst amounts))) a = Ok t) amounts transfers"
      by (auto simp: and_then_Ok_iff try_map_Ok_iff)
    from scaled_transfers_taken [OF ok assms(1) funded a t] False show ?thesis by auto
  qed
qed


section \<open>An update that is not validated\<close>

text \<open>
  Updating the base denomination alone leaves the splits as they are without checking them against
  it: here a dynamic ratio ends up on the new base denomination, which validation refuses.
\<close>

definition ex_reverse_raw :: library_config where
  "ex_reverse_raw =
     \<lparr>rlc_output_addr = Addr ''output'',
      rlc_splits =
        [\<lparr>urs_denom = UncheckedNative ''uosmo'', urs_account = Addr ''in1'',
          urs_amount = UncheckedFixedRatio decimal_one, urs_factor = None\<rparr>,
         \<lparr>urs_denom = UncheckedNative ''untrn'', urs_account = Addr ''in2'',
          urs_amount = UncheckedDynamicRatio ''oracle'' ''twap'', urs_factor = Some 2\<rparr>],
      rlc_base_denom = UncheckedNative ''uosmo''\<rparr>"

definition ex_reverse_cfg :: "string \<Rightarrow> config" where
  "ex_reverse_cfg base =
     \<lparr>rcfg_output_addr = ''output'',
      rcfg_splits =
        [\<lparr>rs_denom = Native ''uosmo'', rs_account = ''in1'', rs_amount = FixedRatio decimal_one, rs_factor = None\<rparr>,
         \<lparr>rs_denom = Native ''untrn'', rs_account = ''in2'',
          rs_amount = DynamicRatio ''oracle'' ''twap'', rs_factor = Some 2\<rparr>],
      rcfg_base_denom = Native base\<rparr>"

definition ex_base_update :: library_config_update where
  "ex_base_update =
     \<lparr>rlu_output_addr = None, rlu_splits = None, rlu_base_denom = Some (UncheckedNative ''untrn'')\<rparr>"

lemmas ex_reverse_defs =
  ex_reverse_raw_def ex_reverse_cfg_def ex_base_update_def ex_checks_def ex_api_def validate_def
  do_validate_def validate_splits_def scan_split_def scan_amount_def invalid_def
  convert_to_checked_configs_def convert_to_checked_split_amount_def account_to_addr_def
  update_config_def update_raw_def Let_def

lemma base_denom_update_not_validated:
  "validate ex_checks ex_reverse_raw = Ok (ex_reverse_cfg ''uosmo'')
   \<and> update_config ex_checks ex_base_update (ex_reverse_cfg ''uosmo'') = Ok (ex_reverse_cfg ''untrn'')
   \<and> validate ex_checks (update_raw ex_base_update ex_reverse_raw) =
       Err (ConfigurationError ''Invalid split config: ratio for base denom cannot be a dynamic one.'')"
  by (simp add: ex_reverse_defs)

theorem reverse_split_within_balances_witness:
  "prepare_transfer_amounts (ex_lib_deps (\<lambda>_ a. if a = ''in1'' then 7 else 100)) (ex_reverse_cfg ''uosmo'')
     = Ok [(7, Native ''uosmo'', ''in1''), (28, Native ''untrn'', ''in2'')]
   \<and> list_all2 (taken_from (ex_lib_deps (\<lambda>_ a. if a = ''in1'' then 7 else 100)))
       (rcfg_splits (ex_reverse_cfg ''uosmo'')) [(7, Native ''uosmo'', ''in1''), (28, Native ''untrn'', ''in2'')]"
proof -
  let ?d = "ex_lib_deps (\<lambda>_ a. if a = ''in1'' then 7 else 100)"
  have run: "prepare_transfer_amounts ?d (ex_reverse_cfg ''uosmo'')
      = Ok [(7, Native ''uosmo'', ''in1''), (28, Native ''untrn'', ''in2'')]"
    by (simp add: ex_reverse_cfg_def ex_lib_deps_def prepare_transfer_amounts_def query_split_def
        query_dynamic_ratio_def amount_in_base_denom_def scaled_transfer_def unwrap_def
        checked_div_u128_def checked_mul_u128_def Let_def)
  show ?thesis
    using reverse_split_within_balances [OF ex_lib_deps_ok(1) run] run by blast
qed

end
