(* ===== verification/Clearing_Queue.thy ===== *)
theory Clearing_Queue
  imports Library_Base Queue_Map
begin

text \<open>
  The clearing queue library (\<open>contracts/libraries/clearing-queue/src/contract.rs\<close>, \<open>msg.rs\<close>,
  \<open>state.rs\<close>): withdrawal obligations are registered under consecutive ids, wait in a queue map and
  are settled in that order from the settlement account.

  \<open>clearing_run\<close> records over a whole history which obligations were registered and which payments
  were sent; the property \<open>obligations_settled_in_order\<close> relates both to the state of the contract.
\<close>

section \<open>Configuration\<close>

record config =
  cq_settlement_acc_addr :: addr
  cq_denom :: string
  cq_latest_id :: u64

record library_config =
  qlc_settlement_acc_addr :: library_account_type
  qlc_denom :: string
  qlc_latest_id :: "u64 option"

record library_config_update =
  qlu_settlement_acc_addr :: "library_account_type option"
  qlu_denom :: "string option"
  qlu_latest_id :: "u64 option_update"

definition do_validate :: "config_checks \<Rightarrow> library_config \<Rightarrow> (addr \<times> string \<times> u64, library_error) result" where
  "do_validate ck c =
     and_then (map_err LibStd (account_to_addr (ck_api ck) (qlc_settlement_acc_addr c))) (\<lambda>settlement_acc_addr.
     and_then (ensure (qlc_denom c \<noteq> []) (ConfigurationError ''input denom cannot be empty'')) (\<lambda>_.
     let latest_id = (case qlc_latest_id c of Some i \<Rightarrow> i | None \<Rightarrow> 0)
     in Ok (settlement_acc_addr, qlc_denom c, latest_id)))"

definition validate :: "config_checks \<Rightarrow> library_config \<Rightarrow> (config, library_error) result" where
  "validate ck c =
     and_then (do_validate ck c) (\<lambda>(settlement_acc_addr, denom, latest_id).
       Ok \<lparr>cq_settlement_acc_addr = settlement_acc_addr, cq_denom = denom, cq_latest_id = latest_id\<rparr>)"

definition update_raw :: "library_config_update \<Rightarrow> library_config \<Rightarrow> library_config" where
  "update_raw u raw =
     \<lparr>qlc_settlement_acc_addr = update_field (qlu_settlement_acc_addr u) (qlc_settlement_acc_addr raw),
      qlc_denom = update_field (qlu_denom u) (qlc_denom raw),
      qlc_latest_id = update_option_field (qlu_latest_id u) (qlc_latest_id raw)\<rparr>"

definition get_diff_update :: "library_config \<Rightarrow> library_config \<Rightarrow> library_config_update option" where
  "get_diff_update c other =
     some_update \<lparr>qlu_settlement_acc_addr = None, qlu_denom = None, qlu_latest_id = NoUpdate\<rparr>
       \<lparr>qlu_settlement_acc_addr = diff_field (qlc_settlement_acc_addr c) (qlc_settlement_acc_addr other),
        qlu_denom = diff_field (qlc_denom c) (qlc_denom other),
        qlu_latest_id = diff_option_field (qlc_latest_id c) (qlc_latest_id other)\<rparr>"

definition update_config ::
  "config_checks \<Rightarrow> library_config_update \<Rightarrow> config \<Rightarrow> (config, library_error) result"
where
  "update_config ck u cfg =
     and_then (case qlu_settlement_acc_addr u of
         Some settlement_acc_addr \<Rightarrow>
           map_ok (\<lambda>a. cfg\<lparr>cq_settlement_acc_addr := a\<rparr>)
             (map_err LibStd (account_to_addr (ck_api ck) settlement_acc_addr))
       | None \<Rightarrow> Ok cfg) (\<lambda>cfg1.
       (case qlu_denom u of
          Some denom \<Rightarrow>
            and_then (ensure (denom \<noteq> []) (ConfigurationError ''clearing denom cannot be empty'')) (\<lambda>_.
              Ok (cfg1\<lparr>cq_denom := denom\<rparr>))
        | None \<Rightarrow> Ok cfg1))"

section \<open>Functions\<close>

text \<open>The source stores the rendering of the error of a refused obligation; here it is the error.\<close>

datatype obligation_error = InvalidRecipient std_error | ZeroPayoutAmount

datatype obligation_status = InQueue | Processed | ObligationError obligation_error

record withdrawal_obligation =
  ob_recipient :: addr
  ob_payout_coin :: coin
  ob_id :: u64
  ob_enqueue_block :: block_info

datatype function_msgs =
    RegisterObligation string u128 u64
  | SettleNextObligation

record 'o clearing = "(library_config, config, 'o) library" +
  clearing_queue :: "withdrawal_obligation queue_map"
  obligation_status :: "(u64, obligation_status) storage_map"

definition fresh :: "(library_config, config, 'o) library \<Rightarrow> 'o clearing" where
  "fresh l = library.extend l \<lparr>clearing_queue = queue_new, obligation_status = []\<rparr>"

definition try_register_withdraw_obligation ::
  "cw_api \<Rightarrow> 'o clearing \<Rightarrow> env \<Rightarrow> config \<Rightarrow> string \<Rightarrow> u128 \<Rightarrow> u64 \<Rightarrow>
   ('o clearing \<times> response, library_error) result"
where
  "try_register_withdraw_obligation cw s env cfg recipient payout_amount i =
     and_then (ok_or (ExecutionError ''id overflow'') (checked_add_u64 (cq_latest_id cfg) 1)) (\<lambda>latest_id.
     let s1 = s\<lparr>lib_cfg := cfg\<lparr>cq_latest_id := latest_id\<rparr>\<rparr>
     in and_then (ensure (latest_id = i)
          (ExecutionError ''obligation being registered id out of order'')) (\<lambda>_.
        (case addr_validate cw recipient of
           Err e \<Rightarrow>
             Ok (s1\<lparr>obligation_status :=
                      sm_set i (ObligationError (InvalidRecipient e)) (obligation_status s1)\<rparr>,
                 response_new)
         | Ok validated_recipient \<Rightarrow>
             if payout_amount \<noteq> 0 then
               (let payout_coin = \<lparr>coin_denom = cq_denom cfg, coin_amount = payout_amount\<rparr>;
                    withdraw_obligation =
                      \<lparr>ob_recipient = validated_recipient, ob_payout_coin = payout_coin, ob_id = i,
                       ob_enqueue_block = env_block env\<rparr>
                in and_then (map_err LibStd (push_back (clearing_queue s1) withdraw_obligation)) (\<lambda>q.
                   Ok (s1\<lparr>clearing_queue := q, obligation_status := sm_set i InQueue (obligation_status s1)\<rparr>,
                       response_new)))
             else
               Ok (s1\<lparr>obligation_status :=
                        sm_set i (ObligationError ZeroPayoutAmount) (obligation_status s1)\<rparr>,
                   response_new))))"

definition try_settle_next_obligation ::
  "lib_deps \<Rightarrow> 'o clearing \<Rightarrow> config \<Rightarrow> ('o clearing \<times> response, library_error) result"
where
  "try_settle_next_obligation d s cfg =
     and_then (map_err LibStd (pop_front (clearing_queue s))) (\<lambda>(obligations_head, q).
       (case obligations_head of
          None \<Rightarrow> Err (ExecutionError ''no pending obligations'')
        | Some obligation \<Rightarrow>
            and_then (map_err LibStd (l_bank_balance d (cq_settlement_acc_addr cfg)
              (coin_denom (ob_payout_coin obligation)))) (\<lambda>settlement_acc_bal.
            and_then (ensure (coin_amount (ob_payout_coin obligation) \<le> settlement_acc_bal)
              (ExecutionError ''insufficient settlement acc balance to fulfill obligation'')) (\<lambda>_.
              let fill_msg = BankSend (ob_recipient obligation) [ob_payout_coin obligation]
              in Ok (s\<lparr>clearing_queue := q,
                       obligation_status := sm_set (ob_id obligation) Processed (obligation_status s)\<rparr>,
                     add_messages [execute_on_behalf_of d [fill_msg] (cq_settlement_acc_addr cfg)]
                       response_new)))))"

definition process_function ::
  "cw_api \<Rightarrow> lib_deps \<Rightarrow> 'o clearing \<Rightarrow> env \<Rightarrow> message_info \<Rightarrow> function_msgs \<Rightarrow> config \<Rightarrow>
   ('o clearing \<times> response, library_error) result"
where
  "process_function cw d s env info msg cfg =
     (case msg of
        RegisterObligation recipient payout_amount i \<Rightarrow>
          try_register_withdraw_obligation cw s env cfg recipient payout_amount i
      | SettleNextObligation \<Rightarrow> try_settle_next_obligation d s cfg)"

definition instantiate ::
  "'o ownable \<Rightarrow> config_checks \<Rightarrow> library_config library_instantiate_msg \<Rightarrow>
   ('o clearing \<times> response, library_error) result"
where
  "instantiate ow ck msg =
     map_ok (\<lambda>(l, r). (fresh l, r)) (lib_instantiate ow (ck_api ck) (validate ck) msg)"

definition execute ::
  "'o ownable \<Rightarrow> config_checks \<Rightarrow> lib_deps \<Rightarrow> 'o clearing \<Rightarrow> env \<Rightarrow> message_info \<Rightarrow>
   (function_msgs, library_config_update) library_execute_msg \<Rightarrow>
   ('o clearing \<times> response, library_error) result"
where
  "execute ow ck d s env info msg =
     lib_execute ow (ck_api ck) (process_function (ck_api ck) d) update_raw (update_config ck) s env info msg"

definition get_queue_info :: "'o clearing \<Rightarrow> u64" where
  "get_queue_info s = queue_len (clearing_queue s)"

definition get_obligations ::
  "'o clearing \<Rightarrow> u64 option \<Rightarrow> u64 option \<Rightarrow> (withdrawal_obligation list, std_error) result"
where
  "get_obligations s from_pos to_pos = queue_query (clearing_queue s) from_pos to_pos Ascending"

definition query_obligation_status :: "'o clearing \<Rightarrow> u64 \<Rightarrow> (obligation_status, std_error) result" where
  "query_obligation_status s i = load (sm_get (obligation_status s) i)"

section \<open>Histories\<close>

text \<open>
  What a registration adds to the obligations to be paid: nothing for an invalid recipient or a zero
  amount.
\<close>

definition registers ::
  "cw_api \<Rightarrow> config \<Rightarrow> env \<Rightarrow> function_msgs \<Rightarrow> withdrawal_obligation list"
where
  "registers cw cfg env msg =
     (case msg of
        RegisterObligation recipient payout_amount i \<Rightarrow>
          (case addr_validate cw recipient of
             Ok a \<Rightarrow>
               if payout_amount \<noteq> 0
               then [\<lparr>ob_recipient = a,
                      ob_payout_coin = \<lparr>coin_denom = cq_denom cfg, coin_amount = payout_amount\<rparr>,
                      ob_id = i, ob_enqueue_block = env_block env\<rparr>]
               else []
           | Err _ \<Rightarrow> [])
      | SettleNextObligation \<Rightarrow> [])"

text \<open>
  A history from the instantiation with \<open>first\<close> as the latest id: the obligations registered so far
  and, for every message the contract sent, the environment, the settlement account of that moment and
  the message.
\<close>

type_synonym payment = "lib_deps \<times> addr \<times> cosmos_msg"

inductive clearing_run ::
  "'o ownable \<Rightarrow> config_checks \<Rightarrow> u64 \<Rightarrow> 'o clearing \<Rightarrow> withdrawal_obligation list \<Rightarrow> payment list \<Rightarrow> bool"
  for ow ck first
where
  run_start: "instantiate ow ck msg = Ok (s, r) \<Longrightarrow> cq_latest_id (lib_cfg s) = first \<Longrightarrow>
    clearing_run ow ck first s [] []"
| run_function: "clearing_run ow ck first s registered paid \<Longrightarrow>
    execute ow ck d s env info (ProcessFunction msg) = Ok (s', r) \<Longrightarrow>
    clearing_run ow ck first s' (registered @ registers (ck_api ck) (lib_cfg s) env msg)
      (paid @ map (\<lambda>m. (d, cq_settlement_acc_addr (lib_cfg s), m)) (sent r))"
| run_other: "clearing_run ow ck first s registered paid \<Longrightarrow>
    execute ow ck d s env info msg = Ok (s', r) \<Longrightarrow> (\<And>f. msg \<noteq> ProcessFunction f) \<Longrightarrow>
    clearing_run ow ck first s' registered paid"

definition pays :: "withdrawal_obligation \<Rightarrow> payment \<Rightarrow> bool" where
  "pays ob p \<longleftrightarrow>
     (case p of (d, account, m) \<Rightarrow>
        m = execute_on_behalf_of d [BankSend (ob_recipient ob) [ob_payout_coin ob]] account)"

definition clearing_inv ::
  "u64 \<Rightarrow> 'o clearing \<Rightarrow> withdrawal_obligation list \<Rightarrow> payment list \<Rightarrow> bool"
where
  "clearing_inv first s registered paid \<longleftrightarrow>
     queue_inv (clearing_queue s)
   \<and> first \<le> cq_latest_id (lib_cfg s)
   \<and> sorted_wrt (<) (map ob_id registered)
   \<and> length paid \<le> length registered
   \<and> queue_list (clearing_queue s) = drop (length paid) registered
   \<and> list_all2 pays (take (length paid) registered) paid
   \<and> (\<forall>i. sm_has (obligation_status s) i \<longleftrightarrow> first < i \<and> i \<le> cq_latest_id (lib_cfg s))
   \<and> (\<forall>i. sm_get (obligation_status s) i = Some Processed \<longleftrightarrow> i \<in> ob_id ` set (take (length paid) registered))
   \<and> (\<forall>i. sm_get (obligation_status s) i = Some InQueue \<longleftrightarrow> i \<in> ob_id ` set (drop (length paid) registered))
   \<and> (\<forall>ob \<in> set registered. 0 < coin_amount (ob_payout_coin ob))"

section \<open>The invariant\<close>

lemma register_cases:
  assumes "try_register_withdraw_obligation cw s env cfg recipient payout_amount i = Ok (s', r)"
  obtains (refused) e where "i = cq_latest_id cfg + 1" "sent r = []"
      "registers cw cfg env (RegisterObligation recipient payout_amount i) = []"
      "s' = s\<lparr>lib_cfg := cfg\<lparr>cq_latest_id := i\<rparr>,
              obligation_status := sm_set i (ObligationError e) (obligation_status s)\<rparr>"
  | (queued) ob q where "i = cq_latest_id cfg + 1" "sent r = []"
      "registers cw cfg env (RegisterObligation recipient payout_amount i) = [ob]"
      "ob_id ob = i" "0 < coin_amount (ob_payout_coin ob)"
      "push_back (clearing_queue s) ob = Ok q"
      "s' = s\<lparr>lib_cfg := cfg\<lparr>cq_latest_id := i\<rparr>, clearing_queue := q,
              obligation_status := sm_set i InQueue (obligation_status s)\<rparr>"
proof (cases "addr_validate cw recipient")
  case (Ok a)
  with assms that show ?thesis
    by (cases "payout_amount = 0")
      (auto simp: try_register_withdraw_obligation_def registers_def Let_def and_then_Ok_iff
        map_err_Ok_iff ok_or_Ok_iff ensure_Ok_iff checked_add_u64_Some_iff)
next
  case (Err e)
  with assms that show ?thesis
    by (auto simp: try_register_withdraw_obligation_def registers_def Let_def and_then_Ok_iff
        ok_or_Ok_iff ensure_Ok_iff checked_add_u64_Some_iff)
qed

lemma settle_cases:
  assumes "try_settle_next_obligation d s cfg = Ok (s', r)"
  obtains ob q where "pop_front (clearing_queue s) = Ok (Some ob, q)"
    and "sent r = [execute_on_behalf_of d [BankSend (ob_recipient ob) [ob_payout_coin ob]]
           (cq_settlement_acc_addr cfg)]"
    and "s' = s\<lparr>clearing_queue := q,
                obligation_status := sm_set (ob_id ob) Processed (obligation_status s)\<rparr>"
  using assms
  by (auto simp: try_settle_next_obligation_def and_then_Ok_iff map_err_Ok_iff ensure_Ok_iff Let_def
      split: option.splits)

lemma inv_ids_bounded:
  assumes "clearing_inv first s registered paid" and "ob \<in> set registered"
  shows "ob_id ob \<le> cq_latest_id (lib_cfg s)"
proof -
  have "set registered = set (take (length paid) registered) \<union> set (drop (length paid) registered)"
    by (metis append_take_drop_id set_append)
  with assms have "sm_get (obligation_status s) (ob_id ob) \<noteq> None"
    unfolding clearing_inv_def by (metis UnE image_eqI option.distinct(1))
  with assms(1) show ?thesis by (auto simp: clearing_inv_def sm_has_def)
qed

lemma inv_refused:
  assumes "clearing_inv first s registered paid"
  shows "clearing_inv first
    (s\<lparr>lib_cfg := (lib_cfg s)\<lparr>cq_latest_id := cq_latest_id (lib_cfg s) + 1\<rparr>,
       obligation_status := sm_set (cq_latest_id (lib_cfg s) + 1) (ObligationError e) (obligation_status s)\<rparr>)
    registered paid"
proof -
  have "\<forall>ob \<in> set registered. ob_id ob \<noteq> cq_latest_id (lib_cfg s) + 1"
    using inv_ids_bounded [OF assms] by fastforce
  then have "cq_latest_id (lib_cfg s) + 1 \<notin> ob_id ` set (take (length paid) registered)"
    and "cq_latest_id (lib_cfg s) + 1 \<notin> ob_id ` set (drop (length paid) registered)"
    by (auto dest: in_set_takeD in_set_dropD)
  with assms show ?thesis
    unfolding clearing_inv_def by (auto simp: le_Suc_eq)
qed

lemma inv_queued:
  assumes inv: "clearing_inv first s registered paid"
    and push: "push_back (clearing_queue s) ob = Ok q"
    and ob: "ob_id ob = cq_latest_id (lib_cfg s) + 1" "0 < coin_amount (ob_payout_coin ob)"
  shows "clearing_inv first
    (s\<lparr>lib_cfg := (lib_cfg s)\<lparr>cq_latest_id := ob_id ob\<rparr>, clearing_queue := q,
       obligation_status := sm_set (ob_id ob) InQueue (obligation_status s)\<rparr>)
    (registered @ [ob]) paid"
proof -
  have new: "\<forall>x \<in> set registered. ob_id x < ob_id ob"
    using inv_ids_bounded [OF inv] ob(1) by fastforce
  then have notin: "ob_id ob \<notin> ob_id ` set (take (length paid) registered)"
    "ob_id ob \<notin> ob_id ` set (drop (length paid) registered)"
    by (auto dest: in_set_takeD in_set_dropD)
  have len: "length paid \<le> length registered" and "queue_inv (clearing_queue s)"
    using inv by (auto simp: clearing_inv_def)
  with push_back_sound [OF _ push] have q: "queue_inv q" "queue_list q = queue_list (clearing_queue s) @ [ob]"
    by auto
  have "sorted_wrt (<) (map ob_id (registered @ [ob]))"
    using inv new by (auto simp: clearing_inv_def sorted_wrt_append)
  with inv q len notin ob show ?thesis
    unfolding clearing_inv_def by (auto simp: le_Suc_eq)
qed

lemma inv_settled:
  assumes inv: "clearing_inv first s registered paid"
    and pop: "pop_front (clearing_queue s) = Ok (Some ob, q)" and "pays ob p"
  shows "clearing_inv first
    (s\<lparr>clearing_queue := q, obligation_status := sm_set (ob_id ob) Processed (obligation_status s)\<rparr>)
    registered (paid @ [p])"
proof -
  let ?n = "length paid"
  have len: "?n \<le> length registered" and qinv: "queue_inv (clearing_queue s)"
    and list: "queue_list (clearing_queue s) = drop ?n registered"
    using inv by (auto simp: clearing_inv_def)
  from qm.pop_sound [OF qinv pop] have q: "queue_inv q" and drop: "drop ?n registered = ob # queue_list q"
    using list by auto
  then have less: "?n < length registered" by (metis drop_eq_Nil list.distinct(1) not_le)
  with drop have ob: "registered ! ?n = ob" and rest: "drop (Suc ?n) registered = queue_list q"
    by (metis Cons_nth_drop_Suc list.inject)+
  have take: "take (Suc ?n) registered = take ?n registered @ [ob]"
    using less ob by (simp add: take_Suc_conv_app_nth)
  have "distinct (map ob_id registered)"
    using inv by (simp add: clearing_inv_def strict_sorted_iff)
  moreover have "registered = take ?n registered @ ob # queue_list q"
    using drop by (metis append_take_drop_id)
  ultimately have "distinct (map ob_id (take ?n registered @ ob # queue_list q))" by simp
  then have "ob_id ob \<notin> ob_id ` set (queue_list q)" by simp
  moreover have "sm_get (obligation_status s) (ob_id ob) = Some InQueue"
    using inv drop by (auto simp: clearing_inv_def)
  then have "sm_has (obligation_status s) (ob_id ob)" by (simp add: sm_has_def)
  moreover have "list_all2 pays (take ?n registered @ [ob]) (paid @ [p])"
    using inv \<open>pays ob p\<close> less by (auto simp: clearing_inv_def list_all2_append)
  ultimately show ?thesis
    using inv q less drop rest take unfolding clearing_inv_def by auto
qed

lemma clearing_run_inv: "clearing_run ow ck first s registered paid \<Longrightarrow> clearing_inv first s registered paid"
proof (induction rule: clearing_run.induct)
  case (run_start msg s r)
  then show ?case
    by (auto simp: instantiate_def map_ok_Ok_iff fresh_def library.defs clearing_inv_def)
next
  case (run_function s registered paid d env info msg s' r)
  from run_function(2) have p: "process_function (ck_api ck) d s env info msg (lib_cfg s) = Ok (s', r)"
    by (auto simp: execute_def elim: lib_execute_cases)
  show ?case
  proof (cases msg)
    case (RegisterObligation recipient amount i)
    with p have "try_register_withdraw_obligation (ck_api ck) s env (lib_cfg s) recipient amount i = Ok (s', r)"
      by (simp add: process_function_def)
    then show ?thesis
    proof (cases rule: register_cases)
      case (refused e)
      with RegisterObligation inv_refused [OF run_function.IH] show ?thesis by simp
    next
      case (queued ob q)
      with RegisterObligation inv_queued [OF run_function.IH queued(6)] show ?thesis by simp
    qed
  next
    case SettleNextObligation
    with p have "try_settle_next_obligation d s (lib_cfg s) = Ok (s', r)"
      by (simp add: process_function_def)
    then obtain ob q where "pop_front (clearing_queue s) = Ok (Some ob, q)"
      and "sent r = [execute_on_behalf_of d [BankSend (ob_recipient ob) [ob_payout_coin ob]]
           (cq_settlement_acc_addr (lib_cfg s))]"
      and "s' = s\<lparr>clearing_queue := q,
                obligation_status := sm_set (ob_id ob) Processed (obligation_status s)\<rparr>"
      by (rule settle_cases)
    with inv_settled [OF run_function.IH] SettleNextObligation show ?thesis
      by (simp add: pays_def registers_def)
  qed
next
  case (run_other s registered paid d env info msg s' r)
  from run_other(2) show ?case
    unfolding execute_def
  proof (cases rule: lib_execute_cases)
    case (config u cfg)
    then have "cq_latest_id cfg = cq_latest_id (lib_cfg s)"
      by (auto simp: update_config_def and_then_Ok_iff map_ok_Ok_iff split: option.splits)
    with config run_other.IH show ?thesis by (simp add: clearing_inv_def)
  qed (use run_other in \<open>auto simp: clearing_inv_def\<close>)
qed

lemma settle_next_succeeds:
  assumes "clearing_inv first s registered paid" and "length paid < length registered"
    and "info_sender info = lib_processor s"
    and "l_bank_balance d (cq_settlement_acc_addr (lib_cfg s))
           (coin_denom (ob_payout_coin (registered ! length paid))) = Ok balance"
    and "coin_amount (ob_payout_coin (registered ! length paid)) \<le> balance"
  shows "\<exists>s' r. execute ow ck d s env info (ProcessFunction SettleNextObligation) = Ok (s', r)
    \<and> list_all2 pays [registered ! length paid] (map (\<lambda>m. (d, cq_settlement_acc_addr (lib_cfg s), m)) (sent r))"
proof -
  from assms(1) have inv: "queue_inv (clearing_queue s)"
    and "queue_list (clearing_queue s) = drop (length paid) registered"
    by (auto simp: clearing_inv_def)
  then have list: "queue_list (clearing_queue s) = registered ! length paid # drop (Suc (length paid)) registered"
    by (metis Cons_nth_drop_Suc assms(2))
  from pop_front_ok [OF inv list]
  obtain q where "pop_front (clearing_queue s) = Ok (Some (registered ! length paid), q)" by blast
  with assms(4,5) have "try_settle_next_obligation d s (lib_cfg s) =
      Ok (s\<lparr>clearing_queue := q,
            obligation_status := sm_set (ob_id (registered ! length paid)) Processed (obligation_status s)\<rparr>,
          add_messages [execute_on_behalf_of d
            [BankSend (ob_recipient (registered ! length paid)) [ob_payout_coin (registered ! length paid)]]
            (cq_settlement_acc_addr (lib_cfg s))] response_new)"
    by (simp add: try_settle_next_obligation_def)
  with assms(3) show ?thesis
    by (simp add: execute_def lib_execute_def assert_processor_def process_function_def pays_def)
qed

text \<open>
  (C5) Over any history of the clearing queue, the payments sent are exactly those of the obligations
  registered first, in the order of registration and each once; the obligations after them are the
  queue. Ids increase strictly and every id handed in since the instantiation has a status: processed
  if paid, in queue if waiting, an error otherwise. The next obligation is settled as soon as the
  settlement account can pay it.
\<close>

theorem obligations_settled_in_order:
  assumes "clearing_run ow ck first s registered paid"
  shows "length paid \<le> length registered
    \<and> list_all2 pays (take (length paid) registered) paid
    \<and> queue_list (clearing_queue s) = drop (length paid) registered
    \<and> sorted_wrt (<) (map ob_id registered)
    \<and> (\<forall>i. (sm_get (obligation_status s) i \<noteq> None \<longleftrightarrow> first < i \<and> i \<le> cq_latest_id (lib_cfg s))
        \<and> (sm_get (obligation_status s) i = Some Processed \<longleftrightarrow> i \<in> ob_id ` set (take (length paid) registered))
        \<and> (sm_get (obligation_status s) i = Some InQueue \<longleftrightarrow> i \<in> ob_id ` set (drop (length paid) registered)))
    \<and> (\<forall>d env info balance. length paid < length registered \<longrightarrow> info_sender info = lib_processor s \<longrightarrow>
          l_bank_balance d (cq_settlement_acc_addr (lib_cfg s))
            (coin_denom (ob_payout_coin (registered ! length paid))) = Ok balance \<longrightarrow>
          coin_amount (ob_payout_coin (registered ! length paid)) \<le> balance \<longrightarrow>
          (\<exists>s' r. execute ow ck d s env info (ProcessFunction SettleNextObligation) = Ok (s', r)
             \<and> list_all2 pays [registered ! length paid]
                 (map (\<lambda>m. (d, cq_settlement_acc_addr (lib_cfg s), m)) (sent r))))"
proof (intro conjI allI impI)
  note inv = clearing_run_inv [OF assms]
  fix i
  show "(sm_get (obligation_status s) i \<noteq> None) = (first < i \<and> i \<le> cq_latest_id (lib_cfg s))"
    using inv by (auto simp: clearing_inv_def sm_has_def)
next
  fix d :: lib_deps and env :: env and info :: message_info and balance
  assume "length paid < length registered" "info_sender info = lib_processor s"
    "l_bank_balance d (cq_settlement_acc_addr (lib_cfg s))
       (coin_denom (ob_payout_coin (registered ! length paid))) = Ok balance"
    "coin_amount (ob_payout_coin (registered ! length paid)) \<le> balance"
  then show "\<exists>s' r. execute ow ck d s env info (ProcessFunction SettleNextObligation) = Ok (s', r)
      \<and> list_all2 pays [registered ! length paid]
          (map (\<lambda>m. (d, cq_settlement_acc_addr (lib_cfg s), m)) (sent r))"
    by (rule settle_next_succeeds [OF clearing_run_inv [OF assms]])
qed (use clearing_run_inv [OF assms] in \<open>auto simp: clearing_inv_def\<close>)

section \<open>An update without effect\<close>

text \<open>
  An update of the latest id is written to the raw configuration only: the contract goes on with the
  id it had.
\<close>

lemma latest_id_update_ignored:
  assumes "update_config ck u cfg = Ok cfg'" and "qlu_latest_id u = SetTo (Some i)"
  shows "cq_latest_id cfg' = cq_latest_id cfg \<and> qlc_latest_id (update_raw u raw) = Some i"
  using assms
  by (auto simp: update_config_def update_raw_def and_then_Ok_iff map_ok_Ok_iff split: option.splits)

section \<open>A concrete clearing queue\<close>

definition ex_clearing_msg :: "library_config library_instantiate_msg" where
  "ex_clearing_msg =
     \<lparr>lim_owner = ''owner'', lim_processor = ''processor'',
      lim_config = \<lparr>qlc_settlement_acc_addr = Addr ''account'', qlc_denom = ''untrn'', qlc_latest_id = Some 4\<rparr>\<rparr>"

definition ex_obligation :: withdrawal_obligation where
  "ex_obligation =
     \<lparr>ob_recipient = ''user'', ob_payout_coin = \<lparr>coin_denom = ''untrn'', coin_amount = 9\<rparr>, ob_id = 5,
      ob_enqueue_block = env_block ex_env\<rparr>"

definition ex_clearing :: "u64 \<Rightarrow> withdrawal_obligation queue_map \<Rightarrow> (u64, obligation_status) storage_map \<Rightarrow> addr clearing" where
  "ex_clearing latest q statuses =
     \<lparr>lib_ownership = ''owner'', lib_processor = ''processor'', lib_raw = lim_config ex_clearing_msg,
      lib_cfg = \<lparr>cq_settlement_acc_addr = ''account'', cq_denom = ''untrn'', cq_latest_id = latest\<rparr>,
      clearing_queue = q, obligation_status = statuses\<rparr>"

definition ex_clearing_queue :: "withdrawal_obligation queue_map" where
  "ex_clearing_queue =
     \<lparr>elements = [1 \<mapsto> ex_obligation], start_index_item = None, end_index_item = Some 1\<rparr>"

lemmas ex_clearing_defs =
  ex_clearing_msg_def ex_obligation_def ex_clearing_def ex_clearing_queue_def ex_ow_def ex_checks_def
  ex_api_def ex_info_def ex_lib_deps_def

lemma ex_clearing_run: "clearing_run ex_ow ex_checks 4 (ex_clearing 5 ex_clearing_queue [(5, InQueue)]) [ex_obligation] []"
proof -
  have "clearing_run ex_ow ex_checks 4 (ex_clearing 4 queue_new []) [] []"
  proof (rule run_start)
    show "instantiate ex_ow ex_checks ex_clearing_msg = Ok (ex_clearing 4 queue_new [],
        add_attribute ''owner'' (debug_string ex_api ''owner'') (add_attribute ''processor'' ''processor''
          (add_attribute ''method'' ''instantiate'' response_new)))"
      by (simp add: instantiate_def lib_instantiate_def validate_def do_validate_def account_to_addr_def
          fresh_def library.defs ex_clearing_defs)
  qed (simp add: ex_clearing_def)
  moreover have "execute ex_ow ex_checks (ex_lib_deps (\<lambda>_ _. 10)) (ex_clearing 4 queue_new []) ex_env
      (ex_info ''processor'') (ProcessFunction (RegisterObligation ''user'' 9 5)) =
      Ok (ex_clearing 5 ex_clearing_queue [(5, InQueue)], response_new)"
    by (simp add: execute_def lib_execute_def assert_processor_def process_function_def
        try_register_withdraw_obligation_def checked_add_u64_def push_back_def queue_new_def
        end_index_def ex_clearing_defs)
  ultimately have "clearing_run ex_ow ex_checks 4 (ex_clearing 5 ex_clearing_queue [(5, InQueue)])
      ([] @ registers (ck_api ex_checks) (lib_cfg (ex_clearing 4 queue_new [])) ex_env (RegisterObligation ''user'' 9 5))
      ([] @ map (\<lambda>m. (ex_lib_deps (\<lambda>_ _. 10), cq_settlement_acc_addr (lib_cfg (ex_clearing 4 queue_new [])), m))
        (sent response_new))"
    by (rule run_function)
  then show ?thesis by (simp add: registers_def ex_clearing_defs)
qed

theorem obligations_settled_in_order_witness:
  "queue_list ex_clearing_queue = [ex_obligation]
   \<and> (\<exists>s' r. execute ex_ow ex_checks (ex_lib_deps (\<lambda>_ _. 10)) (ex_clearing 5 ex_clearing_queue [(5, InQueue)])
         ex_env (ex_info ''processor'') (ProcessFunction SettleNextObligation) = Ok (s', r)
       \<and> sent r = [WasmExecute ''account'' ''execute'' []])"
proof
  let ?s = "ex_clearing 5 ex_clearing_queue [(5, InQueue)]"
  show "queue_list ex_clearing_queue = [ex_obligation]"
    using obligations_settled_in_order [OF ex_clearing_run, THEN conjunct2, THEN conjunct2, THEN conjunct1]
    by (simp add: ex_clearing_def)
  have "\<exists>s' r. execute ex_ow ex_checks (ex_lib_deps (\<lambda>_ _. 10)) ?s ex_env (ex_info ''processor'')
        (ProcessFunction SettleNextObligation) = Ok (s', r)
      \<and> list_all2 pays [[ex_obligation] ! length ([] :: payment list)]
          (map (\<lambda>m. (ex_lib_deps (\<lambda>_ _. 10), cq_settlement_acc_addr (lib_cfg ?s), m)) (sent r))"
    by (rule obligations_settled_in_order [OF ex_clearing_run, THEN conjunct2, THEN conjunct2,
          THEN conjunct2, THEN conjunct2, THEN conjunct2, rule_format])
      (simp add: ex_clearing_def ex_info_def ex_lib_deps_def ex_obligation_def)+
  then obtain s' r where "execute ex_ow ex_checks (ex_lib_deps (\<lambda>_ _. 10)) ?s ex_env (ex_info ''processor'')
        (ProcessFunction SettleNextObligation) = Ok (s', r)"
    and "list_all2 pays [ex_obligation]
          (map (\<lambda>m. (ex_lib_deps (\<lambda>_ _. 10), cq_settlement_acc_addr (lib_cfg ?s), m)) (sent r))"
    by auto
  moreover from this(2) have "sent r = [WasmExecute ''account'' ''execute'' []]"
    by (cases "sent r") (auto simp: pays_def execute_on_behalf_of_def ex_clearing_def ex_lib_deps_def)
  ultimately show "\<exists>s' r. execute ex_ow ex_checks (ex_lib_deps (\<lambda>_ _. 10)) ?s ex_env (ex_info ''processor'')
        (ProcessFunction SettleNextObligation) = Ok (s', r) \<and> sent r = [WasmExecute ''account'' ''execute'' []]"
    by blast
qed

end
