(* ===== verification/Evm.thy ===== *)
theory Evm
  imports Prelude
begin

text \<open>
  What the Solidity contracts share: addresses, the ways a call reverts, the arithmetic of
  \<open>uint256\<close>, \<open>uint64\<close> and \<open>uint8\<close> with the checks of Solidity 0.8 (a result that does not fit
  reverts with the panic code 0x11), and the context of a call. A reverted call leaves the storage as
  it was, so a function returns the new state only with \<open>Ok\<close>.
\<close>

type_synonym eth_address = nat
type_synonym u256 = nat
type_synonym u8 = nat
type_synonym bytes = string

abbreviation (input) zero_address :: eth_address where "zero_address \<equiv> 0"

datatype evm_error =
    Revert string
  | CustomError string "nat list"
  | RevertData bytes
  | EvmPanic nat

abbreviation (input) overflow_panic :: evm_error where "overflow_panic \<equiv> EvmPanic 17"

type_synonym 'a evm = "('a, evm_error) result"

text \<open>The context of a call: the sender, the value sent along, the timestamp of the block.\<close>

record evm_ctx =
  msg_sender :: eth_address
  msg_value :: u256
  block_timestamp :: u256

definition add256 :: "u256 \<Rightarrow> u256 \<Rightarrow> u256 evm" where
  "add256 a b = (if a + b < 2 ^ 256 then Ok (a + b) else Err overflow_panic)"

definition sub256 :: "u256 \<Rightarrow> u256 \<Rightarrow> u256 evm" where
  "sub256 a b = (if b \<le> a then Ok (a - b) else Err overflow_panic)"

definition mul256 :: "u256 \<Rightarrow> u256 \<Rightarrow> u256 evm" where
  "mul256 a b = (if a * b < 2 ^ 256 then Ok (a * b) else Err overflow_panic)"

text \<open>A conversion \<open>uint64(x)\<close> keeps the low 64 bits; subtraction and \<open>++\<close> are checked.\<close>

definition to_u64 :: "u256 \<Rightarrow> u64" where
  "to_u64 a = a mod 2 ^ 64"

definition sub64 :: "u64 \<Rightarrow> u64 \<Rightarrow> u64 evm" where
  "sub64 a b = (if b \<le> a then Ok (a - b) else Err overflow_panic)"

definition inc64 :: "u64 \<Rightarrow> u64 evm" where
  "inc64 a = (if a + 1 < 2 ^ 64 then Ok (a + 1) else Err overflow_panic)"

definition inc8 :: "u8 \<Rightarrow> u8 evm" where
  "inc8 a = (if a + 1 < 2 ^ 8 then Ok (a + 1) else Err overflow_panic)"

lemma evm_arith_Ok_iff:
  "add256 a b = Ok c \<longleftrightarrow> c = a + b \<and> a + b < 2 ^ 256"
  "sub256 a b = Ok c \<longleftrightarrow> b \<le> a \<and> c = a - b"
  "mul256 a b = Ok c \<longleftrightarrow> c = a * b \<and> a * b < 2 ^ 256"
  "sub64 a b = Ok c \<longleftrightarrow> b \<le> a \<and> c = a - b"
  "inc64 a = Ok c \<longleftrightarrow> c = a + 1 \<and> a + 1 < 2 ^ 64"
  "inc8 a = Ok c \<longleftrightarrow> c = a + 1 \<and> a + 1 < 2 ^ 8"
  by (auto simp: add256_def sub256_def mul256_def sub64_def inc64_def inc8_def)

text \<open>\<open>require(b, m)\<close> and \<open>if (!b) revert(m)\<close>.\<close>

abbreviation require :: "bool \<Rightarrow> string \<Rightarrow> unit evm" where
  "require b m \<equiv> ensure b (Revert m)"

section \<open>Other contracts\<close>

text \<open>
  What a contract asks of the chain: the constructor of OpenZeppelin's \<open>Ownable\<close>, its check
  \<open>onlyOwner\<close> and its functions (sender, call data, owner, new owner), low-level calls
  (caller, target, value, data, and the world, which a failing call leaves as it was), the size of the
  code at an address, and the encoding of an error as revert data.
\<close>

record 'w evm_chain =
  init_owner :: "eth_address \<Rightarrow> unit evm"
  check_owner :: "eth_address \<Rightarrow> eth_address \<Rightarrow> unit evm"
  ownable_call :: "eth_address \<Rightarrow> bytes \<Rightarrow> eth_address \<Rightarrow> eth_address evm"
  ext_call :: "eth_address \<Rightarrow> eth_address \<Rightarrow> u256 \<Rightarrow> bytes \<Rightarrow> 'w \<Rightarrow> ('w \<times> bytes, bytes) result"
  code_size :: "'w \<Rightarrow> eth_address \<Rightarrow> u256"
  encode_error :: "evm_error \<Rightarrow> bytes"

definition owner_checked :: "('w, 'z) evm_chain_scheme \<Rightarrow> bool" where
  "owner_checked ch \<longleftrightarrow>
     (\<forall>owner sender. check_owner ch owner sender = Ok () \<longleftrightarrow> sender = owner)
   \<and> (\<forall>owner sender data owner'. ownable_call ch sender data owner = Ok owner' \<longrightarrow> owner' = owner \<or> sender = owner)"

text \<open>The data a reverted call returns to its caller.\<close>

definition revert_data :: "('w, 'z) evm_chain_scheme \<Rightarrow> evm_error \<Rightarrow> bytes" where
  "revert_data ch e = (case e of RevertData d \<Rightarrow> d | _ \<Rightarrow> encode_error ch e)"

section \<open>Loops with an eight-bit counter\<close>

text \<open>
  \<open>for (uint8 i = 0; i < n; i++)\<close>: the counter is incremented with a check after each round, and a
  round may leave the loop.
\<close>

datatype 's loop = Continue 's | Break 's

function for_u8 :: "nat \<Rightarrow> u8 \<Rightarrow> (nat \<Rightarrow> 's \<Rightarrow> 's loop evm) \<Rightarrow> 's \<Rightarrow> 's evm" where
  "for_u8 n i body s =
     (if i < n then
        and_then (body i s) (\<lambda>r. case r of
            Break s' \<Rightarrow> Ok s'
          | Continue s' \<Rightarrow> and_then (inc8 i) (\<lambda>i'. for_u8 n i' body s'))
      else Ok s)"
  by pat_completeness auto

termination
  by (relation "measure (\<lambda>(n, i, _). n - i)") (auto simp: evm_arith_Ok_iff)

declare for_u8.simps [simp del]

text \<open>The rounds of such a loop, one per index.\<close>

fun rounds :: "(nat \<Rightarrow> 's \<Rightarrow> 's loop evm) \<Rightarrow> nat list \<Rightarrow> 's \<Rightarrow> 's loop evm" where
  "rounds body [] s = Ok (Continue s)"
| "rounds body (i # is) s =
     and_then (body i s) (\<lambda>r. case r of Break s' \<Rightarrow> Ok (Break s') | Continue s' \<Rightarrow> rounds body is s')"

text \<open>It ends after at most 256 rounds: with the last round, early, or because the counter overflows.\<close>

lemma for_u8_rounds:
  assumes "i \<le> n" and "i < 256"
  shows "for_u8 n i body s =
    and_then (rounds body [i ..< min n 256] s) (\<lambda>r. case r of
        Break s' \<Rightarrow> Ok s'
      | Continue s' \<Rightarrow> if n < 256 then Ok s' else Err overflow_panic)"
  using assms
proof (induction n i body s rule: for_u8.induct)
  case (1 n i body s)
  show ?case
  proof (cases "i < n")
    case True
    with 1 have upt: "[i ..< min n 256] = i # [i + 1 ..< min n 256]" by (simp add: upt_conv_Cons)
    show ?thesis
    proof (cases "body i s")
      case (Ok r)
      show ?thesis
      proof (cases r)
        case (Continue s')
        show ?thesis
        proof (cases "i + 1 < 256")
          case True
          with 1(1) [OF \<open>i < n\<close> Ok Continue, of "i + 1"] \<open>i < n\<close> Ok Continue upt show ?thesis
            by (subst for_u8.simps) (simp add: inc8_def)
        next
          case False
          with 1 have "i = 255" by simp
          with \<open>i < n\<close> Ok Continue upt show ?thesis
            by (subst for_u8.simps) (simp add: inc8_def)
        qed
      qed (use True Ok upt in \<open>subst for_u8.simps; simp\<close>)
    qed (use True upt in \<open>subst for_u8.simps; simp\<close>)
  next
    case False
    with 1 have "i = n" by simp
    with 1 show ?thesis by (subst for_u8.simps) simp
  qed
qed

text \<open>The loop over the addresses the constructors of accounts and processors are given.\<close>

definition approve_all :: "eth_address list \<Rightarrow> (eth_address \<Rightarrow> bool) evm" where
  "approve_all addresses =
     for_u8 (length addresses) 0 (\<lambda>i f. Ok (Continue (f(addresses ! i := True)))) (\<lambda>_. False)"

text \<open>It approves exactly those addresses, and reverts if they are 256 or more.\<close>

lemma approve_rounds:
  "rounds (\<lambda>i f. Ok (Continue (f(addresses ! i := True)))) is f =
     Ok (Continue (\<lambda>a. f a \<or> a \<in> (!) addresses ` set is))"
  by (induction "is" arbitrary: f) (auto simp: fun_eq_iff)

lemma approve_all_eq:
  "approve_all addresses =
     (if length addresses < 256 then Ok (\<lambda>a. a \<in> set addresses) else Err overflow_panic)"
proof -
  have "(!) addresses ` {0 ..< length addresses} = set addresses"
    by (auto simp: set_conv_nth image_iff)
  then show ?thesis
    by (simp add: approve_all_def for_u8_rounds approve_rounds)
qed

end
