(* ===== verification/One_Way_Vault.thy ===== *)
theory One_Way_Vault
  imports Evm
begin

text \<open>
  The vault whose withdrawals are processed on another domain
  (\<open>solidity/src/vaults/OneWayVault.sol\<close>): deposits against shares at a redemption rate the strategist
  updates, fees in the asset that an update distributes as shares, withdrawal requests that burn
  shares, pausing by the owner, the strategist or a stale rate.

  The contracts of OpenZeppelin the vault inherits from are the record \<open>openzeppelin\<close> of functions
  over a token state of their own: the shares as an ERC-20 token, the functions of ERC-4626 that call
  back the conversions the vault overrides, \<open>mulDiv\<close>, the transfer of the asset, the check of
  \<open>onlyOwner\<close>, the initializers and the inherited entry points that act on the shares or the
  ownership. \<open>oz_ok\<close> is what their documentation promises and the properties assume.
\<close>

section \<open>The inherited contracts\<close>

datatype rounding = Floor | Ceil

type_synonym conversion = "u256 \<Rightarrow> rounding \<Rightarrow> u256 evm"

record 't openzeppelin =
  mul_div :: "u256 \<Rightarrow> u256 \<Rightarrow> u256 \<Rightarrow> rounding \<Rightarrow> u256 evm"
  total_supply :: "'t \<Rightarrow> u256"
  balance_of :: "'t \<Rightarrow> eth_address \<Rightarrow> u256"
  mint_shares :: "'t \<Rightarrow> eth_address \<Rightarrow> u256 \<Rightarrow> 't evm"
  burn_shares :: "'t \<Rightarrow> eth_address \<Rightarrow> u256 \<Rightarrow> 't evm"
  spend_allowance :: "'t \<Rightarrow> eth_address \<Rightarrow> eth_address \<Rightarrow> u256 \<Rightarrow> 't evm"
  preview_deposit :: "conversion \<Rightarrow> u256 \<Rightarrow> u256 evm"
  preview_mint :: "conversion \<Rightarrow> u256 \<Rightarrow> u256 evm"
  preview_withdraw :: "conversion \<Rightarrow> u256 \<Rightarrow> u256 evm"
  max_withdraw :: "conversion \<Rightarrow> u256 \<Rightarrow> u256 evm"
  max_redeem :: "u256 \<Rightarrow> u256"
  transfer_asset_from :: "eth_address \<Rightarrow> eth_address \<Rightarrow> u256 \<Rightarrow> unit evm"
  init_shares :: "eth_address \<Rightarrow> eth_address \<Rightarrow> string \<Rightarrow> string \<Rightarrow> 't evm"
  share_decimals :: "'t \<Rightarrow> nat"
  oz_check_owner :: "eth_address \<Rightarrow> eth_address \<Rightarrow> unit evm"
  inherited_call :: "evm_ctx \<Rightarrow> bytes \<Rightarrow> 't \<times> eth_address \<Rightarrow> ('t \<times> eth_address) evm"

definition mul_div_ok :: "('t, 'z) openzeppelin_scheme \<Rightarrow> bool" where
  "mul_div_ok oz \<longleftrightarrow>
     (\<forall>a b c rnd x. mul_div oz a b c rnd = Ok x \<longleftrightarrow>
        c \<noteq> 0 \<and> x = (case rnd of Floor \<Rightarrow> a * b div c | Ceil \<Rightarrow> (a * b + (c - 1)) div c) \<and> x < 2 ^ 256)"

text \<open>The rounding of the previews is that of EIP-4626; minting and burning change the supply.\<close>

definition oz_ok :: "('t, 'z) openzeppelin_scheme \<Rightarrow> bool" where
  "oz_ok oz \<longleftrightarrow>
     mul_div_ok oz
   \<and> (\<forall>conv n. preview_deposit oz conv n = conv n Floor)
   \<and> (\<forall>conv n. preview_mint oz conv n = conv n Ceil)
   \<and> (\<forall>conv n. preview_withdraw oz conv n = conv n Ceil)
   \<and> (\<forall>t a n t'. mint_shares oz t a n = Ok t' \<longrightarrow> total_supply oz t' = total_supply oz t + n)
   \<and> (\<forall>t a n t'. burn_shares oz t a n = Ok t' \<longrightarrow>
        n \<le> total_supply oz t \<and> total_supply oz t' = total_supply oz t - n)
   \<and> (\<forall>t a b n t'. spend_allowance oz t a b n = Ok t' \<longrightarrow> total_supply oz t' = total_supply oz t)
   \<and> (\<forall>ctx c t a t' a'. inherited_call oz ctx c (t, a) = Ok (t', a') \<longrightarrow>
        total_supply oz t' \<le> total_supply oz t)
   \<and> (\<forall>owner sender. oz_check_owner oz owner sender = Ok () \<longleftrightarrow> sender = owner)"

section \<open>State\<close>

record fee_distribution_config =
  strategist_account :: eth_address
  platform_account :: eth_address
  strategist_ratio_bps :: u32

record vault_config =
  deposit_account :: eth_address
  strategist :: eth_address
  deposit_fee_bps :: u32
  withdraw_fee_bps :: u32
  max_rate_increment_bps :: u32
  max_rate_decrement_bps :: u32
  min_rate_update_delay :: u64
  max_rate_update_delay :: u64
  deposit_cap :: u256
  fee_distribution :: fee_distribution_config

record vault_state =
  paused :: bool
  paused_by_owner :: bool
  paused_by_stale_rate :: bool

record withdraw_request =
  wr_id :: u64
  wr_owner :: eth_address
  wr_redemption_rate :: u256
  wr_shares_amount :: u256
  wr_receiver :: string

record 't vault =
  shares :: 't
  vault_owner :: eth_address
  vault_cfg :: vault_config
  redemption_rate :: u256
  vault_status :: vault_state
  current_withdraw_request_id :: u64
  last_rate_update_timestamp :: u64
  fees_accrued_in_asset :: u256
  withdraw_requests :: "u64 \<rightharpoonup> withdraw_request"
  one_share :: u256

datatype vault_event =
    PausedStateChanged bool
  | StaleRatePaused u64 u64
  | RateUpdated u256
  | FeesDistributed eth_address eth_address u256 u256
  | WithdrawRequested u64 eth_address string u256
  | ConfigUpdated eth_address vault_config
  | AssetTransferred eth_address eth_address u256
  | Deposited eth_address eth_address u256 u256

text \<open>A function returns the new state, the events with the transfers of the asset, and its value.\<close>

type_synonym ('t, 'a) vault_result = "('t vault \<times> vault_event list \<times> 'a) evm"

abbreviation basis_points :: nat where "basis_points \<equiv> 10000"

section \<open>Configuration\<close>

definition validate_config :: "vault_config \<Rightarrow> unit evm" where
  "validate_config c =
     and_then (require (deposit_account c \<noteq> zero_address) ''Deposit account cannot be zero address'') (\<lambda>_.
     and_then (require (strategist c \<noteq> zero_address) ''Strategist cannot be zero address'') (\<lambda>_.
     and_then (require (deposit_fee_bps c \<le> basis_points) ''Deposit fee cannot exceed 100%'') (\<lambda>_.
     and_then (require (withdraw_fee_bps c \<le> basis_points) ''Withdraw fee cannot exceed 100%'') (\<lambda>_.
     and_then (require (max_rate_decrement_bps c \<le> basis_points) ''Max rate decrement cannot exceed 100%'') (\<lambda>_.
     and_then (require (max_rate_update_delay c \<noteq> 0) ''Max rate update delay cannot be zero'') (\<lambda>_.
     and_then (require (min_rate_update_delay c \<le> max_rate_update_delay c)
       ''Minimum update delay cannot exceed maximum update delay'') (\<lambda>_.
     and_then (require (strategist_ratio_bps (fee_distribution c) \<le> basis_points)
       ''Strategist account fee distribution ratio cannot exceed 100%'') (\<lambda>_.
     and_then (require (platform_account (fee_distribution c) \<noteq> zero_address)
       ''Platform account cannot be zero address'') (\<lambda>_.
       require (strategist_account (fee_distribution c) \<noteq> zero_address)
         ''Strategist account cannot be zero address'')))))))))"

definition not_paused :: vault_state where
  "not_paused = \<lparr>paused = False, paused_by_owner = False, paused_by_stale_rate = False\<rparr>"

text \<open>\<open>abi.decode\<close> is the argument \<open>decode\<close>; \<open>initialize\<close> runs once.\<close>

definition initialize ::
  "'t openzeppelin \<Rightarrow> (bytes \<Rightarrow> vault_config evm) \<Rightarrow> evm_ctx \<Rightarrow> eth_address \<Rightarrow> bytes \<Rightarrow> eth_address \<Rightarrow>
   string \<Rightarrow> string \<Rightarrow> u256 \<Rightarrow> 't vault evm"
where
  "initialize oz decode ctx owner cfg underlying name symbol starting_rate =
     and_then (init_shares oz owner underlying name symbol) (\<lambda>t.
     and_then (decode cfg) (\<lambda>c.
     and_then (validate_config c) (\<lambda>_.
     and_then (if 10 ^ share_decimals oz t < 2 ^ 256 then Ok (10 ^ share_decimals oz t)
               else Err overflow_panic) (\<lambda>one.
     and_then (require (0 < starting_rate) ''Starting redemption rate cannot be zero'') (\<lambda>_.
       Ok \<lparr>shares = t, vault_owner = owner, vault_cfg = c, redemption_rate = starting_rate,
           vault_status = not_paused, current_withdraw_request_id = 0,
           last_rate_update_timestamp = to_u64 (block_timestamp ctx), fees_accrued_in_asset = 0,
           withdraw_requests = Map.empty, one_share = one\<rparr>)))))"

definition update_vault_config ::
  "'t openzeppelin \<Rightarrow> (bytes \<Rightarrow> vault_config evm) \<Rightarrow> evm_ctx \<Rightarrow> bytes \<Rightarrow> 't vault \<Rightarrow> ('t, unit) vault_result"
where
  "update_vault_config oz decode ctx cfg v =
     and_then (oz_check_owner oz (vault_owner v) (msg_sender ctx)) (\<lambda>_.
     and_then (decode cfg) (\<lambda>c.
     and_then (validate_config c) (\<lambda>_.
       Ok (v\<lparr>vault_cfg := c\<rparr>, [ConfigUpdated (msg_sender ctx) c], ()))))"

section \<open>Guards\<close>

definition only_strategist :: "'t vault \<Rightarrow> evm_ctx \<Rightarrow> unit evm" where
  "only_strategist v ctx = require (msg_sender ctx = strategist (vault_cfg v)) ''Only strategist allowed''"

definition only_owner_or_strategist :: "'t vault \<Rightarrow> evm_ctx \<Rightarrow> unit evm" where
  "only_owner_or_strategist v ctx =
     require (msg_sender ctx = vault_owner v \<or> msg_sender ctx = strategist (vault_cfg v))
       ''Only owner or strategist allowed''"

definition when_not_paused :: "'t vault \<Rightarrow> unit evm" where
  "when_not_paused v = require (\<not> paused (vault_status v)) ''Vault is paused''"

definition when_not_manually_paused :: "'t vault \<Rightarrow> unit evm" where
  "when_not_manually_paused v =
     require (\<not> (paused (vault_status v) \<and> \<not> paused_by_stale_rate (vault_status v)))
       ''Vault is paused by owner or strategist''"

definition check_and_handle_stale_rate :: "evm_ctx \<Rightarrow> 't vault \<Rightarrow> ('t, bool) vault_result" where
  "check_and_handle_stale_rate ctx v =
     and_then (sub64 (to_u64 (block_timestamp ctx)) (last_rate_update_timestamp v)) (\<lambda>age.
       if max_rate_update_delay (vault_cfg v) < age then
         Ok (v\<lparr>vault_status := (vault_status v)\<lparr>paused := True, paused_by_stale_rate := True\<rparr>\<rparr>,
             [PausedStateChanged True,
              StaleRatePaused (last_rate_update_timestamp v) (to_u64 (block_timestamp ctx))], True)
       else Ok (v, [], False))"

section \<open>Conversions and fees\<close>

definition convert_to_assets :: "'t openzeppelin \<Rightarrow> 't vault \<Rightarrow> conversion" where
  "convert_to_assets oz v n rnd = mul_div oz n (redemption_rate v) (one_share v) rnd"

definition convert_to_shares :: "'t openzeppelin \<Rightarrow> 't vault \<Rightarrow> conversion" where
  "convert_to_shares oz v n rnd = mul_div oz n (one_share v) (redemption_rate v) rnd"

definition total_assets :: "'t openzeppelin \<Rightarrow> 't vault \<Rightarrow> u256 evm" where
  "total_assets oz v = convert_to_assets oz v (total_supply oz (shares v)) Floor"

definition max_deposit :: "'t openzeppelin \<Rightarrow> 't vault \<Rightarrow> u256 evm" where
  "max_deposit oz v =
     (let cap = deposit_cap (vault_cfg v)
      in if cap = 0 then Ok (2 ^ 256 - 1)
         else and_then (total_assets oz v) (\<lambda>total_deposits.
           if cap \<le> total_deposits then Ok 0 else sub256 cap total_deposits))"

definition max_mint :: "'t openzeppelin \<Rightarrow> 't vault \<Rightarrow> u256 evm" where
  "max_mint oz v =
     (let cap = deposit_cap (vault_cfg v)
      in if cap = 0 then Ok (2 ^ 256 - 1)
         else and_then (total_assets oz v) (\<lambda>total_deposits.
           if cap \<le> total_deposits then Ok 0
           else and_then (sub256 cap total_deposits) (\<lambda>room. convert_to_shares oz v room Floor)))"

definition calculate_deposit_fee :: "'t openzeppelin \<Rightarrow> 't vault \<Rightarrow> u256 \<Rightarrow> u256 evm" where
  "calculate_deposit_fee oz v assets =
     (let fee_bps = deposit_fee_bps (vault_cfg v)
      in if fee_bps = 0 then Ok 0 else mul_div oz assets fee_bps basis_points Ceil)"

definition calculate_withdrawal_fee :: "'t openzeppelin \<Rightarrow> 't vault \<Rightarrow> u256 \<Rightarrow> u256 evm" where
  "calculate_withdrawal_fee oz v assets =
     (let fee_bps = withdraw_fee_bps (vault_cfg v)
      in if fee_bps = 0 then Ok 0 else mul_div oz assets fee_bps basis_points Ceil)"

definition calculate_mint_fee :: "'t openzeppelin \<Rightarrow> 't vault \<Rightarrow> u256 \<Rightarrow> (u256 \<times> u256) evm" where
  "calculate_mint_fee oz v n =
     and_then (preview_mint oz (convert_to_assets oz v) n) (\<lambda>base_assets.
     let fee_bps = deposit_fee_bps (vault_cfg v)
     in if fee_bps = 0 then Ok (base_assets, 0)
        else
          and_then (sub256 basis_points fee_bps) (\<lambda>rest.
          and_then (mul_div oz base_assets basis_points rest Ceil) (\<lambda>gross_assets.
          and_then (sub256 gross_assets base_assets) (\<lambda>fee.
            Ok (gross_assets, fee)))))"

text \<open>\<open>feesAccruedInAsset += fee\<close>, when the fee is not zero.\<close>

definition accrue_fee :: "u256 \<Rightarrow> 't vault \<Rightarrow> 't vault evm" where
  "accrue_fee fee v =
     (if 0 < fee then
        and_then (add256 (fees_accrued_in_asset v) fee) (\<lambda>fees. Ok (v\<lparr>fees_accrued_in_asset := fees\<rparr>))
      else Ok v)"

section \<open>Deposits\<close>

definition deposit_internal ::
  "'t openzeppelin \<Rightarrow> eth_address \<Rightarrow> eth_address \<Rightarrow> u256 \<Rightarrow> u256 \<Rightarrow> 't vault \<Rightarrow> ('t, unit) vault_result"
where
  "deposit_internal oz caller receiver assets n v =
     and_then (transfer_asset_from oz caller (deposit_account (vault_cfg v)) assets) (\<lambda>_.
     and_then (mint_shares oz (shares v) receiver n) (\<lambda>t.
       Ok (v\<lparr>shares := t\<rparr>,
           [AssetTransferred caller (deposit_account (vault_cfg v)) assets, Deposited caller receiver assets n], ())))"

definition deposit ::
  "'t openzeppelin \<Rightarrow> evm_ctx \<Rightarrow> u256 \<Rightarrow> eth_address \<Rightarrow> 't vault \<Rightarrow> ('t, u256) vault_result"
where
  "deposit oz ctx assets receiver v =
     and_then (when_not_paused v) (\<lambda>_.
     and_then (check_and_handle_stale_rate ctx v) (\<lambda>(v1, evs, stale).
       if stale then Ok (v1, evs, 0)
       else
         and_then (max_deposit oz v1) (\<lambda>max_assets.
         and_then (ensure (assets \<le> max_assets)
           (CustomError ''ERC4626ExceededMaxDeposit'' [receiver, assets, max_assets])) (\<lambda>_.
         and_then (calculate_deposit_fee oz v1 assets) (\<lambda>deposit_fee.
         and_then (sub256 assets deposit_fee) (\<lambda>assets_after_fee.
         and_then (accrue_fee deposit_fee v1) (\<lambda>v2.
         and_then (preview_deposit oz (convert_to_shares oz v2) assets_after_fee) (\<lambda>n.
         and_then (deposit_internal oz (msg_sender ctx) receiver assets n v2) (\<lambda>(v3, evs3, _).
           Ok (v3, evs @ evs3, n))))))))))"

definition vault_mint ::
  "'t openzeppelin \<Rightarrow> evm_ctx \<Rightarrow> u256 \<Rightarrow> eth_address \<Rightarrow> 't vault \<Rightarrow> ('t, u256) vault_result"
where
  "vault_mint oz ctx n receiver v =
     and_then (when_not_paused v) (\<lambda>_.
     and_then (check_and_handle_stale_rate ctx v) (\<lambda>(v1, evs, stale).
       if stale then Ok (v1, evs, 0)
       else
         and_then (max_mint oz v1) (\<lambda>max_shares.
         and_then (ensure (n \<le> max_shares)
           (CustomError ''ERC4626ExceededMaxMint'' [receiver, n, max_shares])) (\<lambda>_.
         and_then (calculate_mint_fee oz v1 n) (\<lambda>(gross_assets, fee).
         and_then (accrue_fee fee v1) (\<lambda>v2.
         and_then (deposit_internal oz (msg_sender ctx) receiver gross_assets n v2) (\<lambda>(v3, evs3, _).
           Ok (v3, evs @ evs3, gross_assets))))))))"

section \<open>Withdrawals\<close>

definition validate_withdraw_params :: "eth_address \<Rightarrow> string \<Rightarrow> u256 \<Rightarrow> unit evm" where
  "validate_withdraw_params owner receiver amount =
     and_then (require (owner \<noteq> zero_address) ''Owner of shares cannot be zero address'') (\<lambda>_.
     and_then (require (length receiver \<noteq> 0) ''Receiver cannot be empty'') (\<lambda>_.
       require (amount \<noteq> 0) ''Amount to withdraw cannot be zero''))"

definition withdraw_internal ::
  "'t openzeppelin \<Rightarrow> evm_ctx \<Rightarrow> u256 \<Rightarrow> u256 \<Rightarrow> string \<Rightarrow> eth_address \<Rightarrow> 't vault \<Rightarrow> ('t, unit) vault_result"
where
  "withdraw_internal oz ctx shares_to_burn post_fee_shares receiver owner v =
     and_then (if msg_sender ctx \<noteq> owner then spend_allowance oz (shares v) owner (msg_sender ctx) shares_to_burn
               else Ok (shares v)) (\<lambda>t1.
     and_then (burn_shares oz t1 owner shares_to_burn) (\<lambda>t2.
     let i = current_withdraw_request_id v;
         request = \<lparr>wr_id = i, wr_owner = owner, wr_redemption_rate = redemption_rate v,
                    wr_shares_amount = post_fee_shares, wr_receiver = receiver\<rparr>
     in and_then (inc64 i) (\<lambda>next_id.
       Ok (v\<lparr>shares := t2, withdraw_requests := (withdraw_requests v)(i \<mapsto> request),
             current_withdraw_request_id := next_id\<rparr>,
           [WithdrawRequested i owner receiver post_fee_shares], ()))))"

definition withdraw ::
  "'t openzeppelin \<Rightarrow> evm_ctx \<Rightarrow> u256 \<Rightarrow> string \<Rightarrow> eth_address \<Rightarrow> 't vault \<Rightarrow> ('t, unit) vault_result"
where
  "withdraw oz ctx assets receiver owner v =
     and_then (when_not_paused v) (\<lambda>_.
     and_then (check_and_handle_stale_rate ctx v) (\<lambda>(v1, evs, stale).
       if stale then Ok (v1, evs, ())
       else
         and_then (validate_withdraw_params owner receiver assets) (\<lambda>_.
         and_then (max_withdraw oz (convert_to_assets oz v1) (balance_of oz (shares v1) owner)) (\<lambda>max_assets.
         and_then (ensure (assets \<le> max_assets)
           (CustomError ''ERC4626ExceededMaxWithdraw'' [owner, assets, max_assets])) (\<lambda>_.
         and_then (calculate_withdrawal_fee oz v1 assets) (\<lambda>withdrawal_fee.
         and_then (sub256 assets withdrawal_fee) (\<lambda>net_assets.
         and_then (preview_withdraw oz (convert_to_shares oz v1) assets) (\<lambda>shares_to_burn.
         and_then (preview_withdraw oz (convert_to_shares oz v1) net_assets) (\<lambda>post_fee_shares.
         and_then (accrue_fee withdrawal_fee v1) (\<lambda>v2.
         and_then (withdraw_internal oz ctx shares_to_burn post_fee_shares receiver owner v2) (\<lambda>(v3, evs3, _).
           Ok (v3, evs @ evs3, ()))))))))))))"

definition redeem ::
  "'t openzeppelin \<Rightarrow> evm_ctx \<Rightarrow> u256 \<Rightarrow> string \<Rightarrow> eth_address \<Rightarrow> 't vault \<Rightarrow> ('t, unit) vault_result"
where
  "redeem oz ctx n receiver owner v =
     and_then (when_not_paused v) (\<lambda>_.
     and_then (check_and_handle_stale_rate ctx v) (\<lambda>(v1, evs, stale).
       if stale then Ok (v1, evs, ())
       else
         and_then (validate_withdraw_params owner receiver n) (\<lambda>_.
         let max_shares = max_redeem oz (balance_of oz (shares v1) owner)
         in and_then (ensure (n \<le> max_shares)
              (CustomError ''ERC4626ExceededMaxRedeem'' [owner, n, max_shares])) (\<lambda>_.
            and_then (convert_to_assets oz v1 n Floor) (\<lambda>gross_assets.
            and_then (calculate_withdrawal_fee oz v1 gross_assets) (\<lambda>withdrawal_fee.
            and_then (sub256 gross_assets withdrawal_fee) (\<lambda>net_assets.
            and_then (convert_to_shares oz v1 net_assets Ceil) (\<lambda>post_fee_shares.
            and_then (accrue_fee withdrawal_fee v1) (\<lambda>v2.
            and_then (withdraw_internal oz ctx n post_fee_shares receiver owner v2) (\<lambda>(v3, evs3, _).
              Ok (v3, evs @ evs3, ())))))))))))"

section \<open>The rate\<close>

definition mint_if_positive :: "'t openzeppelin \<Rightarrow> eth_address \<Rightarrow> u256 \<Rightarrow> 't \<Rightarrow> 't evm" where
  "mint_if_positive oz a n t = (if 0 < n then mint_shares oz t a n else Ok t)"

definition distribute_fees ::
  "'t openzeppelin \<Rightarrow> fee_distribution_config \<Rightarrow> 't vault \<Rightarrow> ('t, unit) vault_result"
where
  "distribute_fees oz fd v =
     (let fees = fees_accrued_in_asset v
      in if fees = 0 then Ok (v, [], ())
         else
           and_then (mul_div oz fees (strategist_ratio_bps fd) basis_points Floor) (\<lambda>strategist_assets.
           and_then (sub256 fees strategist_assets) (\<lambda>platform_assets.
           and_then (convert_to_shares oz v strategist_assets Floor) (\<lambda>strategist_shares.
           and_then (convert_to_shares oz v platform_assets Floor) (\<lambda>platform_shares.
           and_then (mint_if_positive oz (strategist_account fd) strategist_shares (shares v)) (\<lambda>t1.
           and_then (mint_if_positive oz (platform_account fd) platform_shares t1) (\<lambda>t2.
             Ok (v\<lparr>shares := t2, fees_accrued_in_asset := 0\<rparr>,
                 [FeesDistributed (strategist_account fd) (platform_account fd) strategist_shares platform_shares],
                 ()))))))))"

definition check_rate_change :: "'t vault \<Rightarrow> u256 \<Rightarrow> unit evm" where
  "check_rate_change v new_rate =
     (let rate = redemption_rate v
      in if rate < new_rate then
           and_then (mul256 rate (max_rate_increment_bps (vault_cfg v))) (\<lambda>p.
             require (new_rate - rate \<le> p div basis_points) ''Rate increase exceeds maximum allowed increment'')
         else if new_rate < rate then
           and_then (mul256 rate (max_rate_decrement_bps (vault_cfg v))) (\<lambda>p.
             require (rate - new_rate \<le> p div basis_points) ''Rate decrease exceeds maximum allowed decrement'')
         else Ok ())"

definition update_rate :: "'t openzeppelin \<Rightarrow> evm_ctx \<Rightarrow> u256 \<Rightarrow> 't vault \<Rightarrow> ('t, unit) vault_result" where
  "update_rate oz ctx new_rate v =
     and_then (only_strategist v ctx) (\<lambda>_.
     and_then (when_not_manually_paused v) (\<lambda>_.
     and_then (require (new_rate \<noteq> 0) ''Redemption rate cannot be zero'') (\<lambda>_.
     and_then (sub64 (to_u64 (block_timestamp ctx)) (last_rate_update_timestamp v)) (\<lambda>age.
     and_then (require (min_rate_update_delay (vault_cfg v) \<le> age) ''Minimum rate update delay not passed'') (\<lambda>_.
     and_then (check_rate_change v new_rate) (\<lambda>_.
     and_then (distribute_fees oz (fee_distribution (vault_cfg v)) v) (\<lambda>(v1, evs, _).
       Ok (v1\<lparr>redemption_rate := new_rate, last_rate_update_timestamp := to_u64 (block_timestamp ctx)\<rparr>,
           evs @ [RateUpdated new_rate], ()))))))))"

section \<open>Pausing\<close>

definition pause_vault :: "evm_ctx \<Rightarrow> 't vault \<Rightarrow> ('t, unit) vault_result" where
  "pause_vault ctx v =
     and_then (only_owner_or_strategist v ctx) (\<lambda>_.
     and_then (require (\<not> paused (vault_status v)) ''Vault is already paused'') (\<lambda>_.
       Ok (v\<lparr>vault_status :=
               \<lparr>paused = True, paused_by_owner = (msg_sender ctx = vault_owner v), paused_by_stale_rate = False\<rparr>\<rparr>,
           [PausedStateChanged True], ())))"

definition unpause_vault :: "evm_ctx \<Rightarrow> 't vault \<Rightarrow> ('t, unit) vault_result" where
  "unpause_vault ctx v =
     and_then (only_owner_or_strategist v ctx) (\<lambda>_.
     and_then (require (\<not> (paused_by_owner (vault_status v) \<and> msg_sender ctx \<noteq> vault_owner v))
       ''Only owner can unpause if paused by owner'') (\<lambda>_.
     and_then (require (\<not> (paused_by_stale_rate (vault_status v) \<and> msg_sender ctx \<noteq> vault_owner v))
       ''Only owner can unpause if paused by stale rate'') (\<lambda>_.
     and_then (if paused_by_stale_rate (vault_status v) then
         and_then (sub64 (to_u64 (block_timestamp ctx)) (last_rate_update_timestamp v)) (\<lambda>age.
           require (\<not> max_rate_update_delay (vault_cfg v) < age) ''Cannot unpause while rate is stale'')
       else Ok ()) (\<lambda>_.
       Ok (v\<lparr>vault_status := not_paused\<rparr>, [PausedStateChanged False], ())))))"

section \<open>The entry points\<close>

datatype vault_call =
    Deposit u256 eth_address
  | Mint u256 eth_address
  | Withdraw u256 string eth_address
  | Redeem u256 string eth_address
  | UpdateRate u256
  | Pause
  | Unpause
  | UpdateVaultConfig bytes
  | Inherited bytes

definition discard :: "('t, 'a) vault_result \<Rightarrow> ('t vault \<times> vault_event list) evm" where
  "discard m = map_ok (\<lambda>(v, evs, _). (v, evs)) m"

definition vault_execute ::
  "'t openzeppelin \<Rightarrow> (bytes \<Rightarrow> vault_config evm) \<Rightarrow> evm_ctx \<Rightarrow> vault_call \<Rightarrow> 't vault \<Rightarrow>
   ('t vault \<times> vault_event list) evm"
where
  "vault_execute oz decode ctx c v =
     (case c of
        Deposit assets receiver \<Rightarrow> discard (deposit oz ctx assets receiver v)
      | Mint n receiver \<Rightarrow> discard (vault_mint oz ctx n receiver v)
      | Withdraw assets receiver owner \<Rightarrow> discard (withdraw oz ctx assets receiver owner v)
      | Redeem n receiver owner \<Rightarrow> discard (redeem oz ctx n receiver owner v)
      | UpdateRate new_rate \<Rightarrow> discard (update_rate oz ctx new_rate v)
      | Pause \<Rightarrow> discard (pause_vault ctx v)
      | Unpause \<Rightarrow> discard (unpause_vault ctx v)
      | UpdateVaultConfig cfg \<Rightarrow> discard (update_vault_config oz decode ctx cfg v)
      | Inherited call_data \<Rightarrow>
          map_ok (\<lambda>(t, owner). (v\<lparr>shares := t, vault_owner := owner\<rparr>, []))
            (inherited_call oz ctx call_data (shares v, vault_owner v)))"

end
