(* ===== verification/Valence_Vault.thy ===== *)
theory Valence_Vault
  imports One_Way_Vault
begin

text \<open>
  The vault with withdrawals on its own chain (\<open>solidity/src/vaults/ValenceVault.sol\<close>): deposits against
  shares, updates of the redemption rate by the strategist with platform and performance fees,
  withdrawal requests that burn shares and are completed after a lockup and an update, by the owner of
  the request or by a solver for a fee in ETH, or cancelled when the loss since the update is too high.

  The inherited contracts are the record \<open>openzeppelin\<close> of the other vault, extended by \<open>previewRedeem\<close>,
  the transfers of the asset from users and through the accounts of the vault, and payments in ETH,
  which act on a world of their own.
\<close>

section \<open>Parameters\<close>

record ('t, 'w) vault_env = "'t openzeppelin" +
  preview_redeem :: "conversion \<Rightarrow> u256 \<Rightarrow> u256 evm"
  pull_asset :: "eth_address \<Rightarrow> eth_address \<Rightarrow> u256 \<Rightarrow> 'w \<Rightarrow> 'w evm"
  account_transfer :: "eth_address \<Rightarrow> eth_address \<Rightarrow> u256 \<Rightarrow> 'w \<Rightarrow> 'w evm"
  pay_eth :: "eth_address \<Rightarrow> u256 \<Rightarrow> 'w \<Rightarrow> 'w option"

section \<open>State\<close>

record vv_fee_config =
  vf_deposit_fee_bps :: u32
  vf_platform_fee_bps :: u32
  vf_performance_fee_bps :: u32
  vf_solver_completion_fee :: u64

record vv_config =
  vc_deposit_account :: eth_address
  vc_withdraw_account :: eth_address
  vc_strategist :: eth_address
  vc_fees :: vv_fee_config
  vc_fee_distribution :: fee_distribution_config
  vc_deposit_cap :: nat
  vc_withdraw_lockup_period :: u64
  vc_max_withdraw_fee_bps :: u32

record vv_request =
  vr_owner :: eth_address
  vr_claim_time :: u64
  vr_max_loss_bps :: u32
  vr_receiver :: eth_address
  vr_update_id :: u32
  vr_solver_fee :: u64
  vr_shares_amount :: u256

definition no_request :: vv_request where
  "no_request = \<lparr>vr_owner = 0, vr_claim_time = 0, vr_max_loss_bps = 0, vr_receiver = 0, vr_update_id = 0,
     vr_solver_fee = 0, vr_shares_amount = 0\<rparr>"

record vv_update_info =
  ui_withdraw_rate :: u256
  ui_timestamp :: u64
  ui_withdraw_fee :: u32

definition no_update :: vv_update_info where
  "no_update = \<lparr>ui_withdraw_rate = 0, ui_timestamp = 0, ui_withdraw_fee = 0\<rparr>"

record vv_packed_values =
  pv_current_update_id :: u32
  pv_next_withdraw_request_id :: u64
  pv_pauser :: bool
  pv_paused :: bool

record vv_withdraw_result =
  wres_success :: bool
  wres_assets_to_withdraw :: u256
  wres_solver_fee :: u256
  wres_error_reason :: string

record ('t, 'w) valence_vault =
  vv_shares :: 't
  vv_owner :: eth_address
  vv_cfg :: vv_config
  vv_packed :: vv_packed_values
  vv_redemption_rate :: u256
  vv_max_historical_rate :: u256
  vv_last_update_total_shares :: u256
  vv_last_update_timestamp :: u64
  vv_fees_owed :: nat
  vv_total_to_withdraw :: u256
  vv_requests :: "eth_address \<Rightarrow> vv_request"
  vv_update_infos :: "u64 \<Rightarrow> vv_update_info"
  vv_one_share :: u256
  vv_eth :: u256
  vv_world :: 'w

datatype vv_event =
    VvPausedStateChanged bool
  | VvRateUpdated u256
  | VvUpdateProcessed u256 u256 u256
  | VvWithdrawFeeUpdated u256
  | VvFeesUpdated u256 u256
  | VvMaxHistoricalRateUpdated u256
  | VvFeesDistributed eth_address eth_address u256 u256
  | VvWithdrawRequested eth_address eth_address u256 u256 bool u64
  | VvDepositWithdrawNetting u256 u256
  | VvWithdrawCompleted eth_address eth_address u256 u256 eth_address
  | VvWithdrawCancelled eth_address u256 u256 u256
  | VvWithdrawCompletionSkipped eth_address string
  | VvConfigUpdated eth_address vv_config
  | VvDeposit eth_address eth_address u256 u256

type_synonym ('t, 'w, 'a) vv_result = "(('t, 'w) valence_vault \<times> vv_event list \<times> 'a) evm"

definition seconds_per_year :: nat where "seconds_per_year = 365 * 24 * 60 * 60"

text \<open>Sums in \<open>uint128\<close> and \<open>uint32\<close> are checked.\<close>

definition add128 :: "nat \<Rightarrow> nat \<Rightarrow> nat evm" where
  "add128 a b = (if a + b < 2 ^ 128 then Ok (a + b) else Err overflow_panic)"

definition inc32 :: "u32 \<Rightarrow> u32 evm" where
  "inc32 a = (if a + 1 < 2 ^ 32 then Ok (a + 1) else Err overflow_panic)"

text \<open>Subtraction in an \<open>unchecked\<close> block.\<close>

definition unchecked_sub256 :: "u256 \<Rightarrow> u256 \<Rightarrow> u256" where
  "unchecked_sub256 a b = (a + 2 ^ 256 - b) mod 2 ^ 256"

abbreviation custom :: "bool \<Rightarrow> string \<Rightarrow> unit evm" where
  "custom b e \<equiv> ensure b (CustomError e [])"

section \<open>Configuration\<close>

definition vv_validate_config :: "vv_config \<Rightarrow> unit evm" where
  "vv_validate_config c =
     and_then (custom (vc_deposit_account c \<noteq> zero_address) ''InvalidDepositAccount'') (\<lambda>_.
     and_then (custom (vc_withdraw_account c \<noteq> zero_address) ''InvalidWithdrawAccount'') (\<lambda>_.
     and_then (custom (vc_strategist c \<noteq> zero_address) ''InvalidStrategist'') (\<lambda>_.
     and_then (custom (vf_deposit_fee_bps (vc_fees c) \<le> basis_points
         \<and> vf_platform_fee_bps (vc_fees c) \<le> basis_points
         \<and> vf_performance_fee_bps (vc_fees c) \<le> basis_points) ''InvalidFeeConfiguration'') (\<lambda>_.
     and_then (custom (strategist_ratio_bps (vc_fee_distribution c) \<le> basis_points) ''InvalidFeeDistribution'') (\<lambda>_.
     and_then (custom (platform_account (vc_fee_distribution c) \<noteq> zero_address) ''InvalidPlatformAccount'') (\<lambda>_.
     and_then (custom (strategist_account (vc_fee_distribution c) \<noteq> zero_address) ''InvalidStrategistAccount'') (\<lambda>_.
     and_then (custom (vc_max_withdraw_fee_bps c \<le> basis_points) ''InvalidMaxWithdrawFeeBps'') (\<lambda>_.
       custom (vc_withdraw_lockup_period c \<noteq> 0) ''InvalidWithdrawLockupPeriod''))))))))"

definition vv_initialize ::
  "('t, 'w) vault_env \<Rightarrow> (bytes \<Rightarrow> vv_config evm) \<Rightarrow> evm_ctx \<Rightarrow> eth_address \<Rightarrow> bytes \<Rightarrow> eth_address \<Rightarrow>
   string \<Rightarrow> string \<Rightarrow> u256 \<Rightarrow> 'w \<Rightarrow> ('t, 'w) valence_vault evm"
where
  "vv_initialize oz decode ctx owner cfg underlying name symbol starting_rate w =
     and_then (init_shares oz owner underlying name symbol) (\<lambda>t.
     and_then (decode cfg) (\<lambda>c.
     and_then (vv_validate_config c) (\<lambda>_.
       Ok \<lparr>vv_shares = t, vv_owner = owner, vv_cfg = c,
           vv_packed = \<lparr>pv_current_update_id = 0, pv_next_withdraw_request_id = 0, pv_pauser = False, pv_paused = False\<rparr>,
           vv_redemption_rate = starting_rate, vv_max_historical_rate = starting_rate,
           vv_last_update_total_shares = 0, vv_last_update_timestamp = to_u64 (block_timestamp ctx),
           vv_fees_owed = 0, vv_total_to_withdraw = 0, vv_requests = (\<lambda>_. no_request),
           vv_update_infos = (\<lambda>_. no_update), vv_one_share = 10 ^ share_decimals oz t mod 2 ^ 256,
           vv_eth = 0, vv_world = w\<rparr>)))"

definition vv_update_config ::
  "('t, 'w) vault_env \<Rightarrow> (bytes \<Rightarrow> vv_config evm) \<Rightarrow> evm_ctx \<Rightarrow> bytes \<Rightarrow> ('t, 'w) valence_vault \<Rightarrow> ('t, 'w, unit) vv_result"
where
  "vv_update_config oz decode ctx cfg v =
     and_then (oz_check_owner oz (vv_owner v) (msg_sender ctx)) (\<lambda>_.
     and_then (decode cfg) (\<lambda>c.
     and_then (vv_validate_config c) (\<lambda>_.
       Ok (v\<lparr>vv_cfg := c\<rparr>, [VvConfigUpdated (msg_sender ctx) c], ()))))"

section \<open>Guards, conversions and fees\<close>

definition vv_only_strategist :: "('t, 'w) valence_vault \<Rightarrow> evm_ctx \<Rightarrow> unit evm" where
  "vv_only_strategist v ctx = custom (msg_sender ctx = vc_strategist (vv_cfg v)) ''OnlyStrategistAllowed''"

definition vv_only_owner_or_strategist :: "('t, 'w) valence_vault \<Rightarrow> evm_ctx \<Rightarrow> unit evm" where
  "vv_only_owner_or_strategist v ctx =
     custom (msg_sender ctx = vv_owner v \<or> msg_sender ctx = vc_strategist (vv_cfg v)) ''OnlyOwnerOrStrategistAllowed''"

definition vv_when_not_paused :: "('t, 'w) valence_vault \<Rightarrow> unit evm" where
  "vv_when_not_paused v = custom (\<not> pv_paused (vv_packed v)) ''VaultIsPaused''"

definition vv_convert_to_assets :: "('t, 'w) vault_env \<Rightarrow> ('t, 'w) valence_vault \<Rightarrow> conversion" where
  "vv_convert_to_assets oz v n rnd = mul_div oz n (vv_redemption_rate v) (vv_one_share v) rnd"

definition vv_convert_to_shares :: "('t, 'w) vault_env \<Rightarrow> ('t, 'w) valence_vault \<Rightarrow> conversion" where
  "vv_convert_to_shares oz v n rnd = mul_div oz n (vv_one_share v) (vv_redemption_rate v) rnd"

definition vv_total_assets :: "('t, 'w) vault_env \<Rightarrow> ('t, 'w) valence_vault \<Rightarrow> u256 evm" where
  "vv_total_assets oz v = vv_convert_to_assets oz v (total_supply oz (vv_shares v)) Floor"

definition vv_max_deposit :: "('t, 'w) vault_env \<Rightarrow> ('t, 'w) valence_vault \<Rightarrow> u256 evm" where
  "vv_max_deposit oz v =
     (let cap = vc_deposit_cap (vv_cfg v)
      in if cap = 0 then Ok (2 ^ 256 - 1)
         else and_then (vv_total_assets oz v) (\<lambda>total_deposits.
           if cap \<le> total_deposits then Ok 0 else Ok (unchecked_sub256 cap total_deposits)))"

definition vv_max_mint :: "('t, 'w) vault_env \<Rightarrow> ('t, 'w) valence_vault \<Rightarrow> u256 evm" where
  "vv_max_mint oz v =
     (let cap = vc_deposit_cap (vv_cfg v)
      in if cap = 0 then Ok (2 ^ 256 - 1)
         else and_then (vv_total_assets oz v) (\<lambda>total_deposits.
           if cap \<le> total_deposits then Ok 0
           else and_then (sub256 cap total_deposits) (\<lambda>room. vv_convert_to_shares oz v room Floor)))"

definition to_fee :: "u256 \<Rightarrow> nat evm" where
  "to_fee fee = and_then (custom (fee \<le> 2 ^ 128 - 1) ''FeeExceedsUint128'') (\<lambda>_. Ok fee)"

definition vv_calculate_mint_fee ::
  "('t, 'w) vault_env \<Rightarrow> ('t, 'w) valence_vault \<Rightarrow> u256 \<Rightarrow> (u256 \<times> nat) evm"
where
  "vv_calculate_mint_fee oz v n =
     and_then (preview_mint oz (vv_convert_to_assets oz v) n) (\<lambda>base_assets.
     let fee_bps = vf_deposit_fee_bps (vc_fees (vv_cfg v))
     in if fee_bps = 0 then Ok (base_assets, 0)
        else
          and_then (sub256 basis_points fee_bps) (\<lambda>rest.
          and_then (mul_div oz base_assets basis_points rest Ceil) (\<lambda>gross_assets.
          and_then (to_fee (unchecked_sub256 gross_assets base_assets)) (\<lambda>fee.
            Ok (gross_assets, fee)))))"

definition vv_calculate_deposit_fee :: "('t, 'w) vault_env \<Rightarrow> ('t, 'w) valence_vault \<Rightarrow> u256 \<Rightarrow> nat evm" where
  "vv_calculate_deposit_fee oz v assets =
     (let fee_bps = vf_deposit_fee_bps (vc_fees (vv_cfg v))
      in if fee_bps = 0 then Ok 0
         else and_then (mul_div oz assets fee_bps basis_points Ceil) to_fee)"

definition vv_calculate_platform_fees ::
  "('t, 'w) vault_env \<Rightarrow> ('t, 'w) valence_vault \<Rightarrow> evm_ctx \<Rightarrow> u256 \<Rightarrow> u256 \<Rightarrow> u256 \<Rightarrow> u32 \<Rightarrow> u64 \<Rightarrow> nat evm"
where
  "vv_calculate_platform_fees oz v ctx new_rate current_assets current_shares fee_bps last_timestamp =
     (if fee_bps = 0 then Ok 0
      else
        let shares_to_use = (if current_shares < vv_last_update_total_shares v then current_shares
                             else vv_last_update_total_shares v);
            rate_to_use = (if new_rate < vv_redemption_rate v then new_rate else vv_redemption_rate v)
        in and_then (mul_div oz shares_to_use rate_to_use (vv_one_share v) Floor) (\<lambda>charged.
           let assets_to_charge_fees = (if current_assets < charged then current_assets else charged)
           in and_then (sub256 (block_timestamp ctx) last_timestamp) (\<lambda>time_elapsed.
              and_then (mul_div oz assets_to_charge_fees fee_bps basis_points Floor) (\<lambda>yearly.
              and_then (mul_div oz yearly time_elapsed seconds_per_year Floor) to_fee))))"

definition vv_calculate_performance_fees ::
  "('t, 'w) vault_env \<Rightarrow> ('t, 'w) valence_vault \<Rightarrow> u256 \<Rightarrow> u256 \<Rightarrow> u32 \<Rightarrow> nat evm"
where
  "vv_calculate_performance_fees oz v new_rate current_shares fee_bps =
     (if fee_bps = 0 \<or> new_rate \<le> vv_max_historical_rate v then Ok 0
      else
        and_then (sub256 new_rate (vv_max_historical_rate v)) (\<lambda>gain.
        and_then (mul_div oz current_shares gain (vv_one_share v) Floor) (\<lambda>gained.
        and_then (mul_div oz gained fee_bps basis_points Floor) to_fee)))"

section \<open>Deposits\<close>

definition vv_accrue_fee :: "nat \<Rightarrow> ('t, 'w) valence_vault \<Rightarrow> ('t, 'w) valence_vault evm" where
  "vv_accrue_fee fee v =
     (if 0 < fee then and_then (add128 (vv_fees_owed v) fee) (\<lambda>fees. Ok (v\<lparr>vv_fees_owed := fees\<rparr>)) else Ok v)"

definition vv_deposit_internal ::
  "('t, 'w) vault_env \<Rightarrow> eth_address \<Rightarrow> eth_address \<Rightarrow> u256 \<Rightarrow> u256 \<Rightarrow> ('t, 'w) valence_vault \<Rightarrow> ('t, 'w, unit) vv_result"
where
  "vv_deposit_internal oz caller receiver assets n v =
     and_then (pull_asset oz caller (vc_deposit_account (vv_cfg v)) assets (vv_world v)) (\<lambda>w.
     and_then (mint_shares oz (vv_shares v) receiver n) (\<lambda>t.
       Ok (v\<lparr>vv_shares := t, vv_world := w\<rparr>, [VvDeposit caller receiver assets n], ())))"

definition vv_deposit ::
  "('t, 'w) vault_env \<Rightarrow> evm_ctx \<Rightarrow> u256 \<Rightarrow> eth_address \<Rightarrow> ('t, 'w) valence_vault \<Rightarrow> ('t, 'w, u256) vv_result"
where
  "vv_deposit oz ctx assets receiver v =
     and_then (vv_when_not_paused v) (\<lambda>_.
     and_then (vv_max_deposit oz v) (\<lambda>max_assets.
     and_then (ensure (assets \<le> max_assets)
       (CustomError ''ERC4626ExceededMaxDeposit'' [receiver, assets, max_assets])) (\<lambda>_.
     and_then (vv_calculate_deposit_fee oz v assets) (\<lambda>deposit_fee.
     let assets_after_fee = unchecked_sub256 assets deposit_fee
     in and_then (vv_accrue_fee deposit_fee v) (\<lambda>v1.
        and_then (preview_deposit oz (vv_convert_to_shares oz v1) assets_after_fee) (\<lambda>n.
        and_then (vv_deposit_internal oz (msg_sender ctx) receiver assets n v1) (\<lambda>(v2, evs, _).
          Ok (v2, evs, n))))))))"

definition vv_mint ::
  "('t, 'w) vault_env \<Rightarrow> evm_ctx \<Rightarrow> u256 \<Rightarrow> eth_address \<Rightarrow> ('t, 'w) valence_vault \<Rightarrow> ('t, 'w, u256) vv_result"
where
  "vv_mint oz ctx n receiver v =
     and_then (vv_when_not_paused v) (\<lambda>_.
     and_then (vv_max_mint oz v) (\<lambda>max_shares.
     and_then (ensure (n \<le> max_shares)
       (CustomError ''ERC4626ExceededMaxMint'' [receiver, n, max_shares])) (\<lambda>_.
     and_then (vv_calculate_mint_fee oz v n) (\<lambda>(gross_assets, fee).
     and_then (vv_accrue_fee fee v) (\<lambda>v1.
     and_then (vv_deposit_internal oz (msg_sender ctx) receiver gross_assets n v1) (\<lambda>(v2, evs, _).
       Ok (v2, evs, gross_assets)))))))"

section \<open>Updates\<close>

definition validate_update :: "evm_ctx \<Rightarrow> u256 \<Rightarrow> u32 \<Rightarrow> u64 \<Rightarrow> u32 \<Rightarrow> unit evm" where
  "validate_update ctx new_rate wd_fee_bps last_timestamp max_fee_bps =
     and_then (custom (last_timestamp \<noteq> block_timestamp ctx) ''InvalidUpdateSameBlock'') (\<lambda>_.
     and_then (custom (new_rate \<noteq> 0) ''InvalidRate'') (\<lambda>_.
       custom (wd_fee_bps \<le> max_fee_bps) ''InvalidWithdrawFee''))"

definition vv_distribute_fees ::
  "('t, 'w) vault_env \<Rightarrow> fee_distribution_config \<Rightarrow> ('t, 'w) valence_vault \<Rightarrow> ('t, 'w, unit) vv_result"
where
  "vv_distribute_fees oz fd v =
     (let fees = vv_fees_owed v
      in if fees = 0 then Ok (v, [], ())
         else
           and_then (mul_div oz fees (strategist_ratio_bps fd) basis_points Floor) (\<lambda>strategist_assets.
           and_then (sub256 fees strategist_assets) (\<lambda>platform_assets.
           and_then (vv_convert_to_shares oz v strategist_assets Floor) (\<lambda>strategist_shares.
           and_then (vv_convert_to_shares oz v platform_assets Floor) (\<lambda>platform_shares.
           and_then (if 0 < strategist_shares then mint_shares oz (vv_shares v) (strategist_account fd) strategist_shares
                     else Ok (vv_shares v)) (\<lambda>t1.
           and_then (if 0 < platform_shares then mint_shares oz t1 (platform_account fd) platform_shares
                     else Ok t1) (\<lambda>t2.
             Ok (v\<lparr>vv_shares := t2, vv_fees_owed := 0\<rparr>,
                 [VvFeesDistributed (strategist_account fd) (platform_account fd) strategist_shares platform_shares],
                 ()))))))))"

definition handle_withdraws ::
  "('t, 'w) vault_env \<Rightarrow> evm_ctx \<Rightarrow> u32 \<Rightarrow> u256 \<Rightarrow> eth_address \<Rightarrow> eth_address \<Rightarrow> ('t, 'w) valence_vault \<Rightarrow>
   ('t, 'w, unit) vv_result"
where
  "handle_withdraws oz ctx wd_fee_bps netting_amount dep_account wd_account v =
     and_then (if 0 < netting_amount then account_transfer oz dep_account wd_account netting_amount (vv_world v)
               else Ok (vv_world v)) (\<lambda>w.
     and_then (sub256 basis_points wd_fee_bps) (\<lambda>rest.
     and_then (mul_div oz (vv_redemption_rate v) rest basis_points Floor) (\<lambda>withdraw_rate.
     and_then (inc32 (pv_current_update_id (vv_packed v))) (\<lambda>update_id.
       Ok (v\<lparr>vv_packed := (vv_packed v)\<lparr>pv_current_update_id := update_id\<rparr>,
             vv_total_to_withdraw := 0,
             vv_update_infos := (vv_update_infos v)(update_id :=
               \<lparr>ui_withdraw_rate = withdraw_rate, ui_timestamp = to_u64 (block_timestamp ctx),
                ui_withdraw_fee = wd_fee_bps\<rparr>),
             vv_world := w\<rparr>,
           (if 0 < netting_amount then [VvDepositWithdrawNetting netting_amount (block_timestamp ctx)] else [])
             @ [VvUpdateProcessed update_id withdraw_rate (vv_total_to_withdraw v), VvWithdrawFeeUpdated wd_fee_bps],
           ())))))"

definition vv_update ::
  "('t, 'w) vault_env \<Rightarrow> evm_ctx \<Rightarrow> u256 \<Rightarrow> u32 \<Rightarrow> u256 \<Rightarrow> ('t, 'w) valence_vault \<Rightarrow> ('t, 'w, unit) vv_result"
where
  "vv_update oz ctx new_rate wd_fee_bps netting_amount v =
     and_then (vv_only_strategist v ctx) (\<lambda>_.
     and_then (vv_when_not_paused v) (\<lambda>_.
     and_then (validate_update ctx new_rate wd_fee_bps (vv_last_update_timestamp v)
       (vc_max_withdraw_fee_bps (vv_cfg v))) (\<lambda>_.
     and_then (vv_total_assets oz v) (\<lambda>current_assets.
     let current_shares = total_supply oz (vv_shares v)
     in and_then (custom (current_shares \<noteq> 0) ''ZeroShares'') (\<lambda>_.
        and_then (custom (current_assets \<noteq> 0) ''ZeroAssets'') (\<lambda>_.
        and_then (vv_calculate_platform_fees oz v ctx new_rate current_assets current_shares
          (vf_platform_fee_bps (vc_fees (vv_cfg v))) (vv_last_update_timestamp v)) (\<lambda>platform_fees.
        and_then (vv_calculate_performance_fees oz v new_rate current_shares
          (vf_performance_fee_bps (vc_fees (vv_cfg v)))) (\<lambda>performance_fees.
        and_then (if 0 < platform_fees \<or> 0 < performance_fees then
            and_then (add128 platform_fees performance_fees) (\<lambda>new_fees.
            and_then (add128 (vv_fees_owed v) new_fees) (\<lambda>fees.
              Ok (v\<lparr>vv_fees_owed := fees\<rparr>, [VvFeesUpdated platform_fees performance_fees])))
          else Ok (v, [])) (\<lambda>(v1, evs1).
        and_then (vv_distribute_fees oz (vc_fee_distribution (vv_cfg v)) v1) (\<lambda>(v2, evs2, _).
        and_then (handle_withdraws oz ctx wd_fee_bps netting_amount (vc_deposit_account (vv_cfg v))
          (vc_withdraw_account (vv_cfg v)) v2) (\<lambda>(v3, evs3, _).
          let v4 = v3\<lparr>vv_redemption_rate := new_rate, vv_last_update_total_shares := current_shares,
                      vv_last_update_timestamp := to_u64 (block_timestamp ctx)\<rparr>;
              higher = vv_max_historical_rate v4 < new_rate
          in Ok (if higher then v4\<lparr>vv_max_historical_rate := new_rate\<rparr> else v4,
                 evs1 @ evs2 @ evs3 @ (if higher then [VvMaxHistoricalRateUpdated new_rate] else [])
                   @ [VvRateUpdated new_rate], ()))))))))))))"

section \<open>Pausing\<close>

definition vv_pause :: "evm_ctx \<Rightarrow> ('t, 'w) valence_vault \<Rightarrow> ('t, 'w, unit) vv_result" where
  "vv_pause ctx v =
     and_then (vv_only_owner_or_strategist v ctx) (\<lambda>_.
       Ok (v\<lparr>vv_packed := (vv_packed v)\<lparr>pv_pauser := (msg_sender ctx = vv_owner v), pv_paused := True\<rparr>\<rparr>,
           [VvPausedStateChanged True], ()))"

definition vv_unpause :: "evm_ctx \<Rightarrow> ('t, 'w) valence_vault \<Rightarrow> ('t, 'w, unit) vv_result" where
  "vv_unpause ctx v =
     and_then (vv_only_owner_or_strategist v ctx) (\<lambda>_.
     and_then (custom (\<not> (pv_pauser (vv_packed v) \<and> msg_sender ctx \<noteq> vv_owner v)) ''OnlyOwnerCanUnpause'') (\<lambda>_.
       Ok (v\<lparr>vv_packed := (vv_packed v)\<lparr>pv_paused := False\<rparr>\<rparr>, [VvPausedStateChanged False], ())))"

section \<open>Withdrawal requests\<close>

definition has_active_withdraw :: "eth_address \<Rightarrow> ('t, 'w) valence_vault \<Rightarrow> bool" where
  "has_active_withdraw owner v \<longleftrightarrow> vr_owner (vv_requests v owner) \<noteq> zero_address"

definition vv_validate_withdraw_params :: "eth_address \<Rightarrow> eth_address \<Rightarrow> u256 \<Rightarrow> u32 \<Rightarrow> unit evm" where
  "vv_validate_withdraw_params receiver owner amount max_loss_bps =
     and_then (custom (amount \<noteq> 0) ''InvalidAmount'') (\<lambda>_.
     and_then (custom (receiver \<noteq> zero_address) ''InvalidReceiver'') (\<lambda>_.
     and_then (custom (owner \<noteq> zero_address) ''InvalidOwner'') (\<lambda>_.
       custom (max_loss_bps \<le> basis_points) ''InvalidMaxLoss'')))"

definition vv_withdraw_internal ::
  "('t, 'w) vault_env \<Rightarrow> evm_ctx \<Rightarrow> u256 \<Rightarrow> u256 \<Rightarrow> eth_address \<Rightarrow> eth_address \<Rightarrow> u32 \<Rightarrow> bool \<Rightarrow>
   ('t, 'w) valence_vault \<Rightarrow> ('t, 'w, unit) vv_result"
where
  "vv_withdraw_internal oz ctx n assets receiver owner max_loss_bps allow_solver v =
     and_then (custom (\<not> has_active_withdraw owner v) ''WithdrawAlreadyExists'') (\<lambda>_.
     let solver_fee = (if allow_solver then vf_solver_completion_fee (vc_fees (vv_cfg v)) else 0)
     in and_then (if msg_sender ctx \<noteq> owner then spend_allowance oz (vv_shares v) owner (msg_sender ctx) n
                  else Ok (vv_shares v)) (\<lambda>t1.
        and_then (burn_shares oz t1 owner n) (\<lambda>t2.
        and_then (inc32 (pv_current_update_id (vv_packed v))) (\<lambda>update_id.
        and_then (add256 (vv_total_to_withdraw v) assets) (\<lambda>to_withdraw.
        and_then (add256 (block_timestamp ctx) (vc_withdraw_lockup_period (vv_cfg v))) (\<lambda>claim_time.
        and_then (if 0 < solver_fee then
            ensure (msg_value ctx = solver_fee) (CustomError ''InvalidSolverFee'' [msg_value ctx, solver_fee])
          else custom (\<not> 0 < msg_value ctx) ''UnexpectedETH'') (\<lambda>_.
          Ok (v\<lparr>vv_shares := t2, vv_total_to_withdraw := to_withdraw,
                vv_requests := (vv_requests v)(owner :=
                  \<lparr>vr_owner = owner, vr_claim_time = to_u64 claim_time, vr_max_loss_bps = max_loss_bps,
                   vr_receiver = receiver, vr_update_id = update_id, vr_solver_fee = solver_fee,
                   vr_shares_amount = n\<rparr>)\<rparr>,
              [VvWithdrawRequested owner receiver n max_loss_bps allow_solver update_id], ()))))))))"

text \<open>The value sent along is the vault's before the function runs.\<close>

definition receive_value :: "evm_ctx \<Rightarrow> ('t, 'w) valence_vault \<Rightarrow> ('t, 'w) valence_vault" where
  "receive_value ctx v = v\<lparr>vv_eth := vv_eth v + msg_value ctx\<rparr>"

definition vv_withdraw ::
  "('t, 'w) vault_env \<Rightarrow> evm_ctx \<Rightarrow> u256 \<Rightarrow> eth_address \<Rightarrow> eth_address \<Rightarrow> u32 \<Rightarrow> bool \<Rightarrow>
   ('t, 'w) valence_vault \<Rightarrow> ('t, 'w, unit) vv_result"
where
  "vv_withdraw oz ctx assets receiver owner max_loss_bps allow_solver v0 =
     (let v = receive_value ctx v0
      in and_then (vv_when_not_paused v) (\<lambda>_.
         and_then (vv_validate_withdraw_params receiver owner assets max_loss_bps) (\<lambda>_.
         and_then (max_withdraw oz (vv_convert_to_assets oz v) (balance_of oz (vv_shares v) owner)) (\<lambda>max_assets.
         and_then (ensure (assets \<le> max_assets)
           (CustomError ''ERC4626ExceededMaxWithdraw'' [owner, assets, max_assets])) (\<lambda>_.
         and_then (preview_withdraw oz (vv_convert_to_shares oz v) assets) (\<lambda>n.
           vv_withdraw_internal oz ctx n assets receiver owner max_loss_bps allow_solver v))))))"

definition vv_redeem ::
  "('t, 'w) vault_env \<Rightarrow> evm_ctx \<Rightarrow> u256 \<Rightarrow> eth_address \<Rightarrow> eth_address \<Rightarrow> u32 \<Rightarrow> bool \<Rightarrow>
   ('t, 'w) valence_vault \<Rightarrow> ('t, 'w, unit) vv_result"
where
  "vv_redeem oz ctx n receiver owner max_loss_bps allow_solver v0 =
     (let v = receive_value ctx v0
      in and_then (vv_when_not_paused v) (\<lambda>_.
         and_then (vv_validate_withdraw_params receiver owner n max_loss_bps) (\<lambda>_.
         let max_shares = max_redeem oz (balance_of oz (vv_shares v) owner)
         in and_then (ensure (n \<le> max_shares)
              (CustomError ''ERC4626ExceededMaxRedeem'' [owner, n, max_shares])) (\<lambda>_.
            and_then (preview_redeem oz (vv_convert_to_assets oz v) n) (\<lambda>assets.
              vv_withdraw_internal oz ctx n assets receiver owner max_loss_bps allow_solver v)))))"

section \<open>Completion\<close>

definition withdraw_failed ::
  "bool \<Rightarrow> evm_error \<Rightarrow> string \<Rightarrow> ('t, 'w) valence_vault \<Rightarrow> ('t, 'w, vv_withdraw_result) vv_result"
where
  "withdraw_failed revert_on_failure e reason v =
     (if revert_on_failure then Err e
      else Ok (v, [], \<lparr>wres_success = False, wres_assets_to_withdraw = 0, wres_solver_fee = 0,
                       wres_error_reason = reason\<rparr>))"

text \<open>The shares minus the withdraw fee go back to the owner, the assets to the deposit account.\<close>

definition cancel_withdraw ::
  "('t, 'w) vault_env \<Rightarrow> eth_address \<Rightarrow> u256 \<Rightarrow> eth_address \<Rightarrow> eth_address \<Rightarrow> ('t, 'w) valence_vault \<Rightarrow>
   ('t, 'w, vv_withdraw_result) vv_result"
where
  "cancel_withdraw oz owner loss_bps dep_account wd_account v =
     (let request = vv_requests v owner;
          info = vv_update_infos v (vr_update_id request)
      in and_then (sub256 basis_points (ui_withdraw_fee info)) (\<lambda>rest.
         and_then (mul_div oz (vr_shares_amount request) rest basis_points Floor) (\<lambda>refund_shares.
         and_then (mint_shares oz (vv_shares v) owner refund_shares) (\<lambda>t.
         and_then (mul_div oz (vr_shares_amount request) (vv_redemption_rate v) (vv_one_share v) Floor) (\<lambda>assets.
         and_then (account_transfer oz wd_account dep_account assets (vv_world v)) (\<lambda>w.
           Ok (v\<lparr>vv_shares := t, vv_requests := (vv_requests v)(owner := no_request), vv_world := w\<rparr>,
               [VvWithdrawCancelled owner refund_shares loss_bps (vr_max_loss_bps request)],
               \<lparr>wres_success = False, wres_assets_to_withdraw = 0, wres_solver_fee = 0,
                wres_error_reason = ''Loss exceeds maximum''\<rparr>)))))))"

definition pay_withdraw ::
  "('t, 'w) vault_env \<Rightarrow> evm_ctx \<Rightarrow> bool \<Rightarrow> eth_address \<Rightarrow> u256 \<Rightarrow> eth_address \<Rightarrow> ('t, 'w) valence_vault \<Rightarrow>
   ('t, 'w, vv_withdraw_result) vv_result"
where
  "pay_withdraw oz ctx revert_on_failure owner assets wd_account v =
     (let request = vv_requests v owner
      in case account_transfer oz wd_account (vr_receiver request) assets (vv_world v) of
           Ok w \<Rightarrow>
             Ok (v\<lparr>vv_requests := (vv_requests v)(owner := no_request), vv_world := w\<rparr>,
                 [VvWithdrawCompleted owner (vr_receiver request) assets (vr_shares_amount request) (msg_sender ctx)],
                 \<lparr>wres_success = True, wres_assets_to_withdraw = assets, wres_solver_fee = vr_solver_fee request,
                  wres_error_reason = []\<rparr>)
         | Err _ \<Rightarrow>
             withdraw_failed revert_on_failure (Revert ''Asset transfer failed'') ''Asset transfer failed'' v)"

definition process_withdraw_complete ::
  "('t, 'w) vault_env \<Rightarrow> evm_ctx \<Rightarrow> eth_address \<Rightarrow> bool \<Rightarrow> eth_address \<Rightarrow> eth_address \<Rightarrow>
   ('t, 'w) valence_vault \<Rightarrow> ('t, 'w, vv_withdraw_result) vv_result"
where
  "process_withdraw_complete oz ctx owner revert_on_failure dep_account wd_account v =
     (let request = vv_requests v owner;
          info = vv_update_infos v (vr_update_id request)
      in if vr_shares_amount request = 0 then
           withdraw_failed revert_on_failure (CustomError ''WithdrawRequestNotFound'' []) ''Request not found'' v
         else if msg_sender ctx \<noteq> vr_owner request \<and> vr_solver_fee request = 0 then
           withdraw_failed revert_on_failure (CustomError ''SolverNotAllowed'' []) ''Solver not allowed'' v
         else if block_timestamp ctx < vr_claim_time request then
           withdraw_failed revert_on_failure (CustomError ''WithdrawNotClaimable'' []) ''Not claimable yet'' v
         else if ui_timestamp info = 0 then
           withdraw_failed revert_on_failure (CustomError ''NoUpdateForRequest'' []) ''Update not found'' v
         else
           and_then (sub256 basis_points (ui_withdraw_fee info)) (\<lambda>rest.
           and_then (mul_div oz (vv_redemption_rate v) rest basis_points Floor) (\<lambda>current_rate.
             if current_rate < ui_withdraw_rate info then
               and_then (mul_div oz (ui_withdraw_rate info - current_rate) basis_points
                   (ui_withdraw_rate info) Floor) (\<lambda>loss_bps.
                 if vr_max_loss_bps request < loss_bps then
                   cancel_withdraw oz owner loss_bps dep_account wd_account v
                 else
                   and_then (mul_div oz (vr_shares_amount request) current_rate (vv_one_share v) Floor) (\<lambda>assets.
                     pay_withdraw oz ctx revert_on_failure owner assets wd_account v))
             else
               and_then (mul_div oz (vr_shares_amount request) (ui_withdraw_rate info) (vv_one_share v) Floor) (\<lambda>assets.
                 pay_withdraw oz ctx revert_on_failure owner assets wd_account v))))"

definition pay_solver ::
  "('t, 'w) vault_env \<Rightarrow> evm_ctx \<Rightarrow> u256 \<Rightarrow> ('t, 'w) valence_vault \<Rightarrow> ('t, 'w) valence_vault evm"
where
  "pay_solver oz ctx fee v =
     (if 0 < fee then
        (if vv_eth v < fee then Err (CustomError ''SolverFeeTransferFailed'' [])
         else
           (case pay_eth oz (msg_sender ctx) fee (vv_world v) of
              Some w \<Rightarrow> Ok (v\<lparr>vv_eth := vv_eth v - fee, vv_world := w\<rparr>)
            | None \<Rightarrow> Err (CustomError ''SolverFeeTransferFailed'' [])))
      else Ok v)"

definition complete_withdraw ::
  "('t, 'w) vault_env \<Rightarrow> evm_ctx \<Rightarrow> eth_address \<Rightarrow> ('t, 'w) valence_vault \<Rightarrow> ('t, 'w, unit) vv_result"
where
  "complete_withdraw oz ctx owner v =
     and_then (vv_when_not_paused v) (\<lambda>_.
     and_then (process_withdraw_complete oz ctx owner True (vc_deposit_account (vv_cfg v))
         (vc_withdraw_account (vv_cfg v)) v) (\<lambda>(v1, evs, r).
     and_then (pay_solver oz ctx (wres_solver_fee r) v1) (\<lambda>v2.
       Ok (v2, evs, ()))))"

definition complete_next ::
  "('t, 'w) vault_env \<Rightarrow> evm_ctx \<Rightarrow> ('t, 'w) valence_vault \<times> vv_event list \<times> u256 \<Rightarrow> eth_address \<Rightarrow>
   ('t, 'w, u256) vv_result"
where
  "complete_next oz ctx s owner =
     (case s of (v, evs, fees) \<Rightarrow>
        and_then (process_withdraw_complete oz ctx owner False (vc_deposit_account (vv_cfg v))
            (vc_withdraw_account (vv_cfg v)) v) (\<lambda>(v1, evs1, r).
          if wres_success r then
            and_then (add256 fees (wres_solver_fee r)) (\<lambda>fees1. Ok (v1, evs @ evs1, fees1))
          else Ok (v1, evs @ evs1 @ [VvWithdrawCompletionSkipped owner (wres_error_reason r)], fees)))"

definition complete_withdraws ::
  "('t, 'w) vault_env \<Rightarrow> evm_ctx \<Rightarrow> eth_address list \<Rightarrow> ('t, 'w) valence_vault \<Rightarrow> ('t, 'w, unit) vv_result"
where
  "complete_withdraws oz ctx owners v =
     and_then (vv_when_not_paused v) (\<lambda>_.
     and_then (try_fold (complete_next oz ctx) (v, [], 0) owners) (\<lambda>(v1, evs, fees).
     and_then (pay_solver oz ctx fees v1) (\<lambda>v2.
       Ok (v2, evs, ()))))"

section \<open>The entry points\<close>

datatype vv_call =
    VvCallDeposit u256 eth_address
  | VvCallMint u256 eth_address
  | VvCallWithdraw u256 eth_address eth_address u32 bool
  | VvCallRedeem u256 eth_address eth_address u32 bool
  | VvCallCompleteWithdraw eth_address
  | VvCallCompleteWithdraws "eth_address list"
  | VvCallUpdate u256 u32 u256
  | VvCallPause
  | VvCallUnpause
  | VvCallUpdateConfig bytes
  | VvCallInherited bytes

definition vv_discard :: "('t, 'w, 'a) vv_result \<Rightarrow> (('t, 'w) valence_vault \<times> vv_event list) evm" where
  "vv_discard m = map_ok (\<lambda>(v, evs, _). (v, evs)) m"

definition vv_execute ::
  "('t, 'w) vault_env \<Rightarrow> (bytes \<Rightarrow> vv_config evm) \<Rightarrow> evm_ctx \<Rightarrow> vv_call \<Rightarrow> ('t, 'w) valence_vault \<Rightarrow>
   (('t, 'w) valence_vault \<times> vv_event list) evm"
where
  "vv_execute oz decode ctx c v =
     (case c of
        VvCallDeposit assets receiver \<Rightarrow> vv_discard (vv_deposit oz ctx assets receiver v)
      | VvCallMint n receiver \<Rightarrow> vv_discard (vv_mint oz ctx n receiver v)
      | VvCallWithdraw assets receiver owner loss solver \<Rightarrow>
          vv_discard (vv_withdraw oz ctx assets receiver owner loss solver v)
      | VvCallRedeem n receiver owner loss solver \<Rightarrow> vv_discard (vv_redeem oz ctx n receiver owner loss solver v)
      | VvCallCompleteWithdraw owner \<Rightarrow> vv_discard (complete_withdraw oz ctx owner v)
      | VvCallCompleteWithdraws owners \<Rightarrow> vv_discard (complete_withdraws oz ctx owners v)
      | VvCallUpdate new_rate fee netting \<Rightarrow> vv_discard (vv_update oz ctx new_rate fee netting v)
      | VvCallPause \<Rightarrow> vv_discard (vv_pause ctx v)
      | VvCallUnpause \<Rightarrow> vv_discard (vv_unpause ctx v)
      | VvCallUpdateConfig cfg \<Rightarrow> vv_discard (vv_update_config oz decode ctx cfg v)
      | VvCallInherited call_data \<Rightarrow>
          map_ok (\<lambda>(t, owner). (v\<lparr>vv_shares := t, vv_owner := owner\<rparr>, []))
            (inherited_call oz ctx call_data (vv_shares v, vv_owner v)))"

end
