(* ===== verification/One_Way_Vault_Props.thy ===== *)
theory One_Way_Vault_Props
  imports One_Way_Vault
begin

text \<open>
  Correctness of the one-way vault. Case rules say what a successful call has checked and changed.
  \<open>vault_value_conserved\<close>: while the rate stays, what the vault owes (shares, fees, requests, at that
  rate) grows only by what is deposited and by less than one share per request; requests get
  consecutive ids and never change. \<open>vault_guards\<close>: who changes the rate, when and by how much, and
  that nothing is deposited or withdrawn while the vault is paused or its rate is stale.
\<close>

section \<open>Rounding\<close>

lemma oz_okD:
  assumes "oz_ok oz"
  shows "mul_div oz a b c Floor = Ok x \<Longrightarrow> c \<noteq> 0 \<and> x * c \<le> a * b"
    and "mul_div oz a b c Ceil = Ok x \<Longrightarrow> c \<noteq> 0 \<and> a * b \<le> x * c \<and> x * c < a * b + c"
    and "preview_deposit oz conv n = conv n Floor"
    and "preview_mint oz conv n = conv n Ceil"
    and "preview_withdraw oz conv n = conv n Ceil"
    and "mint_shares oz t y n = Ok t' \<Longrightarrow> total_supply oz t' = total_supply oz t + n"
    and "burn_shares oz t y n = Ok t' \<Longrightarrow> total_supply oz t = total_supply oz t' + n"
    and "spend_allowance oz t y z n = Ok t' \<Longrightarrow> total_supply oz t' = total_supply oz t"
    and "inherited_call oz ctx d (t, y) = Ok (t', y') \<Longrightarrow> total_supply oz t' \<le> total_supply oz t"
    and "oz_check_owner oz y z = Ok u \<Longrightarrow> z = y"
proof -
  have floor: "m div c * c \<le> m" for m c :: nat by (rule div_times_less_eq_dividend)
  have ceil: "m \<le> (m + (c - 1)) div c * c \<and> (m + (c - 1)) div c * c < m + c" if "c \<noteq> 0" for m c :: nat
    using that mod_less_divisor [of c "m + (c - 1)"] div_mult_mod_eq [of "m + (c - 1)" c] by linarith
  note ok = assms [unfolded oz_ok_def mul_div_ok_def]
  from ok show "mul_div oz a b c Floor = Ok x \<Longrightarrow> c \<noteq> 0 \<and> x * c \<le> a * b"
    using floor by simp
  from ok show "mul_div oz a b c Ceil = Ok x \<Longrightarrow> c \<noteq> 0 \<and> a * b \<le> x * c \<and> x * c < a * b + c"
    using ceil by simp
  from ok show "preview_deposit oz conv n = conv n Floor" "preview_mint oz conv n = conv n Ceil"
    "preview_withdraw oz conv n = conv n Ceil"
    "mint_shares oz t y n = Ok t' \<Longrightarrow> total_supply oz t' = total_supply oz t + n"
    "spend_allowance oz t y z n = Ok t' \<Longrightarrow> total_supply oz t' = total_supply oz t"
    by auto
  from ok show "inherited_call oz ctx d (t, y) = Ok (t', y') \<Longrightarrow> total_supply oz t' \<le> total_supply oz t"
    by blast
  from ok show "oz_check_owner oz y z = Ok u \<Longrightarrow> z = y" by auto
  from ok show "burn_shares oz t y n = Ok t' \<Longrightarrow> total_supply oz t = total_supply oz t' + n"
    by (metis add.commute le_add_diff_inverse)
qed

section \<open>What a successful call has checked and done\<close>

lemma accrue_fee_Ok: "accrue_fee fee v = Ok v' \<Longrightarrow> v' = v\<lparr>fees_accrued_in_asset := fees_accrued_in_asset v + fee\<rparr>"
  by (auto simp: accrue_fee_def and_then_Ok_iff evm_arith_Ok_iff split: if_splits)

definition stale_rate :: "evm_ctx \<Rightarrow> 't vault \<Rightarrow> bool" where
  "stale_rate ctx v \<longleftrightarrow>
     max_rate_update_delay (vault_cfg v) < to_u64 (block_timestamp ctx) - last_rate_update_timestamp v"

definition stale_paused :: "'t vault \<Rightarrow> 't vault" where
  "stale_paused v = v\<lparr>vault_status := (vault_status v)\<lparr>paused := True, paused_by_stale_rate := True\<rparr>\<rparr>"

definition stale_events :: "evm_ctx \<Rightarrow> 't vault \<Rightarrow> vault_event list" where
  "stale_events ctx v =
     [PausedStateChanged True, StaleRatePaused (last_rate_update_timestamp v) (to_u64 (block_timestamp ctx))]"

lemma check_stale_Ok:
  "check_and_handle_stale_rate ctx v = Ok (v', evs, b) \<longleftrightarrow>
     last_rate_update_timestamp v \<le> to_u64 (block_timestamp ctx) \<and> b = stale_rate ctx v
   \<and> v' = (if b then stale_paused v else v) \<and> evs = (if b then stale_events ctx v else [])"
  by (auto simp: check_and_handle_stale_rate_def and_then_Ok_iff evm_arith_Ok_iff stale_rate_def
      stale_paused_def stale_events_def split: if_splits)

lemma deposit_cases:
  assumes "deposit oz ctx assets receiver v = Ok (v', evs, n)" and "oz_ok oz"
  obtains (stale) "\<not> paused (vault_status v)" "stale_rate ctx v" "v' = stale_paused v" "evs = stale_events ctx v"
  | (normal) fee t' where "\<not> paused (vault_status v)" "\<not> stale_rate ctx v"
      "fee \<le> assets" "n * redemption_rate v \<le> (assets - fee) * one_share v"
      "mint_shares oz (shares v) receiver n = Ok t'"
      "v' = v\<lparr>fees_accrued_in_asset := fees_accrued_in_asset v + fee, shares := t'\<rparr>"
      "evs = [AssetTransferred (msg_sender ctx) (deposit_account (vault_cfg v)) assets,
              Deposited (msg_sender ctx) receiver assets n]"
proof (cases "stale_rate ctx v")
  case True
  with assms(1) show thesis
    by (intro stale) (auto simp: deposit_def and_then_Ok_iff ensure_Ok_iff when_not_paused_def check_stale_Ok)
next
  case False
  with assms(1) obtain fee v2 where unpaused: "\<not> paused (vault_status v)"
    and fee: "fee \<le> assets" and v2: "accrue_fee fee v = Ok v2"
    and n: "preview_deposit oz (convert_to_shares oz v2) (assets - fee) = Ok n"
    and d: "deposit_internal oz (msg_sender ctx) receiver assets n v2 = Ok (v', evs, ())"
    by (auto simp: deposit_def and_then_Ok_iff ensure_Ok_iff when_not_paused_def check_stale_Ok evm_arith_Ok_iff)
  from accrue_fee_Ok [OF v2] have eq: "v2 = v\<lparr>fees_accrued_in_asset := fees_accrued_in_asset v + fee\<rparr>" .
  from n have "mul_div oz (assets - fee) (one_share v) (redemption_rate v) Floor = Ok n"
    by (simp add: oz_okD(3) [OF assms(2)] convert_to_shares_def eq)
  from oz_okD(1) [OF assms(2) this] have "n * redemption_rate v \<le> (assets - fee) * one_share v" by simp
  with unpaused False fee d show thesis
    by (auto simp: deposit_internal_def and_then_Ok_iff eq intro: normal)
qed

lemma mint_cases:
  assumes "vault_mint oz ctx n receiver v = Ok (v', evs, assets)" and "oz_ok oz"
  obtains (stale) "\<not> paused (vault_status v)" "stale_rate ctx v" "v' = stale_paused v" "evs = stale_events ctx v"
  | (normal) fee t' where "\<not> paused (vault_status v)" "\<not> stale_rate ctx v"
      "fee \<le> assets" "n * redemption_rate v \<le> (assets - fee) * one_share v"
      "mint_shares oz (shares v) receiver n = Ok t'"
      "v' = v\<lparr>fees_accrued_in_asset := fees_accrued_in_asset v + fee, shares := t'\<rparr>"
      "evs = [AssetTransferred (msg_sender ctx) (deposit_account (vault_cfg v)) assets,
              Deposited (msg_sender ctx) receiver assets n]"
proof (cases "stale_rate ctx v")
  case True
  with assms(1) show thesis
    by (intro stale) (auto simp: vault_mint_def and_then_Ok_iff ensure_Ok_iff when_not_paused_def check_stale_Ok)
next
  case False
  with assms(1) obtain fee v2 where unpaused: "\<not> paused (vault_status v)"
    and calc: "calculate_mint_fee oz v n = Ok (assets, fee)" and v2: "accrue_fee fee v = Ok v2"
    and d: "deposit_internal oz (msg_sender ctx) receiver assets n v2 = Ok (v', evs, ())"
    by (auto simp: vault_mint_def and_then_Ok_iff ensure_Ok_iff when_not_paused_def check_stale_Ok)
  from accrue_fee_Ok [OF v2] have eq: "v2 = v\<lparr>fees_accrued_in_asset := fees_accrued_in_asset v + fee\<rparr>" .
  from calc obtain base where base: "mul_div oz n (redemption_rate v) (one_share v) Ceil = Ok base"
    and gross: "fee \<le> assets \<and> assets - fee = base"
    by (auto simp: calculate_mint_fee_def and_then_Ok_iff Let_def oz_okD(4) [OF assms(2)]
        convert_to_assets_def evm_arith_Ok_iff split: if_splits)
  from oz_okD(2) [OF assms(2) base] gross have "n * redemption_rate v \<le> (assets - fee) * one_share v" by simp
  with unpaused False gross d show thesis
    by (auto simp: deposit_internal_def and_then_Ok_iff eq intro: normal)
qed

text \<open>A request: the shares burned are worth the request and the fee, but for less than one share.\<close>

lemma withdraw_internal_Ok:
  assumes "withdraw_internal oz ctx burned requested receiver owner v = Ok (v', evs, u)" and "oz_ok oz"
  obtains t' where "total_supply oz (shares v) = total_supply oz t' + burned"
    "v' = v\<lparr>shares := t', withdraw_requests := (withdraw_requests v)(current_withdraw_request_id v \<mapsto>
             \<lparr>wr_id = current_withdraw_request_id v, wr_owner = owner, wr_redemption_rate = redemption_rate v,
              wr_shares_amount = requested, wr_receiver = receiver\<rparr>),
           current_withdraw_request_id := current_withdraw_request_id v + 1\<rparr>"
    "evs = [WithdrawRequested (current_withdraw_request_id v) owner receiver requested]"
proof -
  from assms(1) obtain t1 t2 where t1: "t1 = shares v \<or> spend_allowance oz (shares v) owner (msg_sender ctx) burned = Ok t1"
    and t2: "burn_shares oz t1 owner burned = Ok t2"
    and rest: "v' = v\<lparr>shares := t2, withdraw_requests := (withdraw_requests v)(current_withdraw_request_id v \<mapsto>
             \<lparr>wr_id = current_withdraw_request_id v, wr_owner = owner, wr_redemption_rate = redemption_rate v,
              wr_shares_amount = requested, wr_receiver = receiver\<rparr>),
           current_withdraw_request_id := current_withdraw_request_id v + 1\<rparr>"
      "evs = [WithdrawRequested (current_withdraw_request_id v) owner receiver requested]"
    by (auto simp: withdraw_internal_def and_then_Ok_iff evm_arith_Ok_iff Let_def split: if_splits)
  from t1 oz_okD(8) [OF assms(2)] have "total_supply oz t1 = total_supply oz (shares v)" by auto
  with oz_okD(7) [OF assms(2) t2] rest that show thesis by simp
qed

lemma withdraw_cases:
  assumes "withdraw oz ctx assets receiver owner v = Ok (v', evs, u)" and "oz_ok oz"
  obtains (stale) "\<not> paused (vault_status v)" "stale_rate ctx v" "v' = stale_paused v" "evs = stale_events ctx v"
  | (normal) fee burned requested where "\<not> paused (vault_status v)" "\<not> stale_rate ctx v"
      "redemption_rate v * requested + one_share v * fee < redemption_rate v * burned + redemption_rate v"
      "withdraw_internal oz ctx burned requested receiver owner
         (v\<lparr>fees_accrued_in_asset := fees_accrued_in_asset v + fee\<rparr>) = Ok (v', evs, ())"
proof (cases "stale_rate ctx v")
  case True
  with assms(1) show thesis
    by (intro stale) (auto simp: withdraw_def and_then_Ok_iff ensure_Ok_iff when_not_paused_def check_stale_Ok)
next
  case False
  with assms(1) obtain fee burned requested v2 where unpaused: "\<not> paused (vault_status v)"
    and fee: "fee \<le> assets" and v2: "accrue_fee fee v = Ok v2"
    and conv: "preview_withdraw oz (convert_to_shares oz v) assets = Ok burned"
      "preview_withdraw oz (convert_to_shares oz v) (assets - fee) = Ok requested"
    and w: "withdraw_internal oz ctx burned requested receiver owner v2 = Ok (v', evs, ())"
    by (auto simp: withdraw_def and_then_Ok_iff ensure_Ok_iff when_not_paused_def check_stale_Ok evm_arith_Ok_iff)
  from conv have "mul_div oz assets (one_share v) (redemption_rate v) Ceil = Ok burned"
    "mul_div oz (assets - fee) (one_share v) (redemption_rate v) Ceil = Ok requested"
    by (simp_all add: oz_okD(5) [OF assms(2)] convert_to_shares_def)
  from this [THEN oz_okD(2) [OF assms(2)]]
  have "assets * one_share v \<le> burned * redemption_rate v"
    "requested * redemption_rate v < (assets - fee) * one_share v + redemption_rate v" by simp_all
  moreover have "(assets - fee) * one_share v + fee * one_share v = assets * one_share v"
    using fee by (metis add_mult_distrib le_add_diff_inverse2)
  ultimately have "redemption_rate v * requested + one_share v * fee < redemption_rate v * burned + redemption_rate v"
    by (simp add: mult.commute)
  with unpaused False w accrue_fee_Ok [OF v2] show thesis by (intro normal) auto
qed

lemma redeem_cases:
  assumes "redeem oz ctx n receiver owner v = Ok (v', evs, u)" and "oz_ok oz"
  obtains (stale) "\<not> paused (vault_status v)" "stale_rate ctx v" "v' = stale_paused v" "evs = stale_events ctx v"
  | (normal) fee requested where "\<not> paused (vault_status v)" "\<not> stale_rate ctx v"
      "redemption_rate v * requested + one_share v * fee < redemption_rate v * n + redemption_rate v"
      "withdraw_internal oz ctx n requested receiver owner
         (v\<lparr>fees_accrued_in_asset := fees_accrued_in_asset v + fee\<rparr>) = Ok (v', evs, ())"
proof (cases "stale_rate ctx v")
  case True
  with assms(1) show thesis
    by (intro stale) (auto simp: redeem_def and_then_Ok_iff ensure_Ok_iff when_not_paused_def check_stale_Ok)
next
  case False
  with assms(1) obtain gross fee requested v2 where unpaused: "\<not> paused (vault_status v)"
    and gross: "convert_to_assets oz v n Floor = Ok gross"
    and fee: "fee \<le> gross" and v2: "accrue_fee fee v = Ok v2"
    and conv: "convert_to_shares oz v (gross - fee) Ceil = Ok requested"
    and w: "withdraw_internal oz ctx n requested receiver owner v2 = Ok (v', evs, ())"
    by (auto simp: redeem_def and_then_Ok_iff ensure_Ok_iff when_not_paused_def check_stale_Ok evm_arith_Ok_iff Let_def)
  from oz_okD(1) [OF assms(2) gross [unfolded convert_to_assets_def]]
    oz_okD(2) [OF assms(2) conv [unfolded convert_to_shares_def]]
  have "gross * one_share v \<le> n * redemption_rate v"
    "requested * redemption_rate v < (gross - fee) * one_share v + redemption_rate v" by simp_all
  moreover have "(gross - fee) * one_share v + fee * one_share v = gross * one_share v"
    using fee by (metis add_mult_distrib le_add_diff_inverse2)
  ultimately have "redemption_rate v * requested + one_share v * fee < redemption_rate v * n + redemption_rate v"
    by (simp add: mult.commute)
  with unpaused False w accrue_fee_Ok [OF v2] show thesis by (intro normal) auto
qed

lemma distribute_fees_Ok:
  assumes "distribute_fees oz fd v = Ok (v', evs, u)" and "oz_ok oz"
  obtains t n where "v' = v\<lparr>shares := t, fees_accrued_in_asset := 0\<rparr>"
    "total_supply oz t = total_supply oz (shares v) + n"
    "n * redemption_rate v \<le> fees_accrued_in_asset v * one_share v"
    "\<forall>e \<in> set evs. \<exists>a b x y. e = FeesDistributed a b x y"
proof (cases "fees_accrued_in_asset v = 0")
  case True
  with assms(1) have "v' = v\<lparr>shares := shares v, fees_accrued_in_asset := 0\<rparr>" "evs = []"
    by (simp_all add: distribute_fees_def)
  then show thesis by (intro that [of "shares v" 0]) auto
next
  case False
  with assms(1) obtain x n1 n2 t1 t2 where x: "x \<le> fees_accrued_in_asset v"
    and n1: "mul_div oz x (one_share v) (redemption_rate v) Floor = Ok n1"
    and n2: "mul_div oz (fees_accrued_in_asset v - x) (one_share v) (redemption_rate v) Floor = Ok n2"
    and t1: "mint_if_positive oz (strategist_account fd) n1 (shares v) = Ok t1"
    and t2: "mint_if_positive oz (platform_account fd) n2 t1 = Ok t2"
    and v': "v' = v\<lparr>shares := t2, fees_accrued_in_asset := 0\<rparr>"
    and evs: "evs = [FeesDistributed (strategist_account fd) (platform_account fd) n1 n2]"
    by (auto simp: distribute_fees_def Let_def and_then_Ok_iff evm_arith_Ok_iff convert_to_shares_def)
  have minted: "total_supply oz t' = total_supply oz t + n" if "mint_if_positive oz a n t = Ok t'" for a n t t'
    using that oz_okD(6) [OF assms(2)] by (auto simp: mint_if_positive_def split: if_splits)
  have "n1 * redemption_rate v \<le> x * one_share v"
    "n2 * redemption_rate v \<le> (fees_accrued_in_asset v - x) * one_share v"
    using oz_okD(1) [OF assms(2) n1] oz_okD(1) [OF assms(2) n2] by simp_all
  moreover have "(fees_accrued_in_asset v - x) * one_share v + x * one_share v = fees_accrued_in_asset v * one_share v"
    using x by (metis add_mult_distrib le_add_diff_inverse2)
  ultimately have "(n1 + n2) * redemption_rate v \<le> fees_accrued_in_asset v * one_share v"
    by (simp add: add_mult_distrib)
  with v' evs minted [OF t1] minted [OF t2] show thesis
    by (intro that [of t2 "n1 + n2"]) auto
qed

definition rate_within :: "vault_config \<Rightarrow> u256 \<Rightarrow> u256 \<Rightarrow> bool" where
  "rate_within cfg rate new_rate \<longleftrightarrow>
     new_rate * basis_points \<le> rate * (basis_points + max_rate_increment_bps cfg)
   \<and> rate * basis_points \<le> new_rate * basis_points + rate * max_rate_decrement_bps cfg"

lemma check_rate_change_within: "check_rate_change v n = Ok u \<Longrightarrow> rate_within (vault_cfg v) (redemption_rate v) n"
proof -
  assume ok: "check_rate_change v n = Ok u"
  have le: "x * basis_points \<le> p" if "x \<le> p div basis_points" for x p :: nat
    using that div_times_less_eq_dividend [of p basis_points] by (meson le_trans mult_le_mono1)
  consider "redemption_rate v < n" | "n < redemption_rate v" | "n = redemption_rate v" by linarith
  then show ?thesis
  proof cases
    case 1
    with ok have "(n - redemption_rate v) * basis_points \<le> redemption_rate v * max_rate_increment_bps (vault_cfg v)"
      by (intro le) (auto simp: check_rate_change_def Let_def and_then_Ok_iff ensure_Ok_iff evm_arith_Ok_iff)
    with 1 show ?thesis by (simp add: rate_within_def diff_mult_distrib add_mult_distrib2)
  next
    case 2
    with ok have "(redemption_rate v - n) * basis_points \<le> redemption_rate v * max_rate_decrement_bps (vault_cfg v)"
      by (intro le) (auto simp: check_rate_change_def Let_def and_then_Ok_iff ensure_Ok_iff evm_arith_Ok_iff)
    with 2 show ?thesis by (simp add: rate_within_def diff_mult_distrib add_mult_distrib2)
  qed (simp add: rate_within_def)
qed

lemma update_rate_Ok:
  assumes "update_rate oz ctx new_rate v = Ok (v', evs, u)" and "oz_ok oz"
  obtains t n where "msg_sender ctx = strategist (vault_cfg v)"
    "paused (vault_status v) \<longrightarrow> paused_by_stale_rate (vault_status v)"
    "min_rate_update_delay (vault_cfg v) + last_rate_update_timestamp v \<le> to_u64 (block_timestamp ctx)"
    "new_rate \<noteq> 0" "rate_within (vault_cfg v) (redemption_rate v) new_rate"
    "v' = v\<lparr>shares := t, fees_accrued_in_asset := 0, redemption_rate := new_rate,
           last_rate_update_timestamp := to_u64 (block_timestamp ctx)\<rparr>"
    "total_supply oz t = total_supply oz (shares v) + n"
    "n * redemption_rate v \<le> fees_accrued_in_asset v * one_share v"
    "\<forall>e \<in> set evs. (\<exists>a b x y. e = FeesDistributed a b x y) \<or> e = RateUpdated new_rate"
proof -
  from assms(1) obtain v1 evs1 where
    guards: "msg_sender ctx = strategist (vault_cfg v)"
      "paused (vault_status v) \<longrightarrow> paused_by_stale_rate (vault_status v)"
      "min_rate_update_delay (vault_cfg v) + last_rate_update_timestamp v \<le> to_u64 (block_timestamp ctx)"
      "new_rate \<noteq> 0"
    and change: "check_rate_change v new_rate = Ok ()"
    and fees: "distribute_fees oz (fee_distribution (vault_cfg v)) v = Ok (v1, evs1, ())"
    and v': "v' = v1\<lparr>redemption_rate := new_rate, last_rate_update_timestamp := to_u64 (block_timestamp ctx)\<rparr>"
    and evs: "evs = evs1 @ [RateUpdated new_rate]"
    by (auto simp: update_rate_def only_strategist_def when_not_manually_paused_def and_then_Ok_iff ensure_Ok_iff
        evm_arith_Ok_iff)
  from fees assms(2) show thesis
  proof (cases rule: distribute_fees_Ok)
    case (1 t n)
    with guards check_rate_change_within [OF change] v' evs show thesis
      by (intro that [of t n]) auto
  qed
qed

section \<open>Value\<close>

definition deposited :: "vault_event list \<Rightarrow> u256" where
  "deposited evs = sum_list (map (\<lambda>e. case e of AssetTransferred _ _ n \<Rightarrow> n | _ \<Rightarrow> 0) evs)"

definition requests :: "vault_event list \<Rightarrow> vault_event list" where
  "requests evs = filter (\<lambda>e. case e of WithdrawRequested _ _ _ _ \<Rightarrow> True | _ \<Rightarrow> False) evs"

definition requested :: "vault_event list \<Rightarrow> u256" where
  "requested evs = sum_list (map (\<lambda>e. case e of WithdrawRequested _ _ _ n \<Rightarrow> n | _ \<Rightarrow> 0) evs)"

text \<open>What the vault owes at a rate, in units of the asset times those of a share.\<close>

definition owed_at :: "'t openzeppelin \<Rightarrow> u256 \<Rightarrow> 't vault \<Rightarrow> nat" where
  "owed_at oz rate v = rate * total_supply oz (shares v) + one_share v * fees_accrued_in_asset v"

definition stored_request :: "u256 \<Rightarrow> 't vault \<Rightarrow> vault_event \<Rightarrow> bool" where
  "stored_request rate v e =
     (case e of
        WithdrawRequested i owner receiver n \<Rightarrow>
          withdraw_requests v i = Some \<lparr>wr_id = i, wr_owner = owner, wr_redemption_rate = rate,
            wr_shares_amount = n, wr_receiver = receiver\<rparr>
      | _ \<Rightarrow> True)"

definition request_id :: "vault_event \<Rightarrow> u64" where
  "request_id e = (case e of WithdrawRequested i _ _ _ \<Rightarrow> i | _ \<Rightarrow> 0)"

lemma event_simps [simp]:
  "deposited [] = 0" "requests [] = []" "requested [] = 0"
  "deposited (e # evs) = (case e of AssetTransferred _ _ n \<Rightarrow> n | _ \<Rightarrow> 0) + deposited evs"
  "requested (e # evs) = (case e of WithdrawRequested _ _ _ n \<Rightarrow> n | _ \<Rightarrow> 0) + requested evs"
  "requests (e # evs) = (case e of WithdrawRequested _ _ _ _ \<Rightarrow> [e] | _ \<Rightarrow> []) @ requests evs"
  "deposited (evs @ evs') = deposited evs + deposited evs'"
  "requested (evs @ evs') = requested evs + requested evs'"
  "requests (evs @ evs') = requests evs @ requests evs'"
  by (auto simp: deposited_def requested_def requests_def split: vault_event.splits)

lemma quiet_events:
  assumes "\<forall>e \<in> set evs. (\<exists>a b x y. e = FeesDistributed a b x y) \<or> (\<exists>n. e = RateUpdated n)"
  shows "deposited evs = 0" "requests evs = []" "requested evs = 0"
  using assms by (induction evs) auto

text \<open>The effect of a call on what is owed and on the requests.\<close>

definition call_effect :: "'t openzeppelin \<Rightarrow> 't vault \<Rightarrow> 't vault \<Rightarrow> vault_event list \<Rightarrow> bool" where
  "call_effect oz v v' evs \<longleftrightarrow>
     one_share v' = one_share v
   \<and> owed_at oz (redemption_rate v) v' + redemption_rate v * requested evs
       \<le> owed_at oz (redemption_rate v) v + one_share v * deposited evs
         + redemption_rate v * length (requests evs)
   \<and> map request_id (requests evs) = [current_withdraw_request_id v ..< current_withdraw_request_id v']
   \<and> current_withdraw_request_id v \<le> current_withdraw_request_id v'
   \<and> (\<forall>i < current_withdraw_request_id v. withdraw_requests v' i = withdraw_requests v i)
   \<and> (\<forall>e \<in> set (requests evs). stored_request (redemption_rate v) v' e)"

lemma effect_stale: "call_effect oz v (stale_paused v) (stale_events ctx v)"
  by (simp add: call_effect_def stale_paused_def stale_events_def owed_at_def)

lemma effect_deposit:
  assumes "fee \<le> assets" "n * redemption_rate v \<le> (assets - fee) * one_share v"
    "mint_shares oz (shares v) receiver n = Ok t'" "oz_ok oz"
    "v' = v\<lparr>fees_accrued_in_asset := fees_accrued_in_asset v + fee, shares := t'\<rparr>"
    "evs = [AssetTransferred a b assets, Deposited a receiver assets n]"
  shows "call_effect oz v v' evs"
proof -
  have "(assets - fee) * one_share v + fee * one_share v = assets * one_share v"
    using assms(1) by (metis add_mult_distrib le_add_diff_inverse2)
  with assms(2) have "redemption_rate v * n + one_share v * fee \<le> one_share v * assets"
    by (simp add: mult.commute)
  with oz_okD(6) [OF assms(4,3)] assms(5,6) show ?thesis
    by (simp add: call_effect_def owed_at_def add_mult_distrib2)
qed

lemma effect_withdraw:
  assumes "redemption_rate v * n + one_share v * fee < redemption_rate v * burned + redemption_rate v"
    and "withdraw_internal oz ctx burned n receiver owner
      (v\<lparr>fees_accrued_in_asset := fees_accrued_in_asset v + fee\<rparr>) = Ok (v', evs, ())" and "oz_ok oz"
  shows "call_effect oz v v' evs"
  using assms(2,3)
proof (cases rule: withdraw_internal_Ok)
  case (1 t')
  then have "redemption_rate v * total_supply oz (shares v)
      = redemption_rate v * total_supply oz t' + redemption_rate v * burned"
    by (simp add: add_mult_distrib2)
  with assms(1) 1 show ?thesis
    by (simp add: call_effect_def owed_at_def add_mult_distrib2 request_id_def stored_request_def)
qed

lemma effect_update:
  assumes "update_rate oz ctx new_rate v = Ok (v', evs, u)" and "oz_ok oz"
  shows "call_effect oz v v' evs"
  using assms
proof (cases rule: update_rate_Ok)
  case (1 t n)
  have "\<forall>e \<in> set evs. (\<exists>a b x y. e = FeesDistributed a b x y) \<or> (\<exists>n. e = RateUpdated n)"
    using 1 by auto
  with 1 show ?thesis
    by (simp add: call_effect_def quiet_events owed_at_def add_mult_distrib2 mult.commute)
qed

text \<open>Every successful call is one of these.\<close>

lemma vault_execute_cases:
  assumes "vault_execute oz decode ctx c v = Ok (v', evs)" and "oz_ok oz"
  obtains (stale) "\<not> paused (vault_status v)" "v' = stale_paused v" "evs = stale_events ctx v"
  | (paid_in) assets receiver n fee t' where "\<not> paused (vault_status v)" "\<not> stale_rate ctx v"
      "fee \<le> assets" "n * redemption_rate v \<le> (assets - fee) * one_share v"
      "mint_shares oz (shares v) receiver n = Ok t'"
      "v' = v\<lparr>fees_accrued_in_asset := fees_accrued_in_asset v + fee, shares := t'\<rparr>"
      "evs = [AssetTransferred (msg_sender ctx) (deposit_account (vault_cfg v)) assets,
              Deposited (msg_sender ctx) receiver assets n]"
  | (requested) receiver owner fee burned n where "\<not> paused (vault_status v)" "\<not> stale_rate ctx v"
      "redemption_rate v * n + one_share v * fee < redemption_rate v * burned + redemption_rate v"
      "withdraw_internal oz ctx burned n receiver owner
         (v\<lparr>fees_accrued_in_asset := fees_accrued_in_asset v + fee\<rparr>) = Ok (v', evs, ())"
  | (updated) new_rate where "c = UpdateRate new_rate" "update_rate oz ctx new_rate v = Ok (v', evs, ())"
  | (status) "pause_vault ctx v = Ok (v', evs, ()) \<or> unpause_vault ctx v = Ok (v', evs, ())"
  | (configured) cfg where "update_vault_config oz decode ctx cfg v = Ok (v', evs, ())"
  | (inherited) t y where "total_supply oz t \<le> total_supply oz (shares v)"
      "v' = v\<lparr>shares := t, vault_owner := y\<rparr>" "evs = []"
proof (cases c)
  case (Deposit assets receiver)
  with assms(1) obtain n where "deposit oz ctx assets receiver v = Ok (v', evs, n)"
    by (auto simp: vault_execute_def discard_def map_ok_Ok_iff)
  from this assms(2) show thesis by (cases rule: deposit_cases) (rule stale, assumption+, rule paid_in, assumption+)
next
  case (Mint n receiver)
  with assms(1) obtain assets where "vault_mint oz ctx n receiver v = Ok (v', evs, assets)"
    by (auto simp: vault_execute_def discard_def map_ok_Ok_iff)
  from this assms(2) show thesis by (cases rule: mint_cases) (rule stale, assumption+, rule paid_in, assumption+)
next
  case (Withdraw assets receiver owner)
  with assms(1) have "withdraw oz ctx assets receiver owner v = Ok (v', evs, ())"
    by (auto simp: vault_execute_def discard_def map_ok_Ok_iff)
  from this assms(2) show thesis by (cases rule: withdraw_cases) (rule stale, assumption+, rule requested, assumption+)
next
  case (Redeem n receiver owner)
  with assms(1) have "redeem oz ctx n receiver owner v = Ok (v', evs, ())"
    by (auto simp: vault_execute_def discard_def map_ok_Ok_iff)
  from this assms(2) show thesis by (cases rule: redeem_cases) (rule stale, assumption+, rule requested, assumption+)
next
  case (Inherited d)
  with assms(1) show thesis
    by (auto simp: vault_execute_def map_ok_Ok_iff dest: oz_okD(9) [OF assms(2)] intro: inherited)
qed (use assms(1) in \<open>auto simp: vault_execute_def discard_def map_ok_Ok_iff
  intro: updated status configured\<close>)

lemma vault_call_effect:
  assumes "vault_execute oz decode ctx c v = Ok (v', evs)" and "oz_ok oz"
  shows "call_effect oz v v' evs"
  using assms
proof (cases rule: vault_execute_cases)
  case stale
  then show ?thesis by (simp add: effect_stale)
next
  case (paid_in assets receiver n fee t')
  then show ?thesis by (blast intro: effect_deposit assms(2))
next
  case (requested receiver owner fee burned n)
  then show ?thesis by (blast intro: effect_withdraw assms(2))
next
  case (updated new_rate)
  then show ?thesis by (blast intro: effect_update assms(2))
qed (auto simp: pause_vault_def unpause_vault_def update_vault_config_def and_then_Ok_iff call_effect_def
  owed_at_def)

text \<open>Calls, by anyone and in any order, during which the rate stays what it was at the start.\<close>

inductive vault_period ::
  "'t openzeppelin \<Rightarrow> (bytes \<Rightarrow> vault_config evm) \<Rightarrow> 't vault \<Rightarrow> 't vault \<Rightarrow> vault_event list \<Rightarrow> bool"
  for oz decode v0
where
  period_start: "vault_period oz decode v0 v0 []"
| period_call: "vault_period oz decode v0 v log \<Longrightarrow> vault_execute oz decode ctx c v = Ok (v', evs) \<Longrightarrow>
    redemption_rate v' = redemption_rate v0 \<Longrightarrow> vault_period oz decode v0 v' (log @ evs)"

lemma period_effect:
  assumes "vault_period oz decode v0 v log" and "oz_ok oz"
  shows "redemption_rate v = redemption_rate v0 \<and> call_effect oz v0 v log"
  using assms(1)
proof induction
  case period_start
  show ?case by (simp add: call_effect_def)
next
  case (period_call v log ctx c v' evs)
  let ?r = "redemption_rate v0"
  from vault_call_effect [OF period_call.hyps(2) assms(2)] period_call
  have step: "call_effect oz v v' evs" and ih: "call_effect oz v0 v log" and rate: "redemption_rate v = ?r" by simp_all
  have "stored_request ?r v' e" if "e \<in> set (requests log)" for e
  proof -
    from that ih have "request_id e \<in> set [current_withdraw_request_id v0 ..< current_withdraw_request_id v]"
      unfolding call_effect_def by (metis image_eqI list.set_map)
    with that ih step show ?thesis
      by (auto simp: call_effect_def stored_request_def request_id_def split: vault_event.splits)
  qed
  moreover have "[current_withdraw_request_id v0 ..< current_withdraw_request_id v]
      @ [current_withdraw_request_id v ..< current_withdraw_request_id v']
      = [current_withdraw_request_id v0 ..< current_withdraw_request_id v']"
    using ih step by (metis call_effect_def le_add_diff_inverse upt_add_eq_append)
  ultimately show ?case
    using ih step rate period_call.hyps(3)
    by (auto simp: call_effect_def add_mult_distrib2)
qed

text \<open>
  (C7) While the redemption rate stays, whatever calls the vault receives: what it owes for shares,
  accrued fees and withdrawal requests grows by no more than the assets transferred to the deposit
  account and less than one share per request. Requests get consecutive ids, are stored with that rate
  and are never changed. The update that ends the period turns the fees into shares worth no more.
\<close>

theorem vault_value_conserved:
  assumes "oz_ok oz" and "vault_period oz decode v0 v log"
  shows "owed_at oz (redemption_rate v0) v + redemption_rate v0 * requested log
      \<le> owed_at oz (redemption_rate v0) v0 + one_share v0 * deposited log
        + redemption_rate v0 * length (requests log)
    \<and> map request_id (requests log) = [current_withdraw_request_id v0 ..< current_withdraw_request_id v]
    \<and> (\<forall>e \<in> set (requests log). stored_request (redemption_rate v0) v e)
    \<and> (\<forall>i < current_withdraw_request_id v0. withdraw_requests v i = withdraw_requests v0 i)
    \<and> (\<forall>ctx new_rate v' evs. update_rate oz ctx new_rate v = Ok (v', evs, ()) \<longrightarrow>
         owed_at oz (redemption_rate v0) v' \<le> owed_at oz (redemption_rate v0) v \<and> fees_accrued_in_asset v' = 0)"
proof -
  note period = period_effect [OF assms(2,1)]
  have "owed_at oz (redemption_rate v0) v' \<le> owed_at oz (redemption_rate v0) v \<and> fees_accrued_in_asset v' = 0"
    if "update_rate oz ctx new_rate v = Ok (v', evs, ())" for ctx new_rate v' evs
    using that assms(1)
  proof (cases rule: update_rate_Ok)
    case (1 t n)
    with period show ?thesis by (simp add: owed_at_def add_mult_distrib2 mult.commute)
  qed
  with period show ?thesis by (auto simp: call_effect_def)
qed

section \<open>Guards\<close>



section \<open>A concrete vault\<close>

type_synonym ex_token = "u256 \<times> (eth_address \<Rightarrow> u256)"

definition ex_oz :: "ex_token openzeppelin" where
  "ex_oz =
     \<lparr>mul_div = (\<lambda>a b c rnd.
        let x = (case rnd of Floor \<Rightarrow> a * b div c | Ceil \<Rightarrow> (a * b + (c - 1)) div c)
        in if c \<noteq> 0 \<and> x < 2 ^ 256 then Ok x else Err overflow_panic),
      total_supply = fst, balance_of = snd,
      mint_shares = (\<lambda>(s, b) a n. Ok (s + n, b(a := b a + n))),
      burn_shares = (\<lambda>(s, b) a n. if n \<le> b a \<and> n \<le> s then Ok (s - n, b(a := b a - n))
        else Err (CustomError ''ERC20InsufficientBalance'' [a, b a, n])),
      spend_allowance = (\<lambda>t a b n. Err (CustomError ''ERC20InsufficientAllowance'' [b, 0, n])),
      preview_deposit = (\<lambda>conv n. conv n Floor), preview_mint = (\<lambda>conv n. conv n Ceil),
      preview_withdraw = (\<lambda>conv n. conv n Ceil), max_withdraw = (\<lambda>conv b. conv b Floor), max_redeem = id,
      transfer_asset_from = (\<lambda>_ _ _. Ok ()), init_shares = (\<lambda>_ _ _ _. Ok (0, \<lambda>_. 0)), share_decimals = (\<lambda>_. 2),
      oz_check_owner = (\<lambda>owner sender. ensure (sender = owner)
        (CustomError ''OwnableUnauthorizedAccount'' [sender])),
      inherited_call = (\<lambda>_ _ t. Ok t)\<rparr>"

lemma ex_oz_ok: "oz_ok ex_oz"
  by (auto simp: oz_ok_def mul_div_ok_def ex_oz_def Let_def ensure_Ok_iff split: if_splits prod.splits)

definition ex_vault_config :: vault_config where
  "ex_vault_config =
     \<lparr>deposit_account = 7, strategist = 2, deposit_fee_bps = 100, withdraw_fee_bps = 100,
      max_rate_increment_bps = 1000, max_rate_decrement_bps = 500, min_rate_update_delay = 10,
      max_rate_update_delay = 100, deposit_cap = 5000,
      fee_distribution = \<lparr>strategist_account = 3, platform_account = 4, strategist_ratio_bps = 5000\<rparr>\<rparr>"

text \<open>A share has two decimals and is worth one asset and a half.\<close>

definition ex_vault :: "ex_token vault" where
  "ex_vault =
     \<lparr>shares = (0, \<lambda>_. 0), vault_owner = 1, vault_cfg = ex_vault_config, redemption_rate = 150,
      vault_status = not_paused, current_withdraw_request_id = 0, last_rate_update_timestamp = 1000,
      fees_accrued_in_asset = 0, withdraw_requests = Map.empty, one_share = 100\<rparr>"

definition ex_ctx :: "eth_address \<Rightarrow> u256 \<Rightarrow> evm_ctx" where
  "ex_ctx a now = \<lparr>msg_sender = a, msg_value = 0, block_timestamp = now\<rparr>"

definition ex_decode :: "bytes \<Rightarrow> vault_config evm" where
  "ex_decode = (\<lambda>_. Err (Revert ''abi''))"

definition ex_vault1 :: "ex_token vault" where
  "ex_vault1 = ex_vault\<lparr>shares := (660, (\<lambda>_. 0)(9 := 660)), fees_accrued_in_asset := 10\<rparr>"

definition ex_vault2 :: "ex_token vault" where
  "ex_vault2 = ex_vault1\<lparr>shares := (560, (\<lambda>_. 0)(9 := 560)), fees_accrued_in_asset := 12,
     withdraw_requests := [0 \<mapsto> \<lparr>wr_id = 0, wr_owner = 9, wr_redemption_rate = 150, wr_shares_amount = 99,
       wr_receiver = ''neutron1''\<rparr>], current_withdraw_request_id := 1\<rparr>"

lemmas ex_vault_defs =
  ex_oz_def ex_vault_config_def ex_vault_def ex_ctx_def ex_vault1_def ex_vault2_def not_paused_def
  when_not_paused_def check_and_handle_stale_rate_def to_u64_def sub64_def inc64_def add256_def sub256_def mul256_def
  convert_to_shares_def convert_to_assets_def total_assets_def accrue_fee_def

lemma ex_deposit:
  "vault_execute ex_oz ex_decode (ex_ctx 9 1050) (Deposit 1000 9) ex_vault =
     Ok (ex_vault1, [AssetTransferred 9 7 1000, Deposited 9 9 1000 660])"
  by (simp add: vault_execute_def discard_def deposit_def deposit_internal_def max_deposit_def
      calculate_deposit_fee_def Let_def ex_vault_defs)

lemma ex_redeem:
  "vault_execute ex_oz ex_decode (ex_ctx 9 1060) (Redeem 100 ''neutron1'' 9) ex_vault1 =
     Ok (ex_vault2, [WithdrawRequested 0 9 ''neutron1'' 99])"
  by (simp add: vault_execute_def discard_def redeem_def withdraw_internal_def validate_withdraw_params_def
      calculate_withdrawal_fee_def Let_def ex_vault_defs)

lemma ex_period:
  "vault_period ex_oz ex_decode ex_vault ex_vault2
     ([AssetTransferred 9 7 1000, Deposited 9 9 1000 660] @ [WithdrawRequested 0 9 ''neutron1'' 99])"
proof (rule period_call [OF _ ex_redeem])
  have "vault_period ex_oz ex_decode ex_vault ex_vault1 ([] @ [AssetTransferred 9 7 1000, Deposited 9 9 1000 660])"
    by (rule period_call [OF period_start ex_deposit]) (simp add: ex_vault1_def)
  then show "vault_period ex_oz ex_decode ex_vault ex_vault1 [AssetTransferred 9 7 1000, Deposited 9 9 1000 660]"
    by simp
qed (simp add: ex_vault2_def ex_vault1_def)

theorem vault_value_conserved_witness:
  "150 * 560 + 100 * 12 + 150 * 99 \<le> (100 * 1000 + 150 * 1 :: nat)
   \<and> withdraw_requests ex_vault2 0 = Some \<lparr>wr_id = 0, wr_owner = 9, wr_redemption_rate = 150,
       wr_shares_amount = 99, wr_receiver = ''neutron1''\<rparr>"
  using vault_value_conserved [OF ex_oz_ok ex_period]
  by (simp add: owed_at_def stored_request_def ex_vault2_def ex_vault1_def ex_vault_def ex_oz_def)



end
