(* ===== verification/Valence_Vault_Props.thy ===== *)
theory Valence_Vault_Props
  imports Valence_Vault One_Way_Vault_Props
begin

text \<open>
  Correctness of withdrawals from the two-way vault (\<open>withdrawals_settled\<close>): every request ends once,
  completed or cancelled; a completion pays no more than the rate of the update after the request, not
  before the lockup has passed, for the owner or a solver; and the vault holds the ETH for the fees of
  all open requests.
\<close>

section \<open>Sums over finitely many owners\<close>

definition total_of :: "('k \<Rightarrow> nat) \<Rightarrow> nat" where
  "total_of f = sum f {k. f k \<noteq> 0}"



section \<open>What a state keeps\<close>

definition fee_of :: "('t, 'w) valence_vault \<Rightarrow> eth_address \<Rightarrow> nat" where
  "fee_of v own = vr_solver_fee (vv_requests v own)"

text \<open>Requests are stored under their owner, and their fees, with \<open>pending\<close> more, are held in ETH.\<close>

definition vault_ok :: "nat \<Rightarrow> ('t, 'w) valence_vault \<Rightarrow> bool" where
  "vault_ok pending v \<longleftrightarrow>
     (\<forall>own. vv_requests v own = no_request \<or> own \<noteq> zero_address \<and> vr_owner (vv_requests v own) = own)
   \<and> finite {own. fee_of v own \<noteq> 0} \<and> total_of (fee_of v) + pending \<le> vv_eth v"





section \<open>The course of a request\<close>









text \<open>A completion that respects the request and the update that followed it.\<close>

definition completion_ok :: "evm_ctx \<Rightarrow> ('t, 'w) valence_vault \<Rightarrow> vv_event \<Rightarrow> bool" where
  "completion_ok ctx v e \<longleftrightarrow>
     (\<forall>own r a n x. e = VvWithdrawCompleted own r a n x \<longrightarrow>
        (let q = vv_requests v own; info = vv_update_infos v (vr_update_id q)
         in vr_owner q = own \<and> r = vr_receiver q \<and> n = vr_shares_amount q \<and> x = msg_sender ctx
          \<and> (x = own \<or> 0 < vr_solver_fee q)
          \<and> vr_claim_time q \<le> block_timestamp ctx \<and> ui_timestamp info \<noteq> 0
          \<and> a * vv_one_share v \<le> n * ui_withdraw_rate info))"


section \<open>Completions\<close>

lemma withdraw_failed_Ok:
  "withdraw_failed b e reason v = Ok (v', evs, r) \<Longrightarrow> v' = v \<and> evs = [] \<and> \<not> wres_success r \<and> wres_solver_fee r = 0"
  by (auto simp: withdraw_failed_def split: if_splits)

lemma pay_withdraw_Ok:
  assumes "pay_withdraw oz ctx b own a wd_account v = Ok (v', evs, r)"
  obtains "v' = v" "evs = []" "\<not> wres_success r" "wres_solver_fee r = 0"
  | w where "v' = v\<lparr>vv_requests := (vv_requests v)(own := no_request), vv_world := w\<rparr>"
      "evs = [VvWithdrawCompleted own (vr_receiver (vv_requests v own)) a
                (vr_shares_amount (vv_requests v own)) (msg_sender ctx)]"
      "wres_success r" "wres_solver_fee r = fee_of v own"
proof (cases "account_transfer oz wd_account (vr_receiver (vv_requests v own)) a (vv_world v)")
  case (Ok w)
  with assms show thesis
    by (intro that(2) [of w]) (auto simp: pay_withdraw_def Let_def fee_of_def)
next
  case (Err e)
  with assms have "withdraw_failed b (Revert ''Asset transfer failed'') ''Asset transfer failed'' v = Ok (v', evs, r)"
    by (simp add: pay_withdraw_def Let_def)
  from withdraw_failed_Ok [OF this] show thesis by (intro that(1)) simp_all
qed

lemma cancel_withdraw_Ok:
  assumes "cancel_withdraw oz own l dep_account wd_account v = Ok (v', evs, r)"
  obtains t w k where
    "v' = v\<lparr>vv_shares := t, vv_requests := (vv_requests v)(own := no_request), vv_world := w\<rparr>"
    "evs = [VvWithdrawCancelled own k l (vr_max_loss_bps (vv_requests v own))]"
    "\<not> wres_success r" "wres_solver_fee r = 0"
proof -
  from assms obtain t w k where "v' = v\<lparr>vv_shares := t, vv_requests := (vv_requests v)(own := no_request), vv_world := w\<rparr>
    \<and> evs = [VvWithdrawCancelled own k l (vr_max_loss_bps (vv_requests v own))]
    \<and> \<not> wres_success r \<and> wres_solver_fee r = 0"
    by (force simp: cancel_withdraw_def Let_def and_then_Ok_iff)
  with that show thesis by blast
qed

text \<open>What a request has to meet before anything is done about it.\<close>

definition claimable :: "evm_ctx \<Rightarrow> ('t, 'w) valence_vault \<Rightarrow> eth_address \<Rightarrow> bool" where
  "claimable ctx v own \<longleftrightarrow>
     (let q = vv_requests v own
      in vr_shares_amount q \<noteq> 0 \<and> (msg_sender ctx = vr_owner q \<or> 0 < vr_solver_fee q)
       \<and> vr_claim_time q \<le> block_timestamp ctx \<and> ui_timestamp (vv_update_infos v (vr_update_id q)) \<noteq> 0)"

lemma process_claimable:
  assumes "process_withdraw_complete oz ctx own b dep_account wd_account v = Ok (v', evs, r)"
    and "claimable ctx v own"
  obtains l where "vr_max_loss_bps (vv_requests v own) < l"
      "cancel_withdraw oz own l dep_account wd_account v = Ok (v', evs, r)"
  | a rate where "rate \<le> ui_withdraw_rate (vv_update_infos v (vr_update_id (vv_requests v own)))"
      "mul_div oz (vr_shares_amount (vv_requests v own)) rate (vv_one_share v) Floor = Ok a"
      "pay_withdraw oz ctx b own a wd_account v = Ok (v', evs, r)"
proof -
  let ?q = "vv_requests v own" and ?i = "vv_update_infos v (vr_update_id (vv_requests v own))"
  from assms obtain rate where branch: "(if rate < ui_withdraw_rate ?i then
        and_then (mul_div oz (ui_withdraw_rate ?i - rate) basis_points (ui_withdraw_rate ?i) Floor) (\<lambda>loss_bps.
          if vr_max_loss_bps ?q < loss_bps then cancel_withdraw oz own loss_bps dep_account wd_account v
          else and_then (mul_div oz (vr_shares_amount ?q) rate (vv_one_share v) Floor) (\<lambda>assets.
            pay_withdraw oz ctx b own assets wd_account v))
      else and_then (mul_div oz (vr_shares_amount ?q) (ui_withdraw_rate ?i) (vv_one_share v) Floor) (\<lambda>assets.
        pay_withdraw oz ctx b own assets wd_account v)) = Ok (v', evs, r)"
    by (auto simp: process_withdraw_complete_def claimable_def Let_def and_then_Ok_iff)
  show thesis
  proof (cases "rate < ui_withdraw_rate ?i")
    case True
    with branch obtain l where l: "(if vr_max_loss_bps ?q < l then cancel_withdraw oz own l dep_account wd_account v
        else and_then (mul_div oz (vr_shares_amount ?q) rate (vv_one_share v) Floor) (\<lambda>assets.
          pay_withdraw oz ctx b own assets wd_account v)) = Ok (v', evs, r)"
      by (auto simp: and_then_Ok_iff)
    with True that show thesis
      by (cases "vr_max_loss_bps ?q < l") (auto simp: and_then_Ok_iff intro: less_imp_le)
  next
    case False
    with branch that(2) [OF order.refl] show thesis by (auto simp: and_then_Ok_iff)
  qed
qed

text \<open>One request is processed: nothing happens, or it is cancelled, or it is paid.\<close>

lemma process_cases:
  assumes "process_withdraw_complete oz ctx own b dep_account wd_account v = Ok (v', evs, r)"
    and "oz_ok oz" and "vault_ok n v"
  obtains (failed) "v' = v" "evs = []" "\<not> wres_success r" "wres_solver_fee r = 0"
  | (cancelled) t w k l where "vr_owner (vv_requests v own) = own" "own \<noteq> zero_address"
      "v' = v\<lparr>vv_shares := t, vv_requests := (vv_requests v)(own := no_request), vv_world := w\<rparr>"
      "evs = [VvWithdrawCancelled own k l (vr_max_loss_bps (vv_requests v own))]"
      "\<not> wres_success r" "wres_solver_fee r = 0"
  | (paid) w a k where "vr_owner (vv_requests v own) = own" "own \<noteq> zero_address"
      "v' = v\<lparr>vv_requests := (vv_requests v)(own := no_request), vv_world := w\<rparr>"
      "evs = [VvWithdrawCompleted own (vr_receiver (vv_requests v own)) a k (msg_sender ctx)]"
      "completion_ok ctx v (VvWithdrawCompleted own (vr_receiver (vv_requests v own)) a k (msg_sender ctx))"
      "wres_success r" "wres_solver_fee r = fee_of v own"
proof (cases "claimable ctx v own")
  case True
  then have q: "vr_owner (vv_requests v own) = own" "own \<noteq> zero_address"
    using assms(3) by (auto simp: claimable_def vault_ok_def Let_def no_request_def dest!: spec [of _ own])
  from assms(1) True show thesis
  proof (cases rule: process_claimable)
    case (1 l)
    from 1(2) show thesis by (rule cancel_withdraw_Ok) (rule cancelled [OF q], assumption+)
  next
    case (2 a rate)
    have "a * vv_one_share v \<le> vr_shares_amount (vv_requests v own) * rate"
      using assms(2) 2(2) div_times_less_eq_dividend by (auto simp: oz_ok_def mul_div_ok_def)
    also have "\<dots> \<le> vr_shares_amount (vv_requests v own)
        * ui_withdraw_rate (vv_update_infos v (vr_update_id (vv_requests v own)))"
      using 2(1) by simp
    finally have ok: "completion_ok ctx v (VvWithdrawCompleted own (vr_receiver (vv_requests v own)) a
        (vr_shares_amount (vv_requests v own)) (msg_sender ctx))"
      using True q by (auto simp: completion_ok_def claimable_def Let_def)
    from 2(3) show thesis
      by (rule pay_withdraw_Ok) (rule failed, assumption+, rule paid [OF q _ _ ok], assumption+)
  qed
next
  case False
  with assms(1) have "\<exists>e reason. withdraw_failed b e reason v = Ok (v', evs, r)"
    unfolding process_withdraw_complete_def claimable_def Let_def
    by (simp split: if_splits) blast+
  then obtain e reason where "withdraw_failed b e reason v = Ok (v', evs, r)" by blast
  from withdraw_failed_Ok [OF this] show thesis by (intro failed) simp_all
qed









section \<open>Every call\<close>



















section \<open>Every history\<close>




text \<open>When a request is cancelled, the solver fee paid for it stays in the vault, where nothing pays it out.\<close>

lemma cancelled_fee_stays:
  assumes "complete_withdraw oz ctx own v = Ok (v', evs, u)" and "VvWithdrawCancelled own k l m \<in> set evs"
    and "oz_ok oz" and "vault_ok 0 v"
  shows "vv_eth v' = vv_eth v \<and> vv_requests v' own = no_request"
proof -
  from assms(1) obtain v1 r where run: "process_withdraw_complete oz ctx own True (vc_deposit_account (vv_cfg v))
      (vc_withdraw_account (vv_cfg v)) v = Ok (v1, evs, r)" and pay: "pay_solver oz ctx (wres_solver_fee r) v1 = Ok v'"
    by (auto simp: complete_withdraw_def and_then_Ok_iff)
  from run assms(3,4) show ?thesis
    by (cases rule: process_cases) (use assms(2) pay in \<open>auto simp: pay_solver_def\<close>)
qed

section \<open>A concrete history\<close>












end
