(* ===== verification/Evm_Account.thy ===== *)
theory Evm_Account
  imports Evm Base_Account
begin

text \<open>
  Accounts and the base of the libraries on the EVM (\<open>solidity/src/accounts/Account.sol\<close>,
  \<open>BaseAccount.sol\<close>, \<open>solidity/src/libraries/Library.sol\<close>): approvals by the owner, calls on behalf
  of the account, the processor of a library. The account interprets the contract \<open>approvals\<close> the
  CosmWasm account interprets.
\<close>

section \<open>Account.sol\<close>

record evm_account =
  acct_self :: eth_address
  acct_owner :: eth_address
  acct_approved :: "eth_address \<Rightarrow> bool"

definition account_constructor ::
  "('w, 'z) evm_chain_scheme \<Rightarrow> eth_address \<Rightarrow> eth_address \<Rightarrow> eth_address list \<Rightarrow> evm_account evm"
where
  "account_constructor ch self owner libraries =
     and_then (init_owner ch owner) (\<lambda>_.
     and_then (approve_all libraries) (\<lambda>f.
       Ok \<lparr>acct_self = self, acct_owner = owner, acct_approved = f\<rparr>))"

definition evm_approve_library ::
  "('w, 'z) evm_chain_scheme \<Rightarrow> eth_address \<Rightarrow> eth_address \<Rightarrow> evm_account \<Rightarrow> evm_account evm"
where
  "evm_approve_library ch sender library s =
     and_then (check_owner ch (acct_owner s) sender) (\<lambda>_.
       Ok (s\<lparr>acct_approved := (acct_approved s)(library := True)\<rparr>))"

definition evm_remove_library ::
  "('w, 'z) evm_chain_scheme \<Rightarrow> eth_address \<Rightarrow> eth_address \<Rightarrow> evm_account \<Rightarrow> evm_account evm"
where
  "evm_remove_library ch sender library s =
     and_then (check_owner ch (acct_owner s) sender) (\<lambda>_.
       Ok (s\<lparr>acct_approved := (acct_approved s)(library := False)\<rparr>))"

definition evm_account_execute ::
  "('w, 'z) evm_chain_scheme \<Rightarrow> eth_address \<Rightarrow> eth_address \<Rightarrow> u256 \<Rightarrow> bytes \<Rightarrow> evm_account \<Rightarrow> 'w \<Rightarrow>
   ('w \<times> bytes) evm"
where
  "evm_account_execute ch sender target value data s w =
     (if \<not> acct_approved s sender \<and> sender \<noteq> acct_owner s then Err (CustomError ''NotOwnerOrLibrary'' [sender])
      else if target = zero_address then Err (CustomError ''ZeroAddressTarget'' [])
      else
        (case ext_call ch (acct_self s) target value data w of
           Ok (w', return_data) \<Rightarrow> Ok (w', return_data)
         | Err return_data \<Rightarrow>
             if 0 < length return_data then Err (RevertData return_data)
             else Err (Revert ''Contract call failed without error data'')))"

section \<open>Library.sol\<close>

record 'c evm_library =
  evm_lib_owner :: eth_address
  evm_lib_processor :: eth_address
  evm_lib_config :: 'c

definition evm_library_constructor ::
  "('w, 'z) evm_chain_scheme \<Rightarrow> (bytes \<Rightarrow> 'c evm) \<Rightarrow> eth_address \<Rightarrow> eth_address \<Rightarrow> bytes \<Rightarrow> 'c evm_library evm"
where
  "evm_library_constructor ch init_config owner processor cfg =
     and_then (init_owner ch owner) (\<lambda>_.
     and_then (init_config cfg) (\<lambda>c.
       Ok \<lparr>evm_lib_owner = owner, evm_lib_processor = processor, evm_lib_config = c\<rparr>))"

definition only_processor :: "'c evm_library \<Rightarrow> eth_address \<Rightarrow> unit evm" where
  "only_processor l sender = require (sender = evm_lib_processor l) ''Only the processor can call this function''"

definition update_library_processor ::
  "('w, 'z) evm_chain_scheme \<Rightarrow> eth_address \<Rightarrow> eth_address \<Rightarrow> 'c evm_library \<Rightarrow> 'c evm_library evm"
where
  "update_library_processor ch sender processor l =
     and_then (check_owner ch (evm_lib_owner l) sender) (\<lambda>_. Ok (l\<lparr>evm_lib_processor := processor\<rparr>))"

section \<open>Correctness\<close>

datatype evm_account_call =
    CallApproveLibrary eth_address
  | CallRemoveLibrary eth_address
  | CallOwnable bytes
  | CallExecute eth_address u256 bytes

text \<open>A call that reverts changes nothing; what \<open>execute\<close> changes is elsewhere.\<close>

definition evm_account_step ::
  "('w, 'z) evm_chain_scheme \<Rightarrow> evm_account \<Rightarrow> eth_address \<times> evm_account_call \<Rightarrow> evm_account"
where
  "evm_account_step ch s e =
     (case e of
        (sender, CallApproveLibrary l) \<Rightarrow>
          (case evm_approve_library ch sender l s of Ok s' \<Rightarrow> s' | Err _ \<Rightarrow> s)
      | (sender, CallRemoveLibrary l) \<Rightarrow>
          (case evm_remove_library ch sender l s of Ok s' \<Rightarrow> s' | Err _ \<Rightarrow> s)
      | (sender, CallOwnable data) \<Rightarrow>
          (case ownable_call ch sender data (acct_owner s) of Ok owner \<Rightarrow> s\<lparr>acct_owner := owner\<rparr> | Err _ \<Rightarrow> s)
      | (sender, CallExecute target value data) \<Rightarrow> s)"

definition evm_account_decides ::
  "('w, 'z) evm_chain_scheme \<Rightarrow> evm_account \<Rightarrow> eth_address \<times> evm_account_call \<Rightarrow> eth_address \<Rightarrow> bool option"
where
  "evm_account_decides ch s e a =
     (case e of
        (sender, CallApproveLibrary l) \<Rightarrow>
          if check_owner ch (acct_owner s) sender = Ok () \<and> l = a then Some True else None
      | (sender, CallRemoveLibrary l) \<Rightarrow>
          if check_owner ch (acct_owner s) sender = Ok () \<and> l = a then Some False else None
      | _ \<Rightarrow> None)"

interpretation evm_approvals: approvals
  "evm_account_step ch" acct_approved "evm_account_decides ch"
proof
  fix s a and e :: "eth_address \<times> evm_account_call"
  obtain sender c where e: "e = (sender, c)" by (cases e)
  show "acct_approved (evm_account_step ch s e) a =
    (case evm_account_decides ch s e a of Some b \<Rightarrow> b | None \<Rightarrow> acct_approved s a)"
    by (cases c; cases "check_owner ch (acct_owner s) sender")
      (auto split: result.splits simp: e evm_account_step_def evm_account_decides_def evm_approve_library_def evm_remove_library_def)
qed

text \<open>
  An account calls another contract only for its owner, for a library named at the construction, or
  for one the owner of that time approved and no later owner removed.
\<close>

lemma evm_account_obeys_owner:
  assumes "account_constructor ch self owner libraries = Ok s0"
    and "evm_account_execute ch sender target value data (foldl (evm_account_step ch) s0 es) w = Ok r"
  shows "sender = acct_owner (foldl (evm_account_step ch) s0 es)
    \<or> sender \<in> set libraries
    \<or> last_decision (evm_account_step ch) (evm_account_decides ch) s0 es sender = Some True"
proof -
  have "acct_approved s0 sender \<longleftrightarrow> sender \<in> set libraries"
    using assms(1) by (auto simp: account_constructor_def and_then_Ok_iff approve_all_eq split: if_splits)
  moreover have "sender = acct_owner (foldl (evm_account_step ch) s0 es)
    \<or> acct_approved (foldl (evm_account_step ch) s0 es) sender"
    using assms(2) by (auto simp: evm_account_execute_def split: if_splits)
  ultimately show ?thesis
    using evm_approvals.approved_has_decision by blast
qed

end
