(* ===== verification/Lite_Processor.thy ===== *)
theory Lite_Processor
  imports Evm
begin

text \<open>
  The processor of an EVM domain (\<open>solidity/src/processor/LiteProcessor.sol\<close>, \<open>ProcessorBase.sol\<close> and
  the types of \<open>IProcessorMessageTypes.sol\<close> and \<open>IProcessor.sol\<close>): messages from the Hyperlane mailbox
  or from an authorized address, atomic and non-atomic subroutines executed at once, callbacks to the
  sender. The ABI coding and the mailbox are parameters.
\<close>

section \<open>IProcessorMessageTypes.sol\<close>

datatype processor_message_type = MsgPause | MsgResume | MsgEvictMsgs | MsgSendMsgs | MsgInsertMsgs

datatype evm_priority = PriorityMedium | PriorityHigh

datatype subroutine_type = TypeAtomic | TypeNonAtomic

datatype evm_duration_type = DurationHeight | DurationTime

datatype retry_times_type = NoRetry | RetryIndefinitely | RetryAmount

record evm_processor_message =
  pm_type :: processor_message_type
  pm_message :: bytes

record evm_duration =
  duration_type :: evm_duration_type
  duration_value :: u64

record evm_retry_times =
  retry_type :: retry_times_type
  retry_amount :: u64

record evm_retry_logic =
  evm_times :: evm_retry_times
  evm_interval :: evm_duration

record evm_atomic_function =
  af_contract :: eth_address

record evm_function_callback =
  fc_contract :: eth_address
  fc_message :: bytes

record evm_atomic_subroutine =
  as_functions :: "evm_atomic_function list"
  as_retry_logic :: evm_retry_logic

record evm_non_atomic_function =
  nf_contract :: eth_address
  nf_retry_logic :: evm_retry_logic
  nf_callback_confirmation :: evm_function_callback

record evm_non_atomic_subroutine =
  ns_functions :: "evm_non_atomic_function list"

record evm_subroutine =
  sub_type :: subroutine_type
  sub_data :: bytes

record evm_send_msgs =
  sm_execution_id :: u64
  sm_priority :: evm_priority
  sm_subroutine :: evm_subroutine
  sm_expiration_time :: u64
  sm_messages :: "bytes list"

record evm_insert_msgs =
  im_execution_id :: u64
  im_queue_position :: u64
  im_priority :: evm_priority
  im_subroutine :: evm_subroutine
  im_expiration_time :: u64
  im_messages :: "bytes list"

section \<open>IProcessor.sol\<close>

record subroutine_result =
  succeeded :: bool
  expired :: bool
  executed_count :: u256
  error_data :: bytes

datatype evm_execution_result = ResultSuccess | ResultRejected | ResultPartiallyExecuted | ResultExpired

record evm_callback =
  cb_execution_id :: u64
  cb_execution_result :: evm_execution_result
  cb_executed_count :: u256
  cb_data :: bytes

section \<open>The parameters\<close>

text \<open>
  \<open>abi.decode\<close> and \<open>abi.encode\<close> for the types above; encoded values are read back as they were, when
  their numbers are within the widths of their types, and decoded numbers are.
\<close>

record processor_abi =
  dec_processor_message :: "bytes \<Rightarrow> evm_processor_message evm"
  enc_processor_message :: "evm_processor_message \<Rightarrow> bytes"
  dec_send_msgs :: "bytes \<Rightarrow> evm_send_msgs evm"
  enc_send_msgs :: "evm_send_msgs \<Rightarrow> bytes"
  dec_insert_msgs :: "bytes \<Rightarrow> evm_insert_msgs evm"
  enc_insert_msgs :: "evm_insert_msgs \<Rightarrow> bytes"
  dec_atomic :: "bytes \<Rightarrow> evm_atomic_subroutine evm"
  dec_non_atomic :: "bytes \<Rightarrow> evm_non_atomic_subroutine evm"
  dec_callback :: "bytes \<Rightarrow> evm_callback evm"
  enc_callback :: "evm_callback \<Rightarrow> bytes"
  enc_handle_callback :: "bytes \<Rightarrow> bytes"

definition send_msgs_fit :: "evm_send_msgs \<Rightarrow> bool" where
  "send_msgs_fit m \<longleftrightarrow> sm_execution_id m < 2 ^ 64 \<and> sm_expiration_time m < 2 ^ 64"

definition callback_fits :: "evm_callback \<Rightarrow> bool" where
  "callback_fits cb \<longleftrightarrow> cb_execution_id cb < 2 ^ 64 \<and> cb_executed_count cb < 2 ^ 256"

definition abi_ok :: "'z processor_abi_scheme \<Rightarrow> bool" where
  "abi_ok abi \<longleftrightarrow>
     (\<forall>m. dec_processor_message abi (enc_processor_message abi m) = Ok m)
   \<and> (\<forall>m. send_msgs_fit m \<longrightarrow> dec_send_msgs abi (enc_send_msgs abi m) = Ok m)
   \<and> (\<forall>b m. dec_send_msgs abi b = Ok m \<longrightarrow> send_msgs_fit m)
   \<and> (\<forall>cb. callback_fits cb \<longrightarrow> dec_callback abi (enc_callback abi cb) = Ok cb)"

text \<open>The mailbox: origin, recipient and body of a message dispatched by a caller.\<close>

record 'w hyperlane_chain = "'w evm_chain" +
  mailbox_dispatch :: "eth_address \<Rightarrow> eth_address \<Rightarrow> u32 \<Rightarrow> bytes \<Rightarrow> bytes \<Rightarrow> 'w \<Rightarrow> 'w evm"

section \<open>State and administration (ProcessorBase.sol)\<close>

record lite_processor =
  lp_self :: eth_address
  lp_owner :: eth_address
  lp_authorization_contract :: bytes
  lp_mailbox :: eth_address
  lp_origin_domain :: u32
  lp_authorized :: "eth_address \<Rightarrow> bool"
  lp_paused :: bool

datatype evm_processor_event =
    ProcessorWasPaused
  | ProcessorWasResumed
  | CallbackSent u64 evm_execution_result u256
  | AuthorizedAddressAdded eth_address
  | AuthorizedAddressRemoved eth_address

type_synonym 'w lite_result = "(lite_processor \<times> 'w \<times> evm_processor_event list) evm"

definition processor_constructor ::
  "('w, 'z) evm_chain_scheme \<Rightarrow> eth_address \<Rightarrow> evm_ctx \<Rightarrow> bytes \<Rightarrow> eth_address \<Rightarrow> u32 \<Rightarrow> eth_address list \<Rightarrow>
   lite_processor evm"
where
  "processor_constructor ch self ctx authorization_contract mailbox origin_domain authorized_addresses =
     and_then (init_owner ch (msg_sender ctx)) (\<lambda>_.
     and_then (approve_all authorized_addresses) (\<lambda>f.
       Ok \<lparr>lp_self = self, lp_owner = msg_sender ctx, lp_authorization_contract = authorization_contract,
           lp_mailbox = mailbox, lp_origin_domain = origin_domain, lp_authorized = f, lp_paused = False\<rparr>))"

definition handle_pause :: "lite_processor \<Rightarrow> lite_processor \<times> evm_processor_event list" where
  "handle_pause p = (p\<lparr>lp_paused := True\<rparr>, [ProcessorWasPaused])"

definition handle_resume :: "lite_processor \<Rightarrow> lite_processor \<times> evm_processor_event list" where
  "handle_resume p = (p\<lparr>lp_paused := False\<rparr>, [ProcessorWasResumed])"

definition add_authorized_address ::
  "('w, 'z) evm_chain_scheme \<Rightarrow> eth_address \<Rightarrow> eth_address \<Rightarrow> lite_processor \<Rightarrow>
   (lite_processor \<times> evm_processor_event list) evm"
where
  "add_authorized_address ch sender a p =
     and_then (check_owner ch (lp_owner p) sender) (\<lambda>_.
     and_then (ensure (a \<noteq> zero_address) (CustomError ''InvalidAddress'' [])) (\<lambda>_.
     and_then (ensure (\<not> lp_authorized p a) (CustomError ''AddressAlreadyAuthorized'' [])) (\<lambda>_.
       Ok (p\<lparr>lp_authorized := (lp_authorized p)(a := True)\<rparr>, [AuthorizedAddressAdded a]))))"

definition remove_authorized_address ::
  "('w, 'z) evm_chain_scheme \<Rightarrow> eth_address \<Rightarrow> eth_address \<Rightarrow> lite_processor \<Rightarrow>
   (lite_processor \<times> evm_processor_event list) evm"
where
  "remove_authorized_address ch sender a p =
     and_then (check_owner ch (lp_owner p) sender) (\<lambda>_.
     and_then (ensure (lp_authorized p a) (CustomError ''AddressNotAuthorized'' [])) (\<lambda>_.
       Ok (p\<lparr>lp_authorized := (lp_authorized p)(a := False)\<rparr>, [AuthorizedAddressRemoved a])))"

section \<open>Subroutines (ProcessorBase.sol)\<close>

text \<open>One round of the loop over the functions of an atomic subroutine.\<close>

definition atomic_round ::
  "('w, 'z) evm_chain_scheme \<Rightarrow> eth_address \<Rightarrow> evm_atomic_function list \<Rightarrow> bytes list \<Rightarrow> nat \<Rightarrow> 'w \<Rightarrow>
   'w loop evm"
where
  "atomic_round ch self functions messages i w =
     (let target_contract = af_contract (functions ! i)
      in if code_size ch w target_contract = 0 then Err (Revert ''Contract does not exist'')
         else
           (case ext_call ch self target_contract 0 (messages ! i) w of
              Ok (w', _) \<Rightarrow> Ok (Continue w')
            | Err data \<Rightarrow>
                if 0 < length data then Err (RevertData data)
                else Err (Revert ''Contract call failed without error data'')))"

definition execute_atomic_subroutine ::
  "('w, 'z) evm_chain_scheme \<Rightarrow> lite_processor \<Rightarrow> eth_address \<Rightarrow> evm_atomic_subroutine \<Rightarrow> bytes list \<Rightarrow> 'w \<Rightarrow>
   ('w \<times> u256) evm"
where
  "execute_atomic_subroutine ch p sender sub messages w =
     (if sender \<noteq> lp_self p then Err (CustomError ''UnauthorizedAccess'' [])
      else if length (as_functions sub) \<noteq> length messages then
        Err (Revert ''Number of messages does not match number of functions'')
      else
        and_then (for_u8 (length (as_functions sub)) 0
            (atomic_round ch (lp_self p) (as_functions sub) messages) w) (\<lambda>w'.
          Ok (w', length (as_functions sub))))"

text \<open>The external call to itself: what it changed is lost when it reverts.\<close>

definition handle_atomic_subroutine ::
  "('w, 'z) evm_chain_scheme \<Rightarrow> lite_processor \<Rightarrow> evm_atomic_subroutine \<Rightarrow> bytes list \<Rightarrow> 'w \<Rightarrow>
   'w \<times> subroutine_result"
where
  "handle_atomic_subroutine ch p sub messages w =
     (case execute_atomic_subroutine ch p (lp_self p) sub messages w of
        Ok (w', total_executed) \<Rightarrow>
          (w', \<lparr>succeeded = True, expired = False, executed_count = total_executed, error_data = []\<rparr>)
      | Err e \<Rightarrow>
          (w, \<lparr>succeeded = False, expired = False, executed_count = 0, error_data = revert_data ch e\<rparr>))"

record 'w non_atomic_loop =
  nl_world :: 'w
  nl_executed_count :: u32
  nl_error_data :: bytes
  nl_succeeded :: bool

definition non_atomic_round ::
  "('w, 'z) evm_chain_scheme \<Rightarrow> eth_address \<Rightarrow> evm_non_atomic_function list \<Rightarrow> bytes list \<Rightarrow> nat \<Rightarrow>
   'w non_atomic_loop \<Rightarrow> 'w non_atomic_loop loop evm"
where
  "non_atomic_round ch self functions messages i s =
     (let target_contract = nf_contract (functions ! i)
      in if code_size ch (nl_world s) target_contract = 0 then
           Ok (Break (s\<lparr>nl_error_data := ''Contract does not exist'', nl_succeeded := False\<rparr>))
         else
           (case ext_call ch self target_contract 0 (messages ! i) (nl_world s) of
              Ok (w', _) \<Rightarrow>
                if nl_executed_count s + 1 < 2 ^ 32 then
                  Ok (Continue (s\<lparr>nl_world := w', nl_executed_count := nl_executed_count s + 1\<rparr>))
                else Err overflow_panic
            | Err data \<Rightarrow>
                Ok (Break (s\<lparr>nl_error_data :=
                    if 0 < length data then data else ''Contract call failed without error data'',
                  nl_succeeded := False\<rparr>))))"

definition handle_non_atomic_subroutine ::
  "('w, 'z) evm_chain_scheme \<Rightarrow> lite_processor \<Rightarrow> evm_non_atomic_subroutine \<Rightarrow> bytes list \<Rightarrow> 'w \<Rightarrow>
   ('w \<times> subroutine_result) evm"
where
  "handle_non_atomic_subroutine ch p sub messages w =
     (if length (ns_functions sub) \<noteq> length messages then
        Err (Revert ''Number of messages does not match number of functions'')
      else
        and_then (for_u8 (length (ns_functions sub)) 0
            (non_atomic_round ch (lp_self p) (ns_functions sub) messages)
            \<lparr>nl_world = w, nl_executed_count = 0, nl_error_data = [], nl_succeeded = True\<rparr>) (\<lambda>s.
          Ok (nl_world s, \<lparr>succeeded = nl_succeeded s, expired = False,
            executed_count = nl_executed_count s, error_data = nl_error_data s\<rparr>)))"

section \<open>Callbacks (ProcessorBase.sol)\<close>

definition build_callback :: "u64 \<Rightarrow> subroutine_result \<Rightarrow> evm_callback" where
  "build_callback execution_id r =
     \<lparr>cb_execution_id = execution_id,
      cb_execution_result =
        (if succeeded r then ResultSuccess
         else if expired r then ResultExpired
         else if executed_count r = 0 then ResultRejected
         else ResultPartiallyExecuted),
      cb_executed_count = executed_count r,
      cb_data = error_data r\<rparr>"

definition send_callback ::
  "('w, 'z) hyperlane_chain_scheme \<Rightarrow> 'a processor_abi_scheme \<Rightarrow> lite_processor \<Rightarrow> eth_address \<Rightarrow>
   evm_callback \<Rightarrow> 'w \<Rightarrow> ('w \<times> evm_processor_event list) evm"
where
  "send_callback ch abi p callback_receiver cb w =
     (let encoded = enc_callback abi cb;
          sent = CallbackSent (cb_execution_id cb) (cb_execution_result cb) (cb_executed_count cb)
      in if callback_receiver = lp_mailbox p then
           and_then (mailbox_dispatch ch (lp_self p) (lp_mailbox p) (lp_origin_domain p)
               (lp_authorization_contract p) encoded w) (\<lambda>w'.
             Ok (w', [sent]))
         else
           (case ext_call ch (lp_self p) callback_receiver 0 (enc_handle_callback abi encoded) w of
              Ok (w', _) \<Rightarrow> Ok (w', [sent])
            | Err _ \<Rightarrow> Ok (w, [sent])))"

definition build_and_send_callback ::
  "('w, 'z) hyperlane_chain_scheme \<Rightarrow> 'a processor_abi_scheme \<Rightarrow> lite_processor \<Rightarrow> eth_address \<Rightarrow> u64 \<Rightarrow>
   subroutine_result \<Rightarrow> 'w \<Rightarrow> ('w \<times> evm_processor_event list) evm"
where
  "build_and_send_callback ch abi p callback_receiver execution_id r w =
     send_callback ch abi p callback_receiver (build_callback execution_id r) w"

section \<open>LiteProcessor.sol\<close>

definition handle_send_msgs ::
  "('w, 'z) hyperlane_chain_scheme \<Rightarrow> 'a processor_abi_scheme \<Rightarrow> evm_ctx \<Rightarrow> lite_processor \<Rightarrow>
   evm_processor_message \<Rightarrow> 'w \<Rightarrow> ('w \<times> evm_processor_event list) evm"
where
  "handle_send_msgs ch abi ctx p m w =
     and_then (ensure (\<not> lp_paused p) (CustomError ''ProcessorPaused'' [])) (\<lambda>_.
     and_then (dec_send_msgs abi (pm_message m)) (\<lambda>sm.
       if sm_expiration_time sm \<noteq> 0 \<and> sm_expiration_time sm < block_timestamp ctx then
         build_and_send_callback ch abi p (msg_sender ctx) (sm_execution_id sm)
           \<lparr>succeeded = False, expired = True, executed_count = 0, error_data = []\<rparr> w
       else
         and_then
           (case sub_type (sm_subroutine sm) of
              TypeAtomic \<Rightarrow>
                and_then (dec_atomic abi (sub_data (sm_subroutine sm))) (\<lambda>sub.
                  Ok (handle_atomic_subroutine ch p sub (sm_messages sm) w))
            | TypeNonAtomic \<Rightarrow>
                and_then (dec_non_atomic abi (sub_data (sm_subroutine sm))) (\<lambda>sub.
                  handle_non_atomic_subroutine ch p sub (sm_messages sm) w)) (\<lambda>(w', r).
           if 0 < code_size ch w' (msg_sender ctx) then
             build_and_send_callback ch abi p (msg_sender ctx) (sm_execution_id sm) r w'
           else Ok (w', []))))"

definition handle_message_type ::
  "('w, 'z) hyperlane_chain_scheme \<Rightarrow> 'a processor_abi_scheme \<Rightarrow> evm_ctx \<Rightarrow> lite_processor \<Rightarrow>
   evm_processor_message \<Rightarrow> 'w \<Rightarrow> 'w lite_result"
where
  "handle_message_type ch abi ctx p m w =
     (if pm_type m = MsgPause then (case handle_pause p of (p', evs) \<Rightarrow> Ok (p', w, evs))
      else if pm_type m = MsgResume then (case handle_resume p of (p', evs) \<Rightarrow> Ok (p', w, evs))
      else if pm_type m = MsgSendMsgs then
        and_then (handle_send_msgs ch abi ctx p m w) (\<lambda>(w', evs). Ok (p, w', evs))
      else Err (CustomError ''UnsupportedOperation'' []))"

definition lite_handle ::
  "('w, 'z) hyperlane_chain_scheme \<Rightarrow> 'a processor_abi_scheme \<Rightarrow> evm_ctx \<Rightarrow> u32 \<Rightarrow> bytes \<Rightarrow> bytes \<Rightarrow>
   lite_processor \<Rightarrow> 'w \<Rightarrow> 'w lite_result"
where
  "lite_handle ch abi ctx origin sender body p w =
     and_then (ensure (msg_sender ctx = lp_mailbox p) (CustomError ''UnauthorizedAccess'' [])) (\<lambda>_.
     and_then (ensure (origin = lp_origin_domain p) (CustomError ''InvalidOriginDomain'' [])) (\<lambda>_.
     and_then (ensure (sender = lp_authorization_contract p) (CustomError ''NotAuthorizationContract'' [])) (\<lambda>_.
     and_then (dec_processor_message abi body) (\<lambda>m.
       handle_message_type ch abi ctx p m w))))"

definition lite_execute ::
  "('w, 'z) hyperlane_chain_scheme \<Rightarrow> 'a processor_abi_scheme \<Rightarrow> evm_ctx \<Rightarrow> bytes \<Rightarrow> lite_processor \<Rightarrow> 'w \<Rightarrow>
   'w lite_result"
where
  "lite_execute ch abi ctx body p w =
     and_then (ensure (lp_authorized p (msg_sender ctx)) (CustomError ''UnauthorizedAccess'' [])) (\<lambda>_.
     and_then (dec_processor_message abi body) (\<lambda>m.
       handle_message_type ch abi ctx p m w))"

end
