(* ===== verification/Verification_Router.thy ===== *)
theory Verification_Router
  imports Evm
begin

text \<open>
  Verification of proofs on the EVM (\<open>solidity/src/verification/\<close>): the router that maps names of
  routes to verifiers, and the switch that has a program proof and a domain proof checked by the SP1
  verifier. The verifiers a route can lead to and the SP1 verifier are parameters.
\<close>

type_synonym verifier_call = "eth_address \<Rightarrow> bytes \<Rightarrow> bytes \<Rightarrow> bytes \<Rightarrow> bytes \<Rightarrow> bool evm"

record verification_router =
  vr_owner :: eth_address
  vr_routes :: "string \<Rightarrow> eth_address"

definition router_constructor ::
  "('w, 'z) evm_chain_scheme \<Rightarrow> eth_address \<Rightarrow> verification_router evm"
where
  "router_constructor ch sender =
     and_then (init_owner ch sender) (\<lambda>_. Ok \<lparr>vr_owner = sender, vr_routes = (\<lambda>_. zero_address)\<rparr>)"

definition add_route ::
  "('w, 'z) evm_chain_scheme \<Rightarrow> eth_address \<Rightarrow> string \<Rightarrow> eth_address \<Rightarrow> verification_router \<Rightarrow>
   verification_router evm"
where
  "add_route ch sender name route r =
     and_then (check_owner ch (vr_owner r) sender) (\<lambda>_.
     and_then (require (route \<noteq> zero_address) ''Invalid route address'') (\<lambda>_.
     and_then (require (vr_routes r name = zero_address) ''Route already exists'') (\<lambda>_.
       Ok (r\<lparr>vr_routes := (vr_routes r)(name := route)\<rparr>))))"

definition get_route :: "string \<Rightarrow> verification_router \<Rightarrow> eth_address" where
  "get_route name r = vr_routes r name"

definition router_verify ::
  "verifier_call \<Rightarrow> string \<Rightarrow> bytes \<Rightarrow> bytes \<Rightarrow> bytes \<Rightarrow> bytes \<Rightarrow> verification_router \<Rightarrow> bool evm"
where
  "router_verify verifier name vk zk_proof inputs payload r =
     and_then (require (vr_routes r name \<noteq> zero_address) ''Route not found'') (\<lambda>_.
       verifier (vr_routes r name) vk zk_proof inputs payload)"

record sp1_switch =
  sp1_verifier :: eth_address
  domain_vk :: bytes

definition switch_constructor :: "eth_address \<Rightarrow> bytes \<Rightarrow> sp1_switch evm" where
  "switch_constructor verifier vk =
     and_then (require (verifier \<noteq> zero_address) ''Invalid SP1 verifier address'') (\<lambda>_.
       Ok \<lparr>sp1_verifier = verifier, domain_vk = vk\<rparr>)"

text \<open>\<open>inputs[0:32]\<close> reverts if there are fewer than 32 bytes.\<close>

definition switch_verify ::
  "(eth_address \<Rightarrow> bytes \<Rightarrow> bytes \<Rightarrow> bytes \<Rightarrow> unit evm) \<Rightarrow> sp1_switch \<Rightarrow> bytes \<Rightarrow> bytes \<Rightarrow> bytes \<Rightarrow> bytes \<Rightarrow>
   bool evm"
where
  "switch_verify verify_proof sw vk zk_proof inputs payload =
     and_then (require (length vk = 32) ''VK must be 32 bytes'') (\<lambda>_.
     and_then (verify_proof (sp1_verifier sw) vk inputs zk_proof) (\<lambda>_.
     and_then (ensure (32 \<le> length inputs) (RevertData [])) (\<lambda>_.
     and_then (verify_proof (sp1_verifier sw) (domain_vk sw) (take 32 inputs) payload) (\<lambda>_.
       Ok True))))"

text \<open>A route, once added, is never changed.\<close>

lemma routes_append_only:
  assumes "add_route ch sender name route r = Ok r'" and "vr_routes r n \<noteq> zero_address"
  shows "vr_routes r' n = vr_routes r n"
  using assms by (auto simp: add_route_def and_then_Ok_iff ensure_Ok_iff)

text \<open>The switch accepts exactly what the SP1 verifier accepts, for the program and for the domain.\<close>

lemma switch_verify_Ok_iff:
  "switch_verify verify_proof sw vk zk_proof inputs payload = Ok b \<longleftrightarrow>
     b \<and> length vk = 32 \<and> 32 \<le> length inputs
   \<and> verify_proof (sp1_verifier sw) vk inputs zk_proof = Ok ()
   \<and> verify_proof (sp1_verifier sw) (domain_vk sw) (take 32 inputs) payload = Ok ()"
  by (auto simp: switch_verify_def and_then_Ok_iff ensure_Ok_iff)

end
