(* ===== verification/Evm_Authorization.thy ===== *)
theory Evm_Authorization
  imports Lite_Processor Verification_Router
begin

text \<open>
  The authorization contract of an EVM domain (\<open>solidity/src/authorization/Authorization.sol\<close>):
  standard authorizations by address and label, ZK authorizations with their protection against
  replays, the messages forwarded to the processor and its callbacks. A function that ends by calling
  the processor returns the call data with the new state. The composition with the processor is at the
  end: the callback of the processor reaches the authorization contract within the same transaction.
\<close>

section \<open>State\<close>

record evm_processor_callback =
  pc_execution_result :: evm_execution_result
  pc_executed_count :: u64
  pc_data :: bytes

record evm_authorization_data =
  ad_contract_address :: eth_address
  ad_use_function_selector :: bool
  ad_function_selector :: bytes
  ad_call_hash :: bytes

record evm_zk_message =
  zm_registry :: u64
  zm_block_number :: u64
  zm_authorization_contract :: eth_address
  zm_processor_message :: evm_processor_message

record evm_zk_authorization_data =
  zd_allowed_execution_addresses :: "eth_address list"
  zd_vk :: bytes
  zd_route :: string
  zd_validate_block_number_execution :: bool
  zd_metadata_hash :: bytes

definition no_zk_data :: evm_zk_authorization_data where
  "no_zk_data = \<lparr>zd_allowed_execution_addresses = [], zd_vk = [], zd_route = [],
     zd_validate_block_number_execution = False, zd_metadata_hash = replicate 32 (CHR 0x00)\<rparr>"

record evm_authorization =
  ea_self :: eth_address
  ea_owner :: eth_address
  ea_processor :: eth_address
  ea_store_callbacks :: bool
  ea_callbacks :: "u64 \<rightharpoonup> evm_processor_callback"
  ea_execution_id :: u64
  ea_admin_addresses :: "eth_address \<Rightarrow> bool"
  ea_authorizations :: "string \<Rightarrow> eth_address list"
  ea_authorizations_data :: "string \<Rightarrow> evm_authorization_data list"
  ea_verification_router :: eth_address
  ea_zk_authorizations :: "u64 \<Rightarrow> evm_zk_authorization_data"
  ea_zk_last_execution_block :: "u64 \<Rightarrow> u64"

datatype evm_authorization_event =
    CallbackReceived u64 evm_execution_result u64 bytes
  | AdminAddressAdded eth_address
  | AdminAddressRemoved eth_address
  | AuthorizationAdded string
  | AuthorizationRemoved string

datatype evm_authorization_call =
    CallUpdateProcessor eth_address
  | CallSetVerificationRouter eth_address
  | CallAddAdminAddress eth_address
  | CallRemoveAdminAddress eth_address
  | CallAddStandardAuthorizations "string list" "eth_address list list" "evm_authorization_data list list"
  | CallRemoveStandardAuthorizations "string list"
  | CallAddRegistries "u64 list" "evm_zk_authorization_data list"
  | CallUpdateRegistryRoute u64 string
  | CallRemoveRegistries "u64 list"
  | CallHandleCallback bytes
  | CallInherited bytes
  | CallSendProcessorMessage string bytes
  | CallExecuteZKMessage bytes bytes bytes

text \<open>
  Hashing and the coding of the types of this contract. The call data the processor builds for its
  callback is read as that call.
\<close>

record authorization_abi = processor_abi +
  keccak256 :: "bytes \<Rightarrow> bytes"
  dec_zk_message :: "bytes \<Rightarrow> evm_zk_message evm"
  dec_authorization_call :: "bytes \<Rightarrow> evm_authorization_call evm"

definition auth_abi_ok :: "'z authorization_abi_scheme \<Rightarrow> bool" where
  "auth_abi_ok abi \<longleftrightarrow> abi_ok abi
     \<and> (\<forall>b. dec_authorization_call abi (enc_handle_callback abi b) = Ok (CallHandleCallback b))"

section \<open>Administration\<close>

type_synonym authorization_result = "(evm_authorization \<times> evm_authorization_event list) evm"

definition authorization_constructor ::
  "('w, 'z) evm_chain_scheme \<Rightarrow> eth_address \<Rightarrow> eth_address \<Rightarrow> eth_address \<Rightarrow> bool \<Rightarrow> evm_authorization evm"
where
  "authorization_constructor ch self owner processor store =
     and_then (init_owner ch owner) (\<lambda>_.
     and_then (require (processor \<noteq> zero_address) ''Processor cannot be zero address'') (\<lambda>_.
       Ok \<lparr>ea_self = self, ea_owner = owner, ea_processor = processor, ea_store_callbacks = store,
           ea_callbacks = Map.empty, ea_execution_id = 0, ea_admin_addresses = (\<lambda>_. False),
           ea_authorizations = (\<lambda>_. []), ea_authorizations_data = (\<lambda>_. []),
           ea_verification_router = zero_address, ea_zk_authorizations = (\<lambda>_. no_zk_data),
           ea_zk_last_execution_block = (\<lambda>_. 0)\<rparr>))"

definition update_evm_processor :: "eth_address \<Rightarrow> evm_authorization \<Rightarrow> authorization_result" where
  "update_evm_processor processor a =
     and_then (require (processor \<noteq> zero_address) ''Processor cannot be zero address'') (\<lambda>_.
       Ok (a\<lparr>ea_processor := processor\<rparr>, []))"

definition set_router :: "eth_address \<Rightarrow> evm_authorization \<Rightarrow> authorization_result" where
  "set_router router a = Ok (a\<lparr>ea_verification_router := router\<rparr>, [])"

definition add_admin_address :: "eth_address \<Rightarrow> evm_authorization \<Rightarrow> authorization_result" where
  "add_admin_address admin a =
     Ok (a\<lparr>ea_admin_addresses := (ea_admin_addresses a)(admin := True)\<rparr>, [AdminAddressAdded admin])"

definition remove_admin_address :: "eth_address \<Rightarrow> evm_authorization \<Rightarrow> authorization_result" where
  "remove_admin_address admin a =
     Ok (a\<lparr>ea_admin_addresses := (ea_admin_addresses a)(admin := False)\<rparr>, [AdminAddressRemoved admin])"

definition add_standard_authorization ::
  "evm_authorization \<times> evm_authorization_event list \<Rightarrow>
   string \<times> eth_address list \<times> evm_authorization_data list \<Rightarrow> authorization_result"
where
  "add_standard_authorization s e =
     (case (s, e) of ((a, evs), label, users, data) \<Rightarrow>
        and_then (require (0 < length users) ''Users array cannot be empty'') (\<lambda>_.
        and_then (require (0 < length data) (''Authorization data array cannot be empty for: '' @ label)) (\<lambda>_.
          Ok (a\<lparr>ea_authorizations := (ea_authorizations a)(label := users),
                ea_authorizations_data := (ea_authorizations_data a)(label := data)\<rparr>,
              evs @ [AuthorizationAdded label]))))"

definition add_standard_authorizations ::
  "string list \<Rightarrow> eth_address list list \<Rightarrow> evm_authorization_data list list \<Rightarrow> evm_authorization \<Rightarrow>
   authorization_result"
where
  "add_standard_authorizations labels users data a =
     and_then (require (length labels = length data \<and> length labels = length users)
       ''Array lengths must match'') (\<lambda>_.
       try_fold add_standard_authorization (a, []) (zip labels (zip users data)))"

definition remove_standard_authorizations :: "string list \<Rightarrow> evm_authorization \<Rightarrow> authorization_result" where
  "remove_standard_authorizations labels a =
     Ok (fold (\<lambda>label a. a\<lparr>ea_authorizations_data := (ea_authorizations_data a)(label := []),
                            ea_authorizations := (ea_authorizations a)(label := [])\<rparr>) labels a,
         map AuthorizationRemoved labels)"

definition add_registry ::
  "evm_authorization \<Rightarrow> u64 \<times> evm_zk_authorization_data \<Rightarrow> evm_authorization evm"
where
  "add_registry a e =
     and_then (require (0 < length (zd_allowed_execution_addresses (snd e))) ''No allowed addresses for registry'') (\<lambda>_.
       Ok (a\<lparr>ea_zk_authorizations := (ea_zk_authorizations a)(fst e := snd e)\<rparr>))"

definition add_registries ::
  "u64 list \<Rightarrow> evm_zk_authorization_data list \<Rightarrow> evm_authorization \<Rightarrow> authorization_result"
where
  "add_registries registries data a =
     and_then (require (length registries = length data) ''Array lengths must match'') (\<lambda>_.
     and_then (require (ea_verification_router a \<noteq> zero_address) ''Verification router not set'') (\<lambda>_.
     and_then (try_fold add_registry a (zip registries data)) (\<lambda>a'.
       Ok (a', []))))"

definition update_registry_route :: "u64 \<Rightarrow> string \<Rightarrow> evm_authorization \<Rightarrow> authorization_result" where
  "update_registry_route registry route a =
     and_then (require (length (zd_allowed_execution_addresses (ea_zk_authorizations a registry)) \<noteq> 0)
       ''Registry does not exist'') (\<lambda>_.
       Ok (a\<lparr>ea_zk_authorizations := (ea_zk_authorizations a)
               (registry := (ea_zk_authorizations a registry)\<lparr>zd_route := route\<rparr>)\<rparr>, []))"

definition remove_registries :: "u64 list \<Rightarrow> evm_authorization \<Rightarrow> authorization_result" where
  "remove_registries registries a =
     Ok (fold (\<lambda>r a. a\<lparr>ea_zk_authorizations := (ea_zk_authorizations a)(r := no_zk_data),
                        ea_zk_last_execution_block := (ea_zk_last_execution_block a)(r := 0)\<rparr>) registries a, [])"

definition get_zk_authorization_data :: "u64 \<Rightarrow> evm_authorization \<Rightarrow> evm_zk_authorization_data" where
  "get_zk_authorization_data registry a = ea_zk_authorizations a registry"

section \<open>Standard authorizations\<close>

definition require_admin_access :: "evm_authorization \<Rightarrow> eth_address \<Rightarrow> unit evm" where
  "require_admin_access a sender = require (ea_admin_addresses a sender) ''Unauthorized access''"

text \<open>\<open>bytes4(message)\<close>: the first four bytes, filled up with zeros.\<close>

definition function_selector :: "bytes \<Rightarrow> bytes" where
  "function_selector m = take 4 (m @ replicate 4 (CHR 0x00))"

definition data_matches :: "evm_authorization_data \<times> evm_authorization_data \<Rightarrow> bool" where
  "data_matches e =
     (case e of (l, d) \<Rightarrow>
        ad_contract_address l = ad_contract_address d
      \<and> (if ad_use_function_selector l then ad_function_selector l = ad_function_selector d
         else ad_call_hash l = ad_call_hash d))"

definition check_address_is_authorized ::
  "eth_address \<Rightarrow> string \<Rightarrow> evm_authorization_data list \<Rightarrow> evm_authorization \<Rightarrow> bool"
where
  "check_address_is_authorized address label data a =
     (if \<not> list_ex (\<lambda>x. x = address \<or> x = zero_address) (ea_authorizations a label) then False
      else if length (ea_authorizations_data a label) \<noteq> length data then False
      else list_all data_matches (zip (ea_authorizations_data a label) data))"

definition data_of_call :: "'z authorization_abi_scheme \<Rightarrow> eth_address \<Rightarrow> bytes \<Rightarrow> evm_authorization_data" where
  "data_of_call abi target message =
     \<lparr>ad_contract_address = target, ad_use_function_selector = True,
      ad_function_selector = function_selector message, ad_call_hash = keccak256 abi message\<rparr>"

definition verify_calls ::
  "'z authorization_abi_scheme \<Rightarrow> eth_address \<Rightarrow> string \<Rightarrow> eth_address list \<Rightarrow> bytes list \<Rightarrow> evm_authorization \<Rightarrow>
   unit evm"
where
  "verify_calls abi sender label targets messages a =
     and_then (require (\<not> (0 < length targets \<and> length targets \<noteq> length messages))
       ''Subroutine functions length does not match messages length'') (\<lambda>_.
     require (check_address_is_authorized sender label
         (map (\<lambda>i. data_of_call abi (targets ! i) (messages ! i)) [0 ..< length targets]) a)
       ''Unauthorized access'')"

definition verify_atomic_subroutine_authorization ::
  "'z authorization_abi_scheme \<Rightarrow> eth_address \<Rightarrow> string \<Rightarrow> evm_send_msgs \<Rightarrow> evm_authorization \<Rightarrow> unit evm"
where
  "verify_atomic_subroutine_authorization abi sender label sm a =
     and_then (dec_atomic abi (sub_data (sm_subroutine sm))) (\<lambda>sub.
       verify_calls abi sender label (map af_contract (as_functions sub)) (sm_messages sm) a)"

definition verify_non_atomic_subroutine_authorization ::
  "'z authorization_abi_scheme \<Rightarrow> eth_address \<Rightarrow> string \<Rightarrow> evm_send_msgs \<Rightarrow> evm_authorization \<Rightarrow> unit evm"
where
  "verify_non_atomic_subroutine_authorization abi sender label sm a =
     and_then (dec_non_atomic abi (sub_data (sm_subroutine sm))) (\<lambda>sub.
       verify_calls abi sender label (map nf_contract (ns_functions sub)) (sm_messages sm) a)"

definition handle_send_msgs_request ::
  "'z authorization_abi_scheme \<Rightarrow> eth_address \<Rightarrow> string \<Rightarrow> evm_processor_message \<Rightarrow> evm_authorization \<Rightarrow> bytes evm"
where
  "handle_send_msgs_request abi sender label m a =
     and_then (dec_send_msgs abi (pm_message m)) (\<lambda>sm.
     and_then (case sub_type (sm_subroutine sm) of
         TypeAtomic \<Rightarrow> verify_atomic_subroutine_authorization abi sender label sm a
       | TypeNonAtomic \<Rightarrow> verify_non_atomic_subroutine_authorization abi sender label sm a) (\<lambda>_.
       Ok (enc_processor_message abi (m\<lparr>pm_message :=
         enc_send_msgs abi (sm\<lparr>sm_priority := PriorityMedium, sm_execution_id := ea_execution_id a\<rparr>)\<rparr>))))"

definition handle_insert_msgs_request ::
  "'z authorization_abi_scheme \<Rightarrow> eth_address \<Rightarrow> evm_processor_message \<Rightarrow> evm_authorization \<Rightarrow> bytes evm"
where
  "handle_insert_msgs_request abi sender m a =
     and_then (require_admin_access a sender) (\<lambda>_.
     and_then (dec_insert_msgs abi (pm_message m)) (\<lambda>im.
       Ok (enc_processor_message abi (m\<lparr>pm_message :=
         enc_insert_msgs abi (im\<lparr>im_execution_id := ea_execution_id a\<rparr>)\<rparr>))))"

definition send_processor_message ::
  "'z authorization_abi_scheme \<Rightarrow> eth_address \<Rightarrow> string \<Rightarrow> bytes \<Rightarrow> evm_authorization \<Rightarrow>
   (evm_authorization \<times> bytes) evm"
where
  "send_processor_message abi sender label message a =
     and_then (dec_processor_message abi message) (\<lambda>m.
     and_then
       (if pm_type m = MsgSendMsgs then handle_send_msgs_request abi sender label m a
        else if pm_type m = MsgInsertMsgs then handle_insert_msgs_request abi sender m a
        else and_then (require_admin_access a sender) (\<lambda>_. Ok message)) (\<lambda>message'.
     and_then (inc64 (ea_execution_id a)) (\<lambda>next_id.
       Ok (a\<lparr>ea_execution_id := next_id\<rparr>, message'))))"

section \<open>ZK authorizations\<close>

text \<open>The router at an address is called through its interface; where there is none the call reverts.\<close>

definition router_call ::
  "verifier_call \<Rightarrow> (eth_address \<rightharpoonup> verification_router) \<Rightarrow> eth_address \<Rightarrow> string \<Rightarrow> bytes \<Rightarrow> bytes \<Rightarrow> bytes \<Rightarrow>
   bytes \<Rightarrow> bool evm"
where
  "router_call verifier routers router route vk zk_proof inputs payload =
     (case routers router of
        None \<Rightarrow> Err (RevertData [])
      | Some r \<Rightarrow> router_verify verifier route vk zk_proof inputs payload r)"

definition set_message_execution_id ::
  "'z authorization_abi_scheme \<Rightarrow> u64 \<Rightarrow> evm_processor_message \<Rightarrow> evm_processor_message evm"
where
  "set_message_execution_id abi execution_id m =
     (if pm_type m = MsgSendMsgs then
        and_then (dec_send_msgs abi (pm_message m)) (\<lambda>sm.
          Ok (m\<lparr>pm_message := enc_send_msgs abi (sm\<lparr>sm_execution_id := execution_id\<rparr>)\<rparr>))
      else if pm_type m = MsgInsertMsgs then
        and_then (dec_insert_msgs abi (pm_message m)) (\<lambda>im.
          Ok (m\<lparr>pm_message := enc_insert_msgs abi (im\<lparr>im_execution_id := execution_id\<rparr>)\<rparr>))
      else Ok m)"

definition execute_zk_message ::
  "'z authorization_abi_scheme \<Rightarrow> verifier_call \<Rightarrow> (eth_address \<rightharpoonup> verification_router) \<Rightarrow> eth_address \<Rightarrow>
   bytes \<Rightarrow> bytes \<Rightarrow> bytes \<Rightarrow> evm_authorization \<Rightarrow> (evm_authorization \<times> bytes) evm"
where
  "execute_zk_message abi verifier routers sender inputs zk_proof payload a =
     and_then (ensure (32 \<le> length inputs) (RevertData [])) (\<lambda>_.
     and_then (dec_zk_message abi (drop 32 inputs)) (\<lambda>zm.
     and_then (require (zm_authorization_contract zm = zero_address \<or> zm_authorization_contract zm = ea_self a)
       ''Invalid authorization contract'') (\<lambda>_.
     let d = ea_zk_authorizations a (zm_registry zm)
     in and_then (require (list_ex (\<lambda>x. x = sender \<or> x = zero_address) (zd_allowed_execution_addresses d))
          ''Unauthorized address for this registry'') (\<lambda>_.
        and_then (require (zd_validate_block_number_execution d \<longrightarrow>
            ea_zk_last_execution_block a (zm_registry zm) < zm_block_number zm) ''Proof no longer valid'') (\<lambda>_.
        and_then (require (ea_verification_router a \<noteq> zero_address) ''Verification router not set'') (\<lambda>_.
        and_then (router_call verifier routers (ea_verification_router a) (zd_route d) (zd_vk d) zk_proof
            inputs payload) (\<lambda>verified.
        and_then (require verified ''Proof verification failed'') (\<lambda>_.
        and_then (set_message_execution_id abi (ea_execution_id a) (zm_processor_message zm)) (\<lambda>m.
        and_then (inc64 (ea_execution_id a)) (\<lambda>next_id.
          Ok (let a1 = a\<lparr>ea_execution_id := next_id\<rparr>
              in if zd_validate_block_number_execution d then
                   a1\<lparr>ea_zk_last_execution_block :=
                     (ea_zk_last_execution_block a1)(zm_registry zm := zm_block_number zm)\<rparr>
                 else a1,
              enc_processor_message abi m)))))))))))"

section \<open>Callbacks\<close>

definition handle_callback ::
  "'z authorization_abi_scheme \<Rightarrow> eth_address \<Rightarrow> bytes \<Rightarrow> evm_authorization \<Rightarrow> authorization_result"
where
  "handle_callback abi sender callback_data a =
     and_then (require (sender = ea_processor a) ''Only processor can call this function'') (\<lambda>_.
     and_then (dec_callback abi callback_data) (\<lambda>cb.
       Ok (if ea_store_callbacks a then
             a\<lparr>ea_callbacks := (ea_callbacks a)(cb_execution_id cb \<mapsto>
               \<lparr>pc_execution_result = cb_execution_result cb,
                pc_executed_count = to_u64 (cb_executed_count cb), pc_data = cb_data cb\<rparr>)\<rparr>
           else a,
           [CallbackReceived (cb_execution_id cb) (cb_execution_result cb)
              (to_u64 (cb_executed_count cb)) (cb_data cb)])))"

section \<open>Calls to the contract\<close>

text \<open>The functions of the owner and the callback, which another contract may call at any time.\<close>

definition owner_function ::
  "evm_authorization_call \<Rightarrow> evm_authorization \<Rightarrow> authorization_result"
where
  "owner_function c a =
     (case c of
        CallUpdateProcessor processor \<Rightarrow> update_evm_processor processor a
      | CallSetVerificationRouter router \<Rightarrow> set_router router a
      | CallAddAdminAddress admin \<Rightarrow> add_admin_address admin a
      | CallRemoveAdminAddress admin \<Rightarrow> remove_admin_address admin a
      | CallAddStandardAuthorizations labels users data \<Rightarrow> add_standard_authorizations labels users data a
      | CallRemoveStandardAuthorizations labels \<Rightarrow> remove_standard_authorizations labels a
      | CallAddRegistries registries data \<Rightarrow> add_registries registries data a
      | CallUpdateRegistryRoute registry route \<Rightarrow> update_registry_route registry route a
      | CallRemoveRegistries registries \<Rightarrow> remove_registries registries a
      | _ \<Rightarrow> Err (RevertData []))"

text \<open>
  While a message is sent, the functions with \<open>nonReentrant\<close> are closed: OpenZeppelin's guard reverts.
\<close>

definition open_call ::
  "('w, 'y) evm_chain_scheme \<Rightarrow> 'z authorization_abi_scheme \<Rightarrow> eth_address \<Rightarrow> evm_authorization_call \<Rightarrow>
   evm_authorization \<Rightarrow> authorization_result"
where
  "open_call ch abi sender c a =
     (case c of
        CallHandleCallback data \<Rightarrow> handle_callback abi sender data a
      | CallInherited data \<Rightarrow>
          and_then (ownable_call ch sender data (ea_owner a)) (\<lambda>owner. Ok (a\<lparr>ea_owner := owner\<rparr>, []))
      | CallSendProcessorMessage label message \<Rightarrow> Err (CustomError ''ReentrancyGuardReentrantCall'' [])
      | CallExecuteZKMessage inputs zk_proof payload \<Rightarrow> Err (CustomError ''ReentrancyGuardReentrantCall'' [])
      | _ \<Rightarrow> and_then (check_owner ch (ea_owner a) sender) (\<lambda>_. owner_function c a))"

section \<open>Composition with the processor\<close>

text \<open>
  The chain with the authorization contract as part of its state. Calls that do not revert are
  recorded with caller, target and data.
\<close>

record 'w evm_system =
  sys_authorization :: evm_authorization
  sys_world :: 'w
  sys_calls :: "(eth_address \<times> eth_address \<times> bytes) list"

definition system_call ::
  "('w, 'y) hyperlane_chain_scheme \<Rightarrow> 'z authorization_abi_scheme \<Rightarrow> eth_address \<Rightarrow> eth_address \<Rightarrow> u256 \<Rightarrow>
   bytes \<Rightarrow> 'w evm_system \<Rightarrow> ('w evm_system \<times> bytes, bytes) result"
where
  "system_call ch abi caller target value data s =
     (if target = ea_self (sys_authorization s) then
        (case and_then (ensure (value = 0) (RevertData [])) (\<lambda>_.
             and_then (dec_authorization_call abi data) (\<lambda>c.
               open_call ch abi caller c (sys_authorization s))) of
           Ok (a, evs) \<Rightarrow>
             Ok (s\<lparr>sys_authorization := a, sys_calls := sys_calls s @ [(caller, target, data)]\<rparr>, [])
         | Err e \<Rightarrow> Err (revert_data ch e))
      else
        map_ok (\<lambda>(w, r). (s\<lparr>sys_world := w, sys_calls := sys_calls s @ [(caller, target, data)]\<rparr>, r))
          (ext_call ch caller target value data (sys_world s)))"

definition system_chain ::
  "('w, 'y) hyperlane_chain_scheme \<Rightarrow> 'z authorization_abi_scheme \<Rightarrow> 'w evm_system hyperlane_chain"
where
  "system_chain ch abi =
     \<lparr>init_owner = init_owner ch, check_owner = check_owner ch, ownable_call = ownable_call ch,
      ext_call = system_call ch abi,
      code_size = (\<lambda>s. code_size ch (sys_world s)),
      encode_error = encode_error ch,
      mailbox_dispatch = (\<lambda>caller mailbox domain recipient body s.
        map_ok (\<lambda>w. s\<lparr>sys_world := w\<rparr>)
          (mailbox_dispatch ch caller mailbox domain recipient body (sys_world s)))\<rparr>"

definition system_send ::
  "('w, 'y) hyperlane_chain_scheme \<Rightarrow> 'z authorization_abi_scheme \<Rightarrow> evm_ctx \<Rightarrow> string \<Rightarrow> bytes \<Rightarrow>
   lite_processor \<Rightarrow> 'w evm_system \<Rightarrow> 'w evm_system lite_result"
where
  "system_send ch abi ctx label message p s =
     and_then (send_processor_message abi (msg_sender ctx) label message (sys_authorization s)) (\<lambda>(a, body).
       lite_execute (system_chain ch abi) abi (ctx\<lparr>msg_sender := ea_self a, msg_value := 0\<rparr>) body p
         (s\<lparr>sys_authorization := a\<rparr>))"

definition system_execute_zk ::
  "('w, 'y) hyperlane_chain_scheme \<Rightarrow> 'z authorization_abi_scheme \<Rightarrow> verifier_call \<Rightarrow>
   (eth_address \<rightharpoonup> verification_router) \<Rightarrow> evm_ctx \<Rightarrow> bytes \<Rightarrow> bytes \<Rightarrow> bytes \<Rightarrow>
   lite_processor \<Rightarrow> 'w evm_system \<Rightarrow> 'w evm_system lite_result"
where
  "system_execute_zk ch abi verifier routers ctx inputs zk_proof payload p s =
     and_then (execute_zk_message abi verifier routers (msg_sender ctx) inputs zk_proof payload
         (sys_authorization s)) (\<lambda>(a, body).
       lite_execute (system_chain ch abi) abi (ctx\<lparr>msg_sender := ea_self a, msg_value := 0\<rparr>) body p
         (s\<lparr>sys_authorization := a\<rparr>))"

end
