(* ===== verification/Evm_Examples.thy ===== *)
theory Evm_Examples
  imports Evm_Authorization
begin

text \<open>
  A concrete coding and a concrete chain, on which the parameters of the EVM contracts are what their
  laws ask for. Numbers are written in unary, strings with their length. On the chain the contract at
  address 5 accepts every call and records its data, the contract at 6 refuses, and there are no others
  besides the authorization contract at 20.
\<close>

section \<open>A coding\<close>

definition put_nat :: "nat \<Rightarrow> bytes" where
  "put_nat n = replicate n (CHR ''1'') @ ''0''"

definition get_nat :: "bytes \<Rightarrow> nat \<times> bytes" where
  "get_nat b = (length (takeWhile ((=) (CHR ''1'')) b), tl (dropWhile ((=) (CHR ''1'')) b))"

definition put_bytes :: "bytes \<Rightarrow> bytes" where
  "put_bytes s = put_nat (length s) @ s"

definition get_bytes :: "bytes \<Rightarrow> bytes \<times> bytes" where
  "get_bytes b = (case get_nat b of (n, r) \<Rightarrow> (take n r, drop n r))"

fun get_many :: "nat \<Rightarrow> bytes \<Rightarrow> bytes list \<times> bytes" where
  "get_many 0 b = ([], b)"
| "get_many (Suc n) b = (case get_bytes b of (s, r) \<Rightarrow> (case get_many n r of (ss, r') \<Rightarrow> (s # ss, r')))"

definition put_list :: "bytes list \<Rightarrow> bytes" where
  "put_list ss = put_nat (length ss) @ concat (map put_bytes ss)"

definition get_list :: "bytes \<Rightarrow> bytes list \<times> bytes" where
  "get_list b = (case get_nat b of (n, r) \<Rightarrow> get_many n r)"

lemma get_put_nat [simp]: "get_nat (put_nat n @ r) = (n, r)"
  by (induction n) (simp_all add: get_nat_def put_nat_def)

lemma get_put_bytes [simp]: "get_bytes (put_bytes s @ r) = (s, r)"
  by (simp add: get_bytes_def put_bytes_def)

lemma get_many_put [simp]: "get_many (length ss) (concat (map put_bytes ss) @ r) = (ss, r)"
  by (induction ss) simp_all

lemma get_put_list [simp]: "get_list (put_list ss @ r) = (ss, r)"
  by (simp add: get_list_def put_list_def)

definition message_type_code :: "processor_message_type \<Rightarrow> nat" where
  "message_type_code t = (case t of MsgPause \<Rightarrow> 0 | MsgResume \<Rightarrow> 1 | MsgEvictMsgs \<Rightarrow> 2 | MsgSendMsgs \<Rightarrow> 3 | MsgInsertMsgs \<Rightarrow> 4)"

definition message_type_of :: "nat \<Rightarrow> processor_message_type" where
  "message_type_of n = (if n = 0 then MsgPause else if n = 1 then MsgResume else if n = 2 then MsgEvictMsgs
     else if n = 3 then MsgSendMsgs else MsgInsertMsgs)"

definition result_code :: "evm_execution_result \<Rightarrow> nat" where
  "result_code r = (case r of ResultSuccess \<Rightarrow> 0 | ResultRejected \<Rightarrow> 1 | ResultPartiallyExecuted \<Rightarrow> 2 | ResultExpired \<Rightarrow> 3)"

definition result_of_code :: "nat \<Rightarrow> evm_execution_result" where
  "result_of_code n = (if n = 0 then ResultSuccess else if n = 1 then ResultRejected
     else if n = 2 then ResultPartiallyExecuted else ResultExpired)"

definition put_send_msgs :: "evm_send_msgs \<Rightarrow> bytes" where
  "put_send_msgs m = put_nat (sm_execution_id m) @ put_nat (case sm_priority m of PriorityMedium \<Rightarrow> 0 | PriorityHigh \<Rightarrow> 1)
     @ put_nat (case sub_type (sm_subroutine m) of TypeAtomic \<Rightarrow> 0 | TypeNonAtomic \<Rightarrow> 1)
     @ put_bytes (sub_data (sm_subroutine m)) @ put_nat (sm_expiration_time m) @ put_list (sm_messages m)"

definition get_send_msgs :: "bytes \<Rightarrow> evm_send_msgs evm" where
  "get_send_msgs b =
     (case get_nat b of (i, b1) \<Rightarrow> case get_nat b1 of (pr, b2) \<Rightarrow> case get_nat b2 of (ty, b3) \<Rightarrow>
      case get_bytes b3 of (sub, b4) \<Rightarrow> case get_nat b4 of (ex, b5) \<Rightarrow> case get_list b5 of (ms, _) \<Rightarrow>
        let m = \<lparr>sm_execution_id = i, sm_priority = (if pr = 0 then PriorityMedium else PriorityHigh),
                 sm_subroutine = \<lparr>sub_type = (if ty = 0 then TypeAtomic else TypeNonAtomic), sub_data = sub\<rparr>,
                 sm_expiration_time = ex, sm_messages = ms\<rparr>
        in if send_msgs_fit m then Ok m else Err (RevertData []))"

definition put_callback :: "evm_callback \<Rightarrow> bytes" where
  "put_callback cb = put_nat (cb_execution_id cb) @ put_nat (result_code (cb_execution_result cb))
     @ put_nat (cb_executed_count cb) @ put_bytes (cb_data cb)"

definition get_callback :: "bytes \<Rightarrow> evm_callback evm" where
  "get_callback b =
     (case get_nat b of (i, b1) \<Rightarrow> case get_nat b1 of (r, b2) \<Rightarrow> case get_nat b2 of (n, b3) \<Rightarrow>
      case get_bytes b3 of (d, _) \<Rightarrow>
        Ok \<lparr>cb_execution_id = i, cb_execution_result = result_of_code r, cb_executed_count = n, cb_data = d\<rparr>)"

definition ex_retry_logic :: evm_retry_logic where
  "ex_retry_logic = \<lparr>evm_times = \<lparr>retry_type = NoRetry, retry_amount = 0\<rparr>,
     evm_interval = \<lparr>duration_type = DurationTime, duration_value = 0\<rparr>\<rparr>"

text \<open>A subroutine is coded by the addresses of its functions, one character each.\<close>

definition ex_abi :: authorization_abi where
  "ex_abi =
     \<lparr>dec_processor_message = (\<lambda>b. case get_nat b of (t, r) \<Rightarrow> Ok \<lparr>pm_type = message_type_of t, pm_message = r\<rparr>),
      enc_processor_message = (\<lambda>m. put_nat (message_type_code (pm_type m)) @ pm_message m),
      dec_send_msgs = get_send_msgs, enc_send_msgs = put_send_msgs,
      dec_insert_msgs = (\<lambda>_. Err (RevertData [])), enc_insert_msgs = (\<lambda>_. []),
      dec_atomic = (\<lambda>b. Ok \<lparr>as_functions = map (\<lambda>c. \<lparr>af_contract = of_char c\<rparr>) b, as_retry_logic = ex_retry_logic\<rparr>),
      dec_non_atomic = (\<lambda>b. Ok \<lparr>ns_functions = map (\<lambda>c. \<lparr>nf_contract = of_char c, nf_retry_logic = ex_retry_logic,
          nf_callback_confirmation = \<lparr>fc_contract = 0, fc_message = []\<rparr>\<rparr>) b\<rparr>),
      dec_callback = get_callback, enc_callback = put_callback,
      enc_handle_callback = (\<lambda>b. CHR ''H'' # b),
      keccak256 = (\<lambda>b. b),
      dec_zk_message = (\<lambda>b. case get_nat b of (r, b1) \<Rightarrow> case get_nat b1 of (n, b2) \<Rightarrow>
        Ok \<lparr>zm_registry = r, zm_block_number = n, zm_authorization_contract = 0,
            zm_processor_message = \<lparr>pm_type = MsgPause, pm_message = b2\<rparr>\<rparr>),
      dec_authorization_call = (\<lambda>b. if hd b = CHR ''H'' then Ok (CallHandleCallback (tl b)) else Err (RevertData []))\<rparr>"

lemma get_put_send_msgs: "send_msgs_fit m \<Longrightarrow> get_send_msgs (put_send_msgs m) = Ok m"
proof (cases m)
  case (fields i pr sub ex ms)
  moreover obtain ty d where "sub = \<lparr>sub_type = ty, sub_data = d\<rparr>" by (cases sub)
  moreover have "get_list (put_list ms) = (ms, [])" using get_put_list [of ms "[]"] by simp
  moreover assume "send_msgs_fit m"
  ultimately show ?thesis
    by (cases pr; cases ty) (simp_all add: get_send_msgs_def put_send_msgs_def)
qed

lemma get_send_msgs_fit: "get_send_msgs b = Ok m \<Longrightarrow> send_msgs_fit m"
  by (auto simp: get_send_msgs_def Let_def split: prod.splits if_splits)

lemma get_put_callback: "get_callback (put_callback cb) = Ok cb"
proof (cases cb)
  case (fields i r n d)
  moreover have "get_bytes (put_bytes d) = (d, [])" using get_put_bytes [of d "[]"] by simp
  ultimately show ?thesis
    by (cases r) (simp_all add: get_callback_def put_callback_def result_code_def result_of_code_def)
qed

lemma ex_abi_ok: "auth_abi_ok ex_abi"
proof -
  have "dec_processor_message ex_abi (enc_processor_message ex_abi m) = Ok m" for m
    by (cases m; cases "pm_type m") (simp_all add: ex_abi_def message_type_code_def message_type_of_def)
  then show ?thesis
    by (simp add: auth_abi_ok_def abi_ok_def)
      (simp add: ex_abi_def get_put_send_msgs get_send_msgs_fit get_put_callback)
qed

section \<open>A chain\<close>

definition ex_chain :: "bytes list hyperlane_chain" where
  "ex_chain =
     \<lparr>init_owner = (\<lambda>owner. ensure (owner \<noteq> 0) (CustomError ''OwnableInvalidOwner'' [owner])),
      check_owner = (\<lambda>owner sender. ensure (sender = owner) (CustomError ''OwnableUnauthorizedAccount'' [sender])),
      ownable_call = (\<lambda>sender data owner. Err (RevertData [])),
      ext_call = (\<lambda>caller target value data w. if target = 5 then Ok (w @ [data], []) else Err ''no''),
      code_size = (\<lambda>w target. if target \<in> {5, 6, 20} then 100 else 0),
      encode_error = (\<lambda>e. case e of Revert s \<Rightarrow> s | _ \<Rightarrow> ''panic''),
      mailbox_dispatch = (\<lambda>caller mailbox domain recipient body w. Ok w)\<rparr>"

lemma ex_owner_checked: "owner_checked ex_chain"
  by (simp add: owner_checked_def ex_chain_def ensure_Ok_iff)

definition ex_lite_processor :: lite_processor where
  "ex_lite_processor =
     \<lparr>lp_self = 30, lp_owner = 1, lp_authorization_contract = [], lp_mailbox = 0, lp_origin_domain = 0,
      lp_authorized = (\<lambda>a. a = 20), lp_paused = False\<rparr>"

definition ex_send_msgs :: "subroutine_type \<Rightarrow> evm_send_msgs" where
  "ex_send_msgs ty =
     \<lparr>sm_execution_id = 0, sm_priority = PriorityMedium,
      sm_subroutine = \<lparr>sub_type = ty, sub_data = [CHR 0x05, CHR 0x06]\<rparr>,
      sm_expiration_time = 0, sm_messages = [''abcd1'', ''efgh2'']\<rparr>"

end
