(* ===== verification/Lite_Processor_Props.thy ===== *)
theory Lite_Processor_Props
  imports Evm_Examples
begin

text \<open>
  Correctness of the EVM processor: the loops over the functions of a subroutine against a plain
  recursion over its calls, and from it what both kinds of subroutine do and report
  (\<open>subroutines_run\<close>).
\<close>

section \<open>Calls in sequence\<close>

datatype call_failure = NoContract | CallFailed bytes

text \<open>The reference: calls one after the other up to the first that fails, and how many succeeded.\<close>

fun run_calls ::
  "('w, 'z) evm_chain_scheme \<Rightarrow> eth_address \<Rightarrow> (eth_address \<times> bytes) list \<Rightarrow> 'w \<Rightarrow>
   'w \<times> nat \<times> call_failure option"
where
  "run_calls ch self [] w = (w, 0, None)"
| "run_calls ch self ((target, message) # calls) w =
     (if code_size ch w target = 0 then (w, 0, Some NoContract)
      else
        (case ext_call ch self target 0 message w of
           Ok (w', _) \<Rightarrow> (case run_calls ch self calls w' of (w'', n, f) \<Rightarrow> (w'', Suc n, f))
         | Err data \<Rightarrow> (w, 0, Some (CallFailed data))))"

lemma run_calls_count:
  assumes "run_calls ch self calls w = (w', n, f)"
  shows "n \<le> length calls \<and> (f = None \<longleftrightarrow> n = length calls)"
  using assms
  by (induction ch self calls w arbitrary: w' n f rule: run_calls.induct)
    (fastforce split: if_splits result.splits prod.splits)+

definition failure_error :: "call_failure \<Rightarrow> evm_error" where
  "failure_error f =
     (case f of
        NoContract \<Rightarrow> Revert ''Contract does not exist''
      | CallFailed data \<Rightarrow>
          if 0 < length data then RevertData data else Revert ''Contract call failed without error data'')"

definition failure_data :: "call_failure \<Rightarrow> bytes" where
  "failure_data f =
     (case f of
        NoContract \<Rightarrow> ''Contract does not exist''
      | CallFailed data \<Rightarrow> if 0 < length data then data else ''Contract call failed without error data'')"

lemma atomic_rounds:
  "rounds (atomic_round ch self functions messages) is w =
     (case run_calls ch self (map (\<lambda>i. (af_contract (functions ! i), messages ! i)) is) w of
        (w', n, None) \<Rightarrow> Ok (Continue w')
      | (w', n, Some f) \<Rightarrow> Err (failure_error f))"
  by (induction "is" arbitrary: w)
    (auto simp: atomic_round_def failure_error_def Let_def split: result.splits prod.splits option.splits)

lemma non_atomic_rounds:
  assumes "nl_executed_count s + length is < 2 ^ 32"
  shows "rounds (non_atomic_round ch self functions messages) is s =
     (case run_calls ch self (map (\<lambda>i. (nf_contract (functions ! i), messages ! i)) is) (nl_world s) of
        (w', n, None) \<Rightarrow> Ok (Continue (s\<lparr>nl_world := w', nl_executed_count := nl_executed_count s + n\<rparr>))
      | (w', n, Some f) \<Rightarrow> Ok (Break (s\<lparr>nl_world := w', nl_executed_count := nl_executed_count s + n,
          nl_error_data := failure_data f, nl_succeeded := False\<rparr>)))"
  using assms
proof (induction "is" arbitrary: s)
  case (Cons i "is")
  show ?case
  proof (cases "code_size ch (nl_world s) (nf_contract (functions ! i)) = 0")
    case True
    then show ?thesis by (simp add: non_atomic_round_def failure_data_def)
  next
    case False
    show ?thesis
    proof (cases "ext_call ch self (nf_contract (functions ! i)) 0 (messages ! i) (nl_world s)")
      case (Ok r)
      obtain w1 d where r: "r = (w1, d)" by (cases r)
      let ?s = "s\<lparr>nl_world := w1, nl_executed_count := Suc (nl_executed_count s)\<rparr>"
      from Cons.prems have "nl_executed_count ?s + length is < 2 ^ 32" by simp
      note ih = Cons.IH [OF this]
      have "non_atomic_round ch self functions messages i s = Ok (Continue ?s)"
        using False Ok r Cons.prems by (simp add: non_atomic_round_def)
      with False Ok r show ?thesis by (simp add: ih split: prod.splits option.splits)
    qed (use False in \<open>simp add: non_atomic_round_def failure_data_def\<close>)
  qed
qed simp

text \<open>The calls of a subroutine.\<close>

definition atomic_calls :: "evm_atomic_subroutine \<Rightarrow> bytes list \<Rightarrow> (eth_address \<times> bytes) list" where
  "atomic_calls sub messages = zip (map af_contract (as_functions sub)) messages"

definition non_atomic_calls :: "evm_non_atomic_subroutine \<Rightarrow> bytes list \<Rightarrow> (eth_address \<times> bytes) list" where
  "non_atomic_calls sub messages = zip (map nf_contract (ns_functions sub)) messages"

lemma map_upt_zip:
  assumes "length xs = length ys"
  shows "map (\<lambda>i. (f (xs ! i), ys ! i)) [0 ..< min (length xs) n] = take n (zip (map f xs) ys)"
  using assms by (auto simp: list_eq_iff_nth_eq)

lemma handle_atomic_eq:
  assumes "length (as_functions sub) = length messages"
  shows "handle_atomic_subroutine ch p sub messages w =
    (case run_calls ch (lp_self p) (take 256 (atomic_calls sub messages)) w of
       (w', n, Some f) \<Rightarrow>
         (w, \<lparr>succeeded = False, expired = False, executed_count = 0, error_data = revert_data ch (failure_error f)\<rparr>)
     | (w', n, None) \<Rightarrow>
         if length messages < 256 then
           (w', \<lparr>succeeded = True, expired = False, executed_count = length messages, error_data = []\<rparr>)
         else (w, \<lparr>succeeded = False, expired = False, executed_count = 0,
           error_data = revert_data ch overflow_panic\<rparr>))"
proof -
  note rounds = for_u8_rounds [OF le0 zero_less_numeral, of "length (as_functions sub)"
      "atomic_round ch (lp_self p) (as_functions sub) messages" w,
      unfolded atomic_rounds map_upt_zip [OF assms] atomic_calls_def [symmetric]]
  obtain w' n f where "run_calls ch (lp_self p) (take 256 (atomic_calls sub messages)) w = (w', n, f)"
    by (cases "run_calls ch (lp_self p) (take 256 (atomic_calls sub messages)) w")
  with assms show ?thesis
    by (cases f) (simp_all add: handle_atomic_subroutine_def execute_atomic_subroutine_def rounds [unfolded assms])
qed

lemma handle_non_atomic_eq:
  assumes "length (ns_functions sub) = length messages"
  shows "handle_non_atomic_subroutine ch p sub messages w =
    (case run_calls ch (lp_self p) (take 256 (non_atomic_calls sub messages)) w of
       (w', n, Some f) \<Rightarrow>
         Ok (w', \<lparr>succeeded = False, expired = False, executed_count = n, error_data = failure_data f\<rparr>)
     | (w', n, None) \<Rightarrow>
         if length messages < 256 then
           Ok (w', \<lparr>succeeded = True, expired = False, executed_count = n, error_data = []\<rparr>)
         else Err overflow_panic)"
proof -
  let ?s = "\<lparr>nl_world = w, nl_executed_count = 0, nl_error_data = [], nl_succeeded = True\<rparr>"
  have "nl_executed_count ?s + length [0 ..< min (length (ns_functions sub)) 256] < 2 ^ 32" by simp
  note rounds = for_u8_rounds [OF le0 zero_less_numeral, of "length (ns_functions sub)"
      "non_atomic_round ch (lp_self p) (ns_functions sub) messages" ?s,
      unfolded non_atomic_rounds [OF this] map_upt_zip [OF assms] non_atomic_calls_def [symmetric]]
  obtain w' n f where "run_calls ch (lp_self p) (take 256 (non_atomic_calls sub messages)) w = (w', n, f)"
    by (cases "run_calls ch (lp_self p) (take 256 (non_atomic_calls sub messages)) w")
  with assms show ?thesis
    by (cases f) (simp_all add: handle_non_atomic_subroutine_def rounds [unfolded assms])
qed

section \<open>What a subroutine does and reports\<close>

text \<open>The calls a message asks for, if its subroutine can be read and has one function per message.\<close>

definition calls_of :: "'a processor_abi_scheme \<Rightarrow> evm_send_msgs \<Rightarrow> (eth_address \<times> bytes) list option" where
  "calls_of abi sm =
     (case sub_type (sm_subroutine sm) of
        TypeAtomic \<Rightarrow>
          (case dec_atomic abi (sub_data (sm_subroutine sm)) of
             Ok sub \<Rightarrow> if length (as_functions sub) = length (sm_messages sm)
               then Some (atomic_calls sub (sm_messages sm)) else None
           | Err _ \<Rightarrow> None)
      | TypeNonAtomic \<Rightarrow>
          (case dec_non_atomic abi (sub_data (sm_subroutine sm)) of
             Ok sub \<Rightarrow> if length (ns_functions sub) = length (sm_messages sm)
               then Some (non_atomic_calls sub (sm_messages sm)) else None
           | Err _ \<Rightarrow> None))"

definition is_atomic :: "evm_send_msgs \<Rightarrow> bool" where
  "is_atomic sm \<longleftrightarrow> sub_type (sm_subroutine sm) = TypeAtomic"

text \<open>The result of a subroutine whose calls ran as \<open>n\<close> and \<open>f\<close> say.\<close>

definition subroutine_outcome ::
  "('w, 'z) evm_chain_scheme \<Rightarrow> bool \<Rightarrow> nat \<Rightarrow> call_failure option \<Rightarrow> subroutine_result"
where
  "subroutine_outcome ch atomic n f =
     (case f of
        None \<Rightarrow> \<lparr>succeeded = True, expired = False, executed_count = n, error_data = []\<rparr>
      | Some e \<Rightarrow>
          if atomic then
            \<lparr>succeeded = False, expired = False, executed_count = 0, error_data = revert_data ch (failure_error e)\<rparr>
          else \<lparr>succeeded = False, expired = False, executed_count = n, error_data = failure_data e\<rparr>)"

lemma calls_of_length: "calls_of abi sm = Some calls \<Longrightarrow> length calls = length (sm_messages sm)"
  by (auto simp: calls_of_def atomic_calls_def non_atomic_calls_def
      split: subroutine_type.splits result.splits if_splits)

lemma send_msgs_run:
  assumes "\<not> lp_paused p" and "dec_send_msgs abi (pm_message m) = Ok sm"
    and "sm_expiration_time sm = 0 \<or> block_timestamp ctx \<le> sm_expiration_time sm"
    and "calls_of abi sm = Some calls" and "length calls < 256"
    and "run_calls ch (lp_self p) calls w = (w', n, f)"
  shows "handle_send_msgs ch abi ctx p m w =
    (let w2 = (if is_atomic sm \<and> f \<noteq> None then w else w')
     in if 0 < code_size ch w2 (msg_sender ctx) then
          build_and_send_callback ch abi p (msg_sender ctx) (sm_execution_id sm)
            (subroutine_outcome ch (is_atomic sm) n f) w2
        else Ok (w2, []))"
proof (cases "sub_type (sm_subroutine sm)")
  case TypeAtomic
  with assms(4) obtain sub where "dec_atomic abi (sub_data (sm_subroutine sm)) = Ok sub"
    "length (as_functions sub) = length (sm_messages sm)" "calls = atomic_calls sub (sm_messages sm)"
    by (auto simp: calls_of_def split: result.splits if_splits)
  with TypeAtomic assms run_calls_count [OF assms(6)] calls_of_length [OF assms(4)] show ?thesis
    by (cases f) (auto simp: handle_send_msgs_def handle_atomic_eq is_atomic_def subroutine_outcome_def
        ensure_def)
next
  case TypeNonAtomic
  with assms(4) obtain sub where "dec_non_atomic abi (sub_data (sm_subroutine sm)) = Ok sub"
    "length (ns_functions sub) = length (sm_messages sm)" "calls = non_atomic_calls sub (sm_messages sm)"
    by (auto simp: calls_of_def split: result.splits if_splits)
  with TypeNonAtomic assms calls_of_length [OF assms(4)] show ?thesis
    by (cases f) (auto simp: handle_send_msgs_def handle_non_atomic_eq is_atomic_def subroutine_outcome_def
        ensure_def)
qed

text \<open>
  (C14) An accepted message of fewer than 256 functions makes its calls in order up to the first that
  fails or has no contract to call. An atomic subroutine takes effect only if no call fails; a
  non-atomic one keeps the effects of the calls before the failure. A sender that is a contract is sent
  one callback with the id of the message: success with the number of functions if every call
  succeeded; otherwise rejected, or for a non-atomic subroutine partially executed with the number of
  calls that succeeded, if there were any.
\<close>

theorem subroutines_run:
  assumes "\<not> lp_paused p" and "dec_send_msgs abi (pm_message m) = Ok sm"
    and "sm_expiration_time sm = 0 \<or> block_timestamp ctx \<le> sm_expiration_time sm"
    and "calls_of abi sm = Some calls" and "length calls < 256"
    and "run_calls ch (lp_self p) calls w = (w', n, f)"
    and "cb = \<lparr>cb_execution_id = sm_execution_id sm,
      cb_execution_result = (if f = None then ResultSuccess
        else if is_atomic sm \<or> n = 0 then ResultRejected else ResultPartiallyExecuted),
      cb_executed_count = (if f \<noteq> None \<and> is_atomic sm then 0 else n),
      cb_data = error_data (subroutine_outcome ch (is_atomic sm) n f)\<rparr>"
    and "w2 = (if is_atomic sm \<and> f \<noteq> None then w else w')"
  shows "handle_send_msgs ch abi ctx p m w =
      (if 0 < code_size ch w2 (msg_sender ctx) then send_callback ch abi p (msg_sender ctx) cb w2
       else Ok (w2, []))
    \<and> (f = None \<longleftrightarrow> n = length calls) \<and> n \<le> length calls"
proof -
  have "build_callback (sm_execution_id sm) (subroutine_outcome ch (is_atomic sm) n f) = cb"
    unfolding assms(7) by (cases f) (simp_all add: build_callback_def subroutine_outcome_def)
  then show ?thesis
    using send_msgs_run [OF assms(1-6)] run_calls_count [OF assms(6)] assms(8)
    by (simp add: build_and_send_callback_def Let_def)
qed

theorem subroutines_run_witness:
  "handle_send_msgs ex_chain ex_abi \<lparr>msg_sender = 9, msg_value = 0, block_timestamp = 50\<rparr> ex_lite_processor
     \<lparr>pm_type = MsgSendMsgs, pm_message = put_send_msgs (ex_send_msgs TypeAtomic)\<rparr> [] = Ok ([], [])
   \<and> handle_send_msgs ex_chain ex_abi \<lparr>msg_sender = 9, msg_value = 0, block_timestamp = 50\<rparr> ex_lite_processor
     \<lparr>pm_type = MsgSendMsgs, pm_message = put_send_msgs (ex_send_msgs TypeNonAtomic)\<rparr> [] = Ok ([''abcd1''], [])"
proof -
  have dec: "dec_send_msgs ex_abi (put_send_msgs (ex_send_msgs ty)) = Ok (ex_send_msgs ty)" for ty
    by (simp add: ex_abi_def get_put_send_msgs send_msgs_fit_def ex_send_msgs_def)
  have calls: "calls_of ex_abi (ex_send_msgs ty) = Some [(5, ''abcd1''), (6, ''efgh2'')]" for ty
    by (cases ty) (simp_all add: calls_of_def ex_send_msgs_def ex_abi_def atomic_calls_def non_atomic_calls_def)
  have run: "run_calls ex_chain (lp_self ex_lite_processor) [(5, ''abcd1''), (6, ''efgh2'')] []
      = ([''abcd1''], 1, Some (CallFailed ''no''))"
    by (simp add: ex_chain_def)
  have ex: "\<not> lp_paused ex_lite_processor" "is_atomic (ex_send_msgs ty) \<longleftrightarrow> ty = TypeAtomic"
    "sm_expiration_time (ex_send_msgs ty) = 0" "code_size ex_chain w 9 = 0" for ty w
    by (simp_all add: ex_lite_processor_def is_atomic_def ex_send_msgs_def ex_chain_def)
  let ?ctx = "\<lparr>msg_sender = 9, msg_value = 0, block_timestamp = 50\<rparr>"
  let ?m = "\<lambda>ty. \<lparr>pm_type = MsgSendMsgs, pm_message = put_send_msgs (ex_send_msgs ty)\<rparr>"
  show ?thesis
    using subroutines_run [of ex_lite_processor ex_abi "?m TypeAtomic" "ex_send_msgs TypeAtomic" ?ctx,
        OF _ _ _ calls _ run refl refl]
      subroutines_run [of ex_lite_processor ex_abi "?m TypeNonAtomic" "ex_send_msgs TypeNonAtomic" ?ctx,
        OF _ _ _ calls _ run refl refl]
    by (simp add: dec ex)
qed

end
