(* ===== verification/Evm_Loops.thy ===== *)
theory Evm_Loops
  imports Evm_Account Lite_Processor_Props
begin

text \<open>
  The loops of the EVM contracts that count with a \<open>uint8\<close> (\<open>ProcessorBase.sol\<close>, \<open>Account.sol\<close>): they
  end on every input, and \<open>evm_loops_end\<close> says what becomes of inputs with 256 entries or more.
\<close>

text \<open>
  (C39) Every loop of the accounts and the processor ends. A constructor given fewer than 256 addresses
  approves exactly these; given more, it reverts with the overflow of its counter. An atomic subroutine
  of 256 functions or more never takes effect and is reported as rejected. A non-atomic one stops at
  the first of its first 256 calls that fails, and if none of them fails the whole message reverts:
  nothing is executed and nothing reported.
\<close>

theorem evm_loops_end:
  "account_constructor ch self creator libs =
     and_then (init_owner ch creator) (\<lambda>_.
       if length libs < 256
       then Ok \<lparr>acct_self = self, acct_owner = creator, acct_approved = (\<lambda>a. a \<in> set libs)\<rparr>
       else Err overflow_panic)
   \<and> processor_constructor ch self ctx contract box origin addresses =
     and_then (init_owner ch (msg_sender ctx)) (\<lambda>_.
       if length addresses < 256
       then Ok \<lparr>lp_self = self, lp_owner = msg_sender ctx, lp_authorization_contract = contract,
           lp_mailbox = box, lp_origin_domain = origin, lp_authorized = (\<lambda>a. a \<in> set addresses), lp_paused = False\<rparr>
       else Err overflow_panic)
   \<and> (length (as_functions sub) = length msgs \<and> 256 \<le> length msgs \<longrightarrow>
       (\<exists>d. handle_atomic_subroutine ch p sub msgs w =
         (w, \<lparr>succeeded = False, expired = False, executed_count = 0, error_data = d\<rparr>)))
   \<and> (length (ns_functions nsub) = length msgs \<and> 256 \<le> length msgs \<longrightarrow>
       handle_non_atomic_subroutine ch p nsub msgs w =
         (case run_calls ch (lp_self p) (take 256 (non_atomic_calls nsub msgs)) w of
            (w', n, None) \<Rightarrow> Err overflow_panic
          | (w', n, Some f) \<Rightarrow>
              Ok (w', \<lparr>succeeded = False, expired = False, executed_count = n, error_data = failure_data f\<rparr>)))"
proof (intro conjI impI)
  assume "length (as_functions sub) = length msgs \<and> 256 \<le> length msgs"
  then show "\<exists>d. handle_atomic_subroutine ch p sub msgs w =
      (w, \<lparr>succeeded = False, expired = False, executed_count = 0, error_data = d\<rparr>)"
    by (auto simp: handle_atomic_eq split: prod.splits option.splits)
next
  assume "length (ns_functions nsub) = length msgs \<and> 256 \<le> length msgs"
  then show "handle_non_atomic_subroutine ch p nsub msgs w =
      (case run_calls ch (lp_self p) (take 256 (non_atomic_calls nsub msgs)) w of
         (w', n, None) \<Rightarrow> Err overflow_panic
       | (w', n, Some f) \<Rightarrow>
           Ok (w', \<lparr>succeeded = False, expired = False, executed_count = n, error_data = failure_data f\<rparr>))"
    by (simp add: handle_non_atomic_eq split: prod.splits option.splits)
qed (simp_all add: account_constructor_def processor_constructor_def approve_all_eq)

text \<open>A thousand calls of one existing contract.\<close>

definition ex_long_subroutine :: evm_atomic_subroutine where
  "ex_long_subroutine = \<lparr>as_functions = replicate 1000 \<lparr>af_contract = 5\<rparr>, as_retry_logic = ex_retry_logic\<rparr>"

theorem evm_loops_end_witness:
  "account_constructor ex_chain 7 1 [0 ..< 256] = Err overflow_panic
   \<and> (\<exists>d. handle_atomic_subroutine ex_chain ex_lite_processor ex_long_subroutine (replicate 1000 ''abcd1'') [] =
        ([], \<lparr>succeeded = False, expired = False, executed_count = 0, error_data = d\<rparr>))"
  using evm_loops_end [where ch = ex_chain and self = 7 and creator = 1 and libs = "[0 ..< 256]"
      and sub = ex_long_subroutine and msgs = "replicate 1000 ''abcd1''" and p = ex_lite_processor
      and w = "[]"]
  by (simp add: ex_long_subroutine_def) (simp add: ex_chain_def)

end
