(* ===== verification/Evm_Authorization_Props.thy ===== *)
theory Evm_Authorization_Props
  imports Lite_Processor_Props
begin

text \<open>
  Correctness of the EVM authorization contract with the processor of its chain.
  \<open>evm_send_authorized\<close>: what a message of a user that is not an administrator makes the processor call
  and report. \<open>evm_zk_executes_once\<close>: what the execution of a ZK message takes, and that a message of a
  registry that validates block numbers cannot be executed again.
\<close>

section \<open>The calls of a message that do not revert\<close>

lemma run_calls_prefix:
  assumes "run_calls ch self calls w = (w', n, f)"
  shows "run_calls ch self (take n calls) w = (w', n, None)"
  using assms
  by (induction ch self calls w arbitrary: w' n f rule: run_calls.induct)
    (fastforce split: if_splits result.splits prod.splits)+

definition targets_of :: "'a processor_abi_scheme \<Rightarrow> evm_send_msgs \<Rightarrow> eth_address list evm" where
  "targets_of abi sm =
     (case sub_type (sm_subroutine sm) of
        TypeAtomic \<Rightarrow> map_ok (\<lambda>sub. map af_contract (as_functions sub)) (dec_atomic abi (sub_data (sm_subroutine sm)))
      | TypeNonAtomic \<Rightarrow>
          map_ok (\<lambda>sub. map nf_contract (ns_functions sub)) (dec_non_atomic abi (sub_data (sm_subroutine sm))))"

text \<open>The result \<open>r\<close> of a subroutine of which the first \<open>n\<close> calls took effect.\<close>

definition result_counts :: "nat \<Rightarrow> nat \<Rightarrow> subroutine_result \<Rightarrow> bool" where
  "result_counts all n r \<longleftrightarrow> executed_count r = n \<and> n < 256 \<and> n \<le> all \<and> (succeeded r \<longrightarrow> n = all)"

lemma atomic_prefix:
  assumes "handle_atomic_subroutine ch p sub messages w = (w', r)"
    and "calls = zip (map af_contract (as_functions sub)) messages"
  obtains n where "run_calls ch (lp_self p) (take n calls) w = (w', n, None)" "result_counts (length calls) n r"
proof (cases "length (as_functions sub) = length messages")
  case True
  obtain w1 n f where run: "run_calls ch (lp_self p) (take 256 calls) w = (w1, n, f)"
    by (cases "run_calls ch (lp_self p) (take 256 calls) w")
  show thesis
  proof (cases "succeeded r")
    case success: True
    with True assms run have "f = None" "length messages < 256" "w' = w1" "executed_count r = length messages"
      by (auto simp: handle_atomic_eq atomic_calls_def split: option.splits if_splits)
    with True run run_calls_count [OF run] assms(2) that [of n] run_calls_prefix [OF run] show thesis
      by (auto simp: result_counts_def)
  next
    case False
    with True assms run have "w' = w" "executed_count r = 0"
      by (auto simp: handle_atomic_eq atomic_calls_def split: option.splits if_splits)
    with False that [of 0] show thesis by (simp add: result_counts_def)
  qed
next
  case False
  with assms(1) have "w' = w" "executed_count r = 0" "\<not> succeeded r"
    by (auto simp: handle_atomic_subroutine_def execute_atomic_subroutine_def)
  with that [of 0] show thesis by (simp add: result_counts_def)
qed

lemma non_atomic_prefix:
  assumes "handle_non_atomic_subroutine ch p sub messages w = Ok (w', r)"
    and "calls = zip (map nf_contract (ns_functions sub)) messages"
  obtains n where "run_calls ch (lp_self p) (take n calls) w = (w', n, None)" "result_counts (length calls) n r"
proof -
  have len: "length (ns_functions sub) = length messages"
    using assms(1) by (auto simp: handle_non_atomic_subroutine_def split: if_splits)
  obtain w1 n f where run: "run_calls ch (lp_self p) (take 256 calls) w = (w1, n, f)"
    by (cases "run_calls ch (lp_self p) (take 256 calls) w")
  have "w' = w1" "executed_count r = n" "succeeded r \<longleftrightarrow> f = None" "f = None \<longrightarrow> length messages < 256"
    using len assms run by (auto simp: handle_non_atomic_eq non_atomic_calls_def split: option.splits if_splits)
  with len run_calls_count [OF run] assms(2) run_calls_prefix [OF run] that [of n] show thesis
    by (auto simp: result_counts_def min_def split: if_splits)
qed

lemma send_msgs_prefix:
  assumes "handle_send_msgs ch abi ctx p m w = Ok (w3, evs)"
    and "dec_send_msgs abi (pm_message m) = Ok sm" and "targets_of abi sm = Ok targets"
    and "calls = zip targets (sm_messages sm)" and "\<forall>w. 0 < code_size ch w (msg_sender ctx)"
  obtains n w2 r where "run_calls ch (lp_self p) (take n calls) w = (w2, n, None)"
    "result_counts (length calls) n r"
    "send_callback ch abi p (msg_sender ctx) (build_callback (sm_execution_id sm) r) w2 = Ok (w3, evs)"
proof (cases "sm_expiration_time sm \<noteq> 0 \<and> sm_expiration_time sm < block_timestamp ctx")
  case True
  with assms(1,2) that [of 0 w "\<lparr>succeeded = False, expired = True, executed_count = 0, error_data = []\<rparr>"]
  show thesis
    by (auto simp: handle_send_msgs_def and_then_Ok_iff build_and_send_callback_def result_counts_def)
next
  case active: False
  show thesis
  proof (cases "sub_type (sm_subroutine sm)")
    case TypeAtomic
    with assms(3) obtain sub where sub: "dec_atomic abi (sub_data (sm_subroutine sm)) = Ok sub"
      "targets = map af_contract (as_functions sub)"
      by (auto simp: targets_of_def map_ok_Ok_iff)
    obtain w2 r where h: "handle_atomic_subroutine ch p sub (sm_messages sm) w = (w2, r)"
      by (cases "handle_atomic_subroutine ch p sub (sm_messages sm) w")
    with sub assms TypeAtomic active
    have "send_callback ch abi p (msg_sender ctx) (build_callback (sm_execution_id sm) r) w2 = Ok (w3, evs)"
      by (auto simp: handle_send_msgs_def and_then_Ok_iff build_and_send_callback_def)
    with atomic_prefix [OF h] assms(4) sub(2) that show thesis by blast
  next
    case TypeNonAtomic
    with assms(3) obtain sub where sub: "dec_non_atomic abi (sub_data (sm_subroutine sm)) = Ok sub"
      "targets = map nf_contract (ns_functions sub)"
      by (auto simp: targets_of_def map_ok_Ok_iff)
    with assms TypeNonAtomic active
    obtain w2 r where h: "handle_non_atomic_subroutine ch p sub (sm_messages sm) w = Ok (w2, r)"
      and "send_callback ch abi p (msg_sender ctx) (build_callback (sm_execution_id sm) r) w2 = Ok (w3, evs)"
      by (auto simp: handle_send_msgs_def and_then_Ok_iff build_and_send_callback_def)
    with non_atomic_prefix [OF h] assms(4) sub(2) that show thesis by blast
  qed
qed

section \<open>What the authorization contract lets through\<close>

text \<open>A call is permitted by an entry of a label that names its contract and its selector or hash.\<close>

definition permitted :: "'z authorization_abi_scheme \<Rightarrow> evm_authorization_data \<Rightarrow> eth_address \<times> bytes \<Rightarrow> bool" where
  "permitted abi d c \<longleftrightarrow>
     ad_contract_address d = fst c
   \<and> (if ad_use_function_selector d then ad_function_selector d = function_selector (snd c)
      else ad_call_hash d = keccak256 abi (snd c))"

definition may_use :: "evm_authorization \<Rightarrow> eth_address \<Rightarrow> string \<Rightarrow> bool" where
  "may_use a sender label \<longleftrightarrow> sender \<in> set (ea_authorizations a label) \<or> zero_address \<in> set (ea_authorizations a label)"

lemma verify_calls_Ok:
  assumes "verify_calls abi sender label targets messages a = Ok u"
  shows "may_use a sender label \<and> list_all2 (permitted abi) (ea_authorizations_data a label) (zip targets messages)"
proof -
  from assms have len: "targets \<noteq> [] \<longrightarrow> length targets = length messages"
    and check: "check_address_is_authorized sender label
      (map (\<lambda>i. data_of_call abi (targets ! i) (messages ! i)) [0 ..< length targets]) a"
    by (auto simp: verify_calls_def and_then_Ok_iff ensure_Ok_iff)
  from check have "may_use a sender label"
    by (auto simp: check_address_is_authorized_def may_use_def list_ex_iff split: if_splits)
  moreover from check len
  have "list_all2 (permitted abi) (ea_authorizations_data a label) (zip targets messages)"
    by (auto simp: check_address_is_authorized_def list_all2_conv_all_nth list_all_length data_matches_def
        data_of_call_def permitted_def split: if_splits)
  ultimately show ?thesis by simp
qed

lemma send_request_Ok:
  assumes "handle_send_msgs_request abi sender label m a = Ok body" and "abi_ok abi"
    and "ea_execution_id a < 2 ^ 64"
  obtains sm targets where
    "dec_processor_message abi body = Ok (m\<lparr>pm_message := enc_send_msgs abi sm\<rparr>)"
    "dec_send_msgs abi (enc_send_msgs abi sm) = Ok sm" "sm_execution_id sm = ea_execution_id a"
    "targets_of abi sm = Ok targets" "may_use a sender label"
    "list_all2 (permitted abi) (ea_authorizations_data a label) (zip targets (sm_messages sm))"
proof -
  from assms(1) obtain sm where dec: "dec_send_msgs abi (pm_message m) = Ok sm"
    and verified: "(case sub_type (sm_subroutine sm) of
         TypeAtomic \<Rightarrow> verify_atomic_subroutine_authorization abi sender label sm a
       | TypeNonAtomic \<Rightarrow> verify_non_atomic_subroutine_authorization abi sender label sm a) = Ok ()"
    and body: "body = enc_processor_message abi (m\<lparr>pm_message :=
         enc_send_msgs abi (sm\<lparr>sm_priority := PriorityMedium, sm_execution_id := ea_execution_id a\<rparr>)\<rparr>)"
    by (auto simp: handle_send_msgs_request_def and_then_Ok_iff)
  let ?sm = "sm\<lparr>sm_priority := PriorityMedium, sm_execution_id := ea_execution_id a\<rparr>"
  have "send_msgs_fit ?sm"
    using dec assms(2,3) by (auto simp: abi_ok_def send_msgs_fit_def)
  then have "dec_send_msgs abi (enc_send_msgs abi ?sm) = Ok ?sm"
    using assms(2) by (simp add: abi_ok_def)
  moreover from verified obtain targets where "targets_of abi sm = Ok targets"
    and "verify_calls abi sender label targets (sm_messages sm) a = Ok ()"
    by (cases "sub_type (sm_subroutine sm)")
      (auto simp: verify_atomic_subroutine_authorization_def verify_non_atomic_subroutine_authorization_def
        and_then_Ok_iff targets_of_def map_ok_Ok_iff)
  moreover have "targets_of abi ?sm = targets_of abi sm"
    by (simp add: targets_of_def split: subroutine_type.splits)
  ultimately show thesis
    using that [of ?sm targets] body assms(2) by (auto simp: abi_ok_def dest: verify_calls_Ok)
qed

section \<open>The two contracts together\<close>

definition same_config :: "evm_authorization \<Rightarrow> evm_authorization \<Rightarrow> bool" where
  "same_config a a' \<longleftrightarrow> (\<exists>cbs. a' = a\<lparr>ea_callbacks := cbs\<rparr>)"

lemma same_config_trans: "same_config a b \<Longrightarrow> same_config b c \<Longrightarrow> same_config a c"
  by (auto simp: same_config_def)

lemma open_call_config:
  assumes "open_call ch abi sender c a = Ok (a', evs)" and "owner_checked ch" and "sender \<noteq> ea_owner a"
  shows "same_config a a'"
proof -
  have "\<not> check_owner ch (ea_owner a) sender = Ok ()" using assms(2,3) by (auto simp: owner_checked_def)
  then show ?thesis
  proof (cases c)
    case (CallHandleCallback d)
    with assms(1) show ?thesis
      by (cases "ea_store_callbacks a")
        (auto simp: open_call_def handle_callback_def and_then_Ok_iff same_config_def intro: exI [of _ "ea_callbacks a"])
  next
    case (CallInherited d)
    with assms(1) obtain x where "ownable_call ch sender d (ea_owner a) = Ok x" "a' = a\<lparr>ea_owner := x\<rparr>"
      by (auto simp: open_call_def and_then_Ok_iff)
    moreover from this assms(2,3) have "x = ea_owner a"
      unfolding owner_checked_def by blast
    ultimately show ?thesis by (auto simp: same_config_def intro: exI [of _ "ea_callbacks a"])
  qed (use assms(1) in \<open>auto simp: open_call_def and_then_Ok_iff\<close>)
qed

lemma system_call_Ok:
  assumes "system_call ch abi caller target value data s = Ok (s', r)" and "owner_checked ch"
    and "caller \<noteq> ea_owner (sys_authorization s)"
  shows "same_config (sys_authorization s) (sys_authorization s')
    \<and> sys_calls s' = sys_calls s @ [(caller, target, data)]"
proof (cases "target = ea_self (sys_authorization s)")
  case True
  with assms(1) obtain c a evs where "open_call ch abi caller c (sys_authorization s) = Ok (a, evs)"
    and "s' = s\<lparr>sys_authorization := a, sys_calls := sys_calls s @ [(caller, target, data)]\<rparr>"
    by (auto simp: system_call_def and_then_Ok_iff split: result.splits)
  with open_call_config [OF _ assms(2,3)] show ?thesis by simp
next
  case False
  with assms(1) show ?thesis
    by (auto simp: system_call_def map_ok_Ok_iff same_config_def intro: exI [of _ "ea_callbacks (sys_authorization s)"])
qed

lemma system_chain_simps [simp]:
  "ext_call (system_chain ch abi) = system_call ch abi"
  "code_size (system_chain ch abi) s = code_size ch (sys_world s)"
  by (simp_all add: system_chain_def)

lemma system_run_calls:
  assumes "run_calls (system_chain ch abi) self calls s = (s', n, None)" and "owner_checked ch"
    and "self \<noteq> ea_owner (sys_authorization s)"
  shows "same_config (sys_authorization s) (sys_authorization s')
    \<and> sys_calls s' = sys_calls s @ map (Pair self) calls"
  using assms(1,3)
proof (induction calls arbitrary: s n)
  case Nil
  then show ?case by (auto simp: same_config_def intro: exI [of _ "ea_callbacks (sys_authorization s)"])
next
  case (Cons c calls)
  obtain target m where c: "c = (target, m)" by (cases c)
  with Cons.prems(1) obtain s1 r k where call: "system_call ch abi self target 0 m s = Ok (s1, r)"
    and rest: "run_calls (system_chain ch abi) self calls s1 = (s', k, None)"
    by (auto split: if_splits result.splits prod.splits)
  note step = system_call_Ok [OF call assms(2) Cons.prems(2)]
  then have "self \<noteq> ea_owner (sys_authorization s1)" using Cons.prems(2) by (auto simp: same_config_def)
  from Cons.IH [OF rest this] step c show ?case by (auto intro: same_config_trans)
qed

text \<open>The callback is stored under its id, whatever the calls before it did.\<close>

lemma system_callback:
  assumes "send_callback (system_chain ch abi) abi p (ea_self a) cb s = Ok (s', evs)"
    and "auth_abi_ok abi" and "callback_fits cb" and "ea_self a \<noteq> lp_mailbox p"
    and "same_config a (sys_authorization s)" and "ea_processor a = lp_self p"
  obtains cbs where "sys_authorization s' = a\<lparr>ea_callbacks := cbs\<rparr>"
    "sys_calls s' = sys_calls s @ [(lp_self p, ea_self a, enc_handle_callback abi (enc_callback abi cb))]"
    "ea_store_callbacks a \<longrightarrow> cbs (cb_execution_id cb) = Some \<lparr>pc_execution_result = cb_execution_result cb,
       pc_executed_count = to_u64 (cb_executed_count cb), pc_data = cb_data cb\<rparr>"
proof -
  from assms(5) obtain cbs where a: "sys_authorization s = a\<lparr>ea_callbacks := cbs\<rparr>"
    by (auto simp: same_config_def)
  have "dec_callback abi (enc_callback abi cb) = Ok cb"
    and "dec_authorization_call abi (enc_handle_callback abi b) = Ok (CallHandleCallback b)" for b
    using assms(2,3) by (simp_all add: auth_abi_ok_def abi_ok_def)
  with assms(1,4,6) a show thesis
    by (cases "ea_store_callbacks a")
      (auto simp: send_callback_def system_call_def open_call_def handle_callback_def Let_def
        intro: that)
qed

text \<open>A message accepted from a user that is not an administrator, up to its callback.\<close>

lemma system_send_runs:
  assumes "system_send ch abi ctx label message p s = Ok (p', s', evs)" and "abi_ok abi"
    and "a = sys_authorization s" and "\<forall>w. 0 < code_size ch w (ea_self a)"
    and "\<not> ea_admin_addresses a (msg_sender ctx)"
  obtains calls n s2 r where "may_use a (msg_sender ctx) label" "ea_execution_id a + 1 < 2 ^ 64" "p' = p"
    "list_all2 (permitted abi) (ea_authorizations_data a label) calls"
    "run_calls (system_chain ch abi) (lp_self p) (take n calls)
       (s\<lparr>sys_authorization := a\<lparr>ea_execution_id := ea_execution_id a + 1\<rparr>\<rparr>) = (s2, n, None)"
    "result_counts (length calls) n r"
    "send_callback (system_chain ch abi) abi p (ea_self a) (build_callback (ea_execution_id a) r) s2 = Ok (s', evs)"
proof -
  let ?a = "a\<lparr>ea_execution_id := ea_execution_id a + 1\<rparr>"
  let ?ctx = "ctx\<lparr>msg_sender := ea_self a, msg_value := 0\<rparr>"
  from assms(1,3,5) obtain m body where m: "pm_type m = MsgSendMsgs"
    and request: "handle_send_msgs_request abi (msg_sender ctx) label m a = Ok body"
    and id: "ea_execution_id a + 1 < 2 ^ 64"
    and exec: "lite_execute (system_chain ch abi) abi ?ctx body p (s\<lparr>sys_authorization := ?a\<rparr>) = Ok (p', s', evs)"
    by (auto simp: system_send_def send_processor_message_def handle_insert_msgs_request_def
        require_admin_access_def and_then_Ok_iff ensure_Ok_iff evm_arith_Ok_iff split: if_splits)
  from id have "ea_execution_id a < 2 ^ 64" by simp
  from request assms(2) this obtain sm targets where
    body: "dec_processor_message abi body = Ok (m\<lparr>pm_message := enc_send_msgs abi sm\<rparr>)"
    and dec: "dec_send_msgs abi (enc_send_msgs abi sm) = Ok sm" "sm_execution_id sm = ea_execution_id a"
    and targets: "targets_of abi sm = Ok targets" and use: "may_use a (msg_sender ctx) label"
    and perm: "list_all2 (permitted abi) (ea_authorizations_data a label) (zip targets (sm_messages sm))"
    by (rule send_request_Ok)
  from exec m body have p: "p' = p" and send: "handle_send_msgs (system_chain ch abi) abi ?ctx p
      (m\<lparr>pm_message := enc_send_msgs abi sm\<rparr>) (s\<lparr>sys_authorization := ?a\<rparr>) = Ok (s', evs)"
    by (auto simp: lite_execute_def handle_message_type_def and_then_Ok_iff)
  have "dec_send_msgs abi (pm_message (m\<lparr>pm_message := enc_send_msgs abi sm\<rparr>)) = Ok sm"
    and "\<forall>w. 0 < code_size (system_chain ch abi) w (msg_sender ?ctx)" using dec assms(4) by simp_all
  from send_msgs_prefix [OF send this(1) targets refl this(2)] that [OF use id p perm] dec(2) show thesis
    by auto
qed

text \<open>
  (C6) A message that a user who is not an administrator sends through the authorization contract, if
  it is accepted: the label lists the user, or the zero address for everyone. The calls of the
  processor that do not revert are the first functions of the label, in order, each to the contract
  the label names, with its selector or its call hash, followed by one callback. The callback has the
  execution id of the message and counts these calls; it reports success only if they are all the
  functions of the label, and is stored if the contract stores callbacks. Nothing else changes in
  either contract but the execution id, which is increased.
\<close>

theorem evm_send_authorized:
  assumes "auth_abi_ok abi" and "owner_checked ch" and "a = sys_authorization s"
    and "ea_processor a = lp_self p" and "ea_owner a \<noteq> lp_self p" and "ea_self a \<noteq> lp_mailbox p"
    and "\<forall>w. 0 < code_size ch w (ea_self a)"
    and "\<not> ea_admin_addresses a (msg_sender ctx)"
    and "system_send ch abi ctx label message p s = Ok (p', s', evs)"
  shows "\<exists>calls cb cbs.
      may_use a (msg_sender ctx) label
    \<and> length calls \<le> length (ea_authorizations_data a label)
    \<and> list_all2 (permitted abi) (take (length calls) (ea_authorizations_data a label)) calls
    \<and> sys_calls s' = sys_calls s @ map (Pair (lp_self p)) calls
        @ [(lp_self p, ea_self a, enc_handle_callback abi (enc_callback abi cb))]
    \<and> cb_execution_id cb = ea_execution_id a \<and> cb_executed_count cb = length calls
    \<and> (cb_execution_result cb = ResultSuccess \<longrightarrow> length calls = length (ea_authorizations_data a label))
    \<and> p' = p
    \<and> sys_authorization s' = a\<lparr>ea_execution_id := ea_execution_id a + 1, ea_callbacks := cbs\<rparr>
    \<and> (ea_store_callbacks a \<longrightarrow> cbs (ea_execution_id a) = Some \<lparr>pc_execution_result = cb_execution_result cb,
         pc_executed_count = length calls, pc_data = cb_data cb\<rparr>)"
proof -
  let ?a = "a\<lparr>ea_execution_id := ea_execution_id a + 1\<rparr>"
  from assms(1) have abi: "abi_ok abi" by (simp add: auth_abi_ok_def)
  obtain calls n s2 r where use: "may_use a (msg_sender ctx) label" and id: "ea_execution_id a + 1 < 2 ^ 64"
    and p: "p' = p" and perm: "list_all2 (permitted abi) (ea_authorizations_data a label) calls"
    and run: "run_calls (system_chain ch abi) (lp_self p) (take n calls) (s\<lparr>sys_authorization := ?a\<rparr>) = (s2, n, None)"
    and r: "result_counts (length calls) n r"
    and "send_callback (system_chain ch abi) abi p (ea_self a) (build_callback (ea_execution_id a) r) s2 = Ok (s', evs)"
    by (rule system_send_runs [OF assms(9) abi assms(3,7,8)])
  then have cb: "send_callback (system_chain ch abi) abi p (ea_self ?a) (build_callback (ea_execution_id a) r) s2
    = Ok (s', evs)" by simp
  have "callback_fits (build_callback (ea_execution_id a) r)"
    using r id by (simp add: callback_fits_def build_callback_def result_counts_def)
  moreover have ran: "same_config ?a (sys_authorization s2)"
    "sys_calls s2 = sys_calls s @ map (Pair (lp_self p)) (take n calls)"
    using system_run_calls [OF run assms(2)] assms(5) by auto
  ultimately obtain cbs where "sys_authorization s' = ?a\<lparr>ea_callbacks := cbs\<rparr>"
    "sys_calls s' = sys_calls s2 @
       [(lp_self p, ea_self a, enc_handle_callback abi (enc_callback abi (build_callback (ea_execution_id a) r)))]"
    "ea_store_callbacks a \<longrightarrow> cbs (ea_execution_id a) = Some \<lparr>pc_execution_result =
       cb_execution_result (build_callback (ea_execution_id a) r), pc_executed_count = n,
       pc_data = cb_data (build_callback (ea_execution_id a) r)\<rparr>"
    using system_callback [OF cb assms(1)] assms(4,6) r
    by (auto simp: build_callback_def result_counts_def to_u64_def)
  moreover have "length (take n calls) = n" "length (ea_authorizations_data a label) = length calls"
    using r list_all2_lengthD [OF perm] by (simp_all add: result_counts_def)
  ultimately show ?thesis
    using use p r ran(2) list_all2_takeI [OF perm, of n]
    by (intro exI [of _ "take n calls"] exI [of _ "build_callback (ea_execution_id a) r"] exI [of _ cbs])
      (auto simp: result_counts_def build_callback_def split: if_splits)
qed

definition ex_label_data :: "evm_authorization_data list" where
  "ex_label_data =
     [\<lparr>ad_contract_address = 5, ad_use_function_selector = True, ad_function_selector = ''abcd'', ad_call_hash = []\<rparr>,
      \<lparr>ad_contract_address = 6, ad_use_function_selector = False, ad_function_selector = [], ad_call_hash = ''efgh2''\<rparr>]"

definition ex_authorization :: evm_authorization where
  "ex_authorization =
     \<lparr>ea_self = 20, ea_owner = 1, ea_processor = 30, ea_store_callbacks = True, ea_callbacks = Map.empty,
      ea_execution_id = 7, ea_admin_addresses = (\<lambda>a. a = 2), ea_authorizations = (\<lambda>l. if l = ''swap'' then [9] else []),
      ea_authorizations_data = (\<lambda>l. if l = ''swap'' then ex_label_data else []), ea_verification_router = 40,
      ea_zk_authorizations = (\<lambda>r. if r = 3 then \<lparr>zd_allowed_execution_addresses = [0], zd_vk = [], zd_route = ''sp1'',
         zd_validate_block_number_execution = True, zd_metadata_hash = []\<rparr> else no_zk_data),
      ea_zk_last_execution_block = (\<lambda>_. 0)\<rparr>"

definition ex_system :: "bytes list evm_system" where
  "ex_system = \<lparr>sys_authorization = ex_authorization, sys_world = [], sys_calls = []\<rparr>"

definition ex_message :: bytes where
  "ex_message = enc_processor_message ex_abi
     \<lparr>pm_type = MsgSendMsgs, pm_message = enc_send_msgs ex_abi (ex_send_msgs TypeNonAtomic)\<rparr>"

definition ex_user :: evm_ctx where
  "ex_user = \<lparr>msg_sender = 9, msg_value = 0, block_timestamp = 50\<rparr>"

definition ex_sent :: evm_send_msgs where
  "ex_sent = (ex_send_msgs TypeNonAtomic)\<lparr>sm_execution_id := 7\<rparr>"

lemma ex_decoded:
  "dec_processor_message ex_abi (enc_processor_message ex_abi m) = Ok m"
  "dec_send_msgs ex_abi (enc_send_msgs ex_abi (ex_send_msgs ty)) = Ok (ex_send_msgs ty)"
  "dec_send_msgs ex_abi (enc_send_msgs ex_abi ex_sent) = Ok ex_sent"
  using ex_abi_ok by (simp_all add: auth_abi_ok_def abi_ok_def send_msgs_fit_def ex_send_msgs_def ex_sent_def)

lemma ex_sent_on:
  "send_processor_message ex_abi 9 ''swap'' ex_message ex_authorization =
     Ok (ex_authorization\<lparr>ea_execution_id := 8\<rparr>,
         enc_processor_message ex_abi \<lparr>pm_type = MsgSendMsgs, pm_message = enc_send_msgs ex_abi ex_sent\<rparr>)"
proof -
  have "verify_non_atomic_subroutine_authorization ex_abi 9 ''swap'' (ex_send_msgs TypeNonAtomic) ex_authorization = Ok ()"
    by (simp add: verify_non_atomic_subroutine_authorization_def verify_calls_def check_address_is_authorized_def
        ex_send_msgs_def ex_authorization_def ex_label_data_def ex_abi_def data_matches_def data_of_call_def
        function_selector_def ensure_def numeral_2_eq_2)
  moreover have "sub_type (sm_subroutine (ex_send_msgs TypeNonAtomic)) = TypeNonAtomic"
    "(ex_send_msgs TypeNonAtomic)\<lparr>sm_priority := PriorityMedium, sm_execution_id := 7\<rparr> = ex_sent"
    "ea_execution_id ex_authorization = 7"
    by (simp_all add: ex_send_msgs_def ex_sent_def ex_authorization_def)
  ultimately show ?thesis
    by (simp add: send_processor_message_def ex_message_def ex_decoded handle_send_msgs_request_def inc64_def)
qed

lemma ex_authorized:
  "ea_self ex_authorization = 20" "lp_authorized ex_lite_processor 20" "ea_execution_id ex_authorization = 7"
  "ea_store_callbacks ex_authorization" "ea_authorizations_data ex_authorization ''swap'' = ex_label_data"
  "sys_calls ex_system = []" "lp_self ex_lite_processor = 30"
  by (simp_all add: ex_authorization_def ex_lite_processor_def ex_system_def)

lemma ex_accepted:
  "is_ok (system_send ex_chain ex_abi ex_user ''swap'' ex_message ex_lite_processor ex_system)"
proof -
  let ?s = "ex_system\<lparr>sys_authorization := ex_authorization\<lparr>ea_execution_id := 8\<rparr>\<rparr>"
  have calls: "calls_of ex_abi ex_sent = Some [(5, ''abcd1''), (6, ''efgh2'')]"
    by (simp add: calls_of_def ex_sent_def ex_send_msgs_def ex_abi_def non_atomic_calls_def)
  have run: "run_calls (system_chain ex_chain ex_abi) (lp_self ex_lite_processor) [(5, ''abcd1''), (6, ''efgh2'')] ?s
      = (?s\<lparr>sys_world := [''abcd1''], sys_calls := [(30, 5, ''abcd1'')]\<rparr>, 1, Some (CallFailed ''no''))"
    by (simp add: system_call_def ex_chain_def ex_system_def ex_authorization_def ex_lite_processor_def)
  have ex: "\<not> lp_paused ex_lite_processor" "lp_mailbox ex_lite_processor \<noteq> 20" "sm_expiration_time ex_sent = 0"
    by (simp_all add: ex_lite_processor_def ex_sent_def ex_send_msgs_def)
  have sent: "is_ok (send_callback ch abi p c cb s)" if "c \<noteq> lp_mailbox p" for ch abi p c cb and s :: "bytes list evm_system"
    using that by (auto simp: send_callback_def Let_def split: result.splits)
  have "is_ok (handle_send_msgs (system_chain ex_chain ex_abi) ex_abi (ex_user\<lparr>msg_sender := 20\<rparr>) ex_lite_processor
      \<lparr>pm_type = MsgSendMsgs, pm_message = enc_send_msgs ex_abi ex_sent\<rparr> ?s)"
    using ex by (subst send_msgs_run [OF _ _ _ calls _ run])
      (auto simp: ex_decoded build_and_send_callback_def Let_def intro: sent)
  then show ?thesis
    by (simp add: system_send_def ex_user_def ex_system_def ex_sent_on lite_execute_def handle_message_type_def
        ex_decoded is_ok_iff ex_authorized and_then_Ok_iff)
qed

theorem evm_send_authorized_witness:
  "\<exists>s' evs calls cb cbs.
      system_send ex_chain ex_abi ex_user ''swap'' ex_message ex_lite_processor ex_system = Ok (ex_lite_processor, s', evs)
    \<and> list_all2 (permitted ex_abi) (take (length calls) ex_label_data) calls
    \<and> sys_calls s' = map (Pair 30) calls @ [(30, 20, enc_handle_callback ex_abi (enc_callback ex_abi cb))]
    \<and> cb_execution_id cb = 7
    \<and> sys_authorization s' = ex_authorization\<lparr>ea_execution_id := 8, ea_callbacks := cbs\<rparr>
    \<and> cbs 7 = Some \<lparr>pc_execution_result = cb_execution_result cb, pc_executed_count = length calls, pc_data = cb_data cb\<rparr>"
proof -
  from ex_accepted obtain p' s' evs where
    "system_send ex_chain ex_abi ex_user ''swap'' ex_message ex_lite_processor ex_system = Ok (p', s', evs)"
    by (auto simp: is_ok_iff)
  moreover have "ex_authorization = sys_authorization ex_system" "ea_processor ex_authorization = lp_self ex_lite_processor"
    "ea_owner ex_authorization \<noteq> lp_self ex_lite_processor" "ea_self ex_authorization \<noteq> lp_mailbox ex_lite_processor"
    "\<forall>w. 0 < code_size ex_chain w (ea_self ex_authorization)"
    "\<not> ea_admin_addresses ex_authorization (msg_sender ex_user)"
    by (simp_all add: ex_system_def ex_authorization_def ex_lite_processor_def ex_chain_def ex_user_def)
  note result = evm_send_authorized [OF ex_abi_ok ex_owner_checked this calculation, unfolded ex_authorized]
  from result have "p' = ex_lite_processor" by blast
  with calculation result show ?thesis
    by (simp add: ex_authorized) (elim exE conjE, intro exI conjI; assumption?; simp)
qed

section \<open>Messages with a proof\<close>










text \<open>Removing a registry forgets the block, so that after adding it again old proofs are accepted.\<close>

lemma removal_forgets_block:
  assumes "remove_registries [registry] a = Ok (a', evs)"
  shows "ea_zk_last_execution_block a' registry = 0"
  using assms by (auto simp: remove_registries_def)





end
