(* ===== verification/Spec2Isabelle.thy ===== *)
theory Spec2Isabelle
  imports Protocol_Props Library_Props Reverse_Splitter Clearing_Queue
    Valence_Vault_Props Evm_Loops Evm_Authorization_Props
begin

text \<open>
  \<^bold>\<open>The Valence protocol.\<close> A program of the protocol moves funds between accounts on several chains. Its
  parts are smart contracts:

  \<^item> an authorization contract on the main domain decides who may send which messages under which label,
    forwards accepted messages as one batch to the processor of their domain, directly or over a bridge
    (Polytone, Hyperlane), and keeps track of the execution until a callback reports its result;
  \<^item> a processor per domain queues batches by priority and executes their functions, atomically or one
    by one, with retries, and reports the result to the authorization contract;
  \<^item> libraries (splitter, forwarder, ...) do the work of a function: they compute messages from their
    configuration and have an account execute them;
  \<^item> accounts hold the funds and execute messages for their owner and the libraries it approved;
  \<^item> on EVM chains there are Solidity versions of these contracts, and vaults for users to deposit into.

  \<^bold>\<open>Theories and sources\<close> (paths under src/).

  \<^item> Foundations. \<open>Prelude\<close>: Rust's \<open>Result\<close>, machine integers with their overflow checks, list lemmas.
    \<open>Storage_Map\<close>: storage maps in key order, pages. \<open>Cosmwasm\<close>, \<open>Deps\<close>: what a CosmWasm handler is given;
    the third-party packages are the records \<open>cw_api\<close>, \<open>ownable\<close>, \<open>codec\<close>, \<open>querier\<close>, \<open>deps\<close>. \<open>Examples\<close>:
    concrete instances of them. \<open>Messages\<close>, \<open>Authorization_Types\<close>: packages/authorization-utils,
    packages/processor-utils, packages/gmp-utils, packages/encoder-utils.
  \<^item> \<open>Queue_Map\<close>: packages/processor-utils/src/queue.rs. The queue refines a list: \<open>queue_list\<close> is the
    abstraction; the locale of bounded queues is interpreted on it and used by the processor.
  \<^item> \<open>Processor\<close>: contracts/processor/src; record \<open>processor\<close> is the storage, one definition per handler,
    \<open>Processor.execute\<close> and \<open>Processor.reply\<close> the entry points. \<open>Processor_Invariants\<close>: what every handler
    keeps, proved once in a locale over predicates on batches. \<open>Processor_Props\<close>: scheduling, running a
    batch to its end, retries, eviction, errors.
  \<^item> \<open>Authorization_Validation\<close>, \<open>Authorization\<close>: contracts/authorization/src; record \<open>auth_contract\<close>
    is the storage. \<open>Authorization_Invariants\<close>, \<open>Authorization_Tracking\<close>, \<open>Authorization_Custody\<close>: stored
    authorizations are well-formed, executions are counted, tokens of users are covered.
    \<open>Authorization_Props\<close>, \<open>Authorization_Access\<close>: when messages are sent, who may change what, ZK proofs
    are executed once, pages are complete.
  \<^item> \<open>Protocol\<close>, \<open>Protocol_Invariants\<close>, \<open>Protocol_Props\<close>: both contracts on the main domain. A transaction
    is a message of a user and everything its responses cause, as a step relation; in every committed
    state an execution is in process exactly when one batch, awaited reply or pending callback of the
    processor stands for it, and accepted messages whose functions succeed are completed.
  \<^item> \<open>Base_Account\<close>: contracts/accounts/base_account, packages/account-utils. \<open>Library_Base\<close>:
    packages/library-base, packages/library-utils and the code packages/valence-macros generates.
    \<open>Splitter\<close>, \<open>Splitter_Props\<close>, \<open>Forwarder\<close>, \<open>Reverse_Splitter\<close>, \<open>Clearing_Queue\<close>: the libraries of these
    names under contracts/libraries. \<open>Library_Props\<close>: a split from the call of the processor to the
    transfers of the account; updates of configurations.
  \<^item> \<open>Evm\<close>: what Solidity contracts share, with loops that count in eight bits. \<open>Evm_Account\<close>:
    solidity/src/accounts, solidity/src/libraries/Library.sol. \<open>Lite_Processor\<close>: solidity/src/processor.
    \<open>Verification_Router\<close>: solidity/src/verification. \<open>Evm_Authorization\<close>: solidity/src/authorization and
    the composition with the processor. \<open>Evm_Examples\<close>: a concrete coding and chain.
    \<open>Lite_Processor_Props\<close>, \<open>Evm_Authorization_Props\<close>, \<open>Evm_Loops\<close>: their properties.
  \<^item> \<open>One_Way_Vault\<close>, \<open>One_Way_Vault_Props\<close>: solidity/src/vaults/OneWayVault.sol; between
    two updates of the rate what it owes grows by no more than is paid in, up to the rounding of
    requests, and calls keep to their guards.
    \<open>Valence_Vault\<close>, \<open>Valence_Vault_Props\<close>: solidity/src/vaults/ValenceVault.sol; every withdrawal request
    ends once, at no more than the rate of its update, and the fees of solvers are held until then.

  \<^bold>\<open>State and operations.\<close> The storage of a contract is a record with one field per item or map; a
  handler is a function from the storage, the environment and its arguments to \<open>Ok\<close> of the new storage
  and its response, or \<open>Err\<close> of the source's error. A transaction that fails leaves the storage as it
  was, so there is no state with \<open>Err\<close>. Integers are \<open>nat\<close>, and every operation of the source that can
  overflow is the checked, saturating or wrapping one the source uses, with its bound written out.

  \<^bold>\<open>Shared contracts.\<close> Interfaces are locales, interpreted on the definitions of the model: the queue
  (\<open>Queue_Map\<close>), predicates on batches (\<open>Processor_Invariants\<close>), decisions of an owner about libraries
  (\<open>approvals\<close>, by the CosmWasm and the EVM account), entry points of libraries and their updates
  (\<open>Library_Base\<close>, by each library).

  \<^bold>\<open>Termination and bounds.\<close> No definition uses fuel. Recursion is structural or has a measure: the
  shift loops of the queue by positions, \<open>for_u8\<close> by the distance to the end of the loop, which its
  counter reaches or overflows before. Chains of messages within a transaction are an inductive
  relation; the theorems that something completes exhibit the steps.

  \<^bold>\<open>Abstractions.\<close> Third-party code (ownership, expirations, address validation, JSON and ABI coding,
  bank and token factory, bridges, OpenZeppelin, SP1) is an argument with hypotheses that state its
  documentation, each shown to hold for a concrete instance by a witness. Keys the source renders with
  Debug are the values rendered, and values interpolated into error texts are left out. The order of a
  hash map is an argument. In \<open>Protocol\<close> libraries do not call the processor back within the transaction
  in which it calls them, and only executions on the main domain are followed through both contracts.
  On the EVM a called contract does not re-enter the contract under consideration, except for the
  callback of the processor to the authorization contract; gas is not modelled.

  \<^bold>\<open>Not modelled.\<close> The libraries for particular protocols (Astroport, Osmosis, Duality, Magma, Mars, Drop,
  Supervaults, Vortex, maxBTC, IBC and CCTP transfers, and the EVM position managers, swaps and bridges)
  consist of calls into contracts whose code is not part of the repository. The storage and interchain
  accounts, the program registry, the middleware (broker, asserter, type registries), the CosmWasm
  verification router and the encoders are outside the scope of this development: nothing is claimed of
  them, and where a modelled contract calls one, the callee is a parameter. Upgrades of the
  Solidity contracts are not modelled. The program manager, deployment, scripts, examples and e2e are
  tools outside the chain that do I/O. Test suites and builders are not part of the contracts.
\<close>

end
